(* ===== verification/Prelude.thy ===== *)
theory Prelude
  imports Complex_Main "HOL-Library.Word" "HOL-Library.Char_ord" "HOL-Library.List_Lexorder"
begin

text \<open>
  Shared vocabulary of the development: the ways an operation of the C++ code can fail to
  return, the result type that carries them, checked access to vectors and checked 32-bit
  arithmetic, the widths of the integers, and the lemma collections of the components.

  Conventions used everywhere:
  \<^item> \<open>std::string\<close> is Isabelle's \<open>string\<close>, a list of bytes; \<open>std::vector\<close>, \<open>std::list\<close>
    and \<open>std::deque\<close> are lists; \<open>std::map\<close> is the ordered map of theory \<open>Std_Map\<close>.
  \<^item> an \<open>int32_t\<close> whose arithmetic matters is an \<open>int\<close> that goes through a checked
    operation (signed overflow is undefined in C++, the error \<open>SignedOverflow\<close>); a
    \<open>uint32_t\<close>, \<open>uint64_t\<close> or \<open>unsigned long\<close> whose wrap-around matters is a word;
    sizes and indices are \<open>nat\<close>.
  \<^item> an operation that may fail returns \<open>'a result\<close>: \<open>Inr\<close> the value, or \<open>Inl\<close> the
    \<open>error\<close> that stopped it.
  \<^item> a member \<open>x_\<close> of a C++ class is the record field \<open>x\<close>, with a prefix for the class
    where two classes of one theory share the member's name.
  \<^item> log lines and mutexes have no counterpart: every operation is modelled as one
    atomic step on the state it locks.
\<close>

section \<open>Errors and results\<close>

datatype error =
    OutOfRange        \<comment> \<open>\<open>std::out_of_range\<close> thrown by \<open>at\<close>, \<open>substr\<close> or \<open>erase\<close>\<close>
  | UndefinedIndex    \<comment> \<open>\<open>operator[]\<close> of a vector past its end, or a read of an empty range\<close>
  | SignedOverflow    \<comment> \<open>signed arithmetic whose exact result does not fit\<close>
  | NullPointer       \<comment> \<open>a null \<open>shared_ptr\<close> or \<open>sptr\<close> is dereferenced\<close>
  | NoReturn          \<comment> \<open>the call never returns\<close>
  | StdException      \<comment> \<open>another standard exception, such as that of \<open>std::stoi\<close>\<close>

type_synonym 'a result = "error + 'a"

definition bindr :: "'a result \<Rightarrow> ('a \<Rightarrow> 'b result) \<Rightarrow> 'b result" where
  "bindr r f = (case r of Inl e \<Rightarrow> Inl e | Inr x \<Rightarrow> f x)"

text \<open>A call that may not return (\<open>None\<close>) used inside an operation that has errors.\<close>

definition returns :: "'a option \<Rightarrow> 'a result" where
  "returns r = (case r of None \<Rightarrow> Inl NoReturn | Some x \<Rightarrow> Inr x)"

lemma bindr_simps [simp]: "bindr (Inl e) f = Inl e" "bindr (Inr x) f = f x"
  by (simp_all add: bindr_def)

lemma bindr_eq_Inr: "bindr r f = Inr y \<longleftrightarrow> (\<exists>x. r = Inr x \<and> f x = Inr y)"
  by (cases r) simp_all

lemma returns_simps [simp]: "returns None = Inl NoReturn" "returns (Some x) = Inr x"
  by (simp_all add: returns_def)

lemma bindr_cong [fundef_cong]:
  "r = r' \<Longrightarrow> (\<And>x. r' = Inr x \<Longrightarrow> f x = g x) \<Longrightarrow> bindr r f = bindr r' g"
  by (cases r') simp_all

text \<open>The use of a pointer.\<close>

definition deref :: "'a option \<Rightarrow> 'a result" where
  "deref p = (case p of Some x \<Rightarrow> Inr x | None \<Rightarrow> Inl NullPointer)"

definition non_null :: "bool \<Rightarrow> unit result" where
  "non_null p = (if p then Inr () else Inl NullPointer)"

lemma deref_simps [simp]: "deref (Some x) = Inr x" "deref None = Inl NullPointer"
  by (simp_all add: deref_def)

lemma non_null_simps [simp]: "non_null True = Inr ()" "non_null False = Inl NullPointer"
  by (simp_all add: non_null_def)

definition map_ok :: "('a \<Rightarrow> 'b) \<Rightarrow> 'a result \<Rightarrow> 'b result" where
  "map_ok f r = bindr r (\<lambda>x. Inr (f x))"

lemma map_ok_simps [simp]: "map_ok f (Inl e) = Inl e" "map_ok f (Inr x) = Inr (f x)"
  by (simp_all add: map_ok_def)

lemma bindr_map_ok: "bindr (map_ok f r) g = bindr r (\<lambda>x. g (f x))"
  by (cases r) simp_all

lemma map_ok_bindr: "map_ok f (bindr r g) = bindr r (\<lambda>x. map_ok f (g x))"
  by (cases r) simp_all

text \<open>A loop that folds a fallible step over a list, stopping at the first error.\<close>

fun foldr_result :: "('a \<Rightarrow> 's \<Rightarrow> 's result) \<Rightarrow> 'a list \<Rightarrow> 's \<Rightarrow> 's result" where
  "foldr_result f [] s = Inr s"
| "foldr_result f (x # xs) s = bindr (f x s) (foldr_result f xs)"

lemma foldr_result_append:
  "foldr_result f (xs @ ys) s = bindr (foldr_result f xs s) (foldr_result f ys)"
proof (induction xs arbitrary: s)
  case (Cons x xs)
  then show ?case by (cases "f x s") simp_all
qed simp

lemma foldr_result_invariant:
  assumes "foldr_result f xs s = Inr s'" and "P s"
    and "\<And>x s s'. x \<in> set xs \<Longrightarrow> P s \<Longrightarrow> f x s = Inr s' \<Longrightarrow> P s'"
  shows "P s'"
  using assms by (induction xs arbitrary: s) (auto simp: bindr_eq_Inr)

lemma foldr_result_total:
  assumes "\<And>x s. x \<in> set xs \<Longrightarrow> P s \<Longrightarrow> \<exists>s'. f x s = Inr s' \<and> P s'" and "P s"
  shows "\<exists>s'. foldr_result f xs s = Inr s' \<and> P s'"
  using assms
proof (induction xs arbitrary: s)
  case Nil
  then show ?case by simp
next
  case (Cons x xs)
  then obtain s1 where s1: "f x s = Inr s1" "P s1" by (meson list.set_intros(1))
  from Cons.IH [OF _ s1(2)] Cons.prems(1) obtain s2 where "foldr_result f xs s1 = Inr s2" "P s2"
    by (meson list.set_intros(2))
  with s1 show ?case by auto
qed

lemma ex_bool [simp]: "\<exists>b. b" "\<exists>b. \<not> b"
  by blast+

section \<open>Vectors\<close>

text \<open>\<open>std::vector::at\<close> throws past the end; \<open>operator[]\<close> is undefined there.\<close>

definition vec_at :: "'a list \<Rightarrow> nat \<Rightarrow> 'a result" where
  "vec_at xs i = (if i < length xs then Inr (xs ! i) else Inl OutOfRange)"

definition vec_index :: "'a list \<Rightarrow> nat \<Rightarrow> 'a result" where
  "vec_index xs i = (if i < length xs then Inr (xs ! i) else Inl UndefinedIndex)"

lemma vec_at_less [simp]: "i < length xs \<Longrightarrow> vec_at xs i = Inr (xs ! i)"
  by (simp add: vec_at_def)

lemma vec_at_beyond [simp]: "length xs \<le> i \<Longrightarrow> vec_at xs i = Inl OutOfRange"
  by (simp add: vec_at_def)

lemma vec_index_less [simp]: "i < length xs \<Longrightarrow> vec_index xs i = Inr (xs ! i)"
  by (simp add: vec_index_def)

lemma vec_index_beyond [simp]: "length xs \<le> i \<Longrightarrow> vec_index xs i = Inl UndefinedIndex"
  by (simp add: vec_index_def)

section \<open>Machine integers\<close>

type_synonym u32 = "32 word"
type_synonym u64 = "64 word"

abbreviation (input) INT_MAX :: int where "INT_MAX \<equiv> 2147483647"
abbreviation (input) INT_MIN :: int where "INT_MIN \<equiv> - 2147483648"

definition int32_range :: "int \<Rightarrow> bool" where
  "int32_range i \<longleftrightarrow> INT_MIN \<le> i \<and> i \<le> INT_MAX"

text \<open>Signed 32-bit arithmetic: the exact result, or undefined behaviour.\<close>

definition check32 :: "int \<Rightarrow> int result" where
  "check32 i = (if int32_range i then Inr i else Inl SignedOverflow)"

lemma check32_in_range [simp]: "int32_range i \<Longrightarrow> check32 i = Inr i"
  by (simp add: check32_def)

lemma check32_Inr: "check32 i = Inr j \<longleftrightarrow> j = i \<and> int32_range i"
  by (auto simp: check32_def)

text \<open>\<open>static_cast<uint32_t>\<close> of an index that is 0 and has 1 subtracted wraps.\<close>

definition pred_u32 :: "nat \<Rightarrow> nat" where
  "pred_u32 n = (if n = 0 then 2 ^ 32 - 1 else n - 1)"

lemma pred_u32_pos [simp]: "0 < n \<Longrightarrow> pred_u32 n = n - 1"
  by (simp add: pred_u32_def)

lemma pred_u32_zero [simp]: "pred_u32 0 = 4294967295"
  by (simp add: pred_u32_def)

text \<open>C's \<open>%\<close> and \<open>/\<close> truncate towards zero.\<close>

definition c_div :: "int \<Rightarrow> int \<Rightarrow> int" where
  "c_div a b = sgn a * sgn b * (\<bar>a\<bar> div \<bar>b\<bar>)"

definition c_mod :: "int \<Rightarrow> int \<Rightarrow> int" where
  "c_mod a b = sgn a * (\<bar>a\<bar> mod \<bar>b\<bar>)"

lemma c_div_mod: "c_div a b * b + c_mod a b = a"
proof -
  have "c_div a b * b = sgn a * ((\<bar>a\<bar> div \<bar>b\<bar>) * \<bar>b\<bar>)"
    by (simp add: c_div_def abs_sgn [of b] ac_simps)
  then have "c_div a b * b + c_mod a b = sgn a * ((\<bar>a\<bar> div \<bar>b\<bar>) * \<bar>b\<bar> + \<bar>a\<bar> mod \<bar>b\<bar>)"
    by (simp only: c_mod_def distrib_left)
  then show ?thesis by (simp only: div_mult_mod_eq sgn_mult_abs)
qed

lemma c_div_pos: "0 \<le> a \<Longrightarrow> 0 < b \<Longrightarrow> c_div a b = a div b"
  by (cases "a = 0") (simp_all add: c_div_def)

lemma c_mod_pos: "0 \<le> a \<Longrightarrow> 0 < b \<Longrightarrow> c_mod a b = a mod b"
  by (cases "a = 0") (simp_all add: c_mod_def)

section \<open>Lists\<close>

lemma takeWhile_length_eq:
  assumes "n \<le> length xs" and "\<And>i. i < n \<Longrightarrow> P (xs ! i)" and "n < length xs \<Longrightarrow> \<not> P (xs ! n)"
  shows "length (takeWhile P xs) = n"
  using assms
proof (induction xs arbitrary: n)
  case Nil
  then show ?case by simp
next
  case (Cons x xs)
  show ?case
  proof (cases n)
    case 0
    with Cons.prems show ?thesis by simp
  next
    case (Suc m)
    with Cons.prems(2) [of 0] have "P x" by simp
    moreover have "length (takeWhile P xs) = m"
    proof (rule Cons.IH)
      show "P (xs ! i)" if "i < m" for i using Cons.prems(2) [of "Suc i"] that Suc by simp
    qed (use Cons.prems Suc in auto)
    ultimately show ?thesis using Suc by simp
  qed
qed

lemma Max_list_le: "xs \<noteq> [] \<Longrightarrow> (\<And>x. x \<in> set xs \<Longrightarrow> x \<le> b) \<Longrightarrow> Max (set xs) \<le> (b :: 'a::linorder)"
  by simp

end
