(* ===== verification/Std_Map.thy ===== *)
theory Std_Map
  imports Prelude
begin

text \<open>
  \<open>std::map\<close> and \<open>std::set\<close>: iteration visits the keys in increasing order, so a map is
  the list of its entries sorted strictly by key. \<open>insert\<close> and \<open>emplace\<close> keep the entry
  a key already has; \<open>operator[]\<close> followed by an assignment replaces it; \<open>erase\<close> removes
  it. The locale \<open>ordered_map\<close> states what the components rely on; it is interpreted on
  the list implementation, and the facts about loops that fill a map are proved once in it.
\<close>

type_synonym ('k, 'v) smap = "('k \<times> 'v) list"

section \<open>Operations\<close>

abbreviation sm_find :: "('k, 'v) smap \<Rightarrow> 'k \<Rightarrow> 'v option" where
  "sm_find \<equiv> map_of"

fun sm_insert :: "'k::linorder \<Rightarrow> 'v \<Rightarrow> ('k, 'v) smap \<Rightarrow> ('k, 'v) smap" where
  "sm_insert k v [] = [(k, v)]"
| "sm_insert k v ((k', v') # m) =
     (if k < k' then (k, v) # (k', v') # m
      else if k = k' then (k', v') # m
      else (k', v') # sm_insert k v m)"

fun sm_assign :: "'k::linorder \<Rightarrow> 'v \<Rightarrow> ('k, 'v) smap \<Rightarrow> ('k, 'v) smap" where
  "sm_assign k v [] = [(k, v)]"
| "sm_assign k v ((k', v') # m) =
     (if k < k' then (k, v) # (k', v') # m
      else if k = k' then (k', v) # m
      else (k', v') # sm_assign k v m)"

fun sm_erase :: "'k::linorder \<Rightarrow> ('k, 'v) smap \<Rightarrow> ('k, 'v) smap" where
  "sm_erase k [] = []"
| "sm_erase k ((k', v') # m) = (if k = k' then m else (k', v') # sm_erase k m)"

definition sm_ok :: "('k::linorder, 'v) smap \<Rightarrow> bool" where
  "sm_ok m \<longleftrightarrow> sorted_wrt (<) (map fst m)"

section \<open>The interface\<close>

locale ordered_map =
  fixes empty :: "'m"
    and lookup :: "'m \<Rightarrow> 'k::linorder \<Rightarrow> 'v option"
    and insert :: "'k \<Rightarrow> 'v \<Rightarrow> 'm \<Rightarrow> 'm"
    and assign :: "'k \<Rightarrow> 'v \<Rightarrow> 'm \<Rightarrow> 'm"
    and erase :: "'k \<Rightarrow> 'm \<Rightarrow> 'm"
    and inv :: "'m \<Rightarrow> bool"
  assumes inv_empty: "inv empty"
    and inv_insert: "inv m \<Longrightarrow> inv (insert k v m)"
    and inv_assign: "inv m \<Longrightarrow> inv (assign k v m)"
    and inv_erase: "inv m \<Longrightarrow> inv (erase k m)"
    and lookup_empty: "lookup empty k = None"
    and lookup_insert: "inv m \<Longrightarrow> lookup (insert k v m) k' =
          (if k' = k \<and> lookup m k = None then Some v else lookup m k')"
    and lookup_assign: "inv m \<Longrightarrow> lookup (assign k v m) k' =
          (if k' = k then Some v else lookup m k')"
    and lookup_erase: "inv m \<Longrightarrow> lookup (erase k m) k' =
          (if k' = k then None else lookup m k')"
begin

lemma inv_fold_insert: "inv m \<Longrightarrow> inv (fold (\<lambda>(k, v). insert k v) kvs m)"
  by (induction kvs arbitrary: m) (auto simp: inv_insert)

lemma inv_fold_assign: "inv m \<Longrightarrow> inv (fold (\<lambda>(k, v). assign k v) kvs m)"
  by (induction kvs arbitrary: m) (auto simp: inv_assign)

text \<open>A loop of \<open>insert\<close>s: the entry already there wins, then the first pair.\<close>

lemma lookup_fold_insert:
  "inv m \<Longrightarrow> lookup (fold (\<lambda>(k, v). insert k v) kvs m) k =
     (case lookup m k of Some v \<Rightarrow> Some v | None \<Rightarrow> map_of kvs k)"
  by (induction kvs arbitrary: m) (auto simp: inv_insert lookup_insert split: option.splits)

text \<open>A loop of assignments: the last pair wins.\<close>

lemma lookup_fold_assign:
  "inv m \<Longrightarrow> lookup (fold (\<lambda>(k, v). assign k v) kvs m) k =
     (case map_of (rev kvs) k of Some v \<Rightarrow> Some v | None \<Rightarrow> lookup m k)"
proof (induction kvs arbitrary: m)
  case Nil
  then show ?case by simp
next
  case (Cons p kvs)
  obtain a b where "p = (a, b)" by (cases p)
  with Cons show ?case
    by (auto simp: inv_assign lookup_assign map_add_def split: option.splits)
qed

end

section \<open>The list implementation\<close>

lemma sm_ok_Nil [simp]: "sm_ok []"
  by (simp add: sm_ok_def)

lemma sm_ok_Cons: "sm_ok ((k, v) # m) \<longleftrightarrow> (\<forall>k' \<in> fst ` set m. k < k') \<and> sm_ok m"
  by (auto simp: sm_ok_def)

lemma fst_set_sm_insert: "fst ` set (sm_insert k v m) = insert k (fst ` set m)"
  by (induction k v m rule: sm_insert.induct) auto

lemma fst_set_sm_assign: "fst ` set (sm_assign k v m) = insert k (fst ` set m)"
  by (induction k v m rule: sm_assign.induct) auto

lemma fst_set_sm_erase: "fst ` set (sm_erase k m) \<subseteq> fst ` set m"
  by (induction k m rule: sm_erase.induct) auto

lemma set_sm_insert: "set (sm_insert k v m) \<subseteq> insert (k, v) (set m)"
  by (induction m) (auto split: if_splits)

lemma set_sm_assign: "set (sm_assign k v m) \<subseteq> insert (k, v) (set m)"
  by (induction m) (auto split: if_splits)

lemma list_all_sm_insert: "list_all Q m \<Longrightarrow> Q (k, v) \<Longrightarrow> list_all Q (sm_insert k v m)"
  using set_sm_insert [of k v m] by (auto simp: list_all_iff)

lemma list_all_sm_assign: "list_all Q m \<Longrightarrow> Q (k, v) \<Longrightarrow> list_all Q (sm_assign k v m)"
  using set_sm_assign [of k v m] by (auto simp: list_all_iff)

lemma sm_ok_insert: "sm_ok m \<Longrightarrow> sm_ok (sm_insert k v m)"
  by (induction k v m rule: sm_insert.induct)
     (auto simp: sm_ok_Cons fst_set_sm_insert split: if_splits)

lemma sm_ok_assign: "sm_ok m \<Longrightarrow> sm_ok (sm_assign k v m)"
  by (induction k v m rule: sm_assign.induct)
     (auto simp: sm_ok_Cons fst_set_sm_assign split: if_splits)

lemma sm_ok_erase: "sm_ok m \<Longrightarrow> sm_ok (sm_erase k m)"
proof (induction k m rule: sm_erase.induct)
  case (2 k k' v' m)
  then show ?case using fst_set_sm_erase [of k m] by (auto simp: sm_ok_Cons) fastforce
qed simp

lemma sm_ok_below_None: "sm_ok m \<Longrightarrow> (\<forall>k' \<in> fst ` set m. k < k') \<Longrightarrow> map_of m k = None"
  by (force simp: map_of_eq_None_iff)

lemma sm_find_below: "sm_ok ((k', v') # m) \<Longrightarrow> k < k' \<Longrightarrow> map_of m k = None"
  by (force simp: sm_ok_Cons map_of_eq_None_iff)

lemma sm_find_insert:
  "sm_ok m \<Longrightarrow> sm_find (sm_insert k v m) k' =
     (if k' = k \<and> sm_find m k = None then Some v else sm_find m k')"
proof (induction k v m rule: sm_insert.induct)
  case (2 k v k1 v1 m)
  have none: "map_of m k = None" if "k < k1"
    using 2(2) that by (force simp: sm_ok_Cons map_of_eq_None_iff)
  show ?case using 2 none by (auto simp: sm_ok_Cons)
qed simp

lemma sm_find_assign:
  "sm_ok m \<Longrightarrow> sm_find (sm_assign k v m) k' = (if k' = k then Some v else sm_find m k')"
  by (induction k v m rule: sm_assign.induct) (auto simp: sm_ok_Cons)

lemma sm_find_erase:
  "sm_ok m \<Longrightarrow> sm_find (sm_erase k m) k' = (if k' = k then None else sm_find m k')"
proof (induction k m rule: sm_erase.induct)
  case (2 k k1 v1 m)
  have "map_of m k1 = None"
    using 2(2) by (force simp: sm_ok_Cons map_of_eq_None_iff)
  with 2 show ?case by (auto simp: sm_ok_Cons)
qed simp

interpretation sm: ordered_map "[]" sm_find sm_insert sm_assign sm_erase sm_ok
  by unfold_locales
     (auto simp: sm_ok_insert sm_ok_assign sm_ok_erase sm_find_insert sm_find_assign sm_find_erase)

lemmas sm_facts [simp] = sm_ok_insert sm_ok_assign sm_ok_erase sm_find_insert sm_find_assign
  sm_find_erase

lemma sm_ok_distinct: "sm_ok m \<Longrightarrow> distinct (map fst m)"
  by (auto simp: sm_ok_def intro: strict_sorted_imp_sorted
      dest: strict_sorted_iff [THEN iffD1])

lemma sm_find_mem: "sm_ok m \<Longrightarrow> (k, v) \<in> set m \<longleftrightarrow> sm_find m k = Some v"
  by (simp add: sm_ok_distinct)

text \<open>\<open>std::map::at\<close> throws for a missing key.\<close>

definition sm_at :: "('k, 'v) smap \<Rightarrow> 'k \<Rightarrow> 'v result" where
  "sm_at m k = (case sm_find m k of Some v \<Rightarrow> Inr v | None \<Rightarrow> Inl OutOfRange)"

lemma sm_at_simps [simp]:
  "sm_find m k = Some v \<Longrightarrow> sm_at m k = Inr v" "sm_find m k = None \<Longrightarrow> sm_at m k = Inl OutOfRange"
  by (simp_all add: sm_at_def)

text \<open>A loop that updates the entry of each key, where the keys are distinct.\<close>

definition sm_update :: "'k::linorder \<Rightarrow> ('v option \<Rightarrow> 'v) \<Rightarrow> ('k, 'v) smap \<Rightarrow> ('k, 'v) smap" where
  "sm_update k f m = sm_assign k (f (sm_find m k)) m"

lemma sm_insert_new: "sm_find m k = None \<Longrightarrow> sm_insert k v m = sm_assign k v m"
  by (induction k v m rule: sm_insert.induct) (auto split: if_splits)

lemma sm_ok_update [simp]: "sm_ok m \<Longrightarrow> sm_ok (sm_update k f m)"
  by (simp add: sm_update_def)

lemma sm_find_update [simp]:
  "sm_ok m \<Longrightarrow> sm_find (sm_update k f m) k' = (if k' = k then Some (f (sm_find m k)) else sm_find m k')"
  by (simp add: sm_update_def)

lemma sm_fold_update:
  assumes "sm_ok m" and "distinct (map fst kvs)"
  shows "sm_ok (fold (\<lambda>(k, v). sm_update k (F k v)) kvs m)"
    and "sm_find (fold (\<lambda>(k, v). sm_update k (F k v)) kvs m) k =
      (case map_of kvs k of None \<Rightarrow> sm_find m k | Some v \<Rightarrow> Some (F k v (sm_find m k)))"
  using assms
proof (induction kvs arbitrary: m)
  case (Cons p kvs)
  obtain a b where p: "p = (a, b)" by (cases p)
  { case 1 with Cons.IH(1) show ?case by (simp add: p) }
  { case 2
    with p have "map_of kvs a = None" by (auto simp: map_of_eq_None_iff)
    with 2 Cons.IH(2) [of "sm_update a (F a b) m"] show ?case by (auto simp: p split: option.split) }
qed simp_all

text \<open>A map is rebuilt by assigning its entries in order.\<close>

lemma sm_assign_append: "\<forall>k' \<in> fst ` set m. k' < k \<Longrightarrow> sm_assign k v m = m @ [(k, v)]"
  by (induction k v m rule: sm_assign.induct) (auto dest: less_not_sym)

lemma fold_assign_append: "sm_ok (m @ kvs) \<Longrightarrow> fold (\<lambda>(k, v). sm_assign k v) kvs m = m @ kvs"
proof (induction kvs arbitrary: m)
  case (Cons e kvs)
  obtain k v where e: "e = (k, v)" by (cases e)
  with Cons.prems have "sm_assign k v m = m @ [(k, v)]"
    by (intro sm_assign_append) (auto simp: sm_ok_def sorted_wrt_append)
  with Cons.IH [of "m @ [(k, v)]"] Cons.prems show ?case by (simp add: e)
qed simp

section \<open>Sets\<close>

text \<open>\<open>std::set\<close>: the strictly increasing list of its elements.\<close>

definition ss_insert :: "'k::linorder \<Rightarrow> 'k list \<Rightarrow> 'k list" where
  "ss_insert k s = map fst (sm_insert k () (map (\<lambda>x. (x, ())) s))"

definition ss_erase :: "'k::linorder \<Rightarrow> 'k list \<Rightarrow> 'k list" where
  "ss_erase k s = removeAll k s"

definition ss_ok :: "'k::linorder list \<Rightarrow> bool" where
  "ss_ok s \<longleftrightarrow> sorted_wrt (<) s"

lemma set_ss_insert [simp]: "set (ss_insert k s) = insert k (set s)"
proof -
  have "set (ss_insert k s) = fst ` set (sm_insert k () (map (\<lambda>x. (x, ())) s))"
    by (simp add: ss_insert_def)
  also have "\<dots> = insert k (set s)"
    by (simp only: fst_set_sm_insert) (simp add: image_image)
  finally show ?thesis .
qed

lemma ss_ok_insert [simp]: "ss_ok s \<Longrightarrow> ss_ok (ss_insert k s)"
proof -
  assume "ss_ok s"
  then have "sm_ok (map (\<lambda>x. (x, ())) s)" by (simp add: ss_ok_def sm_ok_def comp_def)
  then have "sm_ok (sm_insert k () (map (\<lambda>x. (x, ())) s))" by (rule sm_ok_insert)
  then show ?thesis by (simp add: ss_ok_def ss_insert_def sm_ok_def)
qed

lemma set_ss_erase [simp]: "set (ss_erase k s) = set s - {k}"
  by (simp add: ss_erase_def)

lemma ss_ok_erase [simp]: "ss_ok s \<Longrightarrow> ss_ok (ss_erase k s)"
  by (simp add: ss_ok_def ss_erase_def removeAll_filter_not_eq sorted_wrt_filter)

end
