(* ===== verification/String_Operation.thy ===== *)
theory String_Operation
  imports Std_Map
begin

text \<open>
  \<open>utils/native/src/string_operation.cpp\<close>: splitting, comparing and parsing strings, over
  the parts of \<open>std::string\<close> and of C's number parsing that it uses. \<open>ClearAllSpace\<close> and
  \<open>SplitString\<close> are loops that need not end, so they are partial functions: \<open>None\<close> is
  "does not return". The lemmas show when they return, that splitting on one separator
  yields the non-empty fields, and what \<open>StrToUint\<close> accepts.
\<close>

section \<open>The standard library's string functions\<close>

definition find_first_not_of :: "string \<Rightarrow> string \<Rightarrow> nat option" where
  "find_first_not_of str sep =
     (let n = length (takeWhile (\<lambda>c. c \<in> set sep) str) in if n < length str then Some n else None)"

fun find_at :: "string \<Rightarrow> string \<Rightarrow> nat \<Rightarrow> nat option" where
  "find_at sub [] p = (if sub = [] then Some p else None)"
| "find_at sub (c # cs) p =
     (if take (length sub) (c # cs) = sub then Some p else find_at sub cs (Suc p))"

definition find_from :: "string \<Rightarrow> string \<Rightarrow> nat \<Rightarrow> nat option" where
  "find_from str sub begin = (if begin \<le> length str then find_at sub (drop begin str) begin else None)"

definition substr :: "string \<Rightarrow> nat \<Rightarrow> nat \<Rightarrow> string result" where
  "substr str pos n = (if length str < pos then Inl OutOfRange else Inr (take n (drop pos str)))"

definition erase_at :: "string \<Rightarrow> nat \<Rightarrow> string result" where
  "erase_at s pos = (if length s < pos then Inl OutOfRange else Inr (take pos s @ drop (Suc pos) s))"

text \<open>\<open>c_str\<close> as a C function reads it: up to the first NUL.\<close>

definition c_str :: "string \<Rightarrow> string" where
  "c_str s = takeWhile (\<lambda>c. c \<noteq> CHR 0x00) s"

section \<open>ClearAllSpace and SplitString\<close>

text \<open>
  The loop of \<open>ClearAllSpace\<close> erases at \<open>index\<close> and never searches again, so its guard
  \<open>index != npos\<close> keeps the value it had before the loop.
\<close>

partial_function (option) clear_loop :: "string \<Rightarrow> nat \<Rightarrow> string result option" where
  "clear_loop s i = (case erase_at s i of Inl e \<Rightarrow> Some (Inl e) | Inr s' \<Rightarrow> clear_loop s' i)"

definition ClearAllSpace :: "string \<Rightarrow> string result option" where
  "ClearAllSpace s =
     (if s = [] then Some (Inr s)
      else case find_from s '' '' 0 of None \<Rightarrow> Some (Inr s) | Some index \<Rightarrow> clear_loop s index)"

definition push_nonempty :: "string list \<Rightarrow> string \<Rightarrow> string list" where
  "push_nonempty ret temp = (if temp = [] then ret else ret @ [temp])"

partial_function (option) split_loop ::
    "string \<Rightarrow> string \<Rightarrow> nat option \<Rightarrow> string list \<Rightarrow> string list result option" where
  "split_loop str sep begin ret =
     (case begin of
        None \<Rightarrow> Some (Inr ret)
      | Some b \<Rightarrow>
          (case find_from str sep b of
             Some pos \<Rightarrow>
               (case substr str b (pos - b) of
                  Inl e \<Rightarrow> Some (Inl e)
                | Inr temp \<Rightarrow> split_loop str sep (Some (pos + length sep)) (push_nonempty ret temp))
           | None \<Rightarrow>
               (case substr str b (length str) of
                  Inl e \<Rightarrow> Some (Inl e)
                | Inr temp \<Rightarrow> split_loop str sep None (push_nonempty ret temp))))"

text \<open>\<open>ClearAllSpace\<close> takes its argument by value: \<open>str\<close> is split as it was.\<close>

definition SplitString :: "string \<Rightarrow> string list \<Rightarrow> string \<Rightarrow> string list result" where
  "SplitString str ret sep =
     bindr (returns (ClearAllSpace str)) (\<lambda>cleared. bindr cleared (\<lambda>_.
       if str = [] then Inr ret
       else bindr (returns (split_loop str sep (find_first_not_of str sep) ret)) id))"

section \<open>Comparison and search\<close>

definition Compare :: "string \<Rightarrow> string \<Rightarrow> bool" where
  "Compare origin target \<longleftrightarrow> origin = target"

definition Find :: "string \<Rightarrow> string \<Rightarrow> bool" where
  "Find origin target \<longleftrightarrow> find_from origin target 0 \<noteq> None"

section \<open>Numbers\<close>

definition is_space :: "char \<Rightarrow> bool" where
  "is_space c \<longleftrightarrow> c \<in> {CHR '' '', CHR 0x09, CHR 0x0A, CHR 0x0B, CHR 0x0C, CHR 0x0D}"

definition is_digit :: "char \<Rightarrow> bool" where
  "is_digit c \<longleftrightarrow> 48 \<le> (of_char c :: nat) \<and> (of_char c :: nat) \<le> 57"

definition digit_val :: "char \<Rightarrow> nat" where
  "digit_val c = of_char c - 48"

fun dec_value :: "nat \<Rightarrow> string \<Rightarrow> nat" where
  "dec_value acc [] = acc"
| "dec_value acc (c # cs) = dec_value (10 * acc + digit_val c) cs"

text \<open>
  What \<open>strtol\<close>, \<open>strtoll\<close> and \<open>strtoul\<close> with base 10 read: white space, a sign, digits.
  The result is the sign, the magnitude and the rest; \<open>None\<close> where there is no digit.
\<close>

definition scan_sign :: "string \<Rightarrow> bool \<times> string" where
  "scan_sign s =
     (case s of [] \<Rightarrow> (False, [])
      | c # cs \<Rightarrow> if c = CHR ''-'' then (True, cs) else if c = CHR ''+'' then (False, cs) else (False, s))"

definition scan_dec :: "string \<Rightarrow> (bool \<times> nat \<times> string) option" where
  "scan_dec s =
     (let (neg, s') = scan_sign (dropWhile is_space s);
          ds = takeWhile is_digit s'
      in if ds = [] then None else Some (neg, dec_value 0 ds, dropWhile is_digit s'))"

abbreviation (input) ULONG_MAX :: nat where "ULONG_MAX \<equiv> 18446744073709551615"
abbreviation (input) LONG_MAX :: int where "LONG_MAX \<equiv> 9223372036854775807"
abbreviation (input) LONG_MIN :: int where "LONG_MIN \<equiv> - 9223372036854775808"

text \<open>The value, the end pointer (as the rest of the string) and whether \<open>errno\<close> is ERANGE.\<close>

definition strtoul :: "string \<Rightarrow> u64 \<times> string \<times> bool" where
  "strtoul s =
     (case scan_dec s of
        None \<Rightarrow> (0, s, False)
      | Some (neg, m, rest) \<Rightarrow>
          if ULONG_MAX < m then (of_nat ULONG_MAX, rest, True)
          else (if neg then - of_nat m else of_nat m, rest, False))"

definition strtol :: "string \<Rightarrow> int \<times> string \<times> bool" where
  "strtol s =
     (case scan_dec s of
        None \<Rightarrow> (0, s, False)
      | Some (neg, m, rest) \<Rightarrow>
          let v = (if neg then - int m else int m) in
          if LONG_MAX < v then (LONG_MAX, rest, True)
          else if v < LONG_MIN then (LONG_MIN, rest, True)
          else (v, rest, False))"

definition StrToUint :: "string \<Rightarrow> u32 option" where
  "StrToUint str =
     (if str = [] \<or> (\<not> is_digit (hd str) \<and> hd str \<noteq> CHR ''-'') then None
      else let addr = c_str str; (result, endp, erange) = strtoul addr in
        if endp = addr \<or> endp \<noteq> [] \<or> erange \<or> of_nat ULONG_MAX \<le> result then None
        else Some (ucast result))"

text \<open>
  \<open>StrToDouble\<close> over \<open>strtod\<close> as the C library provides it: of a C string the value read, the
  rest and whether \<open>errno\<close> is ERANGE. A \<open>double\<close> is its rational value, \<open>None\<close> is \<open>HUGE_VAL\<close>;
  a NaN and the negative infinity are outside the model.
\<close>

definition StrToDouble :: "(string \<Rightarrow> rat option \<times> string \<times> bool) \<Rightarrow> string \<Rightarrow> rat option" where
  "StrToDouble strtod str =
     (if str = [] then None
      else let addr = c_str str; (result, endp, erange) = strtod addr in
        if endp = addr \<or> endp \<noteq> [] \<or> erange then None else result)"

definition ParseStrtollResult :: "string \<Rightarrow> int option" where
  "ParseStrtollResult str =
     (let addr = c_str str; (result, endp, erange) = strtol addr in
      if endp = addr then None
      else if erange \<and> (result = LONG_MAX \<or> result = LONG_MIN) then None
      else Some result)"

definition ParseStrtoulResult :: "string \<Rightarrow> u64 option" where
  "ParseStrtoulResult str =
     (let addr = c_str str; (result, endp, erange) = strtoul addr in
      if endp = addr then None
      else if erange \<and> (result = of_nat ULONG_MAX \<or> result = 0) then None
      else Some result)"

text \<open>\<open>static_cast<uint32_t>(strtol(value.c_str(), nullptr, 10))\<close>, as the actions parse values.\<close>

definition strtol_u32 :: "string \<Rightarrow> u32" where
  "strtol_u32 value = word_of_int (fst (strtol (c_str value)))"

text \<open>\<open>std::to_string\<close>.\<close>

fun to_dec :: "nat \<Rightarrow> string" where
  "to_dec n = (if n < 10 then [char_of (48 + n)] else to_dec (n div 10) @ [char_of (48 + n mod 10)])"

declare to_dec.simps [simp del]

definition to_string_int :: "int \<Rightarrow> string" where
  "to_string_int i = (if i < 0 then CHR ''-'' # to_dec (nat (- i)) else to_dec (nat i))"

definition to_string_u32 :: "u32 \<Rightarrow> string" where
  "to_string_u32 w = to_dec (unat w)"

section \<open>Searching\<close>

lemma take_drop_tail: "take i s @ drop i s = (s :: 'a list)"
  by simp

lemma takeWhile_neq_less: "c \<in> set s \<Longrightarrow> length (takeWhile (\<lambda>x. x \<noteq> c) s) < length s"
  by (induction s) auto

lemma find_at_one:
  "find_at [c] s p =
     (if c \<in> set s then Some (p + length (takeWhile (\<lambda>x. x \<noteq> c) s)) else None)"
  by (induction s arbitrary: p) auto

lemma find_from_one:
  "b \<le> length s \<Longrightarrow> find_from s [c] b =
     (if c \<in> set (drop b s) then Some (b + length (takeWhile (\<lambda>x. x \<noteq> c) (drop b s))) else None)"
  by (simp add: find_from_def find_at_one)

lemma find_first_not_of_one:
  "find_first_not_of s [c] =
     (if dropWhile (\<lambda>x. x = c) s = [] then None else Some (length (takeWhile (\<lambda>x. x = c) s)))"
proof -
  have "length (takeWhile (\<lambda>x. x = c) s) < length s \<longleftrightarrow> dropWhile (\<lambda>x. x = c) s \<noteq> []"
    by (metis (no_types, lifting) append_Nil2 length_append length_greater_0_conv less_add_same_cancel1
        takeWhile_dropWhile_id)
  then show ?thesis by (simp add: find_first_not_of_def)
qed

section \<open>When ClearAllSpace returns\<close>

lemma clear_loop_returns:
  assumes "clear_loop s i = Some r"
  shows "length s < i"
proof (rule clear_loop.raw_induct [where P = "\<lambda>s i r. length s < i", OF _ assms])
  fix f s i r
  assume IH: "\<And>s i r. f s i = Some r \<Longrightarrow> length s < i"
    and eq: "(case erase_at s i of Inl e \<Rightarrow> Some (Inl e) | Inr s' \<Rightarrow> f s' i) = Some r"
  show "length s < i"
  proof (rule ccontr)
    assume "\<not> length s < i"
    with eq have "f (take i s @ drop (Suc i) s) i = Some r" by (simp add: erase_at_def)
    from IH [OF this] \<open>\<not> length s < i\<close> show False by (auto simp: min_def split: if_splits)
  qed
qed

lemma ClearAllSpace_eq:
  "ClearAllSpace s = (if CHR '' '' \<in> set s then None else Some (Inr s))"
proof (cases "CHR '' '' \<in> set s")
  case True
  define i where "i = length (takeWhile (\<lambda>x. x \<noteq> CHR '' '') s)"
  have "i \<le> length s" by (simp add: i_def length_takeWhile_le)
  then have "clear_loop s i = None" using clear_loop_returns [of s i] by (cases "clear_loop s i") auto
  with True show ?thesis
    by (auto simp: ClearAllSpace_def find_from_one i_def)
next
  case False
  then show ?thesis by (simp add: ClearAllSpace_def find_from_one)
qed

section \<open>What SplitString computes\<close>

text \<open>The fields between the separators, and the non-empty ones.\<close>

fun split_on :: "char \<Rightarrow> string \<Rightarrow> string list" where
  "split_on c [] = [[]]"
| "split_on c (x # xs) =
     (if x = c then [] # split_on c xs
      else case split_on c xs of [] \<Rightarrow> [[x]] | y # ys \<Rightarrow> (x # y) # ys)"

definition nonempty_fields :: "char \<Rightarrow> string \<Rightarrow> string list" where
  "nonempty_fields c str = filter (\<lambda>f. f \<noteq> []) (split_on c str)"

lemma split_on_nonempty [simp]: "split_on c s \<noteq> []"
  by (cases s) (auto split: list.split)

lemma split_on_unfold:
  "split_on c s =
     (if c \<in> set s
      then takeWhile (\<lambda>x. x \<noteq> c) s # split_on c (tl (dropWhile (\<lambda>x. x \<noteq> c) s))
      else [s])"
  by (induction s) (auto split: list.splits)

lemma nonempty_fields_Nil [simp]: "nonempty_fields c [] = []"
  by (simp add: nonempty_fields_def)

lemma nonempty_fields_skip: "nonempty_fields c (c # s) = nonempty_fields c s"
  by (simp add: nonempty_fields_def)

lemma nonempty_fields_dropWhile: "nonempty_fields c (dropWhile (\<lambda>x. x = c) s) = nonempty_fields c s"
  by (induction s) (auto simp: nonempty_fields_skip)

lemma nonempty_fields_unfold:
  "nonempty_fields c s =
     (if c \<in> set s
      then push_nonempty [] (takeWhile (\<lambda>x. x \<noteq> c) s) @ nonempty_fields c (tl (dropWhile (\<lambda>x. x \<noteq> c) s))
      else push_nonempty [] s)"
  unfolding nonempty_fields_def by (subst split_on_unfold) (simp add: push_nonempty_def)

lemma push_nonempty_append: "push_nonempty ret t = ret @ push_nonempty [] t"
  by (simp add: push_nonempty_def)

lemma drop_tl_dropWhile:
  "drop (Suc (length (takeWhile P xs))) xs = tl (dropWhile P xs)"
  by (induction xs) (auto simp: drop_Suc)

lemma split_loop_end: "split_loop str sep None ret = Some (Inr ret)"
  by (subst split_loop.simps) simp

lemma split_loop_eq:
  "b \<le> length str \<Longrightarrow> split_loop str [c] (Some b) ret = Some (Inr (ret @ nonempty_fields c (drop b str)))"
proof (induction "length str - b" arbitrary: b ret rule: less_induct)
  case less
  let ?s = "drop b str" and ?n = "length (takeWhile (\<lambda>x. x \<noteq> c) (drop b str))"
  show ?case
  proof (cases "c \<in> set ?s")
    case False
    with less.prems show ?thesis
      by (subst split_loop.simps)
         (simp add: find_from_one substr_def split_loop_end push_nonempty_append [of ret]
           nonempty_fields_unfold [of c ?s])
  next
    case True
    have lt: "?n < length ?s"
      using True by (rule takeWhile_neq_less)
    then have le: "b + ?n + 1 \<le> length str" by simp
    have "split_loop str [c] (Some (b + ?n + 1)) (push_nonempty ret (takeWhile (\<lambda>x. x \<noteq> c) ?s)) =
        Some (Inr (push_nonempty ret (takeWhile (\<lambda>x. x \<noteq> c) ?s) @ nonempty_fields c (drop (b + ?n + 1) str)))"
      by (rule less.hyps) (use lt le in auto)
    moreover have "drop (b + ?n + 1) str = tl (dropWhile (\<lambda>x. x \<noteq> c) ?s)"
      by (simp add: drop_tl_dropWhile [symmetric] add.commute)
    moreover have "take ?n ?s = takeWhile (\<lambda>x. x \<noteq> c) ?s"
      by (simp add: takeWhile_eq_take [symmetric])
    ultimately show ?thesis
      using True less.prems
      by (subst split_loop.simps)
         (simp add: find_from_one substr_def push_nonempty_append [of ret] nonempty_fields_unfold [of c ?s])
  qed
qed

lemma SplitString_eq:
  "SplitString str ret [c] =
     (if CHR '' '' \<in> set str then Inl NoReturn else Inr (ret @ nonempty_fields c str))"
proof (cases "CHR '' '' \<in> set str \<or> str = []")
  case True
  then show ?thesis by (auto simp: SplitString_def ClearAllSpace_eq)
next
  case False
  show ?thesis
  proof (cases "dropWhile (\<lambda>x. x = c) str = []")
    case True
    then have "nonempty_fields c str = []" using nonempty_fields_dropWhile [of c str] by (metis nonempty_fields_Nil)
    with True False show ?thesis
      by (simp add: SplitString_def ClearAllSpace_eq find_first_not_of_one split_loop_end)
  next
    case nonempty: False
    have "nonempty_fields c (drop (length (takeWhile (\<lambda>x. x = c) str)) str) = nonempty_fields c str"
      by (simp add: dropWhile_eq_drop [symmetric] nonempty_fields_dropWhile)
    with nonempty False show ?thesis
      by (auto simp: SplitString_def ClearAllSpace_eq find_first_not_of_one split_loop_eq
          length_takeWhile_le)
  qed
qed

text \<open>Writing a list of fields with a separator and splitting it again.\<close>

fun join_with :: "char \<Rightarrow> string list \<Rightarrow> string" where
  "join_with c [] = []"
| "join_with c [x] = x"
| "join_with c (x # xs) = x @ c # join_with c xs"

lemma fields_append_sep:
  assumes "c \<notin> set x" and "x \<noteq> []"
  shows "nonempty_fields c (x @ c # s) = x # nonempty_fields c s"
proof -
  have "takeWhile (\<lambda>y. y \<noteq> c) (x @ c # s) = x" "dropWhile (\<lambda>y. y \<noteq> c) (x @ c # s) = c # s"
    using assms(1) by (subst takeWhile_append2 dropWhile_append2; auto)+
  with assms(2) show ?thesis by (subst nonempty_fields_unfold) (simp add: push_nonempty_def)
qed

lemma nonempty_fields_join_with:
  "(\<And>x. x \<in> set xs \<Longrightarrow> x \<noteq> [] \<and> c \<notin> set x) \<Longrightarrow> nonempty_fields c (join_with c xs) = xs"
proof (induction c xs rule: join_with.induct)
  case (2 c x)
  then show ?case by (subst nonempty_fields_unfold) (simp add: push_nonempty_def)
next
  case (3 c x y ys)
  then show ?case by (simp add: fields_append_sep)
qed simp

lemma set_join_with: "set (join_with c xs) \<subseteq> insert c (\<Union> (set ` set xs))"
  by (induction c xs rule: join_with.induct) auto

section \<open>What the number parsers accept\<close>

lemma of_char_digit: "n < 10 \<Longrightarrow> (of_char (char_of (48 + n) :: char) :: nat) = 48 + n"
  by simp

lemma is_digit_char_of [simp]: "n < (10::nat) \<Longrightarrow> is_digit (char_of (48 + n))"
  by (simp add: is_digit_def)

lemma digit_val_char_of [simp]: "n < (10::nat) \<Longrightarrow> digit_val (char_of (48 + n)) = n"
  by (simp add: digit_val_def)

lemma dec_value_append: "dec_value acc (xs @ [c]) = 10 * dec_value acc xs + digit_val c"
  by (induction acc xs rule: dec_value.induct) auto

lemma to_dec_nonempty [simp]: "to_dec n \<noteq> []"
  by (subst to_dec.simps) simp

lemma Nil_neq_to_dec [simp]: "[] \<noteq> to_dec n"
  using to_dec_nonempty [of n] by metis

lemma to_dec_digits: "\<forall>c \<in> set (to_dec n). is_digit c"
proof (induction n rule: to_dec.induct)
  case (1 n)
  then show ?case by (subst to_dec.simps) auto
qed

lemma dec_value_to_dec [simp]: "dec_value 0 (to_dec n) = n"
proof (induction n rule: to_dec.induct)
  case (1 n)
  then show ?case by (subst to_dec.simps) (simp add: dec_value_append)
qed

lemma is_digit_not_space: "is_digit c \<Longrightarrow> \<not> is_space c"
  by (auto simp: is_digit_def is_space_def)

lemma is_digit_not_sign: "is_digit c \<Longrightarrow> c \<noteq> CHR ''-'' \<and> c \<noteq> CHR ''+'' \<and> c \<noteq> CHR 0x00"
  by (auto simp: is_digit_def)

lemma c_str_digits: "\<forall>c \<in> set ds. is_digit c \<Longrightarrow> c_str ds = ds"
  by (auto simp: c_str_def takeWhile_eq_all_conv dest: is_digit_not_sign)

lemma c_str_sign_digits: "\<forall>c \<in> set ds. is_digit c \<Longrightarrow> c_str (CHR ''-'' # ds) = CHR ''-'' # ds"
  by (auto simp: c_str_def takeWhile_eq_all_conv dest: is_digit_not_sign)

lemma digits_run:
  assumes "\<forall>c \<in> set ds. is_digit c"
  shows "takeWhile is_digit ds = ds" "dropWhile is_digit ds = []"
  using assms by (induction ds) auto

lemma scan_dec_digits:
  assumes "ds \<noteq> []" and "\<forall>c \<in> set ds. is_digit c"
  shows "scan_dec ds = Some (False, dec_value 0 ds, [])"
proof -
  obtain c cs where ds: "ds = c # cs" using assms(1) by (cases ds) auto
  with assms have "dropWhile is_space ds = ds" and "scan_sign ds = (False, ds)"
    by (auto simp: is_digit_not_space scan_sign_def dest: is_digit_not_sign)
  then show ?thesis using assms by (simp add: scan_dec_def digits_run Let_def)
qed

lemma scan_dec_minus:
  assumes "ds \<noteq> []" and "\<forall>c \<in> set ds. is_digit c"
  shows "scan_dec (CHR ''-'' # ds) = Some (True, dec_value 0 ds, [])"
proof -
  have "dropWhile is_space (CHR ''-'' # ds) = CHR ''-'' # ds" by (simp add: is_space_def)
  then show ?thesis
    using assms by (simp add: scan_dec_def scan_sign_def digits_run Let_def is_space_def)
qed

lemma strtoul_to_dec:
  "strtoul (to_dec n) =
     (if ULONG_MAX < n then (of_nat ULONG_MAX, [], True) else (of_nat n, [], False))"
  using scan_dec_digits [OF to_dec_nonempty to_dec_digits, of n] by (simp add: strtoul_def)

lemma strtoul_minus_to_dec:
  "strtoul (CHR ''-'' # to_dec n) =
     (if ULONG_MAX < n then (of_nat ULONG_MAX, [], True) else (- of_nat n, [], False))"
  using scan_dec_minus [OF to_dec_nonempty to_dec_digits, of n] by (simp add: strtoul_def)

lemma hd_to_dec_digit: "is_digit (hd (to_dec n))"
  using to_dec_digits [of n] by (simp add: hd_in_set)

lemma to_dec_inj [simp]: "to_dec m = to_dec n \<longleftrightarrow> m = n"
  by (metis dec_value_to_dec)

lemma minus_neq_to_dec: "CHR ''-'' # ds \<noteq> to_dec n"
  using hd_to_dec_digit [of n] is_digit_not_sign by (metis list.sel(1))

lemma to_string_int_inj [simp]: "to_string_int i = to_string_int j \<longleftrightarrow> i = j"
  using minus_neq_to_dec minus_neq_to_dec [symmetric] by (auto simp: to_string_int_def)

lemma to_string_u32_inj [simp]: "to_string_u32 v = to_string_u32 w \<longleftrightarrow> v = w"
  by (simp add: to_string_u32_def word_unat_eq_iff)

text \<open>For the evaluation of decimal literals.\<close>

lemmas to_dec_eval = to_dec.simps char_of_def bit_0

lemma ulong_le_of_nat: "n < 2 ^ 64 \<Longrightarrow> (of_nat ULONG_MAX :: u64) \<le> of_nat n \<longleftrightarrow> ULONG_MAX \<le> n"
  by (simp add: word_le_nat_alt unat_of_nat)

lemma StrToUint_to_dec:
  "StrToUint (to_dec n) = (if n < ULONG_MAX then Some (of_nat n) else None)"
proof -
  have "(of_nat ULONG_MAX :: u64) \<le> of_nat n \<longleftrightarrow> ULONG_MAX \<le> n" if "n \<le> ULONG_MAX"
    using ulong_le_of_nat [of n] that by simp
  moreover have "ucast (of_nat n :: u64) = (of_nat n :: u32)"
    by (simp add: unsigned_of_nat word_of_nat_eq_iff take_bit_take_bit)
  ultimately show ?thesis
    by (auto simp: StrToUint_def hd_to_dec_digit c_str_digits [OF to_dec_digits] strtoul_to_dec)
qed

lemma minus_of_nat_ulong:
  assumes "1 < n" and "n \<le> ULONG_MAX"
  shows "\<not> (of_nat ULONG_MAX :: u64) \<le> - of_nat n"
proof -
  have "- of_nat n = (of_nat (2 ^ 64 - n) :: u64)" using assms by (simp add: of_nat_diff)
  moreover have "\<not> (of_nat ULONG_MAX :: u64) \<le> of_nat (2 ^ 64 - n)"
    using assms ulong_le_of_nat [of "2 ^ 64 - n"] by simp
  ultimately show ?thesis by metis
qed

lemma ucast_minus_of_nat: "ucast (- of_nat n :: u64) = (- of_nat n :: u32)"
proof -
  have "(- of_nat n :: u64) = of_int (- int n)" by simp
  also have "ucast \<dots> = (of_int (- int n) :: u32)"
    by (rule ucast_down_wi) (simp add: is_down)
  also have "\<dots> = - of_nat n" by simp
  finally show ?thesis .
qed

lemma StrToUint_minus_to_dec:
  "1 < n \<Longrightarrow> n \<le> ULONG_MAX \<Longrightarrow> StrToUint (CHR ''-'' # to_dec n) = Some (- of_nat n)"
  using minus_of_nat_ulong [of n]
  by (simp add: StrToUint_def c_str_sign_digits [OF to_dec_digits] strtoul_minus_to_dec
      ucast_minus_of_nat)

section \<open>Properties\<close>

text \<open>
  \<open>ClearAllSpace\<close>, and with it every split of a string, returns exactly for the strings
  that hold no space: on any other string its loop erases at a fixed index for ever.
\<close>

theorem ClearAllSpace_returns_iff:
  "(\<exists>r. ClearAllSpace s = Some r) \<longleftrightarrow> CHR '' '' \<notin> set s"
  by (simp add: ClearAllSpace_eq)

text \<open>
  Splitting on one separator character appends the non-empty fields of the string to
  the result, in order, and never returns if the string holds a space.
\<close>

theorem SplitString_fields:
  "SplitString str ret [c] =
     (if CHR '' '' \<in> set str then Inl NoReturn else Inr (ret @ nonempty_fields c str))"
  by (rule SplitString_eq)

text \<open>
  A list of non-empty fields that hold neither the separator nor a space, written with
  the separator between them, is what splitting gives back.
\<close>

theorem SplitString_join_roundtrip:
  assumes "\<And>x. x \<in> set xs \<Longrightarrow> x \<noteq> [] \<and> c \<notin> set x \<and> CHR '' '' \<notin> set x"
    and "c \<noteq> CHR '' ''"
  shows "SplitString (join_with c xs) [] [c] = Inr xs"
proof -
  have "CHR '' '' \<notin> set (join_with c xs)" using set_join_with [of c xs] assms by auto
  moreover have "nonempty_fields c (join_with c xs) = xs" using assms by (intro nonempty_fields_join_with) auto
  ultimately show ?thesis by (simp add: SplitString_eq)
qed

theorem SplitString_join_roundtrip_witness:
  "SplitString ''battery,pa'' [] '','' = Inr [''battery'', ''pa'']"
  using SplitString_join_roundtrip [of "[''battery'', ''pa'']" "CHR '',''"] by force

text \<open>
  \<open>StrToUint\<close> reads back the decimal form of every 32-bit value.
\<close>

theorem StrToUint_roundtrip: "StrToUint (to_string_u32 w) = Some w"
proof -
  have "unat w < 2 ^ LENGTH(32)" by (rule unsigned_less)
  then have "unat w < ULONG_MAX" by simp
  then show ?thesis by (simp add: to_string_u32_def StrToUint_to_dec)
qed

text \<open>
  \<open>StrToUint\<close> does not check its range: it accepts every decimal numeral below
  \<open>ULONG_MAX\<close> modulo \<open>2 ^ 32\<close>, and every negative one except \<open>-1\<close>, as its wrap-around.
\<close>

theorem StrToUint_wraps:
  "1 < n \<Longrightarrow> n < ULONG_MAX \<Longrightarrow>
     StrToUint (to_dec n) = Some (of_nat n) \<and>
     StrToUint (CHR ''-'' # to_dec n) = Some (- of_nat n)"
  by (simp add: StrToUint_to_dec StrToUint_minus_to_dec)

theorem StrToUint_wraps_witness:
  "StrToUint (to_dec 4294967297) = Some 1 \<and> StrToUint (CHR ''-'' # to_dec 2) = Some 4294967294"
  using StrToUint_wraps [of 4294967297] StrToUint_wraps [of 2] by simp

end
