(* ===== verification/Xml_Node.thy ===== *)
theory Xml_Node
  imports String_Operation
begin

text \<open>
  What the parsers read of libxml2: a tree of nodes, each with its name, its attributes in
  order, its text content and its children. \<open>None\<close> for the value of an attribute or for a
  content is the null pointer libxml2 returns when it has none. Reading a file or a buffer
  into a tree is a parameter of the parsers. The two loops of the parsers, over all children
  and over those of one name, are shared; a loop ends early where the code returns \<open>false\<close>.
\<close>

section \<open>The tree\<close>

datatype xml_node =
  XmlNode (xml_name: string) (xml_properties: "(string \<times> string option) list") (xml_content: "string option")
    (xml_children: "xml_node list")

definition xmlGetProp :: "xml_node \<Rightarrow> string \<Rightarrow> string option" where
  "xmlGetProp node name = (case map_of (xml_properties node) name of Some v \<Rightarrow> v | None \<Rightarrow> None)"

definition xmlNodeGetContent :: "xml_node \<Rightarrow> string option" where
  "xmlNodeGetContent node = xml_content node"

text \<open>An element with the given attributes.\<close>

definition element :: "string \<Rightarrow> (string \<times> string) list \<Rightarrow> xml_node list \<Rightarrow> xml_node" where
  "element name props children = XmlNode name (map (\<lambda>(n, v). (n, Some v)) props) (Some []) children"

lemma element_simps [simp]:
  "xml_name (element n ps cs) = n" "xml_children (element n ps cs) = cs" "xmlGetProp (element n ps cs) a = map_of ps a"
proof -
  have "map_of (map (\<lambda>(n, v). (n, Some v)) ps) a = map_option Some (map_of ps a)"
    by (induction ps) auto
  then show "xmlGetProp (element n ps cs) a = map_of ps a"
    by (simp add: element_def xmlGetProp_def split: option.split)
qed (simp_all add: element_def)

section \<open>Parsers\<close>

text \<open>\<open>Inr None\<close> is a parser that returns \<open>false\<close>; what it has built so far is dropped.\<close>

type_synonym 'a parse = "'a option result"

definition bindp :: "'a parse \<Rightarrow> ('a \<Rightarrow> 'b parse) \<Rightarrow> 'b parse" where
  "bindp r f = bindr r (\<lambda>p. case p of None \<Rightarrow> Inr None | Some x \<Rightarrow> f x)"

abbreviation (input) rejected :: "'a parse" where "rejected \<equiv> Inr None"
abbreviation (input) accepted :: "'a \<Rightarrow> 'a parse" where "accepted x \<equiv> Inr (Some x)"

lemma bindp_simps [simp]: "bindp (Inl e) f = Inl e" "bindp (Inr None) f = Inr None" "bindp (Inr (Some x)) f = f x"
  by (simp_all add: bindp_def)

lemma parse_cases:
  obtains e where "r = Inl e" | "r = Inr None" | x where "r = Inr (Some x)"
  by (cases r; cases "projr r") auto

lemma bindp_eq_parsed: "bindp r f = Inr (Some y) \<longleftrightarrow> (\<exists>x. r = Inr (Some x) \<and> f x = Inr (Some y))"
  by (auto simp: bindp_def bindr_eq_Inr split: option.splits)

lemma bindp_cong [fundef_cong]:
  "r = r' \<Longrightarrow> (\<And>x. r' = Inr (Some x) \<Longrightarrow> f x = g x) \<Longrightarrow> bindp r f = bindp r' g"
  by (cases r') (simp_all add: bindp_def split: option.split)

text \<open>The argument of a conversion that fails is left as it was.\<close>

definition or_keep :: "'a option \<Rightarrow> 'a \<Rightarrow> 'a" where
  "or_keep r d = (case r of Some x \<Rightarrow> x | None \<Rightarrow> d)"

lemma or_keep_simps [simp]: "or_keep (Some x) d = x" "or_keep None d = d"
  by (simp_all add: or_keep_def)

text \<open>\<open>StrToUint\<close> into a level.\<close>

definition level_of :: "string \<Rightarrow> nat \<Rightarrow> nat" where
  "level_of s d = or_keep (map_option unat (StrToUint s)) d"

fun for_each :: "('a \<Rightarrow> 's \<Rightarrow> 's parse) \<Rightarrow> 'a list \<Rightarrow> 's \<Rightarrow> 's parse" where
  "for_each f [] s = accepted s"
| "for_each f (x # xs) s = bindp (f x s) (for_each f xs)"

definition for_children :: "string \<Rightarrow> (xml_node \<Rightarrow> 's \<Rightarrow> 's parse) \<Rightarrow> xml_node \<Rightarrow> 's \<Rightarrow> 's parse" where
  "for_children tag f node s =
     for_each (\<lambda>cur s. if xml_name cur \<noteq> tag then accepted s else f cur s) (xml_children node) s"

section \<open>The loops\<close>

text \<open>The children of a name.\<close>

definition named :: "string \<Rightarrow> xml_node \<Rightarrow> xml_node list" where
  "named tag node = filter (\<lambda>cur. xml_name cur = tag) (xml_children node)"

lemma for_children_eq: "for_children tag f node s = for_each f (named tag node) s"
proof -
  have "for_each (\<lambda>cur s. if xml_name cur \<noteq> tag then accepted s else f cur s) ns s =
      for_each f (filter (\<lambda>cur. xml_name cur = tag) ns) s" for ns
  proof (induction ns arbitrary: s)
    case (Cons n ns)
    have step: "for_each (\<lambda>cur s. if xml_name cur \<noteq> tag then accepted s else f cur s) ns =
        for_each f (filter (\<lambda>cur. xml_name cur = tag) ns)"
      using Cons.IH by (rule ext)
    show ?case by (simp add: step)
  qed simp
  then show ?thesis by (simp add: for_children_def named_def)
qed

lemma for_each_append: "for_each f (xs @ ys) s = bindp (for_each f xs s) (for_each f ys)"
proof (induction xs arbitrary: s)
  case (Cons x xs)
  then show ?case by (cases "f x s") (auto simp: bindp_def split: option.split)
qed simp

text \<open>What every pass keeps, the loop keeps.\<close>

lemma for_each_invariant:
  assumes "for_each f xs s = accepted s'" and "I s"
    and "\<And>x s s'. x \<in> set xs \<Longrightarrow> I s \<Longrightarrow> f x s = accepted s' \<Longrightarrow> I s'"
  shows "I s'"
  using assms by (induction xs arbitrary: s) (auto simp: bindp_eq_parsed)

text \<open>A loop that succeeds has accepted every element.\<close>

lemma for_each_accepts:
  "for_each f xs s = accepted s' \<Longrightarrow> x \<in> set xs \<Longrightarrow> \<exists>s1 s2. f x s1 = accepted s2"
  by (induction xs arbitrary: s) (auto simp: bindp_eq_parsed)

text \<open>A loop whose passes all succeed is a fold.\<close>

lemma for_each_fold:
  assumes "\<And>x s. x \<in> set xs \<Longrightarrow> f x s = accepted (g x s)"
  shows "for_each f xs s = accepted (fold g xs s)"
  using assms by (induction xs arbitrary: s) simp_all

text \<open>A pass that rejects whatever the state stops the loop, if the passes before it return.\<close>

lemma for_each_rejects:
  assumes "x \<in> set xs" and "\<And>s. f x s = rejected" and "\<And>y s. y \<in> set xs \<Longrightarrow> \<exists>r. f y s = Inr r"
  shows "for_each f xs s = rejected"
  using assms
proof (induction xs arbitrary: s)
  case (Cons y ys)
  show ?case
  proof (cases "y = x")
    case True
    with Cons.prems(2) show ?thesis by simp
  next
    case False
    obtain r where r: "f y s = Inr r" using Cons.prems(3) by fastforce
    from False Cons.prems(1) have "x \<in> set ys" by simp
    then have "for_each f ys s1 = rejected" for s1
      by (rule Cons.IH) (use Cons.prems(2,3) in simp_all)
    with r show ?thesis by (cases r) simp_all
  qed
qed simp

text \<open>A loop that appends one item per pass: the items, in order.\<close>

fun traverse :: "('a \<Rightarrow> 'b parse) \<Rightarrow> 'a list \<Rightarrow> 'b list parse" where
  "traverse f [] = accepted []"
| "traverse f (x # xs) = bindp (f x) (\<lambda>y. bindp (traverse f xs) (\<lambda>ys. accepted (y # ys)))"

lemma for_each_collects:
  assumes "\<And>x s. f x s = bindp (g x) (\<lambda>y. accepted (s @ [y]))"
  shows "for_each f xs s = bindp (traverse g xs) (\<lambda>ys. accepted (s @ ys))"
proof (induction xs arbitrary: s)
  case (Cons x xs)
  show ?case
    by (cases "g x" rule: parse_cases; cases "traverse g xs" rule: parse_cases) (simp_all add: assms [of x] Cons.IH)
qed simp

lemma traverse_length: "traverse f xs = accepted ys \<Longrightarrow> length ys = length xs"
  by (induction xs arbitrary: ys) (auto simp: bindp_eq_parsed)

lemma traverse_map: "(\<And>x. x \<in> set xs \<Longrightarrow> f x = accepted (g x)) \<Longrightarrow> traverse f xs = accepted (map g xs)"
  by (induction xs) simp_all

end
