(* ===== verification/Thermal_Timer.thy ===== *)
theory Thermal_Timer
  imports String_Operation
begin

text \<open>
  The platform the service runs on, as the parameter every component takes, and
  \<open>services/native/src/thermal_action/thermal_timer.cpp\<close>.

  \<open>platform\<close> collects the code that is not in the repository: the string helpers of
  \<open>string_ex.h\<close>, the power and battery clients, the time service. Its fields are
  arguments of the model; what a property needs of them is a named hypothesis of that
  property. The state \<open>timer_world\<close> records the calls made to the time service.
\<close>

section \<open>The platform\<close>

datatype BatteryChargeState =
  CHARGE_STATE_NONE | CHARGE_STATE_ENABLE | CHARGE_STATE_DISABLE | CHARGE_STATE_FULL | CHARGE_STATE_BUTT

record platform =
  ToString :: "int \<Rightarrow> string"                   \<comment> \<open>\<open>string_ex.h\<close>\<close>
  StrToInt :: "string \<Rightarrow> int option"            \<comment> \<open>\<open>string_ex.h\<close>: \<open>None\<close> leaves its argument alone\<close>
  TrimStr :: "string \<Rightarrow> string"                 \<comment> \<open>\<open>string_ex.h\<close>\<close>
  IsScreenOn :: bool                            \<comment> \<open>\<open>PowerMgrClient::IsScreenOn(false)\<close>\<close>
  GetChargingStatus :: BatteryChargeState       \<comment> \<open>\<open>BatterySrvClient\<close>\<close>
  chargeStateCode :: "BatteryChargeState \<Rightarrow> int" \<comment> \<open>the enumerators' values\<close>
  newTimerId :: "nat \<Rightarrow> u64"                    \<comment> \<open>what the n-th \<open>CreateTimer\<close> returns\<close>
  timerReply :: "nat \<Rightarrow> bool"                   \<comment> \<open>whether the n-th call to the time service succeeds\<close>
  SubscribeCommonEvent :: "nat \<Rightarrow> bool"         \<comment> \<open>whether the n-th subscription succeeds\<close>
  GetWallTimeMs :: int                          \<comment> \<open>\<open>TimeServiceClient\<close>\<close>
  batteryInterface :: bool                      \<comment> \<open>whether \<open>IBatteryInterface::Get\<close> finds the driver\<close>
  SetChargingLimit_ok :: bool                   \<comment> \<open>whether the driver accepts the limits\<close>
  thermalInterface :: bool                      \<comment> \<open>whether the service holds the thermal driver\<close>
  strtod :: "string \<Rightarrow> rat option \<times> string \<times> bool"
    \<comment> \<open>of a C string: the value, \<open>None\<close> for \<open>HUGE_VAL\<close>; the rest; whether \<open>errno\<close> is ERANGE\<close>
  rnd :: "rat \<Rightarrow> rat"                            \<comment> \<open>the \<open>double\<close> an exact result is rounded to\<close>

text \<open>What \<open>string_ex.h\<close> documents of \<open>ToString\<close>: distinct integers print differently.\<close>

definition ToString_injective :: "platform \<Rightarrow> bool" where
  "ToString_injective P \<longleftrightarrow> (\<forall>i j. ToString P i = ToString P j \<longrightarrow> i = j)"

section \<open>Timers\<close>

datatype timer_call =
  CreateTimer u64 | StartTimer u64 u64 | StopTimer u64 | DestroyTimer u64

record timer_world =
  timerCalls :: "timer_call list"   \<comment> \<open>oldest first\<close>
  createCount :: nat

definition log_timer :: "timer_call \<Rightarrow> 'a timer_world_scheme \<Rightarrow> 'a timer_world_scheme" where
  "log_timer c w = w\<lparr>timerCalls := timerCalls w @ [c]\<rparr>"

text \<open>\<open>ThermalTimer\<close>: each operation forwards to the time service; the id 0 is a failure.\<close>

definition ThermalTimer_CreateTimer ::
    "platform \<Rightarrow> 'a timer_world_scheme \<Rightarrow> u64 \<times> 'a timer_world_scheme" where
  "ThermalTimer_CreateTimer P w =
     (let timerId = newTimerId P (createCount w)
      in (timerId, log_timer (CreateTimer timerId) (w\<lparr>createCount := Suc (createCount w)\<rparr>)))"

definition ThermalTimer_StartTimer ::
    "platform \<Rightarrow> u64 \<Rightarrow> u64 \<Rightarrow> 'a timer_world_scheme \<Rightarrow> bool \<times> 'a timer_world_scheme" where
  "ThermalTimer_StartTimer P timerId triggerTime w =
     (timerReply P (length (timerCalls w)), log_timer (StartTimer timerId triggerTime) w)"

definition ThermalTimer_StopTimer ::
    "platform \<Rightarrow> u64 \<Rightarrow> 'a timer_world_scheme \<Rightarrow> bool \<times> 'a timer_world_scheme" where
  "ThermalTimer_StopTimer P timerId w =
     (timerReply P (length (timerCalls w)), log_timer (StopTimer timerId) w)"

definition ThermalTimer_DestroyTimer ::
    "platform \<Rightarrow> u64 \<Rightarrow> 'a timer_world_scheme \<Rightarrow> bool \<times> 'a timer_world_scheme" where
  "ThermalTimer_DestroyTimer P timerId w =
     (timerReply P (length (timerCalls w)), log_timer (DestroyTimer timerId) w)"

text \<open>
  The two helpers the delayed states share: create a one-shot timer and start it \<open>delay\<close>
  milliseconds from now; stop and destroy it, if there is one, and forget its id. A failed
  stop is only logged, and the callers ignore whether the start succeeded.
\<close>

definition start_delay_timer ::
    "platform \<Rightarrow> int \<Rightarrow> 'a timer_world_scheme \<Rightarrow> u64 \<times> 'a timer_world_scheme" where
  "start_delay_timer P delay w =
     (let (timerId, w) = ThermalTimer_CreateTimer P w;
          (ok, w) = ThermalTimer_StartTimer P timerId (word_of_int (delay + GetWallTimeMs P)) w
      in (timerId, w))"

definition stop_delay_timer :: "platform \<Rightarrow> u64 \<Rightarrow> 'a timer_world_scheme \<Rightarrow> u64 \<times> 'a timer_world_scheme" where
  "stop_delay_timer P timerId w =
     (if 0 < timerId
      then let (ok, w) = ThermalTimer_StopTimer P timerId w;
               (ok, w) = ThermalTimer_DestroyTimer P timerId w
           in (0, w)
      else (timerId, w))"

section \<open>Timers that are still allocated\<close>

text \<open>The ids created (0 is no timer) and not destroyed since.\<close>

fun live_after :: "timer_call list \<Rightarrow> u64 set \<Rightarrow> u64 set" where
  "live_after [] live = live"
| "live_after (CreateTimer i # cs) live = live_after cs (if i = 0 then live else insert i live)"
| "live_after (DestroyTimer i # cs) live = live_after cs (live - {i})"
| "live_after (StartTimer i t # cs) live = live_after cs live"
| "live_after (StopTimer i # cs) live = live_after cs live"

definition live_timers :: "'a timer_world_scheme \<Rightarrow> u64 set" where
  "live_timers w = live_after (timerCalls w) {}"

lemma live_after_append: "live_after (cs @ ds) live = live_after ds (live_after cs live)"
  by (induction cs live rule: live_after.induct) auto

named_theorems timer_defs

lemmas [timer_defs] = ThermalTimer_CreateTimer_def ThermalTimer_StartTimer_def
  ThermalTimer_StopTimer_def ThermalTimer_DestroyTimer_def log_timer_def
  start_delay_timer_def stop_delay_timer_def Let_def split_def

lemma live_start [simp]:
  "live_timers (snd (start_delay_timer P d w)) =
     (if newTimerId P (createCount w) = 0 then live_timers w
      else insert (newTimerId P (createCount w)) (live_timers w))"
  by (simp add: timer_defs live_timers_def live_after_append)

lemma fst_start [simp]: "fst (start_delay_timer P d w) = newTimerId P (createCount w)"
  by (simp add: timer_defs)

lemma live_stop [simp]:
  "live_timers (snd (stop_delay_timer P i w)) = (if i = 0 then live_timers w else live_timers w - {i})"
  by (simp add: timer_defs live_timers_def live_after_append word_gt_0)

lemma fst_stop [simp]: "fst (stop_delay_timer P i w) = 0"
  by (simp add: timer_defs word_gt_0)

lemma createCount_start [simp]: "createCount (snd (start_delay_timer P d w)) = Suc (createCount w)"
  by (simp add: timer_defs)

lemma stop_no_timer [simp]: "stop_delay_timer P 0 w = (0, w)"
  by (simp add: stop_delay_timer_def)

text \<open>An owner of at most one timer: whatever is allocated is the timer it remembers.\<close>

definition owns :: "u64 \<Rightarrow> u64 set \<Rightarrow> bool" where
  "owns timerId live \<longleftrightarrow> live = (if timerId = 0 then {} else {timerId})"

lemma owns_zero [simp]: "owns 0 live \<longleftrightarrow> live = {}"
  by (simp add: owns_def)

lemma owns_stop: "owns i (live_timers w) \<Longrightarrow> live_timers (snd (stop_delay_timer P i w)) = {}"
  by (simp add: owns_def)

lemma owns_start:
  "live_timers w = {} \<Longrightarrow>
     owns (fst (start_delay_timer P d w)) (live_timers (snd (start_delay_timer P d w)))"
  by (simp add: owns_def)

section \<open>A concrete platform\<close>

text \<open>For the instances of the properties: a platform whose n-th timer has the id n + 1.\<close>

definition sample_platform :: platform where
  "sample_platform = \<lparr>ToString = to_string_int, StrToInt = (\<lambda>_. None), TrimStr = id, IsScreenOn = True,
     GetChargingStatus = CHARGE_STATE_ENABLE,
     chargeStateCode = (\<lambda>c. case c of CHARGE_STATE_NONE \<Rightarrow> 0 | CHARGE_STATE_ENABLE \<Rightarrow> 1
       | CHARGE_STATE_DISABLE \<Rightarrow> 2 | CHARGE_STATE_FULL \<Rightarrow> 3 | CHARGE_STATE_BUTT \<Rightarrow> 4),
     newTimerId = (\<lambda>n. of_nat (n + 1)), timerReply = (\<lambda>_. True), SubscribeCommonEvent = (\<lambda>_. True),
     GetWallTimeMs = 1000, batteryInterface = True, SetChargingLimit_ok = True, thermalInterface = True,
     strtod = (\<lambda>s. (Some 0, s, False)), rnd = id\<rparr>"

definition sample_timers :: timer_world where
  "sample_timers = \<lparr>timerCalls = [], createCount = 0\<rparr>"

lemma sample_timers_none [simp]: "live_timers sample_timers = {}"
  by (simp add: sample_timers_def live_timers_def)

lemma sample_platform_ToString [simp]: "ToString sample_platform = to_string_int"
  by (simp add: sample_platform_def)

lemma sample_platform_injective [simp]: "ToString_injective sample_platform"
  by (simp add: ToString_injective_def)

end
