(* ===== verification/State_Machine.thy ===== *)
theory State_Machine
  imports Thermal_Timer
begin

text \<open>
  \<open>services/native/src/thermal_observer/state_machine\<close> and \<open>thermal_common_event_receiver.cpp\<close>:
  the states a policy can depend on (charging, screen, scene, charge delay, startup delay,
  customer bits, free-form extended states), the common events that drive them, and the
  \<open>StateMachine\<close> that creates and updates them.

  The collections are the constructors of \<open>state_collection\<close>. \<open>ChargerStateCollection\<close> is a
  singleton that \<open>ChargeDelayStateCollection\<close> writes as well: it and the file's globals are
  fields of \<open>machine_world\<close>, and \<open>ChargerColl\<close> is the pointer to it. The handlers a
  collection registers are the values of \<open>event_handler\<close>. \<open>BATTERY_MANAGER_ENABLE\<close> is set.
\<close>

section \<open>State\<close>

record IdleState =
  idle_level :: int
  idle_soc :: int
  idle_charging :: int
  idle_current :: int

record ChargerState =
  chg_state :: string
  chg_params :: string
  chg_mockState :: string
  chg_isCharge :: bool

record ScreenState =
  scr_state :: int
  scr_delayTime :: u32
  scr_delayTimerId :: u64
  scr_mockState :: string

record ChargeDelayState =
  cd_criticalState :: int
  cd_params :: string
  cd_delayTime :: u64
  cd_delayTimerId :: u64

record StartupDelayState =
  su_state :: int
  su_params :: string
  su_delayTime :: u64
  su_delayTimerId :: u64

datatype state_collection =
    ChargerColl
  | ScreenColl ScreenState
  | SceneColl
  | ChargeDelayColl ChargeDelayState
  | StartupDelayColl StartupDelayState
  | CustColl u64                        \<comment> \<open>\<open>state_\<close>\<close>
  | ExtendColl string string            \<comment> \<open>\<open>stateName_\<close>, \<open>stateValue_\<close>\<close>

record StateItem =
  si_name :: string
  si_params :: string
  si_isExistParam :: bool

text \<open>The names of the common events, and their data as the handlers read it.\<close>

datatype common_event =
    COMMON_EVENT_SCREEN_ON | COMMON_EVENT_SCREEN_OFF
  | COMMON_EVENT_POWER_CONNECTED | COMMON_EVENT_POWER_DISCONNECTED
  | COMMON_EVENT_BATTERY_CHANGED | COMMON_EVENT_BATTERY_CHANGED_INNER
  | COMMON_EVENT_THERMAL_LEVEL_CHANGED

record CommonEventData =
  ev_action :: common_event
  ev_capacity :: "int option"
  ev_chargeState :: "int option"
  ev_pluggedNowCurrent :: "int option"
  ev_thermalLevel :: "int option"

definition GetIntParam :: "(CommonEventData \<Rightarrow> int option) \<Rightarrow> CommonEventData \<Rightarrow> int \<Rightarrow> int" where
  "GetIntParam key data d = (case key data of Some i \<Rightarrow> i | None \<Rightarrow> d)"

datatype event_handler =
    HandleScreenOn | HandleScreenOff | HandlePowerConnected | HandlePowerDisconnected
  | HandleChangerStatus | HandleChangerInnerStatus | HandleThermalLevel

text \<open>The order of the event names in the receiver's map.\<close>

instantiation common_event :: linorder
begin

primrec event_rank :: "common_event \<Rightarrow> nat" where
  "event_rank COMMON_EVENT_SCREEN_ON = 0"
| "event_rank COMMON_EVENT_SCREEN_OFF = 1"
| "event_rank COMMON_EVENT_POWER_CONNECTED = 2"
| "event_rank COMMON_EVENT_POWER_DISCONNECTED = 3"
| "event_rank COMMON_EVENT_BATTERY_CHANGED = 4"
| "event_rank COMMON_EVENT_BATTERY_CHANGED_INNER = 5"
| "event_rank COMMON_EVENT_THERMAL_LEVEL_CHANGED = 6"

definition less_eq_common_event :: "common_event \<Rightarrow> common_event \<Rightarrow> bool" where
  "less_eq_common_event e e' \<longleftrightarrow> event_rank e \<le> event_rank e'"

definition less_common_event :: "common_event \<Rightarrow> common_event \<Rightarrow> bool" where
  "less_common_event e e' \<longleftrightarrow> event_rank e < event_rank e'"

instance
proof
  fix e e' :: common_event
  show "e = e'" if "e \<le> e'" "e' \<le> e"
    using that by (cases e; cases e') (simp_all add: less_eq_common_event_def)
qed (auto simp: less_eq_common_event_def less_common_event_def)

end

record Receiver =
  eventHandles :: "(common_event, event_handler) smap"
  subscriber :: "common_event list option"    \<comment> \<open>the events subscribed to\<close>

record machine_world = timer_world +
  initFlag :: bool
  stateCollectionMap :: "(string, state_collection) smap"
  vState :: "StateItem list"
  receiver :: "Receiver option"
  idleStateConfig :: IdleState
  charger_instance :: ChargerState      \<comment> \<open>\<open>ChargerStateCollection::instance_\<close>\<close>
  g_idleStateConfig :: IdleState
  g_cachedIdleState :: IdleState
  g_isChargeIdle :: bool
  publishedIdle :: "bool list"           \<comment> \<open>the idle events published, oldest first\<close>
  scene :: string                       \<comment> \<open>\<open>ThermalService::scene_\<close>\<close>
  isSimulation :: bool                  \<comment> \<open>what \<open>ThermalService::GetSimulationXml\<close> returns\<close>

section \<open>The event receiver\<close>

definition Receiver_AddEvent :: "common_event \<Rightarrow> event_handler \<Rightarrow> Receiver \<Rightarrow> Receiver" where
  "Receiver_AddEvent eventName callback r =
     r\<lparr>eventHandles := sm_insert eventName callback (eventHandles r)\<rparr>"

definition Receiver_GetSubscribeInfo :: "Receiver \<Rightarrow> common_event list" where
  "Receiver_GetSubscribeInfo r = map fst (eventHandles r)"

abbreviation (input) MAX_RETRY_TIMES :: nat where "MAX_RETRY_TIMES \<equiv> 2"

definition Receiver_RegisterSubscriber ::
    "platform \<Rightarrow> common_event list \<Rightarrow> Receiver \<Rightarrow> bool \<times> Receiver" where
  "Receiver_RegisterSubscriber P info r =
     (if list_ex (SubscribeCommonEvent P) [0..<MAX_RETRY_TIMES]
      then (True, r\<lparr>subscriber := Some info\<rparr>)
      else (False, r))"

definition Receiver_Register :: "platform \<Rightarrow> Receiver \<Rightarrow> bool \<times> Receiver" where
  "Receiver_Register P r = Receiver_RegisterSubscriber P (Receiver_GetSubscribeInfo r) r"

text \<open>What each collection's \<open>RegisterEvent\<close> does: add its handlers, if there is a receiver.\<close>

definition register_events ::
    "(common_event \<times> event_handler) list \<Rightarrow> 'a machine_world_scheme \<Rightarrow> bool \<times> 'a machine_world_scheme" where
  "register_events hs w =
     (case receiver w of
        None \<Rightarrow> (False, w)
      | Some r \<Rightarrow> (True, w\<lparr>receiver := Some (fold (\<lambda>(e, h). Receiver_AddEvent e h) hs r)\<rparr>))"

section \<open>ScreenStateCollection\<close>

abbreviation (input) SCREEN_ON :: int where "SCREEN_ON \<equiv> 1"
abbreviation (input) SCREEN_OFF :: int where "SCREEN_OFF \<equiv> 0"

definition ScreenStateCollection_new :: ScreenState where
  "ScreenStateCollection_new = \<lparr>scr_state = 0, scr_delayTime = 0, scr_delayTimerId = 0, scr_mockState = []\<rparr>"

definition ScreenStateCollection_RegisterEvent :: "'a machine_world_scheme \<Rightarrow> bool \<times> 'a machine_world_scheme" where
  "ScreenStateCollection_RegisterEvent w =
     register_events [(COMMON_EVENT_SCREEN_ON, HandleScreenOn), (COMMON_EVENT_SCREEN_OFF, HandleScreenOff)] w"

definition ScreenStateCollection_Init :: "'a machine_world_scheme \<Rightarrow> bool \<times> 'a machine_world_scheme" where
  "ScreenStateCollection_Init w =
     (let (ok, w) = ScreenStateCollection_RegisterEvent w in if \<not> ok then (False, w) else (True, w))"

definition ScreenStateCollection_InitParam :: "string \<Rightarrow> ScreenState \<Rightarrow> ScreenState" where
  "ScreenStateCollection_InitParam params s =
     (case StrToUint params of Some d \<Rightarrow> s\<lparr>scr_delayTime := d\<rparr> | None \<Rightarrow> s)"

definition ScreenStateCollection_GetState :: "platform \<Rightarrow> 'a machine_world_scheme \<Rightarrow> ScreenState \<Rightarrow> string" where
  "ScreenStateCollection_GetState P w s =
     (if \<not> isSimulation w then scr_mockState s else ToString P (scr_state s))"

definition ScreenStateCollection_StartDelayTimer ::
    "platform \<Rightarrow> ScreenState \<times> 'a timer_world_scheme \<Rightarrow> ScreenState \<times> 'a timer_world_scheme" where
  "ScreenStateCollection_StartDelayTimer P = (\<lambda>(s, w).
     let (i, w) = start_delay_timer P (uint (scr_delayTime s)) w in (s\<lparr>scr_delayTimerId := i\<rparr>, w))"

definition ScreenStateCollection_StopDelayTimer ::
    "platform \<Rightarrow> ScreenState \<times> 'a timer_world_scheme \<Rightarrow> ScreenState \<times> 'a timer_world_scheme" where
  "ScreenStateCollection_StopDelayTimer P = (\<lambda>(s, w).
     let (i, w) = stop_delay_timer P (scr_delayTimerId s) w in (s\<lparr>scr_delayTimerId := i\<rparr>, w))"

definition ScreenStateCollection_HandleScreenOnCompleted ::
    "platform \<Rightarrow> ScreenState \<times> 'a timer_world_scheme \<Rightarrow> ScreenState \<times> 'a timer_world_scheme" where
  "ScreenStateCollection_HandleScreenOnCompleted P = (\<lambda>(s, w).
     if 0 < scr_delayTime s
     then ScreenStateCollection_StartDelayTimer P
            (ScreenStateCollection_StopDelayTimer P (s\<lparr>scr_state := SCREEN_OFF\<rparr>, w))
     else (s\<lparr>scr_state := SCREEN_ON\<rparr>, w))"

definition ScreenStateCollection_HandleScreenOffCompleted ::
    "platform \<Rightarrow> ScreenState \<times> 'a timer_world_scheme \<Rightarrow> ScreenState \<times> 'a timer_world_scheme" where
  "ScreenStateCollection_HandleScreenOffCompleted P = (\<lambda>(s, w).
     ScreenStateCollection_StopDelayTimer P (s\<lparr>scr_state := SCREEN_OFF\<rparr>, w))"

definition ScreenStateCollection_ResetState ::
    "platform \<Rightarrow> ScreenState \<times> 'a timer_world_scheme \<Rightarrow> ScreenState \<times> 'a timer_world_scheme" where
  "ScreenStateCollection_ResetState P = (\<lambda>(s, w).
     ScreenStateCollection_StopDelayTimer P (s\<lparr>scr_state := SCREEN_ON\<rparr>, w))"

definition ScreenStateCollection_DecideState :: "platform \<Rightarrow> string \<Rightarrow> ScreenState \<Rightarrow> bool \<times> ScreenState" where
  "ScreenStateCollection_DecideState P value s =
     (let s = (if scr_delayTime s = 0
               then s\<lparr>scr_state := (if IsScreenOn P then SCREEN_ON else SCREEN_OFF)\<rparr> else s)
      in ((value = ToString P SCREEN_ON \<and> scr_state s = SCREEN_ON) \<or>
          (value = ToString P SCREEN_OFF \<and> scr_state s = SCREEN_OFF), s))"

section \<open>StartupDelayStateCollection\<close>

abbreviation (input) NON_STARTUP_DELAY_STATE :: int where "NON_STARTUP_DELAY_STATE \<equiv> 0"
abbreviation (input) STARTUP_DELAY_STATE :: int where "STARTUP_DELAY_STATE \<equiv> 1"

definition StartupDelayStateCollection_new :: StartupDelayState where
  "StartupDelayStateCollection_new =
     \<lparr>su_state = NON_STARTUP_DELAY_STATE, su_params = [], su_delayTime = 0, su_delayTimerId = 0\<rparr>"

definition StartupDelayStateCollection_InitParam :: "string \<Rightarrow> StartupDelayState \<Rightarrow> StartupDelayState" where
  "StartupDelayStateCollection_InitParam params s =
     s\<lparr>su_params := params, su_delayTime := ucast (strtol_u32 params)\<rparr>"

definition StartupDelayStateCollection_GetState :: "platform \<Rightarrow> StartupDelayState \<Rightarrow> string" where
  "StartupDelayStateCollection_GetState P s = ToString P (su_state s)"

definition StartupDelayStateCollection_StartDelayTimer ::
    "platform \<Rightarrow> StartupDelayState \<times> 'a timer_world_scheme \<Rightarrow> StartupDelayState \<times> 'a timer_world_scheme" where
  "StartupDelayStateCollection_StartDelayTimer P = (\<lambda>(s, w).
     let (i, w) = start_delay_timer P (uint (su_delayTime s)) w in (s\<lparr>su_delayTimerId := i\<rparr>, w))"

definition StartupDelayStateCollection_StopDelayTimer ::
    "platform \<Rightarrow> StartupDelayState \<times> 'a timer_world_scheme \<Rightarrow> StartupDelayState \<times> 'a timer_world_scheme" where
  "StartupDelayStateCollection_StopDelayTimer P = (\<lambda>(s, w).
     let (i, w) = stop_delay_timer P (su_delayTimerId s) w in (s\<lparr>su_delayTimerId := i\<rparr>, w))"

definition StartupDelayStateCollection_Init ::
    "platform \<Rightarrow> StartupDelayState \<times> 'a timer_world_scheme \<Rightarrow> StartupDelayState \<times> 'a timer_world_scheme" where
  "StartupDelayStateCollection_Init P = (\<lambda>(s, w).
     let (s, w) = (if 0 < su_delayTimerId s then StartupDelayStateCollection_StopDelayTimer P (s, w) else (s, w))
     in StartupDelayStateCollection_StartDelayTimer P (s\<lparr>su_state := STARTUP_DELAY_STATE\<rparr>, w))"

definition StartupDelayStateCollection_ResetState ::
    "platform \<Rightarrow> StartupDelayState \<times> 'a timer_world_scheme \<Rightarrow> StartupDelayState \<times> 'a timer_world_scheme" where
  "StartupDelayStateCollection_ResetState P = (\<lambda>(s, w).
     StartupDelayStateCollection_StopDelayTimer P (s\<lparr>su_state := NON_STARTUP_DELAY_STATE\<rparr>, w))"

definition StartupDelayStateCollection_DecideState :: "platform \<Rightarrow> string \<Rightarrow> StartupDelayState \<Rightarrow> bool" where
  "StartupDelayStateCollection_DecideState P value s \<longleftrightarrow>
     (value = ToString P NON_STARTUP_DELAY_STATE \<and> su_state s = NON_STARTUP_DELAY_STATE) \<or>
     (value = ToString P STARTUP_DELAY_STATE \<and> su_state s = STARTUP_DELAY_STATE)"

section \<open>ChargerStateCollection\<close>

abbreviation (input) CHARGER_DISABLE :: int where "CHARGER_DISABLE \<equiv> 0"
abbreviation (input) CHARGER_ENABLE :: int where "CHARGER_ENABLE \<equiv> 1"
abbreviation (input) CHARGER_FULL :: int where "CHARGER_FULL \<equiv> 2"
abbreviation (input) CHARGER_NONE :: int where "CHARGER_NONE \<equiv> 3"
abbreviation (input) CHARGER_BUTT :: int where "CHARGER_BUTT \<equiv> 4"

abbreviation (input) CHARGER_ON :: string where "CHARGER_ON \<equiv> ''1''"
abbreviation (input) CHARGER_OFF :: string where "CHARGER_OFF \<equiv> ''0''"

definition upd_charger :: "(ChargerState \<Rightarrow> ChargerState) \<Rightarrow> 'a machine_world_scheme \<Rightarrow> 'a machine_world_scheme" where
  "upd_charger f w = w\<lparr>charger_instance := f (charger_instance w)\<rparr>"

definition ChargerStateCollection_GetCharge :: "'a machine_world_scheme \<Rightarrow> bool" where
  "ChargerStateCollection_GetCharge w = chg_isCharge (charger_instance w)"

definition ChargerStateCollection_SetCharge :: "bool \<Rightarrow> 'a machine_world_scheme \<Rightarrow> 'a machine_world_scheme" where
  "ChargerStateCollection_SetCharge charge = upd_charger (chg_isCharge_update (\<lambda>_. charge))"

definition ChargerStateCollection_InitChargeState :: "platform \<Rightarrow> 'a machine_world_scheme \<Rightarrow> 'a machine_world_scheme" where
  "ChargerStateCollection_InitChargeState P =
     upd_charger (chg_isCharge_update (\<lambda>_. GetChargingStatus P = CHARGE_STATE_ENABLE))"

definition ChargerStateCollection_RegisterEvent :: "'a machine_world_scheme \<Rightarrow> bool \<times> 'a machine_world_scheme" where
  "ChargerStateCollection_RegisterEvent w =
     register_events
       [(COMMON_EVENT_BATTERY_CHANGED, HandleChangerStatus),
        (COMMON_EVENT_BATTERY_CHANGED_INNER, HandleChangerInnerStatus),
        (COMMON_EVENT_THERMAL_LEVEL_CHANGED, HandleThermalLevel)] w"

definition ChargerStateCollection_Init :: "platform \<Rightarrow> 'a machine_world_scheme \<Rightarrow> bool \<times> 'a machine_world_scheme" where
  "ChargerStateCollection_Init P w =
     (let w = w\<lparr>g_idleStateConfig := idleStateConfig w\<rparr>;
          (ok, w) = ChargerStateCollection_RegisterEvent w
      in if \<not> ok then (False, w) else (True, ChargerStateCollection_InitChargeState P w))"

definition ChargerStateCollection_InitParam :: "string \<Rightarrow> 'a machine_world_scheme \<Rightarrow> 'a machine_world_scheme" where
  "ChargerStateCollection_InitParam params = upd_charger (chg_params_update (\<lambda>_. params))"

definition ChargerStateCollection_GetState :: "'a machine_world_scheme \<Rightarrow> string" where
  "ChargerStateCollection_GetState w =
     (if \<not> isSimulation w then chg_mockState (charger_instance w) else chg_state (charger_instance w))"

definition ChargerStateCollection_PublishIdleEvent :: "bool \<Rightarrow> 'a machine_world_scheme \<Rightarrow> 'a machine_world_scheme" where
  "ChargerStateCollection_PublishIdleEvent isIdle w = w\<lparr>publishedIdle := publishedIdle w @ [isIdle]\<rparr>"

text \<open>Whether the cached battery and thermal state meets the configured idle condition.\<close>

definition charge_idle :: "IdleState \<Rightarrow> IdleState \<Rightarrow> bool" where
  "charge_idle config cached \<longleftrightarrow>
     idle_soc config \<le> idle_soc cached \<and> idle_charging cached = idle_charging config \<and>
     idle_current config \<le> idle_current cached \<and> idle_level cached \<le> idle_level config"

definition ChargerStateCollection_HandleChargeIdleState :: "'a machine_world_scheme \<Rightarrow> 'a machine_world_scheme" where
  "ChargerStateCollection_HandleChargeIdleState w =
     (let isIdle = charge_idle (g_idleStateConfig w) (g_cachedIdleState w) in
      if isIdle \<noteq> g_isChargeIdle w
      then (ChargerStateCollection_PublishIdleEvent isIdle w)\<lparr>g_isChargeIdle := isIdle\<rparr>
      else w)"

definition upd_cached :: "(IdleState \<Rightarrow> IdleState) \<Rightarrow> 'a machine_world_scheme \<Rightarrow> 'a machine_world_scheme" where
  "upd_cached f w = w\<lparr>g_cachedIdleState := f (g_cachedIdleState w)\<rparr>"

text \<open>The \<open>switch\<close> on the charging state; other values leave \<open>state_\<close> as it was.\<close>

definition charger_state_of :: "platform \<Rightarrow> int \<Rightarrow> string \<Rightarrow> string" where
  "charger_state_of P charging old =
     (if charging = chargeStateCode P CHARGE_STATE_DISABLE then ToString P CHARGER_DISABLE
      else if charging = chargeStateCode P CHARGE_STATE_ENABLE then ToString P CHARGER_ENABLE
      else if charging = chargeStateCode P CHARGE_STATE_FULL then ToString P CHARGER_FULL
      else if charging = chargeStateCode P CHARGE_STATE_NONE then ToString P CHARGER_NONE
      else if charging = chargeStateCode P CHARGE_STATE_BUTT then ToString P CHARGER_BUTT
      else old)"

definition ChargerStateCollection_HandleChangerStatusCompleted ::
    "platform \<Rightarrow> CommonEventData \<Rightarrow> 'a machine_world_scheme \<Rightarrow> 'a machine_world_scheme" where
  "ChargerStateCollection_HandleChangerStatusCompleted P data w =
     (let w = upd_cached (idle_soc_update (\<lambda>_. GetIntParam ev_capacity data (-1))) w;
          chargeState = GetIntParam ev_chargeState data (-1);
          w = (if idle_charging (g_cachedIdleState w) \<noteq> chargeState
               then upd_cached (idle_charging_update (\<lambda>_. chargeState)) w else w);
          w = ChargerStateCollection_HandleChargeIdleState w
      in upd_charger (chg_state_update (charger_state_of P (idle_charging (g_cachedIdleState w)))) w)"

definition ChargerStateCollection_HandleChangerInnerStatusCompleted ::
    "CommonEventData \<Rightarrow> 'a machine_world_scheme \<Rightarrow> 'a machine_world_scheme" where
  "ChargerStateCollection_HandleChangerInnerStatusCompleted data w =
     ChargerStateCollection_HandleChargeIdleState
       (upd_cached (idle_current_update (\<lambda>_. GetIntParam ev_pluggedNowCurrent data (-1))) w)"

definition ChargerStateCollection_HandleThermalLevelCompleted ::
    "CommonEventData \<Rightarrow> 'a machine_world_scheme \<Rightarrow> 'a machine_world_scheme" where
  "ChargerStateCollection_HandleThermalLevelCompleted data w =
     ChargerStateCollection_HandleChargeIdleState
       (upd_cached (idle_level_update (\<lambda>_. GetIntParam ev_thermalLevel data (-1))) w)"

definition ChargerStateCollection_DecideState :: "string \<Rightarrow> 'a machine_world_scheme \<Rightarrow> bool" where
  "ChargerStateCollection_DecideState value w \<longleftrightarrow>
     (\<not> chg_isCharge (charger_instance w) \<and> value = CHARGER_OFF) \<or>
     (chg_isCharge (charger_instance w) \<and> value = CHARGER_ON)"

section \<open>ChargeDelayStateCollection\<close>

abbreviation (input) NON_CRITICAL_STATE :: int where "NON_CRITICAL_STATE \<equiv> 0"
abbreviation (input) CRITICAL_STATE :: int where "CRITICAL_STATE \<equiv> 1"

definition ChargeDelayStateCollection_new :: ChargeDelayState where
  "ChargeDelayStateCollection_new =
     \<lparr>cd_criticalState = NON_CRITICAL_STATE, cd_params = [], cd_delayTime = 0, cd_delayTimerId = 0\<rparr>"

definition ChargeDelayStateCollection_RegisterEvent :: "'a machine_world_scheme \<Rightarrow> bool \<times> 'a machine_world_scheme" where
  "ChargeDelayStateCollection_RegisterEvent w =
     register_events
       [(COMMON_EVENT_POWER_CONNECTED, HandlePowerConnected),
        (COMMON_EVENT_POWER_DISCONNECTED, HandlePowerDisconnected)] w"

definition ChargeDelayStateCollection_Init :: "'a machine_world_scheme \<Rightarrow> bool \<times> 'a machine_world_scheme" where
  "ChargeDelayStateCollection_Init w = ChargeDelayStateCollection_RegisterEvent w"

definition ChargeDelayStateCollection_InitParam :: "string \<Rightarrow> ChargeDelayState \<Rightarrow> ChargeDelayState" where
  "ChargeDelayStateCollection_InitParam params s =
     s\<lparr>cd_params := params, cd_delayTime := ucast (strtol_u32 params)\<rparr>"

definition ChargeDelayStateCollection_GetState :: "platform \<Rightarrow> ChargeDelayState \<Rightarrow> string" where
  "ChargeDelayStateCollection_GetState P s = ToString P (cd_criticalState s)"

definition ChargeDelayStateCollection_StartDelayTimer ::
    "platform \<Rightarrow> ChargeDelayState \<times> 'a timer_world_scheme \<Rightarrow> ChargeDelayState \<times> 'a timer_world_scheme" where
  "ChargeDelayStateCollection_StartDelayTimer P = (\<lambda>(s, w).
     let (i, w) = start_delay_timer P (uint (cd_delayTime s)) w in (s\<lparr>cd_delayTimerId := i\<rparr>, w))"

definition ChargeDelayStateCollection_StopDelayTimer ::
    "platform \<Rightarrow> ChargeDelayState \<times> 'a timer_world_scheme \<Rightarrow> ChargeDelayState \<times> 'a timer_world_scheme" where
  "ChargeDelayStateCollection_StopDelayTimer P = (\<lambda>(s, w).
     let (i, w) = stop_delay_timer P (cd_delayTimerId s) w in (s\<lparr>cd_delayTimerId := i\<rparr>, w))"

definition ChargeDelayStateCollection_HandlerPowerDisconnected ::
    "platform \<Rightarrow> ChargeDelayState \<times> 'a machine_world_scheme \<Rightarrow> ChargeDelayState \<times> 'a machine_world_scheme" where
  "ChargeDelayStateCollection_HandlerPowerDisconnected P = (\<lambda>(s, w).
     if \<not> ChargerStateCollection_GetCharge w then (s, w)
     else ChargeDelayStateCollection_StartDelayTimer P
            (ChargeDelayStateCollection_StopDelayTimer P
              (s\<lparr>cd_criticalState := CRITICAL_STATE\<rparr>, ChargerStateCollection_SetCharge False w)))"

definition ChargeDelayStateCollection_HandlerPowerConnected ::
    "platform \<Rightarrow> ChargeDelayState \<times> 'a machine_world_scheme \<Rightarrow> ChargeDelayState \<times> 'a machine_world_scheme" where
  "ChargeDelayStateCollection_HandlerPowerConnected P = (\<lambda>(s, w).
     if ChargerStateCollection_GetCharge w then (s, w)
     else let (s, w) = (if 0 < cd_delayTimerId s then ChargeDelayStateCollection_StopDelayTimer P (s, w) else (s, w))
          in (s\<lparr>cd_criticalState := NON_CRITICAL_STATE\<rparr>, ChargerStateCollection_SetCharge True w))"

text \<open>Unlike the other two delayed states, this one forgets its timer without destroying it.\<close>

definition ChargeDelayStateCollection_ResetState :: "ChargeDelayState \<Rightarrow> ChargeDelayState" where
  "ChargeDelayStateCollection_ResetState s = s\<lparr>cd_criticalState := NON_CRITICAL_STATE, cd_delayTimerId := 0\<rparr>"

definition ChargeDelayStateCollection_DecideState :: "platform \<Rightarrow> string \<Rightarrow> ChargeDelayState \<Rightarrow> bool" where
  "ChargeDelayStateCollection_DecideState P value s \<longleftrightarrow>
     (value = ToString P NON_CRITICAL_STATE \<and> cd_criticalState s = NON_CRITICAL_STATE) \<or>
     (value = ToString P CRITICAL_STATE \<and> cd_criticalState s = CRITICAL_STATE)"

section \<open>SceneStateCollection, CustStateCollection, ExtendStateCollection\<close>

definition SceneStateCollection_DecideState :: "string \<Rightarrow> 'a machine_world_scheme \<Rightarrow> bool" where
  "SceneStateCollection_DecideState value w \<longleftrightarrow> scene w \<noteq> [] \<and> scene w = value"

definition CustStateCollection_GetState :: "platform \<Rightarrow> u64 \<Rightarrow> string" where
  "CustStateCollection_GetState P state = ToString P (uint state)"

definition CustStateCollection_SetState :: "string \<Rightarrow> u64 \<Rightarrow> u64" where
  "CustStateCollection_SetState stateValue state =
     (case ParseStrtoulResult stateValue of None \<Rightarrow> state | Some result \<Rightarrow> result)"

definition CustStateCollection_DecideState :: "string \<Rightarrow> u64 \<Rightarrow> bool" where
  "CustStateCollection_DecideState value state =
     (case ParseStrtoulResult value of None \<Rightarrow> False | Some result \<Rightarrow> and state result \<noteq> 0)"

abbreviation (input) EXTEND_DEFAULT :: string where "EXTEND_DEFAULT \<equiv> ''-1''"

definition ExtendStateCollection_DecideState :: "string \<Rightarrow> string \<Rightarrow> bool result" where
  "ExtendStateCollection_DecideState value stateValue =
     bindr (SplitString value [] '','') (\<lambda>valList. Inr (list_ex (\<lambda>val. stateValue = val) valList))"

section \<open>The interface IStateCollection and the factory\<close>

definition StateCollectionFactory_Create :: "string \<Rightarrow> state_collection" where
  "StateCollectionFactory_Create stateName =
     (if stateName = ''charge'' then ChargerColl
      else if stateName = ''screen'' then ScreenColl ScreenStateCollection_new
      else if stateName = ''scene'' then SceneColl
      else if stateName = ''charge_delay'' then ChargeDelayColl ChargeDelayStateCollection_new
      else if stateName = ''startup_delay'' then StartupDelayColl StartupDelayStateCollection_new
      else if stateName = ''cust'' then CustColl 0
      else ExtendColl stateName EXTEND_DEFAULT)"

fun IStateCollection_InitParam ::
    "string \<Rightarrow> state_collection \<Rightarrow> 'a machine_world_scheme \<Rightarrow> state_collection \<times> 'a machine_world_scheme" where
  "IStateCollection_InitParam params ChargerColl w = (ChargerColl, ChargerStateCollection_InitParam params w)"
| "IStateCollection_InitParam params (ScreenColl s) w = (ScreenColl (ScreenStateCollection_InitParam params s), w)"
| "IStateCollection_InitParam params SceneColl w = (SceneColl, w)"
| "IStateCollection_InitParam params (ChargeDelayColl s) w =
     (ChargeDelayColl (ChargeDelayStateCollection_InitParam params s), w)"
| "IStateCollection_InitParam params (StartupDelayColl s) w =
     (StartupDelayColl (StartupDelayStateCollection_InitParam params s), w)"
| "IStateCollection_InitParam params (CustColl c) w = (CustColl c, w)"
| "IStateCollection_InitParam params (ExtendColl n v) w = (ExtendColl n v, w)"

fun IStateCollection_Init ::
    "platform \<Rightarrow> state_collection \<Rightarrow> 'a machine_world_scheme \<Rightarrow> state_collection \<times> 'a machine_world_scheme" where
  "IStateCollection_Init P ChargerColl w = (ChargerColl, snd (ChargerStateCollection_Init P w))"
| "IStateCollection_Init P (ScreenColl s) w = (ScreenColl s, snd (ScreenStateCollection_Init w))"
| "IStateCollection_Init P SceneColl w = (SceneColl, w)"
| "IStateCollection_Init P (ChargeDelayColl s) w = (ChargeDelayColl s, snd (ChargeDelayStateCollection_Init w))"
| "IStateCollection_Init P (StartupDelayColl s) w =
     (let (s, w) = StartupDelayStateCollection_Init P (s, w) in (StartupDelayColl s, w))"
| "IStateCollection_Init P (CustColl c) w = (CustColl c, w)"
| "IStateCollection_Init P (ExtendColl n v) w = (ExtendColl n v, w)"

text \<open>\<open>SetState\<close> does nothing but for the customer and the extended states.\<close>

fun IStateCollection_SetState :: "string \<Rightarrow> state_collection \<Rightarrow> state_collection" where
  "IStateCollection_SetState stateValue (CustColl c) = CustColl (CustStateCollection_SetState stateValue c)"
| "IStateCollection_SetState stateValue (ExtendColl n v) = ExtendColl n stateValue"
| "IStateCollection_SetState stateValue c = c"

fun IStateCollection_GetState :: "platform \<Rightarrow> 'a machine_world_scheme \<Rightarrow> state_collection \<Rightarrow> string" where
  "IStateCollection_GetState P w ChargerColl = ChargerStateCollection_GetState w"
| "IStateCollection_GetState P w (ScreenColl s) = ScreenStateCollection_GetState P w s"
| "IStateCollection_GetState P w SceneColl = []"
| "IStateCollection_GetState P w (ChargeDelayColl s) = ChargeDelayStateCollection_GetState P s"
| "IStateCollection_GetState P w (StartupDelayColl s) = StartupDelayStateCollection_GetState P s"
| "IStateCollection_GetState P w (CustColl c) = CustStateCollection_GetState P c"
| "IStateCollection_GetState P w (ExtendColl n v) = v"

text \<open>\<open>DecideState\<close>; the screen state may refresh itself while it decides.\<close>

fun IStateCollection_DecideState ::
    "platform \<Rightarrow> 'a machine_world_scheme \<Rightarrow> string \<Rightarrow> state_collection \<Rightarrow> (bool \<times> state_collection) result" where
  "IStateCollection_DecideState P w value ChargerColl = Inr (ChargerStateCollection_DecideState value w, ChargerColl)"
| "IStateCollection_DecideState P w value (ScreenColl s) =
     (let (b, s) = ScreenStateCollection_DecideState P value s in Inr (b, ScreenColl s))"
| "IStateCollection_DecideState P w value SceneColl = Inr (SceneStateCollection_DecideState value w, SceneColl)"
| "IStateCollection_DecideState P w value (ChargeDelayColl s) =
     Inr (ChargeDelayStateCollection_DecideState P value s, ChargeDelayColl s)"
| "IStateCollection_DecideState P w value (StartupDelayColl s) =
     Inr (StartupDelayStateCollection_DecideState P value s, StartupDelayColl s)"
| "IStateCollection_DecideState P w value (CustColl c) = Inr (CustStateCollection_DecideState value c, CustColl c)"
| "IStateCollection_DecideState P w value (ExtendColl n v) =
     bindr (ExtendStateCollection_DecideState value v) (\<lambda>b. Inr (b, ExtendColl n v))"

section \<open>StateMachine\<close>

text \<open>One pass of the loop of \<open>Init\<close>; \<open>emplace\<close> keeps the first collection of a name.\<close>

definition StateMachine_create :: "platform \<Rightarrow> StateItem \<Rightarrow> 'a machine_world_scheme \<Rightarrow> 'a machine_world_scheme" where
  "StateMachine_create P state w =
     (let c = StateCollectionFactory_Create (si_name state);
          (c, w) = (if si_isExistParam state then IStateCollection_InitParam (si_params state) c w else (c, w));
          (c, w) = IStateCollection_Init P c w
      in w\<lparr>stateCollectionMap := sm_insert (si_name state) c (stateCollectionMap w)\<rparr>)"

definition StateMachine_Init :: "platform \<Rightarrow> 'a machine_world_scheme \<Rightarrow> bool \<times> 'a machine_world_scheme" where
  "StateMachine_Init P w =
     (if initFlag w then (True, w)
      else let w = w\<lparr>initFlag := True\<rparr>;
               w = (case receiver w of
                      None \<Rightarrow> w\<lparr>receiver := Some \<lparr>eventHandles = [], subscriber = None\<rparr>\<rparr> | Some r \<Rightarrow> w);
               w = fold (StateMachine_create P) (vState w) w
           in (True, w\<lparr>receiver := map_option (\<lambda>r. snd (Receiver_Register P r)) (receiver w)\<rparr>))"

definition StateMachine_UpdateState :: "string \<Rightarrow> string \<Rightarrow> 'a machine_world_scheme \<Rightarrow> 'a machine_world_scheme" where
  "StateMachine_UpdateState stateName stateValue w =
     (case sm_find (stateCollectionMap w) stateName of
        Some c \<Rightarrow>
          w\<lparr>stateCollectionMap := sm_assign stateName (IStateCollection_SetState stateValue c) (stateCollectionMap w)\<rparr>
      | None \<Rightarrow>
          w\<lparr>vState := vState w @ [\<lparr>si_name = stateName, si_params = [], si_isExistParam = False\<rparr>],
            stateCollectionMap := sm_insert stateName
              (IStateCollection_SetState stateValue (StateCollectionFactory_Create stateName)) (stateCollectionMap w)\<rparr>)"

abbreviation (input) NEWLINE :: string where "NEWLINE \<equiv> [CHR 0x0A]"
abbreviation (input) TAB :: string where "TAB \<equiv> [CHR 0x09]"

definition StateMachine_DumpState :: "string \<Rightarrow> 'a machine_world_scheme \<Rightarrow> string" where
  "StateMachine_DumpState result w =
     fold (\<lambda>item result.
        result @ ''name: '' @ si_name item @
        (if si_params item \<noteq> [] then TAB @ ''params: '' @ si_params item else []) @ NEWLINE)
       (vState w) result"

definition StateMachine_DumpIdle :: "string \<Rightarrow> 'a machine_world_scheme \<Rightarrow> string" where
  "StateMachine_DumpIdle result w =
     result @ ''thermallevel: '' @ to_string_int (idle_level (idleStateConfig w)) @ NEWLINE @
       ''soc: '' @ to_string_int (idle_soc (idleStateConfig w)) @ NEWLINE @
       ''charging: '' @ to_string_int (idle_charging (idleStateConfig w)) @ NEWLINE @
       ''current: '' @ to_string_int (idle_current (idleStateConfig w)) @ NEWLINE"

section \<open>Events\<close>

text \<open>
  A handler runs on the collection that registered it, the one the map holds under the name
  the factory knows it by. \<open>EventSubscriber_HandleEvent\<close> looks the handler up.
\<close>

definition with_screen ::
    "(ScreenState \<times> 'a machine_world_scheme \<Rightarrow> ScreenState \<times> 'a machine_world_scheme) \<Rightarrow>
     'a machine_world_scheme \<Rightarrow> 'a machine_world_scheme" where
  "with_screen f w =
     (case sm_find (stateCollectionMap w) ''screen'' of
        Some (ScreenColl s) \<Rightarrow>
          (let (s', w') = f (s, w)
           in w'\<lparr>stateCollectionMap := sm_assign ''screen'' (ScreenColl s') (stateCollectionMap w')\<rparr>)
      | _ \<Rightarrow> w)"

definition with_charge_delay ::
    "(ChargeDelayState \<times> 'a machine_world_scheme \<Rightarrow> ChargeDelayState \<times> 'a machine_world_scheme) \<Rightarrow>
     'a machine_world_scheme \<Rightarrow> 'a machine_world_scheme" where
  "with_charge_delay f w =
     (case sm_find (stateCollectionMap w) ''charge_delay'' of
        Some (ChargeDelayColl s) \<Rightarrow>
          (let (s', w') = f (s, w)
           in w'\<lparr>stateCollectionMap := sm_assign ''charge_delay'' (ChargeDelayColl s') (stateCollectionMap w')\<rparr>)
      | _ \<Rightarrow> w)"

fun run_handler ::
    "platform \<Rightarrow> event_handler \<Rightarrow> CommonEventData \<Rightarrow> 'a machine_world_scheme \<Rightarrow> 'a machine_world_scheme" where
  "run_handler P HandleScreenOn data w = with_screen (ScreenStateCollection_HandleScreenOnCompleted P) w"
| "run_handler P HandleScreenOff data w = with_screen (ScreenStateCollection_HandleScreenOffCompleted P) w"
| "run_handler P HandlePowerConnected data w =
     with_charge_delay (ChargeDelayStateCollection_HandlerPowerConnected P) w"
| "run_handler P HandlePowerDisconnected data w =
     with_charge_delay (ChargeDelayStateCollection_HandlerPowerDisconnected P) w"
| "run_handler P HandleChangerStatus data w = ChargerStateCollection_HandleChangerStatusCompleted P data w"
| "run_handler P HandleChangerInnerStatus data w = ChargerStateCollection_HandleChangerInnerStatusCompleted data w"
| "run_handler P HandleThermalLevel data w = ChargerStateCollection_HandleThermalLevelCompleted data w"

definition EventSubscriber_HandleEvent ::
    "platform \<Rightarrow> CommonEventData \<Rightarrow> 'a machine_world_scheme \<Rightarrow> 'a machine_world_scheme" where
  "EventSubscriber_HandleEvent P data w =
     (case receiver w of
        None \<Rightarrow> w
      | Some r \<Rightarrow>
          (case sm_find (eventHandles r) (ev_action data) of
             None \<Rightarrow> w
           | Some func \<Rightarrow> run_handler P func data w))"

text \<open>The callback of a delay timer is its collection's \<open>ResetState\<close>.\<close>

definition with_startup_delay ::
    "(StartupDelayState \<times> 'a machine_world_scheme \<Rightarrow> StartupDelayState \<times> 'a machine_world_scheme) \<Rightarrow>
     'a machine_world_scheme \<Rightarrow> 'a machine_world_scheme" where
  "with_startup_delay f w =
     (case sm_find (stateCollectionMap w) ''startup_delay'' of
        Some (StartupDelayColl s) \<Rightarrow>
          (let (s', w') = f (s, w)
           in w'\<lparr>stateCollectionMap := sm_assign ''startup_delay'' (StartupDelayColl s') (stateCollectionMap w')\<rparr>)
      | _ \<Rightarrow> w)"

definition ThermalTimerInfo_OnTrigger :: "platform \<Rightarrow> string \<Rightarrow> 'a machine_world_scheme \<Rightarrow> 'a machine_world_scheme" where
  "ThermalTimerInfo_OnTrigger P owner w =
     (if owner = ''screen'' then with_screen (ScreenStateCollection_ResetState P) w
      else if owner = ''startup_delay'' then with_startup_delay (StartupDelayStateCollection_ResetState P) w
      else if owner = ''charge_delay''
      then with_charge_delay (\<lambda>(s, w). (ChargeDelayStateCollection_ResetState s, w)) w
      else w)"

end
