(* ===== verification/Sensor_Cluster.thy ===== *)
theory Sensor_Cluster
  imports State_Machine
begin

text \<open>
  \<open>services/native/src/thermal_policy/thermal_config_sensor_cluster.cpp\<close>: the level of a
  cluster of sensors, from their temperatures, the rates at which these rise, auxiliary
  sensors and differences between sensors, with hysteresis.

  Levels and list sizes are \<open>nat\<close> (the lists are shorter than \<open>2 ^ 32\<close>), temperatures are
  \<open>int\<close> with the one subtraction checked for overflow, and rates of rise, which the code
  only compares, are \<open>rat\<close>: the value of a finite \<open>double\<close>. \<open>IsTempDiffTrigger\<close> sorts a
  member of the cluster in place, so every check returns the cluster it leaves behind;
  \<open>std::sort\<close> is taken to be stable on equal levels, whose order it leaves open.
\<close>

section \<open>State\<close>

datatype ThermalStatus = STATUS_IDEAL | STATUS_STABLE | STATUS_CRITICAL

record LevelItem =
  threshold :: int
  thresholdClr :: int
  tempRiseRate :: rat
  level :: nat

record AuxLevelItem =
  lowerTemp :: int
  upperTemp :: int
  aux_level :: int

record TempDiffItem =
  sensor1 :: string
  sensor2 :: string
  tempDiff :: int
  diff_level :: int

type_synonym TypeTempMap = "(string, int) smap"

record SensorCluster =
  descFlag :: bool
  auxFlag :: bool
  rateFlag :: bool
  tempDiffFlag :: bool
  latestLevel :: nat
  sensorInfolist :: "(string, LevelItem list) smap"
  auxSensorInfolist :: "(string, AuxLevelItem list) smap"
  tempDiffInfoList :: "TempDiffItem list"
  stateMap :: "(string, string) smap"

text \<open>What \<open>ThermalServiceSubscriber\<close> knows of the rates of rise.\<close>

record sensor_rates =
  sensorsRateMap :: "(string, rat list) smap"
  rateCount :: nat

type_synonym 'a cluster_result = "('a \<times> SensorCluster) result"

section \<open>CheckStandard\<close>

text \<open>Each sensor lists the levels 1, 2, ... in order, as many as the first one.\<close>

definition levels_in_order :: "LevelItem list \<Rightarrow> bool" where
  "levels_in_order items \<longleftrightarrow> map level items = [1 ..< Suc (length items)]"

definition CheckStandard :: "SensorCluster \<Rightarrow> bool" where
  "CheckStandard c =
     (case sensorInfolist c of
        [] \<Rightarrow> False
      | (_, first) # _ \<Rightarrow>
          let expectedLevSize = length first in
          list_all (\<lambda>(_, items). length items = expectedLevSize \<and> levels_in_order items) (sensorInfolist c) \<and>
          list_all (\<lambda>(_, items). length items = 0 \<or> length items = expectedLevSize) (auxSensorInfolist c) \<and>
          \<not> (tempDiffFlag c \<and> length (tempDiffInfoList c) \<noteq> expectedLevSize))"

section \<open>The extra conditions\<close>

definition GetRateTrend :: "rat \<Rightarrow> rat list \<Rightarrow> nat \<Rightarrow> ThermalStatus" where
  "GetRateTrend targetRate rateList maxRateCount =
     (if length rateList < maxRateCount then STATUS_STABLE
      else
        let (r1, r2) = (if 0 \<le> targetRate then (targetRate, 0) else (0, targetRate));
            isIdeal = list_all (\<lambda>rate. \<not> r2 \<le> rate) rateList;
            isCritical = list_all (\<lambda>rate. \<not> rate < r1) rateList
        in if isCritical then STATUS_CRITICAL else if isIdeal then STATUS_IDEAL else STATUS_STABLE)"

definition IsTempRateTrigger :: "sensor_rates \<Rightarrow> nat \<Rightarrow> string \<Rightarrow> LevelItem list \<Rightarrow> bool \<Rightarrow> bool result" where
  "IsTempRateTrigger rates lev type levItems isCritical =
     (if lev = 0 then Inr True
      else case sm_find (sensorsRateMap rates) type of
             None \<Rightarrow> Inr False
           | Some rateList \<Rightarrow>
               bindr (vec_at levItems (lev - 1)) (\<lambda>item.
                 let trend = GetRateTrend (tempRiseRate item) rateList (rateCount rates)
                 in Inr (if isCritical then trend = STATUS_CRITICAL else trend \<noteq> STATUS_IDEAL)))"

fun aux_loop :: "TypeTempMap \<Rightarrow> nat \<Rightarrow> (string \<times> AuxLevelItem list) list \<Rightarrow> bool result" where
  "aux_loop typeTempInfo lev [] = Inr True"
| "aux_loop typeTempInfo lev ((sensor, items) # rest) =
     (case sm_find typeTempInfo sensor of
        None \<Rightarrow> Inr False
      | Some temp \<Rightarrow>
          bindr (vec_at items (lev - 1)) (\<lambda>item.
            if lowerTemp item \<le> temp \<and> temp \<le> upperTemp item
            then aux_loop typeTempInfo lev rest else Inr False))"

definition IsAuxSensorTrigger :: "TypeTempMap \<Rightarrow> nat \<Rightarrow> SensorCluster \<Rightarrow> bool result" where
  "IsAuxSensorTrigger typeTempInfo lev c =
     (if lev = 0 then Inr True else aux_loop typeTempInfo lev (auxSensorInfolist c))"

definition IsTempDiffTrigger :: "TypeTempMap \<Rightarrow> nat \<Rightarrow> SensorCluster \<Rightarrow> bool cluster_result" where
  "IsTempDiffTrigger typeTempInfo lev c =
     (if lev = 0 then Inr (True, c)
      else if length (tempDiffInfoList c) < lev then Inr (False, c)
      else
        let c = c\<lparr>tempDiffInfoList := sort_key diff_level (tempDiffInfoList c)\<rparr> in
        bindr (vec_at (tempDiffInfoList c) (lev - 1)) (\<lambda>info.
          case (sm_find typeTempInfo (sensor1 info), sm_find typeTempInfo (sensor2 info)) of
            (Some t1, Some t2) \<Rightarrow> bindr (check32 (t1 - t2)) (\<lambda>d. Inr (\<not> tempDiff info < d, c))
          | _ \<Rightarrow> Inr (False, c)))"

definition CheckExtraCondition ::
    "sensor_rates \<Rightarrow> TypeTempMap \<Rightarrow> nat \<Rightarrow> string \<Rightarrow> LevelItem list \<Rightarrow> bool \<Rightarrow> SensorCluster \<Rightarrow> bool cluster_result" where
  "CheckExtraCondition rates typeTempInfo lev type levItems isCritical c =
     bindr (if auxFlag c then IsAuxSensorTrigger typeTempInfo lev c else Inr True) (\<lambda>aux.
       if \<not> aux then Inr (False, c)
       else bindr (if rateFlag c then IsTempRateTrigger rates lev type levItems isCritical else Inr True) (\<lambda>rate.
         if \<not> rate then Inr (False, c)
         else if tempDiffFlag c then IsTempDiffTrigger typeTempInfo lev c
         else Inr (True, c)))"

section \<open>The searches\<close>

text \<open>
  The eight loops run an index \<open>i\<close> up from \<open>level\<close> to the end, or down to 1, and stop at the
  first level that is not passed. \<open>up_loop\<close> and \<open>down_loop\<close> are their common shape; what
  differs is the test, which the code evaluates with short circuits.
\<close>

fun up_loop :: "(LevelItem \<Rightarrow> SensorCluster \<Rightarrow> bool cluster_result) \<Rightarrow> LevelItem list \<Rightarrow> nat \<Rightarrow> SensorCluster \<Rightarrow>
    nat cluster_result" where
  "up_loop pass [] lev c = Inr (lev, c)"
| "up_loop pass (item # items) lev c =
     bindr (pass item c) (\<lambda>(go, c). if go then up_loop pass items (level item) c else Inr (lev, c))"

fun down_loop :: "(LevelItem \<Rightarrow> SensorCluster \<Rightarrow> bool cluster_result) \<Rightarrow> LevelItem list \<Rightarrow> nat \<Rightarrow> nat \<Rightarrow>
    SensorCluster \<Rightarrow> nat cluster_result" where
  "down_loop pass levItems 0 lev c = Inr (lev, c)"
| "down_loop pass levItems (Suc i) lev c =
     bindr (vec_at levItems i) (\<lambda>item.
       bindr (pass item c) (\<lambda>(go, c). if go then down_loop pass levItems i (level item - 1) c else Inr (lev, c)))"

text \<open>The arguments every search hands to the extra conditions.\<close>

record search_args =
  sa_rates :: sensor_rates
  sa_typeTempInfo :: TypeTempMap
  sa_type :: string
  sa_levItems :: "LevelItem list"
  sa_curTemp :: int

definition extra :: "search_args \<Rightarrow> nat \<Rightarrow> bool \<Rightarrow> SensorCluster \<Rightarrow> bool cluster_result" where
  "extra a lev isCritical c =
     CheckExtraCondition (sa_rates a) (sa_typeTempInfo a) lev (sa_type a) (sa_levItems a) isCritical c"

text \<open>\<open>p && q\<close> and \<open>!p\<close> on tests that may fail.\<close>

definition and_then :: "bool \<Rightarrow> (SensorCluster \<Rightarrow> bool cluster_result) \<Rightarrow> SensorCluster \<Rightarrow> bool cluster_result" where
  "and_then p q c = (if p then q c else Inr (False, c))"

definition negate :: "bool cluster_result \<Rightarrow> bool cluster_result" where
  "negate r = bindr r (\<lambda>(b, c). Inr (\<not> b, c))"

definition or_else :: "bool \<Rightarrow> (SensorCluster \<Rightarrow> bool cluster_result) \<Rightarrow> SensorCluster \<Rightarrow> bool cluster_result" where
  "or_else p q c = (if p then Inr (True, c) else q c)"

definition AscendLevelToThreshold :: "search_args \<Rightarrow> nat \<Rightarrow> SensorCluster \<Rightarrow> nat cluster_result" where
  "AscendLevelToThreshold a lev c =
     up_loop (\<lambda>item c. negate (or_else (sa_curTemp a < threshold item)
                (\<lambda>c. negate (extra a (level item) True c)) c)) (drop lev (sa_levItems a)) lev c"

definition DescendLevelToThresholdClr :: "search_args \<Rightarrow> nat \<Rightarrow> SensorCluster \<Rightarrow> nat cluster_result" where
  "DescendLevelToThresholdClr a lev c =
     down_loop (\<lambda>item c. negate (and_then (thresholdClr item \<le> sa_curTemp a)
                  (extra a (level item) False) c)) (sa_levItems a) lev lev c"

definition DescendLevelToThreshold :: "search_args \<Rightarrow> nat \<Rightarrow> SensorCluster \<Rightarrow> nat cluster_result" where
  "DescendLevelToThreshold a lev c =
     down_loop (\<lambda>item. or_else (sa_curTemp a < thresholdClr item)
                  (\<lambda>c. negate (extra a (level item) False c))) (sa_levItems a) lev lev c"

definition AscendLevelToThresholdClr :: "search_args \<Rightarrow> nat \<Rightarrow> SensorCluster \<Rightarrow> nat cluster_result" where
  "AscendLevelToThresholdClr a lev c =
     up_loop (\<lambda>item. and_then (threshold item \<le> sa_curTemp a) (extra a (level item) True))
       (drop lev (sa_levItems a)) lev c"

definition LevelUpwardsSearch :: "search_args \<Rightarrow> nat \<Rightarrow> SensorCluster \<Rightarrow> nat cluster_result" where
  "LevelUpwardsSearch a lev c =
     up_loop (\<lambda>item c. negate (or_else (threshold item < sa_curTemp a)
                (\<lambda>c. negate (extra a (level item) True c)) c)) (drop lev (sa_levItems a)) lev c"

definition LevelDownwardsSearch :: "search_args \<Rightarrow> nat \<Rightarrow> SensorCluster \<Rightarrow> nat cluster_result" where
  "LevelDownwardsSearch a lev c =
     down_loop (\<lambda>item c. negate (and_then (sa_curTemp a \<le> thresholdClr item)
                  (extra a (level item) False) c)) (sa_levItems a) lev lev c"

definition LevelDownwardsSearchWithThreshold :: "search_args \<Rightarrow> nat \<Rightarrow> SensorCluster \<Rightarrow> nat cluster_result" where
  "LevelDownwardsSearchWithThreshold a lev c =
     down_loop (\<lambda>item. or_else (thresholdClr item < sa_curTemp a)
                  (\<lambda>c. negate (extra a (level item) False c))) (sa_levItems a) lev lev c"

definition LevelUpwardsSearchWithThreshold :: "search_args \<Rightarrow> nat \<Rightarrow> SensorCluster \<Rightarrow> nat cluster_result" where
  "LevelUpwardsSearchWithThreshold a lev c =
     up_loop (\<lambda>item. and_then (sa_curTemp a \<le> threshold item) (extra a (level item) True))
       (drop lev (sa_levItems a)) lev c"

section \<open>The judgments\<close>

text \<open>\<open>cond_then\<close> is \<open>if (test) level = search\<close>.\<close>

definition cond_then :: "bool cluster_result \<Rightarrow> (SensorCluster \<Rightarrow> nat cluster_result) \<Rightarrow> nat \<Rightarrow> nat cluster_result" where
  "cond_then test search lev = bindr test (\<lambda>(b, c). if b then search c else Inr (lev, c))"

definition AscJudgment :: "search_args \<Rightarrow> nat \<Rightarrow> SensorCluster \<Rightarrow> nat cluster_result" where
  "AscJudgment a lev c =
     (if 0 < lev \<and> lev < length (sa_levItems a)
      then bindr (vec_at (sa_levItems a) (lev - 1)) (\<lambda>down.
             bindr (vec_at (sa_levItems a) lev) (\<lambda>next.
               if threshold next \<le> sa_curTemp a then AscendLevelToThreshold a lev c
               else cond_then (or_else (sa_curTemp a < thresholdClr down) (\<lambda>c. negate (extra a lev False c)) c)
                      (DescendLevelToThresholdClr a lev) lev))
      else if lev = length (sa_levItems a)
      then bindr (vec_at (sa_levItems a) (pred_u32 lev)) (\<lambda>down.
             cond_then (or_else (sa_curTemp a < thresholdClr down) (\<lambda>c. negate (extra a lev False c)) c)
               (DescendLevelToThreshold a lev) lev)
      else bindr (vec_at (sa_levItems a) lev) (\<lambda>next.
             if threshold next \<le> sa_curTemp a then AscendLevelToThresholdClr a lev c else Inr (lev, c)))"

definition DescJudgment :: "search_args \<Rightarrow> nat \<Rightarrow> SensorCluster \<Rightarrow> nat cluster_result" where
  "DescJudgment a lev c =
     (if lev \<noteq> 0 \<and> lev < length (sa_levItems a)
      then bindr (vec_at (sa_levItems a) (lev - 1)) (\<lambda>down.
             bindr (vec_at (sa_levItems a) lev) (\<lambda>next.
               if sa_curTemp a \<le> threshold next then LevelUpwardsSearch a lev c
               else cond_then (or_else (thresholdClr down < sa_curTemp a) (\<lambda>c. negate (extra a lev False c)) c)
                      (LevelDownwardsSearch a lev) lev))
      else if lev = length (sa_levItems a)
      then bindr (vec_at (sa_levItems a) (pred_u32 lev)) (\<lambda>down.
             cond_then (or_else (thresholdClr down < sa_curTemp a) (\<lambda>c. negate (extra a lev False c)) c)
               (LevelDownwardsSearchWithThreshold a lev) lev)
      else bindr (vec_at (sa_levItems a) lev) (\<lambda>next.
             if sa_curTemp a \<le> threshold next then LevelUpwardsSearchWithThreshold a lev c else Inr (lev, c)))"

section \<open>The cluster\<close>

fun sensor_loop :: "sensor_rates \<Rightarrow> TypeTempMap \<Rightarrow> (string \<times> LevelItem list) list \<Rightarrow> nat list \<Rightarrow> SensorCluster \<Rightarrow>
    nat list cluster_result" where
  "sensor_loop rates typeTempInfo [] levelList c = Inr (levelList, c)"
| "sensor_loop rates typeTempInfo ((sensor, levItems) # rest) levelList c =
     (case sm_find typeTempInfo sensor of
        None \<Rightarrow> sensor_loop rates typeTempInfo rest levelList c
      | Some curTemp \<Rightarrow>
          let a = \<lparr>sa_rates = rates, sa_typeTempInfo = typeTempInfo, sa_type = sensor, sa_levItems = levItems,
                   sa_curTemp = curTemp\<rparr>
          in bindr (if descFlag c then DescJudgment a (latestLevel c) c else AscJudgment a (latestLevel c) c)
               (\<lambda>(lev, c). sensor_loop rates typeTempInfo rest (levelList @ [lev]) c))"

definition CalculateSensorLevel :: "sensor_rates \<Rightarrow> TypeTempMap \<Rightarrow> nat list \<Rightarrow> SensorCluster \<Rightarrow> nat list cluster_result" where
  "CalculateSensorLevel rates typeTempInfo levelList c =
     sensor_loop rates typeTempInfo (sensorInfolist c) levelList c"

text \<open>Deciding a state can refresh the collection in the state machine's map.\<close>

fun check_state_loop :: "platform \<Rightarrow> (string \<times> string) list \<Rightarrow> 'a machine_world_scheme \<Rightarrow>
    (bool \<times> 'a machine_world_scheme) result" where
  "check_state_loop P [] w = Inr (True, w)"
| "check_state_loop P ((name, value) # rest) w =
     (case sm_find (stateCollectionMap w) name of
        None \<Rightarrow> Inr (False, w)
      | Some coll \<Rightarrow>
          bindr (IStateCollection_DecideState P w value coll) (\<lambda>(b, coll).
            let w = w\<lparr>stateCollectionMap := sm_assign name coll (stateCollectionMap w)\<rparr>
            in if b then check_state_loop P rest w else Inr (False, w)))"

definition CheckState :: "platform \<Rightarrow> SensorCluster \<Rightarrow> 'a machine_world_scheme \<Rightarrow> (bool \<times> 'a machine_world_scheme) result" where
  "CheckState P c w = check_state_loop P (stateMap c) w"

definition UpdateThermalLevel :: "platform \<Rightarrow> sensor_rates \<Rightarrow> TypeTempMap \<Rightarrow> SensorCluster \<times> 'a machine_world_scheme \<Rightarrow>
    (SensorCluster \<times> 'a machine_world_scheme) result" where
  "UpdateThermalLevel P rates typeTempInfo = (\<lambda>(c, w).
     bindr (CheckState P c w) (\<lambda>(ok, w).
       if \<not> ok then Inr (c\<lparr>latestLevel := 0\<rparr>, w)
       else bindr (CalculateSensorLevel rates typeTempInfo [] c) (\<lambda>(levelList, c).
         if levelList = [] then Inr (c, w)
         else Inr (c\<lparr>latestLevel := Max (set levelList)\<rparr>, w))))"

definition GetCurrentLevel :: "SensorCluster \<Rightarrow> nat" where
  "GetCurrentLevel c = latestLevel c"

definition SensorCluster_new :: SensorCluster where
  "SensorCluster_new = \<lparr>descFlag = False, auxFlag = False, rateFlag = False, tempDiffFlag = False, latestLevel = 0,
     sensorInfolist = [], auxSensorInfolist = [], tempDiffInfoList = [], stateMap = []\<rparr>"

definition SetSensorLevelInfo :: "(string, LevelItem list) smap \<Rightarrow> SensorCluster \<Rightarrow> SensorCluster" where
  "SetSensorLevelInfo infos c = c\<lparr>sensorInfolist := infos\<rparr>"

definition SetAuxSensorLevelInfo :: "(string, AuxLevelItem list) smap \<Rightarrow> SensorCluster \<Rightarrow> SensorCluster" where
  "SetAuxSensorLevelInfo infos c = c\<lparr>auxSensorInfolist := infos\<rparr>"

definition SetTempDiffInfo :: "TempDiffItem list \<Rightarrow> SensorCluster \<Rightarrow> SensorCluster" where
  "SetTempDiffInfo infos c = c\<lparr>tempDiffInfoList := infos\<rparr>"

definition SetDescFlag :: "bool \<Rightarrow> SensorCluster \<Rightarrow> SensorCluster" where
  "SetDescFlag b c = c\<lparr>descFlag := b\<rparr>"

definition SetAuxFlag :: "bool \<Rightarrow> SensorCluster \<Rightarrow> SensorCluster" where
  "SetAuxFlag b c = c\<lparr>auxFlag := b\<rparr>"

definition SetRateFlag :: "bool \<Rightarrow> SensorCluster \<Rightarrow> SensorCluster" where
  "SetRateFlag b c = c\<lparr>rateFlag := b\<rparr>"

definition SetTempDiffFlag :: "bool \<Rightarrow> SensorCluster \<Rightarrow> SensorCluster" where
  "SetTempDiffFlag b c = c\<lparr>tempDiffFlag := b\<rparr>"

definition AddState :: "string \<Rightarrow> string \<Rightarrow> SensorCluster \<Rightarrow> SensorCluster" where
  "AddState state val c = c\<lparr>stateMap := sm_insert state val (stateMap c)\<rparr>"

end
