(* ===== verification/Thermal_Observer.thy ===== *)
theory Thermal_Observer
  imports String_Operation
begin

text \<open>
  \<open>services/native/src/thermal_observer/thermal_observer.cpp\<close>: the observer that hands sensor
  readings to the policy, and readings and action values to subscribed listeners.

  A listener is known by its remote object, whose address orders the C++ sets and maps: a
  number here; \<open>None\<close> is a null callback or one without an object. Every operation returns the
  new state and the calls it makes; \<open>watched\<close> are the listeners with a death recipient.
\<close>

type_synonym listener = nat

datatype observer_call =
    OnThermalTempChanged listener "(string, int) smap"
  | OnThermalActionChanged listener "(string, string) smap"
  | RegisteredCallback "(string, int) smap"   \<comment> \<open>\<open>callback_\<close>, the policy\<close>

record Observer =
  policyState :: string
  callbackinfo :: "(string, int) smap"
  sensorTempListeners :: "listener list"
  callbackTypeMap :: "(listener, string list) smap"
  tempWatched :: "listener list"
  actionListeners :: "listener list"
  callbackActionMap :: "(listener, string list) smap"
  actionWatched :: "listener list"
  callbackSet :: bool                          \<comment> \<open>\<open>callback_ != nullptr\<close>\<close>
  typeMap :: "(nat, string) smap"              \<comment> \<open>by the number of the \<open>SensorType\<close>\<close>
  actionMap :: "(string, string) smap"
  allActionMap :: "(string, string) smap"
  preSensor :: "(string, int) smap"            \<comment> \<open>the function's static\<close>

definition Observer_new :: Observer where
  "Observer_new = \<lparr>policyState = [], callbackinfo = [], sensorTempListeners = [], callbackTypeMap = [],
     tempWatched = [], actionListeners = [], callbackActionMap = [], actionWatched = [], callbackSet = False,
     typeMap = [], actionMap = [], allActionMap = [], preSensor = []\<rparr>"

section \<open>Initialisation\<close>

abbreviation (input) TYPE_MAX_SIZE :: nat where "TYPE_MAX_SIZE \<equiv> 10"

text \<open>\<open>typeList.resize(TYPE_MAX_SIZE)\<close> pads with empty names; a longer list is ignored.\<close>

definition ThermalObserver_InitSensorTypeMap :: "string list option \<Rightarrow> Observer \<Rightarrow> Observer" where
  "ThermalObserver_InitSensorTypeMap baseInfo ob =
     (case baseInfo of
        None \<Rightarrow> ob
      | Some typeList \<Rightarrow>
          if TYPE_MAX_SIZE < length typeList then ob
          else let sensorType = typeList @ replicate (TYPE_MAX_SIZE - length typeList) []
               in ob\<lparr>typeMap := zip [0 ..< TYPE_MAX_SIZE] sensorType\<rparr>)"

definition ThermalObserver_Init :: "string list option \<Rightarrow> Observer \<Rightarrow> bool \<times> Observer" where
  "ThermalObserver_Init baseInfo ob = (True, ThermalObserver_InitSensorTypeMap baseInfo ob)"

definition ThermalObserver_SetRegisterCallback :: "Observer \<Rightarrow> Observer" where
  "ThermalObserver_SetRegisterCallback ob = ob\<lparr>callbackSet := True\<rparr>"

section \<open>Temperature listeners\<close>

definition ThermalObserver_SubscribeThermalTempCallback :: "string list \<Rightarrow> listener option \<Rightarrow> Observer \<Rightarrow> Observer" where
  "ThermalObserver_SubscribeThermalTempCallback typeList callback ob =
     (case callback of
        None \<Rightarrow> ob
      | Some l \<Rightarrow>
          if l \<notin> set (sensorTempListeners ob)
          then ob\<lparr>sensorTempListeners := ss_insert l (sensorTempListeners ob),
                  tempWatched := ss_insert l (tempWatched ob),
                  callbackTypeMap := sm_insert l typeList (callbackTypeMap ob)\<rparr>
          else ob)"

definition ThermalObserver_UnSubscribeThermalTempCallback :: "listener option \<Rightarrow> Observer \<Rightarrow> Observer" where
  "ThermalObserver_UnSubscribeThermalTempCallback callback ob =
     (case callback of
        None \<Rightarrow> ob
      | Some l \<Rightarrow>
          let ob' = ob\<lparr>callbackTypeMap := sm_erase l (callbackTypeMap ob),
                       sensorTempListeners := ss_erase l (sensorTempListeners ob)\<rparr>
          in if l \<in> set (sensorTempListeners ob) then ob'\<lparr>tempWatched := ss_erase l (tempWatched ob)\<rparr> else ob')"

definition SensorTempCallbackDeathRecipient_OnRemoteDied :: "listener option \<Rightarrow> Observer \<Rightarrow> Observer" where
  "SensorTempCallbackDeathRecipient_OnRemoteDied remote ob =
     (if remote = None then ob else ThermalObserver_UnSubscribeThermalTempCallback remote ob)"

text \<open>\<open>m[k]\<close> as an expression: a missing key is inserted with the value 0.\<close>

definition index_insert :: "'k::linorder \<Rightarrow> ('k, int) smap \<Rightarrow> int \<times> ('k, int) smap" where
  "index_insert k m = (case sm_find m k of Some v \<Rightarrow> (v, m) | None \<Rightarrow> (0, sm_insert k 0 m))"

text \<open>
  One subscribed type: the previous and the current reading are looked up with \<open>[]\<close>, which
  adds the type to both maps. The maps are \<open>preSensor\<close>, \<open>tempCbMap\<close> and \<open>newTempCbMap\<close>.
\<close>

type_synonym temp_maps = "(string, int) smap \<times> (string, int) smap \<times> (string, int) smap"

definition notify_type :: "string \<Rightarrow> temp_maps \<Rightarrow> temp_maps" where
  "notify_type type = (\<lambda>(pre, cb, new).
     let (p, pre) = index_insert type pre;
         (t, cb) = index_insert type cb
     in if p \<noteq> t then (sm_assign type t pre, cb, sm_insert type t new) else (pre, cb, new))"

text \<open>\<open>newTempCbMap\<close> is shared by all the listeners of the loop.\<close>

fun notify_temp_loop :: "(listener, string list) smap \<Rightarrow> listener list \<Rightarrow> temp_maps \<Rightarrow> observer_call list \<Rightarrow>
    temp_maps \<times> observer_call list" where
  "notify_temp_loop types [] maps calls = (maps, calls)"
| "notify_temp_loop types (l # ls) maps calls =
     (let maps = (case sm_find types l of Some typeList \<Rightarrow> fold notify_type typeList maps | None \<Rightarrow> maps)
      in notify_temp_loop types ls maps (calls @ [OnThermalTempChanged l (snd (snd maps))]))"

text \<open>The argument is \<open>callbackinfo_\<close> itself, by reference.\<close>

definition ThermalObserver_NotifySensorTempChanged :: "Observer \<Rightarrow> Observer \<times> observer_call list" where
  "ThermalObserver_NotifySensorTempChanged ob =
     (if sensorTempListeners ob = [] then (ob, [])
      else let ((pre, cb, new), calls) =
             notify_temp_loop (callbackTypeMap ob) (sensorTempListeners ob) (preSensor ob, callbackinfo ob, []) []
           in (ob\<lparr>preSensor := pre, callbackinfo := cb\<rparr>, calls))"

definition ThermalObserver_OnReceivedSensorInfo :: "(string, int) smap \<Rightarrow> Observer \<Rightarrow> Observer \<times> observer_call list" where
  "ThermalObserver_OnReceivedSensorInfo info ob =
     (let ob = ob\<lparr>callbackinfo := info\<rparr>;
          calls = (if callbackSet ob then [RegisteredCallback (callbackinfo ob)] else []);
          (ob, calls') = ThermalObserver_NotifySensorTempChanged ob
      in (ob, calls @ calls'))"

abbreviation (input) INVALID_TEMP :: int where "INVALID_TEMP \<equiv> - 1000000"

text \<open>A \<open>ThermalSrvSensorInfo\<close> is its type and temperature; its default temperature is indeterminate.\<close>

definition ThermalObserver_GetThermalSrvSensorInfo :: "nat \<Rightarrow> string \<times> int \<Rightarrow> Observer \<Rightarrow> bool \<times> string \<times> int" where
  "ThermalObserver_GetThermalSrvSensorInfo type sensorInfo ob =
     (case sm_find (typeMap ob) type of
        None \<Rightarrow> (False, sensorInfo)
      | Some sensorTypeName \<Rightarrow>
          (case sm_find (callbackinfo ob) sensorTypeName of
             Some temp \<Rightarrow>
               if temp = INVALID_TEMP then (False, sensorTypeName, snd sensorInfo)
               else (True, sensorTypeName, temp)
           | None \<Rightarrow> (False, sensorTypeName, INVALID_TEMP)))"

definition ThermalObserver_GetTemp :: "int \<Rightarrow> nat \<Rightarrow> Observer \<Rightarrow> int" where
  "ThermalObserver_GetTemp indeterminate type ob =
     snd (snd (ThermalObserver_GetThermalSrvSensorInfo type ([], indeterminate) ob))"

section \<open>Action listeners\<close>

text \<open>For each subscribed name, each entry of the map with that name is inserted.\<close>

definition ThermalObserver_DecisionActionValue ::
    "string list \<Rightarrow> (string, string) smap \<Rightarrow> (string, string) smap \<Rightarrow> (string, string) smap" where
  "ThermalObserver_DecisionActionValue actionList filteredMap actions =
     fold (\<lambda>action filtered.
        fold (\<lambda>(name, value) filtered. if action = name then sm_insert action value filtered else filtered) actions filtered)
       actionList filteredMap"

definition ThermalObserver_SubscribeThermalActionCallback ::
    "string list \<Rightarrow> listener option \<Rightarrow> Observer \<Rightarrow> Observer \<times> observer_call list" where
  "ThermalObserver_SubscribeThermalActionCallback actionList callback ob =
     (case callback of
        None \<Rightarrow> (ob, [])
      | Some l \<Rightarrow>
          if l \<notin> set (actionListeners ob)
          then (ob\<lparr>actionListeners := ss_insert l (actionListeners ob),
                   actionWatched := ss_insert l (actionWatched ob),
                   callbackActionMap := sm_insert l actionList (callbackActionMap ob)\<rparr>,
                [OnThermalActionChanged l (ThermalObserver_DecisionActionValue actionList [] (allActionMap ob))])
          else (ob, []))"

definition ThermalObserver_UnSubscribeThermalActionCallback :: "listener option \<Rightarrow> Observer \<Rightarrow> Observer" where
  "ThermalObserver_UnSubscribeThermalActionCallback callback ob =
     (case callback of
        None \<Rightarrow> ob
      | Some l \<Rightarrow>
          let ob' = ob\<lparr>callbackActionMap := sm_erase l (callbackActionMap ob),
                       actionListeners := ss_erase l (actionListeners ob)\<rparr>
          in if l \<in> set (actionListeners ob) then ob'\<lparr>actionWatched := ss_erase l (actionWatched ob)\<rparr> else ob')"

definition ActionCallbackDeathRecipient_OnRemoteDied :: "listener option \<Rightarrow> Observer \<Rightarrow> Observer" where
  "ActionCallbackDeathRecipient_OnRemoteDied remote ob =
     (if remote = None then ob else ThermalObserver_UnSubscribeThermalActionCallback remote ob)"

definition ThermalObserver_SetDecisionValue :: "string \<Rightarrow> string \<Rightarrow> Observer \<Rightarrow> Observer" where
  "ThermalObserver_SetDecisionValue actionName actionValue ob =
     (let set_or_insert = (\<lambda>m. case sm_find m actionName of
            Some _ \<Rightarrow> sm_assign actionName actionValue m
          | None \<Rightarrow> sm_insert actionName actionValue m)
      in ob\<lparr>actionMap := set_or_insert (actionMap ob), allActionMap := set_or_insert (allActionMap ob)\<rparr>)"

text \<open>\<open>newActionCbMap\<close> is shared by all the listeners of the loop.\<close>

fun notify_action_loop :: "(listener, string list) smap \<Rightarrow> (string, string) smap \<Rightarrow> listener list \<Rightarrow>
    (string, string) smap \<Rightarrow> observer_call list" where
  "notify_action_loop subs actionCache [] new = []"
| "notify_action_loop subs actionCache (l # ls) new =
     (let new = (case sm_find subs l of
            Some actionList \<Rightarrow> ThermalObserver_DecisionActionValue actionList new actionCache | None \<Rightarrow> new)
      in OnThermalActionChanged l new # notify_action_loop subs actionCache ls new)"

definition ThermalObserver_FindSubscribeActionValue :: "Observer \<Rightarrow> Observer \<times> observer_call list" where
  "ThermalObserver_FindSubscribeActionValue ob =
     (if actionMap ob = [] then (ob, [])
      else (ob\<lparr>actionMap := []\<rparr>,
            notify_action_loop (callbackActionMap ob) (actionMap ob) (actionListeners ob) []))"

definition ThermalObserver_UpdatePolicyState :: "string \<Rightarrow> Observer \<Rightarrow> Observer" where
  "ThermalObserver_UpdatePolicyState state ob = ob\<lparr>policyState := state\<rparr>"

section \<open>Facts about the maps\<close>

lemma sm_ok_set_or_insert [simp]:
  "sm_ok m \<Longrightarrow> sm_ok (case sm_find m k of Some _ \<Rightarrow> sm_assign k v m | None \<Rightarrow> sm_insert k v m)"
  by (simp split: option.split)

lemma find_set_or_insert [simp]:
  "sm_ok m \<Longrightarrow> sm_find (case sm_find m k of Some _ \<Rightarrow> sm_assign k v m | None \<Rightarrow> sm_insert k v m) k' =
     (if k' = k then Some v else sm_find m k')"
  by (simp split: option.split)

text \<open>What a listener's own names pick from a map, on top of what is there.\<close>

lemma filter_one:
  "sm_ok f \<Longrightarrow> sm_ok (fold (\<lambda>(n, v) f. if a = n then sm_insert a v f else f) m f) \<and>
     sm_find (fold (\<lambda>(n, v) f. if a = n then sm_insert a v f else f) m f) k =
       (if k = a \<and> sm_find f a = None then sm_find m a else sm_find f k)"
proof (induction m arbitrary: f)
  case (Cons p m)
  obtain n v where "p = (n, v)" by (cases p)
  with Cons show ?case by auto
qed simp

lemma DecisionActionValue_find:
  "sm_ok f \<Longrightarrow> sm_ok (ThermalObserver_DecisionActionValue names f m) \<and>
     sm_find (ThermalObserver_DecisionActionValue names f m) k =
       (case sm_find f k of Some v \<Rightarrow> Some v | None \<Rightarrow> if k \<in> set names then sm_find m k else None)"
proof (induction names arbitrary: f)
  case Nil
  then show ?case by (simp add: ThermalObserver_DecisionActionValue_def split: option.split)
next
  case (Cons a names)
  let ?f = "fold (\<lambda>(n, v) f. if a = n then sm_insert a v f else f) m f"
  have eq: "ThermalObserver_DecisionActionValue (a # names) f m = ThermalObserver_DecisionActionValue names ?f m"
    by (simp add: ThermalObserver_DecisionActionValue_def)
  from filter_one [OF Cons.prems, of a m] have ok: "sm_ok ?f" by blast
  show ?case
    unfolding eq using Cons.IH [OF ok] filter_one [OF Cons.prems, of a m k] by (auto split: option.split)
qed

section \<open>Reachable observers\<close>

datatype observer_event =
    OpInit "string list option" | OpRegister
  | OpSubscribeTemp "string list" "listener option" | OpUnsubscribeTemp "listener option" | OpTempDied "listener option"
  | OpSubscribeAction "string list" "listener option" | OpUnsubscribeAction "listener option"
  | OpActionDied "listener option"
  | OpSetDecision string string | OpFindSubscribe | OpReceived "(string, int) smap" | OpPolicyState string

fun observer_op :: "observer_event \<Rightarrow> Observer \<Rightarrow> Observer \<times> observer_call list" where
  "observer_op (OpInit b) ob = (snd (ThermalObserver_Init b ob), [])"
| "observer_op OpRegister ob = (ThermalObserver_SetRegisterCallback ob, [])"
| "observer_op (OpSubscribeTemp ts cb) ob = (ThermalObserver_SubscribeThermalTempCallback ts cb ob, [])"
| "observer_op (OpUnsubscribeTemp cb) ob = (ThermalObserver_UnSubscribeThermalTempCallback cb ob, [])"
| "observer_op (OpTempDied cb) ob = (SensorTempCallbackDeathRecipient_OnRemoteDied cb ob, [])"
| "observer_op (OpSubscribeAction ns cb) ob = ThermalObserver_SubscribeThermalActionCallback ns cb ob"
| "observer_op (OpUnsubscribeAction cb) ob = (ThermalObserver_UnSubscribeThermalActionCallback cb ob, [])"
| "observer_op (OpActionDied cb) ob = (ActionCallbackDeathRecipient_OnRemoteDied cb ob, [])"
| "observer_op (OpSetDecision n v) ob = (ThermalObserver_SetDecisionValue n v ob, [])"
| "observer_op OpFindSubscribe ob = ThermalObserver_FindSubscribeActionValue ob"
| "observer_op (OpReceived info) ob = ThermalObserver_OnReceivedSensorInfo info ob"
| "observer_op (OpPolicyState st) ob = (ThermalObserver_UpdatePolicyState st ob, [])"

definition observer_run :: "observer_event list \<Rightarrow> Observer" where
  "observer_run ops = fold (\<lambda>op ob. fst (observer_op op ob)) ops Observer_new"

definition observer_ok :: "Observer \<Rightarrow> bool" where
  "observer_ok ob \<longleftrightarrow> sm_ok (callbackTypeMap ob) \<and> sm_ok (callbackActionMap ob) \<and>
     sm_ok (actionMap ob) \<and> sm_ok (allActionMap ob) \<and>
     dom (sm_find (callbackTypeMap ob)) = set (sensorTempListeners ob) \<and>
     set (tempWatched ob) = set (sensorTempListeners ob) \<and>
     dom (sm_find (callbackActionMap ob)) = set (actionListeners ob) \<and>
     set (actionWatched ob) = set (actionListeners ob)"

lemmas observer_defs =
  ThermalObserver_Init_def ThermalObserver_InitSensorTypeMap_def ThermalObserver_SetRegisterCallback_def
  ThermalObserver_SubscribeThermalTempCallback_def ThermalObserver_UnSubscribeThermalTempCallback_def
  SensorTempCallbackDeathRecipient_OnRemoteDied_def ThermalObserver_SubscribeThermalActionCallback_def
  ThermalObserver_UnSubscribeThermalActionCallback_def ActionCallbackDeathRecipient_OnRemoteDied_def
  ThermalObserver_SetDecisionValue_def ThermalObserver_FindSubscribeActionValue_def
  ThermalObserver_OnReceivedSensorInfo_def ThermalObserver_NotifySensorTempChanged_def
  ThermalObserver_UpdatePolicyState_def

lemma dom_insert_new: "sm_ok m \<Longrightarrow> dom (sm_find (sm_insert k v m)) = insert k (dom (sm_find m))"
  by (auto simp: dom_def)

lemma dom_erase: "sm_ok m \<Longrightarrow> dom (sm_find (sm_erase k m)) = dom (sm_find m) - {k}"
  by (auto simp: dom_def split: if_splits)

lemma observer_ok_op: "observer_ok ob \<Longrightarrow> observer_ok (fst (observer_op op ob))"
  by (cases op)
     (auto simp: observer_ok_def observer_defs dom_insert_new dom_erase Let_def split_def split: option.splits)

lemma observer_ok_run: "observer_ok (observer_run ops)"
proof -
  have "observer_ok ob \<Longrightarrow> observer_ok (fold (\<lambda>op ob. fst (observer_op op ob)) ops ob)" for ob
    by (induction ops arbitrary: ob) (simp_all add: observer_ok_op)
  then show ?thesis by (simp add: observer_run_def observer_ok_def Observer_new_def dom_def)
qed

section \<open>Properties\<close>


text \<open>The last value each action was set to.\<close>

fun last_decision :: "observer_event list \<Rightarrow> string \<Rightarrow> string option" where
  "last_decision [] name = None"
| "last_decision (op # ops) name =
     (case last_decision ops name of Some v \<Rightarrow> Some v
      | None \<Rightarrow> (case op of OpSetDecision n v \<Rightarrow> if n = name then Some v else None | _ \<Rightarrow> None))"

lemma allActionMap_op:
  "observer_ok ob \<Longrightarrow> sm_find (allActionMap (fst (observer_op op ob))) name =
     (case op of OpSetDecision n v \<Rightarrow> if n = name then Some v else sm_find (allActionMap ob) name
      | _ \<Rightarrow> sm_find (allActionMap ob) name)"
  by (cases op) (auto simp: observer_ok_def observer_defs Let_def split_def split: option.splits)

lemma allActionMap_run: "sm_find (allActionMap (observer_run ops)) name = last_decision ops name"
proof -
  have "observer_ok ob \<Longrightarrow> sm_find (allActionMap (fold (\<lambda>op ob. fst (observer_op op ob)) ops ob)) name =
      (case last_decision ops name of Some v \<Rightarrow> Some v | None \<Rightarrow> sm_find (allActionMap ob) name)" for ob
    by (induction ops arbitrary: ob)
       (auto simp: observer_ok_op allActionMap_op split: option.splits observer_event.splits)
  then show ?thesis using observer_ok_run [of "[]"]
    by (simp add: observer_run_def Observer_new_def split: option.split)
qed

text \<open>
  A new action listener is told at once the latest value of each action it subscribes
  to that was ever decided, and nothing else.
\<close>

theorem new_action_listener_current:
  "l \<notin> set (actionListeners (observer_run ops)) \<Longrightarrow>
     \<exists>m. snd (observer_op (OpSubscribeAction names (Some l)) (observer_run ops)) = [OnThermalActionChanged l m] \<and>
       sm_find m = (\<lambda>name. if name \<in> set names then last_decision ops name else None)"
  by (auto simp: ThermalObserver_SubscribeThermalActionCallback_def DecisionActionValue_find allActionMap_run)

theorem new_action_listener_current_witness:
  "\<exists>m. snd (observer_op (OpSubscribeAction [''lcd''] (Some 7))
       (observer_run [OpSetDecision ''lcd'' ''1'', OpSetDecision ''lcd'' ''2''])) = [OnThermalActionChanged 7 m] \<and>
     sm_find m ''lcd'' = Some ''2''"
  using new_action_listener_current [of 7 "[OpSetDecision ''lcd'' ''1'', OpSetDecision ''lcd'' ''2'']" "[''lcd'']"]
  by (force simp: observer_run_def observer_defs Observer_new_def)

text \<open>What the loop over the listeners hands out: the names of a listener and of all before it.\<close>

fun handed_out :: "(listener, string list) smap \<Rightarrow> listener list \<Rightarrow> string set \<Rightarrow> (listener \<times> string set) list" where
  "handed_out subs [] names = []"
| "handed_out subs (l # ls) names =
     (let names = names \<union> (case sm_find subs l of Some ns \<Rightarrow> set ns | None \<Rightarrow> {})
      in (l, names) # handed_out subs ls names)"

lemma notify_action_loop_spec:
  "sm_ok new \<Longrightarrow> sm_find new = (\<lambda>n. if n \<in> names then sm_find cache n else None) \<Longrightarrow>
     list_all2 (\<lambda>call (l, ns). \<exists>m. call = OnThermalActionChanged l m \<and>
         sm_find m = (\<lambda>n. if n \<in> ns then sm_find cache n else None))
       (notify_action_loop subs cache ls new) (handed_out subs ls names)"
proof (induction ls arbitrary: new names)
  case (Cons l ls)
  let ?new = "case sm_find subs l of
    Some actionList \<Rightarrow> ThermalObserver_DecisionActionValue actionList new cache | None \<Rightarrow> new"
  let ?names = "names \<union> (case sm_find subs l of Some ns \<Rightarrow> set ns | None \<Rightarrow> {})"
  have "sm_ok ?new" using Cons.prems(1) DecisionActionValue_find by (auto split: option.split)
  moreover have "sm_find ?new = (\<lambda>n. if n \<in> ?names then sm_find cache n else None)"
    using DecisionActionValue_find [OF Cons.prems(1)] Cons.prems(2)
    by (auto simp: fun_eq_iff split: option.splits)
  ultimately show ?case using Cons.IH by (simp add: Let_def)
qed simp

text \<open>
  Publishing the pending action values calls each listener once, in order, and empties
  the pending map; but since one map is filled for all of them, a listener is also sent the
  actions the listeners before it subscribed to.
\<close>

theorem FindSubscribeActionValue_hands_out:
  "actionMap ob \<noteq> [] \<Longrightarrow>
     actionMap (fst (ThermalObserver_FindSubscribeActionValue ob)) = [] \<and>
     list_all2 (\<lambda>call (l, ns). \<exists>m. call = OnThermalActionChanged l m \<and>
         sm_find m = (\<lambda>n. if n \<in> ns then sm_find (actionMap ob) n else None))
       (snd (ThermalObserver_FindSubscribeActionValue ob))
       (handed_out (callbackActionMap ob) (actionListeners ob) {})"
  using notify_action_loop_spec [of "[]" "{}" "actionMap ob"]
  by (simp add: ThermalObserver_FindSubscribeActionValue_def)

theorem FindSubscribeActionValue_hands_out_witness:
  "list_all2 (\<lambda>call (l, ns). \<exists>m. call = OnThermalActionChanged l m \<and>
       sm_find m = (\<lambda>n. if n \<in> ns then sm_find [(''gpu'', ''1''), (''lcd'', ''2'')] n else None))
     (snd (ThermalObserver_FindSubscribeActionValue (observer_run
        [OpSetDecision ''gpu'' ''1'', OpSetDecision ''lcd'' ''2'', OpSubscribeAction [''gpu''] (Some 5),
         OpSubscribeAction [''lcd''] (Some 7)])))
     [(5, {''gpu''}), (7, {''gpu'', ''lcd''})]"
proof -
  let ?ob = "observer_run [OpSetDecision ''gpu'' ''1'', OpSetDecision ''lcd'' ''2'',
    OpSubscribeAction [''gpu''] (Some 5), OpSubscribeAction [''lcd''] (Some 7)]"
  have ob: "actionMap ?ob = [(''gpu'', ''1''), (''lcd'', ''2'')]" "actionListeners ?ob = [5, 7]"
    "callbackActionMap ?ob = [(5, [''gpu'']), (7, [''lcd''])]"
    by (simp_all add: observer_run_def observer_defs Observer_new_def ss_insert_def)
  then have "actionMap ?ob \<noteq> []" by simp
  from FindSubscribeActionValue_hands_out [OF this] show ?thesis
    unfolding ob by (simp add: insert_commute Let_def)
qed

section \<open>Readings that were never taken\<close>

lemma index_insert_find:
  "sm_ok m \<Longrightarrow> sm_ok (snd (index_insert k m)) \<and>
     sm_find (snd (index_insert k m)) k' =
       (case sm_find m k' of Some v \<Rightarrow> Some v | None \<Rightarrow> if k' = k then Some 0 else None)"
  by (auto simp: index_insert_def split: option.splits)

lemma notify_type_cb: "fst (snd (notify_type type maps)) = snd (index_insert type (fst (snd maps)))"
  by (cases maps) (simp add: notify_type_def Let_def split_def)

lemma notify_types_cb:
  "sm_ok (fst (snd maps)) \<Longrightarrow>
     sm_ok (fst (snd (fold notify_type types maps))) \<and>
     sm_find (fst (snd (fold notify_type types maps))) k =
       (case sm_find (fst (snd maps)) k of Some v \<Rightarrow> Some v | None \<Rightarrow> if k \<in> set types then Some 0 else None)"
proof (induction types arbitrary: maps)
  case (Cons t types)
  have "sm_ok (fst (snd (notify_type t maps)))"
    using index_insert_find [OF Cons.prems] by (simp add: notify_type_cb)
  from Cons.IH [OF this] show ?case
    using index_insert_find [OF Cons.prems, of t k] by (auto simp: notify_type_cb split: option.splits)
qed (simp split: option.split)

definition subscribed_types :: "(listener, string list) smap \<Rightarrow> listener list \<Rightarrow> string set" where
  "subscribed_types subs ls = (\<Union>l \<in> set ls. case sm_find subs l of Some ts \<Rightarrow> set ts | None \<Rightarrow> {})"

lemma notify_temp_loop_cb:
  "sm_ok (fst (snd maps)) \<Longrightarrow>
     sm_find (fst (snd (fst (notify_temp_loop subs ls maps calls)))) k =
       (case sm_find (fst (snd maps)) k of Some v \<Rightarrow> Some v
        | None \<Rightarrow> if k \<in> subscribed_types subs ls then Some 0 else None)"
proof (induction ls arbitrary: maps calls)
  case Nil
  then show ?case by (simp add: subscribed_types_def split: option.split)
next
  case (Cons l ls)
  let ?maps = "case sm_find subs l of Some typeList \<Rightarrow> fold notify_type typeList maps | None \<Rightarrow> maps"
  have ok: "sm_ok (fst (snd ?maps))"
    using Cons.prems notify_types_cb [OF Cons.prems] by (simp split: option.split)
  have "sm_find (fst (snd ?maps)) k = (case sm_find (fst (snd maps)) k of Some v \<Rightarrow> Some v
      | None \<Rightarrow> if k \<in> (case sm_find subs l of Some ts \<Rightarrow> set ts | None \<Rightarrow> {}) then Some 0 else None)"
    using notify_types_cb [OF Cons.prems] by (simp split: option.split)
  then show ?case using Cons.IH [OF ok]
    by (simp add: Let_def subscribed_types_def split: option.splits)
qed

lemma callbackinfo_after_report:
  "sm_ok info \<Longrightarrow> sm_find (callbackinfo (fst (ThermalObserver_OnReceivedSensorInfo info ob))) k =
     (case sm_find info k of Some v \<Rightarrow> Some v
      | None \<Rightarrow> if k \<in> subscribed_types (callbackTypeMap ob) (sensorTempListeners ob) then Some 0 else None)"
  using notify_temp_loop_cb [of "(preSensor ob, info, [])" "callbackTypeMap ob" "sensorTempListeners ob" "[]" k]
  by (auto simp: ThermalObserver_OnReceivedSensorInfo_def ThermalObserver_NotifySensorTempChanged_def Let_def
      split_def subscribed_types_def split: option.split)

text \<open>
  After a report, the service reports each sensor's reading; but a sensor without a
  reading that some listener subscribed to is reported as valid, at 0 degrees, because the
  notification adds it to the readings.
\<close>

theorem unread_sensor_reads_zero:
  "sm_ok info \<Longrightarrow> sm_find (typeMap ob) n = Some s \<Longrightarrow>
     ThermalObserver_GetThermalSrvSensorInfo n init (fst (ThermalObserver_OnReceivedSensorInfo info ob)) =
       (case sm_find info s of
          Some t \<Rightarrow> if t = INVALID_TEMP then (False, s, snd init) else (True, s, t)
        | None \<Rightarrow> if s \<in> subscribed_types (callbackTypeMap ob) (sensorTempListeners ob) then (True, s, 0)
                  else (False, s, INVALID_TEMP))"
proof -
  have "typeMap (fst (ThermalObserver_OnReceivedSensorInfo info ob)) = typeMap ob"
    by (simp add: ThermalObserver_OnReceivedSensorInfo_def ThermalObserver_NotifySensorTempChanged_def Let_def split_def)
  then show "sm_ok info \<Longrightarrow> sm_find (typeMap ob) n = Some s \<Longrightarrow> ?thesis"
    by (simp add: ThermalObserver_GetThermalSrvSensorInfo_def callbackinfo_after_report split: option.split)
qed

theorem unread_sensor_reads_zero_witness:
  "ThermalObserver_GetThermalSrvSensorInfo 1 ([], 0) (fst (ThermalObserver_OnReceivedSensorInfo [(''soc'', 30000)]
     (observer_run [OpInit (Some [''soc'', ''battery'']), OpSubscribeTemp [''battery''] (Some 5)]))) = (True, ''battery'', 0)"
proof -
  let ?ob = "observer_run [OpInit (Some [''soc'', ''battery'']), OpSubscribeTemp [''battery''] (Some 5)]"
  have t: "sm_find (typeMap ?ob) 1 = Some ''battery''"
    by (simp add: observer_run_def observer_defs Observer_new_def upt_rec)
  have "subscribed_types (callbackTypeMap ?ob) (sensorTempListeners ?ob) = {''battery''}"
    by (simp add: observer_run_def observer_defs Observer_new_def ss_insert_def subscribed_types_def)
  then show ?thesis using unread_sensor_reads_zero [OF _ t, of "[(''soc'', 30000)]"] by (simp add: sm_ok_def)
qed

end
