(* ===== verification/Float_Value.thy ===== *)
theory Float_Value
  imports String_Operation
begin

text \<open>
  The type \<open>float\<close> of the actions that scale brightness and volume, IEEE single precision.

  Every finite \<open>float\<close> is a multiple of \<open>2 ^ -149\<close>, the smallest positive one; a value is the
  integer by which it is multiplied, and the infinities are \<open>2 ^ 277\<close> and its negation, which
  stand for \<open>2 ^ 128\<close>, the first power of two that overflows. So comparisons are those of
  integers. The two zeros are one value, and there is no NaN: \<open>strtof\<close>, a parameter of the classes,
  is taken to read neither. The code computes with \<open>float\<close>s in one place, a difference.
\<close>

section \<open>Rounding\<close>

definition div_half_even :: "nat \<Rightarrow> nat \<Rightarrow> nat" where
  "div_half_even n d =
     (let q = n div d; r = n mod d in if 2 * r < d \<or> (2 * r = d \<and> even q) then q else Suc q)"

text \<open>The bits beyond the 24 of the significand.\<close>

fun excess_bits :: "nat \<Rightarrow> nat" where
  "excess_bits n = (if n < 2 ^ 24 then 0 else Suc (excess_bits (n div 2)))"

declare excess_bits.simps [simp del]

definition round_nat :: "nat \<Rightarrow> nat" where
  "round_nat n = (let e = excess_bits n in div_half_even n (2 ^ e) * 2 ^ e)"

abbreviation (input) FLOAT_ONE :: int where "FLOAT_ONE \<equiv> 2 ^ 149"
abbreviation (input) FLOAT_INFINITY :: nat where "FLOAT_INFINITY \<equiv> 2 ^ 277"

definition round_float :: "int \<Rightarrow> int" where
  "round_float i = sgn i * int (min (round_nat (nat \<bar>i\<bar>)) FLOAT_INFINITY)"

definition float_of_int :: "int \<Rightarrow> int" where
  "float_of_int i = round_float (i * FLOAT_ONE)"

section \<open>What the actions use\<close>

abbreviation (input) FALLBACK_VALUE_FLOAT :: int where "FALLBACK_VALUE_FLOAT \<equiv> FLOAT_ONE"

text \<open>\<open>0.001f\<close> is 8589935 times \<open>2 ^ -33\<close>.\<close>

abbreviation (input) FLOAT_ACCURACY :: int where "FLOAT_ACCURACY \<equiv> 8589935 * 2 ^ 116"

definition float_differs :: "int \<Rightarrow> int \<Rightarrow> bool" where
  "float_differs value prev \<longleftrightarrow> \<bar>round_float (value - prev)\<bar> > FLOAT_ACCURACY"

text \<open>\<open>std::to_string\<close>: six decimals, correctly rounded.\<close>

definition pad6 :: "nat \<Rightarrow> string" where
  "pad6 n = (let ds = to_dec n in replicate (6 - length ds) CHR ''0'' @ ds)"

definition to_string_float :: "int \<Rightarrow> string" where
  "to_string_float i =
     (let sign = (if i < 0 then ''-'' else [])
      in if int FLOAT_INFINITY \<le> \<bar>i\<bar> then sign @ ''inf''
         else let n = div_half_even (nat \<bar>i\<bar> * 10 ^ 6) (2 ^ 149)
              in sign @ to_dec (n div 10 ^ 6) @ ''.'' @ pad6 (n mod 10 ^ 6))"

lemma excess_small [simp]: "n < 16777216 \<Longrightarrow> excess_bits n = 0"
  by (simp add: excess_bits.simps)

lemma round_small [simp]: "n < 16777216 \<Longrightarrow> round_nat n = n"
  by (simp add: round_nat_def div_half_even_def)

lemma round_float_zero [simp]: "round_float 0 = 0"
  by (simp add: round_float_def)

lemma float_differs_irrefl [simp]: "\<not> float_differs v v"
  by (simp add: float_differs_def)

section \<open>The error of rounding\<close>

lemma excess_le: "n < 2 ^ (24 + k) \<Longrightarrow> excess_bits n \<le> k"
proof (induction k arbitrary: n)
  case (Suc k)
  show ?case
  proof (cases "n < 2 ^ 24")
    case False
    have "n div 2 < 2 ^ (24 + k)" by (rule less_mult_imp_div_less) (use Suc.prems in \<open>simp add: power_add\<close>)
    from Suc.IH [OF this] False show ?thesis by (simp add: excess_bits.simps [of n])
  qed simp
qed simp

lemma excess_power: "excess_bits n = Suc e \<Longrightarrow> 2 ^ (24 + e) \<le> n"
proof (induction e arbitrary: n)
  case 0
  then show ?case by (cases "n < 2 ^ 24") (simp_all add: excess_bits.simps [of n])
next
  case (Suc e)
  then have "excess_bits (n div 2) = Suc e" by (simp add: excess_bits.simps [of n] split: if_splits)
  from Suc.IH [OF this] have "2 * 2 ^ (24 + e) \<le> n" by linarith
  then show ?case by (simp add: power_add)
qed

lemma div_half_even_error: "0 < d \<Longrightarrow> n \<le> div_half_even n d * d + d div 2"
proof -
  assume "0 < d"
  have n: "n = n div d * d + n mod d" by simp
  have r: "n mod d < d" using \<open>0 < d\<close> by simp
  show ?thesis
  proof (cases "2 * (n mod d) < d \<or> (2 * (n mod d) = d \<and> even (n div d))")
    case True
    then have "n mod d \<le> d div 2" by auto
    moreover have "div_half_even n d * d = n div d * d" using True by (auto simp: div_half_even_def Let_def)
    ultimately show ?thesis using n by linarith
  next
    case False
    then have "div_half_even n d * d = n div d * d + d" by (auto simp: div_half_even_def Let_def)
    with n r show ?thesis by linarith
  qed
qed

lemma round_nat_lower: "n \<le> round_nat n + 2 ^ excess_bits n div 2"
  using div_half_even_error [of "2 ^ excess_bits n" n] by (simp add: round_nat_def Let_def)

lemma round_nat_error:
  assumes "n < 2 ^ (24 + k)"
  shows "2 * n \<le> 2 * round_nat n + 2 ^ k"
proof -
  have "2 ^ excess_bits n \<le> (2 :: nat) ^ k" using excess_le [OF assms] by simp
  moreover have "2 * (2 ^ excess_bits n div 2) \<le> (2 :: nat) ^ excess_bits n" by simp
  ultimately show ?thesis using round_nat_lower [of n] by linarith
qed

lemma round_nat_half: "n \<le> 2 * round_nat n"
proof (cases "excess_bits n")
  case 0
  then show ?thesis by (simp add: round_nat_def div_half_even_def)
next
  case (Suc e)
  have "2 ^ Suc e \<le> (2 :: nat) ^ (24 + e)" by (rule power_increasing) simp_all
  with excess_power [OF Suc] have "2 ^ Suc e \<le> n" by linarith
  moreover have "2 * (2 ^ Suc e div 2) \<le> (2 :: nat) ^ Suc e" by simp
  ultimately show ?thesis using round_nat_lower [of n] unfolding Suc by linarith
qed

text \<open>Values that do not differ are within the accuracy and one unit in its last place.\<close>

lemma not_differs_close:
  assumes "\<not> float_differs v l"
  shows "\<bar>v - l\<bar> \<le> FLOAT_ACCURACY + 2 ^ 116"
proof -
  let ?n = "nat \<bar>v - l\<bar>"
  have "int (min (round_nat ?n) FLOAT_INFINITY) \<le> 8589935 * 2 ^ 116 \<or> v = l"
    using assms by (auto simp: float_differs_def round_float_def abs_mult sgn_if split: if_splits)
  moreover have "(8589935 :: nat) * 2 ^ 116 < FLOAT_INFINITY" by simp
  ultimately have small: "round_nat ?n \<le> 8589935 * 2 ^ 116 \<or> v = l" by (auto simp: min_def split: if_splits)
  show ?thesis
  proof (cases "v = l")
    case False
    with small have le: "round_nat ?n \<le> 8589935 * 2 ^ 116" by simp
    with round_nat_half [of ?n] have "?n < 2 ^ (24 + 117)" by simp
    from round_nat_error [OF this] le have "?n \<le> 8589935 * 2 ^ 116 + 2 ^ 116" by simp
    then show ?thesis by simp
  qed simp
qed

end
