(* ===== verification/Thermal_Action.thy ===== *)
theory Thermal_Action
  imports State_Machine Thermal_Observer Float_Value
begin

text \<open>
  The actions: \<open>ithermal_action.h\<close>, the classes under
  \<open>services/native/src/thermal_action/action\<close>, and \<open>soc_action_base.cpp\<close>.

  The classes repeat one scheme: values are collected, the strictest or the loosest of them
  is applied when it differs from the last one, delayed values count once their timer has
  fired. \<open>action\<close> holds their members, \<open>action_class\<close> what a class overrides; the operations
  are defined once over a class, and each class is one definition. Values are the C++
  integers as \<open>int\<close>, and its \<open>float\<close>s as the integers of theory \<open>Float_Value\<close>. What an action does to
  the system is an \<open>effect\<close> of the world.
\<close>

section \<open>The world of the service\<close>

datatype effect =
    LimitRequest int int                 \<comment> \<open>\<open>SocPerfClient\<close>: tag and value\<close>
  | PerfRequestEx int bool
  | SetThermalLevel int
  | SetRequestStatus bool
  | WriteFile string string
  | HiSysEvent string int
  | HiSysEventWithRatio string int
  | SetBatteryCurrent int
  | DiscountBrightness int               \<comment> \<open>a \<open>float\<close>\<close>
  | VolumeRequest int                    \<comment> \<open>a \<open>float\<close>; what the request does is \<open>ActionVolume_VolumeRequest\<close>\<close>
  | SetChargingLimit "(string \<times> int) list"
  | SetAirplaneMode bool
  | ShutDownDevice
  | ShowThermalDialog bool               \<comment> \<open>whether it is the dialog for a higher temperature\<close>
  | RefreshActivity
  | ProcessAppActionRequest int
  | PublishLevelChanged int
  | OnThermalLevelChanged nat int
  | OnAsyncThermalLevelChanged nat int
  | ObserverCall observer_call
  | CreateNodeFile string
  | WriteFanFaultEvent int string
  | SubmitFindSubscribeActionValue       \<comment> \<open>a task for the queue of \<open>FFRTUtils\<close>\<close>

record service_world = machine_world +
  effects :: "effect list"               \<comment> \<open>oldest first\<close>
  observer :: Observer
  userAirplaneState :: bool              \<comment> \<open>\<open>ThermalService::userAirplaneState_\<close>\<close>
  isThermalAirplane :: bool
  currentLimitList :: "(string \<times> int) list"  \<comment> \<open>\<open>ActionCharger::chargeLimitList_\<close>: protocol, value\<close>
  voltageLimitList :: "(string \<times> int) list"
  syncThermalLevelListeners :: "nat list"
  asyncThermalLevelListeners :: "nat list"
  levelWatched :: "nat list"             \<comment> \<open>listeners with a death recipient\<close>

definition emit :: "effect \<Rightarrow> service_world \<Rightarrow> service_world" where
  "emit e w = w\<lparr>effects := effects w @ [e]\<rparr>"

definition tell_observer :: "(Observer \<Rightarrow> Observer) \<Rightarrow> service_world \<Rightarrow> service_world" where
  "tell_observer f w = w\<lparr>observer := f (observer w)\<rparr>"

definition WriteActionTriggeredHiSysEvent :: "bool \<Rightarrow> string \<Rightarrow> int \<Rightarrow> service_world \<Rightarrow> service_world" where
  "WriteActionTriggeredHiSysEvent enableEvent name value w =
     (if enableEvent then emit (HiSysEvent name value) w else w)"

definition WriteActionTriggeredHiSysEventWithRatio :: "bool \<Rightarrow> string \<Rightarrow> int \<Rightarrow> service_world \<Rightarrow> service_world" where
  "WriteActionTriggeredHiSysEventWithRatio enableEvent name value w =
     (if enableEvent then emit (HiSysEventWithRatio name value) w else w)"

section \<open>Actions and their classes\<close>

record PolicyDelayAction =
  isCompleted :: bool
  intDelayValue :: int
  uintDelayValue :: int
  floatDelayValue :: int
  delayTime :: u32
  delayTimerId :: u64

record action =
  actionName :: string
  isStrict :: bool
  enableEvent :: bool
  policyActionMap :: "(u32, PolicyDelayAction) smap"  \<comment> \<open>an \<open>unordered_map\<close>; its order does not matter\<close>
  actionIdList :: "u32 list"
  valueList :: "int list"
  lastValue :: int
  multiCoreflag :: bool       \<comment> \<open>\<open>ActionCpuBig\<close>\<close>
  cmdId :: int                \<comment> \<open>\<open>ActionSocPerf\<close>\<close>
  resId :: int                \<comment> \<open>\<open>ActionSocPerfResource\<close>\<close>
  fallbackValue :: int        \<comment> \<open>\<open>ActionSocPerfResource\<close>, \<open>ActionNode\<close>\<close>
  protocol :: string          \<comment> \<open>\<open>ActionCharger\<close>, \<open>ActionVoltage\<close>\<close>
  nodePath :: string          \<comment> \<open>\<open>ActionNode\<close>\<close>

record action_class =
  cls_initial :: int                                              \<comment> \<open>\<open>lastValue_\<close> of a new object\<close>
  cls_InitParams :: "platform \<Rightarrow> string \<Rightarrow> action \<Rightarrow> action result"
  cls_parse :: "string \<Rightarrow> int option"                            \<comment> \<open>\<open>None\<close>: the value is ignored\<close>
  cls_store :: "int \<Rightarrow> PolicyDelayAction \<Rightarrow> PolicyDelayAction"     \<comment> \<open>a value that is delayed\<close>
  cls_delayed :: "PolicyDelayAction \<Rightarrow> int"
  cls_fallback :: "action \<Rightarrow> int"                                \<comment> \<open>the value when there is none\<close>
  cls_result :: "int \<Rightarrow> int"                                     \<comment> \<open>the return type of \<open>GetActionValue\<close>\<close>
  cls_apply :: "platform \<Rightarrow> int \<Rightarrow> action \<Rightarrow> service_world \<Rightarrow> service_world"
  cls_reset :: int                                                \<comment> \<open>\<open>lastValue_\<close> after \<open>ResetActionValue\<close>\<close>
  cls_differs :: "int \<Rightarrow> int \<Rightarrow> bool"                               \<comment> \<open>whether a value is not the last one\<close>
  cls_print :: "int \<Rightarrow> string"                                     \<comment> \<open>\<open>std::to_string\<close> of a value\<close>

definition new_action :: "action_class \<Rightarrow> string \<Rightarrow> action" where
  "new_action cls name =
     \<lparr>actionName = name, isStrict = True, enableEvent = False, policyActionMap = [], actionIdList = [],
      valueList = [], lastValue = cls_initial cls, multiCoreflag = False, cmdId = 0, resId = 0, fallbackValue = 0,
      protocol = [], nodePath = []\<rparr>"

definition SetStrict :: "bool \<Rightarrow> action \<Rightarrow> action" where
  "SetStrict enable a = a\<lparr>isStrict := enable\<rparr>"

definition SetEnableEvent :: "bool \<Rightarrow> action \<Rightarrow> action" where
  "SetEnableEvent enable a = a\<lparr>enableEvent := enable\<rparr>"

definition AddActionValue :: "action_class \<Rightarrow> u32 \<Rightarrow> string \<Rightarrow> action \<Rightarrow> action" where
  "AddActionValue cls actionId value a =
     (if value = [] then a
      else case cls_parse cls value of
             None \<Rightarrow> a
           | Some v \<Rightarrow>
               if 0 < actionId
               then (case sm_find (policyActionMap a) actionId of
                       Some d \<Rightarrow> a\<lparr>policyActionMap := sm_assign actionId (cls_store cls v d) (policyActionMap a)\<rparr>
                     | None \<Rightarrow> a)
               else a\<lparr>valueList := valueList a @ [v]\<rparr>)"

definition GetActionValue :: "action_class \<Rightarrow> action \<Rightarrow> int" where
  "GetActionValue cls a = cls_result cls
     (if valueList a \<noteq> []
      then if isStrict a then Min (set (valueList a)) else Max (set (valueList a))
      else cls_fallback cls a)"

definition push_completed :: "action_class \<Rightarrow> action \<Rightarrow> action" where
  "push_completed cls a =
     a\<lparr>valueList := valueList a @
        map (\<lambda>(actionId, d). cls_delayed cls d) (filter (\<lambda>(actionId, d). isCompleted d) (policyActionMap a))\<rparr>"

definition ExecuteInner :: "action_class \<Rightarrow> platform \<Rightarrow> action \<times> service_world \<Rightarrow> action \<times> service_world" where
  "ExecuteInner cls P = (\<lambda>(a, w).
     let a = push_completed cls a;
         value = GetActionValue cls a;
         (a, w) = (if cls_differs cls value (lastValue a)
                   then (a\<lparr>lastValue := value\<rparr>,
                         tell_observer (ThermalObserver_SetDecisionValue (actionName a) (cls_print cls value))
                           (cls_apply cls P value a w))
                   else (a, w))
     in (a\<lparr>valueList := []\<rparr>, w))"

definition ResetActionValue :: "action_class \<Rightarrow> action \<Rightarrow> action" where
  "ResetActionValue cls a = a\<lparr>lastValue := cls_reset cls\<rparr>"

section \<open>Delayed values\<close>

definition IThermalAction_AddActionDelayTime :: "u32 \<Rightarrow> PolicyDelayAction \<Rightarrow> action \<Rightarrow> action" where
  "IThermalAction_AddActionDelayTime actionId delay a =
     (let a = (if sm_find (policyActionMap a) actionId = None
               then a\<lparr>policyActionMap := sm_insert actionId delay (policyActionMap a)\<rparr> else a)
      in a\<lparr>actionIdList := ss_insert actionId (actionIdList a)\<rparr>)"

text \<open>The first loop of \<open>Execute\<close>: drop the delayed values that were not added again.\<close>

fun drop_stale :: "platform \<Rightarrow> u32 list \<Rightarrow> (u32, PolicyDelayAction) smap \<Rightarrow> service_world \<Rightarrow>
    (u32, PolicyDelayAction) smap \<times> service_world" where
  "drop_stale P ids [] w = ([], w)"
| "drop_stale P ids ((i, d) # m) w =
     (if i \<notin> set ids
      then let w = (if \<not> isCompleted d
                    then let (ok, w) = ThermalTimer_StopTimer P (delayTimerId d) w;
                             (ok, w) = ThermalTimer_DestroyTimer P (delayTimerId d) w in w
                    else w)
           in drop_stale P ids m w
      else let (m, w) = drop_stale P ids m w in ((i, d) # m, w))"

text \<open>The second loop: start a timer for each delayed value that waits for one.\<close>

fun start_delays :: "platform \<Rightarrow> (u32, PolicyDelayAction) smap \<Rightarrow> service_world \<Rightarrow>
    (u32, PolicyDelayAction) smap \<times> service_world" where
  "start_delays P [] w = ([], w)"
| "start_delays P ((i, d) # m) w =
     (let (d, w) = (if isCompleted d \<or> 0 < delayTimerId d then (d, w)
                    else let (timerId, w) = start_delay_timer P (uint (delayTime d)) w
                         in (d\<lparr>delayTimerId := timerId\<rparr>, w));
          (m, w) = start_delays P m w
      in ((i, d) # m, w))"

definition IThermalAction_Execute :: "action_class \<Rightarrow> platform \<Rightarrow> action \<times> service_world \<Rightarrow> action \<times> service_world" where
  "IThermalAction_Execute cls P = (\<lambda>(a, w).
     let (m, w) = drop_stale P (actionIdList a) (policyActionMap a) w;
         (m, w) = start_delays P m w
     in ExecuteInner cls P (a\<lparr>policyActionMap := m, actionIdList := []\<rparr>, w))"

text \<open>The callback of a delay timer.\<close>

definition delay_callback :: "action_class \<Rightarrow> platform \<Rightarrow> u32 \<Rightarrow> action \<times> service_world \<Rightarrow> action \<times> service_world" where
  "delay_callback cls P actionId = (\<lambda>(a, w).
     case sm_find (policyActionMap a) actionId of
       None \<Rightarrow> (a, w)
     | Some d \<Rightarrow>
         let a = a\<lparr>policyActionMap := sm_assign actionId (d\<lparr>isCompleted := True\<rparr>) (policyActionMap a)\<rparr>;
             (a, w) = ExecuteInner cls P (a, w);
             (ok, w) = ThermalTimer_StopTimer P (delayTimerId d) w;
             (ok, w) = ThermalTimer_DestroyTimer P (delayTimerId d) w
         in (a, w))"

section \<open>Parsing\<close>

definition parse_strtol_u32 :: "string \<Rightarrow> int option" where
  "parse_strtol_u32 value = Some (uint (strtol_u32 value))"

definition parse_StrToUint :: "string \<Rightarrow> int option" where
  "parse_StrToUint value = map_option uint (StrToUint value)"

text \<open>\<open>strtol\<close> of the whole string.\<close>

definition parse_strtol_all :: "string \<Rightarrow> int option" where
  "parse_strtol_all value =
     (let (v, rest, _) = strtol (c_str value) in if rest \<noteq> [] then None else Some (uint (word_of_int v :: u32)))"

definition atol :: "string \<Rightarrow> int" where
  "atol value = fst (strtol (c_str value))"

text \<open>The conversion of a \<open>uint32_t\<close> or an \<open>int64_t\<close> to \<open>int32_t\<close>.\<close>

definition to_int32 :: "int \<Rightarrow> int" where
  "to_int32 v = sint (word_of_int v :: u32)"

section \<open>SocActionBase\<close>

definition SocActionBase_SocLimitRequest :: "int \<Rightarrow> int \<Rightarrow> service_world \<Rightarrow> service_world" where
  "SocActionBase_SocLimitRequest tag value w = emit (LimitRequest tag value) w"

definition SocActionBase_SocPerfRequestEx :: "int \<Rightarrow> bool \<Rightarrow> service_world \<Rightarrow> service_world" where
  "SocActionBase_SocPerfRequestEx cmd enable w = emit (PerfRequestEx cmd enable) w"

definition SocActionBase_SetSocPerfThermalLevel :: "int \<Rightarrow> service_world \<Rightarrow> service_world" where
  "SocActionBase_SetSocPerfThermalLevel lev w = emit (SetThermalLevel lev) w"

definition SocActionBase_SocIsolateRequest :: "bool \<Rightarrow> service_world \<Rightarrow> service_world" where
  "SocActionBase_SocIsolateRequest enable = SocActionBase_SocPerfRequestEx 12361 enable"

definition SocActionBase_SetBoostEnable :: "bool \<Rightarrow> service_world \<Rightarrow> service_world" where
  "SocActionBase_SetBoostEnable status w = emit (SetRequestStatus status) w"

definition SocActionBase_SocNonVipRequest :: "bool \<Rightarrow> service_world \<Rightarrow> service_world" where
  "SocActionBase_SocNonVipRequest enable = SocActionBase_SocPerfRequestEx 12362 enable"

section \<open>The classes\<close>

text \<open>What most classes share: \<open>uint32_t\<close> values read by \<open>strtol\<close>, no parameters.\<close>

definition uint_class :: "int \<Rightarrow> int \<Rightarrow> int \<Rightarrow> (platform \<Rightarrow> int \<Rightarrow> action \<Rightarrow> service_world \<Rightarrow> service_world) \<Rightarrow> action_class" where
  "uint_class initial fallback reset apply =
     \<lparr>cls_initial = initial, cls_InitParams = (\<lambda>P params a. Inr a), cls_parse = parse_strtol_u32,
      cls_store = (\<lambda>v d. d\<lparr>uintDelayValue := v\<rparr>), cls_delayed = uintDelayValue, cls_fallback = (\<lambda>a. fallback),
      cls_result = id, cls_apply = apply, cls_reset = reset, cls_differs = (\<noteq>), cls_print = to_string_int\<rparr>"

abbreviation (input) UINT_MAX :: int where "UINT_MAX \<equiv> 4294967295"
abbreviation (input) FALLBACK_VALUE_UINT_ZERO :: int where "FALLBACK_VALUE_UINT_ZERO \<equiv> 0"
abbreviation (input) FALLBACK_VALUE_UINT_SOC :: int where "FALLBACK_VALUE_UINT_SOC \<equiv> 2147483647"

definition report_value :: "int \<Rightarrow> action \<Rightarrow> service_world \<Rightarrow> service_world" where
  "report_value value a = WriteActionTriggeredHiSysEvent (enableEvent a) (actionName a) (to_int32 value)"

definition ActionCpuBig :: action_class where
  "ActionCpuBig = uint_class 0 FALLBACK_VALUE_UINT_SOC 0
     (\<lambda>P value a w.
        let w = (if multiCoreflag a
                 then SocActionBase_SocLimitRequest 1106 value (SocActionBase_SocLimitRequest 1104 value
                        (SocActionBase_SocLimitRequest 1102 value w))
                 else w)
        in report_value value a (SocActionBase_SocLimitRequest 1005 value w))
     \<lparr>cls_InitParams := (\<lambda>P params a. Inr (if params = ''multi-core'' then a\<lparr>multiCoreflag := True\<rparr> else a))\<rparr>"

definition ActionCpuMed :: action_class where
  "ActionCpuMed = uint_class 0 FALLBACK_VALUE_UINT_SOC 0
     (\<lambda>P value a w. report_value value a (SocActionBase_SocLimitRequest 1003 value w))"

definition ActionCpuLit :: action_class where
  "ActionCpuLit = uint_class 0 FALLBACK_VALUE_UINT_SOC 0
     (\<lambda>P value a w. report_value value a (SocActionBase_SocLimitRequest 1001 value w))"

definition ActionGpu :: action_class where
  "ActionGpu = uint_class 0 FALLBACK_VALUE_UINT_SOC 0
     (\<lambda>P value a w. report_value value a (SocActionBase_SocLimitRequest 1021 value w))"

abbreviation (input) BOOST_DISABLE_VALUE :: int where "BOOST_DISABLE_VALUE \<equiv> 100"

definition ActionCpuBoost :: action_class where
  "ActionCpuBoost = uint_class UINT_MAX FALLBACK_VALUE_UINT_ZERO UINT_MAX
     (\<lambda>P value a w.
        report_value value a
          (if value = BOOST_DISABLE_VALUE then SocActionBase_SetBoostEnable False w
           else SocActionBase_SetSocPerfThermalLevel value (SocActionBase_SetBoostEnable True w)))"

definition ActionCpuIsolate :: action_class where
  "ActionCpuIsolate = uint_class UINT_MAX FALLBACK_VALUE_UINT_ZERO UINT_MAX
     (\<lambda>P value a w. report_value value a (SocActionBase_SocIsolateRequest (0 < value) w))"

definition ActionCpuNonVip :: action_class where
  "ActionCpuNonVip = uint_class UINT_MAX FALLBACK_VALUE_UINT_ZERO UINT_MAX
     (\<lambda>P value a w. report_value value a (SocActionBase_SocNonVipRequest (0 < value) w))"

definition ActionSocPerf :: action_class where
  "ActionSocPerf = uint_class 0 FALLBACK_VALUE_UINT_ZERO 0
     (\<lambda>P value a w. report_value value a (SocActionBase_SocPerfRequestEx (cmdId a) (0 < value) w))
     \<lparr>cls_InitParams := (\<lambda>P params a.
        Inr (case StrToInt P params of Some i \<Rightarrow> a\<lparr>cmdId := i\<rparr> | None \<Rightarrow> a)),
      cls_parse := parse_StrToUint\<rparr>"

definition ActionSocPerfResource :: action_class where
  "ActionSocPerfResource = uint_class 0 0 0
     (\<lambda>P value a w. report_value value a (SocActionBase_SocLimitRequest (resId a) value w))
     \<lparr>cls_InitParams := (\<lambda>P params a.
        bindr (SplitString params [] ''|'') (\<lambda>paramList. Inr
          (let set_id = (\<lambda>s a. case StrToInt P s of Some i \<Rightarrow> a\<lparr>resId := i\<rparr> | None \<Rightarrow> a) in
           case paramList of
             [] \<Rightarrow> a
           | [s] \<Rightarrow> set_id s a
           | s # f # _ \<Rightarrow>
               let a = set_id s a in
               case StrToUint (c_str f) of Some v \<Rightarrow> a\<lparr>fallbackValue := uint v\<rparr> | None \<Rightarrow> a))),
      cls_parse := parse_StrToUint, cls_fallback := fallbackValue\<rparr>"

section \<open>Charging\<close>

abbreviation (input) config_dir :: string where "config_dir \<equiv> ''/data/service/el0/thermal/config/''"

definition limit_path :: "string \<Rightarrow> string \<Rightarrow> string \<Rightarrow> string" where
  "limit_path prot sc buck =
     (if prot = ''sc'' then config_dir @ sc else if prot = ''buck'' then config_dir @ buck else [])"

definition write_value :: "string \<Rightarrow> int \<Rightarrow> service_world \<Rightarrow> service_world" where
  "write_value path v w = emit (WriteFile path (to_string_int v @ NEWLINE)) w"

definition ActionCharger_ChargerRequest :: "platform \<Rightarrow> int \<Rightarrow> action \<Rightarrow> service_world \<Rightarrow> service_world" where
  "ActionCharger_ChargerRequest P current a w =
     (let w = w\<lparr>currentLimitList := currentLimitList w @ [(protocol a, current)]\<rparr>
      in if thermalInterface P then emit (SetBatteryCurrent current) w else w)"

definition ActionCharger_WriteSimValue :: "int \<Rightarrow> action \<Rightarrow> service_world \<Rightarrow> service_world" where
  "ActionCharger_WriteSimValue simValue a w =
     write_value (limit_path (protocol a) ''sc_current'' ''buck_current'') simValue w"

definition ActionCharger_ExecuteCurrentLimit :: "platform \<Rightarrow> service_world \<Rightarrow> service_world" where
  "ActionCharger_ExecuteCurrentLimit P w =
     (if currentLimitList w = [] then w
      else if \<not> batteryInterface P then w
      else let w' = emit (SetChargingLimit (currentLimitList w)) w
           in if SetChargingLimit_ok P then w'\<lparr>currentLimitList := []\<rparr> else w')"

definition ActionCharger :: action_class where
  "ActionCharger = uint_class 0 FALLBACK_VALUE_UINT_ZERO 0
     (\<lambda>P value a w. report_value value a
        (ActionCharger_WriteSimValue (to_int32 value) a (ActionCharger_ChargerRequest P (to_int32 value) a w)))
     \<lparr>cls_InitParams := (\<lambda>P params a. Inr (a\<lparr>protocol := params\<rparr>))\<rparr>"

definition ActionVoltage_SetVoltage :: "platform \<Rightarrow> int \<Rightarrow> action \<Rightarrow> service_world \<Rightarrow> service_world" where
  "ActionVoltage_SetVoltage P voltage a w =
     (if batteryInterface P then w\<lparr>voltageLimitList := voltageLimitList w @ [(protocol a, voltage)]\<rparr> else w)"

definition ActionVoltage_WriteMockNode :: "int \<Rightarrow> action \<Rightarrow> service_world \<Rightarrow> service_world" where
  "ActionVoltage_WriteMockNode mockValue a w =
     write_value (limit_path (protocol a) ''sc_voltage'' ''buck_voltage'') mockValue w"

definition ActionVoltage_ExecuteVoltageLimit :: "platform \<Rightarrow> service_world \<Rightarrow> service_world" where
  "ActionVoltage_ExecuteVoltageLimit P w =
     (if voltageLimitList w = [] then w
      else if \<not> batteryInterface P then w
      else let w' = emit (SetChargingLimit (voltageLimitList w)) w
           in if SetChargingLimit_ok P then w'\<lparr>voltageLimitList := []\<rparr> else w')"

definition ActionVoltage :: action_class where
  "ActionVoltage = uint_class 0 FALLBACK_VALUE_UINT_ZERO 0
     (\<lambda>P value a w. report_value value a
        (ActionVoltage_WriteMockNode (to_int32 value) a (ActionVoltage_SetVoltage P (to_int32 value) a w)))
     \<lparr>cls_InitParams := (\<lambda>P params a. Inr (a\<lparr>protocol := params\<rparr>))\<rparr>"

section \<open>Airplane mode, dialogs, shutdown, processes, nodes\<close>

definition ActionAirplane_AirplaneRequest :: "int \<Rightarrow> service_world \<Rightarrow> service_world" where
  "ActionAirplane_AirplaneRequest value w =
     (if value = 0 then
        if \<not> userAirplaneState w then emit (SetAirplaneMode False) (w\<lparr>isThermalAirplane := True\<rparr>) else w
      else if value = 1 then
        if \<not> userAirplaneState w then emit (SetAirplaneMode True) (w\<lparr>isThermalAirplane := True\<rparr>) else w
      else w)"

definition ActionAirplane_AirplaneExecution :: "int \<Rightarrow> service_world \<Rightarrow> service_world" where
  "ActionAirplane_AirplaneExecution value w = write_value (config_dir @ ''airplane'') value w"

definition ActionAirplane :: action_class where
  "ActionAirplane = uint_class 0 FALLBACK_VALUE_UINT_ZERO 0
     (\<lambda>P value a w.
        WriteActionTriggeredHiSysEventWithRatio (enableEvent a) (actionName a) (float_of_int value)
          (if \<not> isSimulation w then ActionAirplane_AirplaneRequest value w
           else ActionAirplane_AirplaneExecution value w))
     \<lparr>cls_parse := parse_strtol_all\<rparr>"

definition ActionPopup_HandlePopupEvent :: "int \<Rightarrow> service_world \<Rightarrow> service_world" where
  "ActionPopup_HandlePopupEvent value w =
     (if value = 1 then emit RefreshActivity (emit (ShowThermalDialog False) w)
      else if value = 2 then emit RefreshActivity (emit (ShowThermalDialog True) w)
      else w)"

definition ActionPopup :: action_class where
  "ActionPopup = uint_class 0 FALLBACK_VALUE_UINT_ZERO 0
     (\<lambda>P value a w. report_value value a (ActionPopup_HandlePopupEvent (to_int32 value) w))"

definition ActionShutdown_ShutdownRequest :: "bool \<Rightarrow> service_world \<Rightarrow> service_world" where
  "ActionShutdown_ShutdownRequest isShutdown w = (if isShutdown then emit ShutDownDevice w else w)"

definition ActionShutdown_ShutdownExecution :: "bool \<Rightarrow> service_world \<Rightarrow> service_world" where
  "ActionShutdown_ShutdownExecution isShutdown w =
     write_value (config_dir @ ''shut_down'') (if isShutdown then 1 else 0) w"

definition ActionShutdown :: action_class where
  "ActionShutdown = uint_class 0 FALLBACK_VALUE_UINT_ZERO 0
     (\<lambda>P value a w. report_value value a
        (if isSimulation w then ActionShutdown_ShutdownExecution (value \<noteq> 0) w
         else ActionShutdown_ShutdownRequest (value \<noteq> 0) w))"

definition ActionApplicationProcess_ProcessAppActionExecution :: "int \<Rightarrow> service_world \<Rightarrow> service_world" where
  "ActionApplicationProcess_ProcessAppActionExecution value w = write_value (config_dir @ ''process_ctrl'') value w"

definition ActionApplicationProcess :: action_class where
  "ActionApplicationProcess = uint_class 0 FALLBACK_VALUE_UINT_ZERO 0
     (\<lambda>P value a w. report_value value a
        (if \<not> isSimulation w then emit (ProcessAppActionRequest value) w
         else ActionApplicationProcess_ProcessAppActionExecution value w))"

text \<open>\<open>int64_t\<close> values; a delayed one is stored in 32 bits.\<close>

abbreviation (input) MIN_PATH_LENGTH :: nat where "MIN_PATH_LENGTH \<equiv> 9"

definition ActionNode :: action_class where
  "ActionNode =
     \<lparr>cls_initial = INT_MAX,
      cls_InitParams = (\<lambda>P params a.
        bindr (SplitString params [] ''|'') (\<lambda>paramList. Inr
          (case paramList of
             [] \<Rightarrow> a
           | [s] \<Rightarrow> a\<lparr>nodePath := s\<rparr>
           | s # f # _ \<Rightarrow> a\<lparr>nodePath := s, fallbackValue := atol f\<rparr>))),
      cls_parse = (\<lambda>value. Some (atol value)),
      cls_store = (\<lambda>v d. d\<lparr>intDelayValue := to_int32 v\<rparr>),
      cls_delayed = intDelayValue,
      cls_fallback = fallbackValue,
      cls_result = id,
      cls_apply = (\<lambda>P value a w.
        if MIN_PATH_LENGTH < length (nodePath a) then emit (WriteFile (nodePath a) (to_string_int value)) w else w),
      cls_reset = INT_MAX, cls_differs = (\<noteq>), cls_print = to_string_int\<rparr>"

section \<open>Brightness and volume\<close>

text \<open>What the two classes share, with \<open>strtof\<close>, and what a value asks for.\<close>

definition float_class :: "(string \<Rightarrow> int) \<Rightarrow> (int \<Rightarrow> service_world \<Rightarrow> service_world) \<Rightarrow> action_class" where
  "float_class strtof request =
     \<lparr>cls_initial = 0, cls_InitParams = (\<lambda>P params a. Inr a), cls_parse = (\<lambda>value. Some (strtof (c_str value))),
      cls_store = (\<lambda>v d. d\<lparr>floatDelayValue := v\<rparr>), cls_delayed = floatDelayValue,
      cls_fallback = (\<lambda>a. FALLBACK_VALUE_FLOAT), cls_result = id,
      cls_apply = (\<lambda>P value a w.
        WriteActionTriggeredHiSysEventWithRatio (enableEvent a) (actionName a) value (request value w)),
      cls_reset = 0, cls_differs = float_differs, cls_print = to_string_float\<rparr>"

definition ActionDisplay_RequestDisplay :: "int \<Rightarrow> service_world \<Rightarrow> service_world" where
  "ActionDisplay_RequestDisplay factor w = emit (DiscountBrightness factor) w"

definition ActionDisplay_ExecuteMock :: "int \<Rightarrow> service_world \<Rightarrow> service_world" where
  "ActionDisplay_ExecuteMock factor w = emit (WriteFile (config_dir @ ''lcd'') (to_string_float factor @ NEWLINE)) w"

definition ActionDisplay :: "(string \<Rightarrow> int) \<Rightarrow> action_class" where
  "ActionDisplay strtof = float_class strtof (\<lambda>value w.
     if \<not> isSimulation w then ActionDisplay_RequestDisplay value w else ActionDisplay_ExecuteMock value w)"

definition ActionVolume_VolumeExecution :: "int \<Rightarrow> service_world \<Rightarrow> service_world" where
  "ActionVolume_VolumeExecution volume w = emit (WriteFile (config_dir @ ''volume'') (to_string_float volume @ NEWLINE)) w"

definition ActionVolume :: "(string \<Rightarrow> int) \<Rightarrow> action_class" where
  "ActionVolume strtof = float_class strtof (\<lambda>value w.
     if \<not> isSimulation w then emit (VolumeRequest value) w else ActionVolume_VolumeExecution value w)"

end
