(* ===== verification/Action_Manager.thy ===== *)
theory Action_Manager
  imports Thermal_Action
begin

text \<open>
  \<open>action_thermal_level.cpp\<close>, \<open>thermal_action_factory.cpp\<close> and \<open>thermal_action_manager.cpp\<close>:
  the action that announces the thermal level to its listeners, the factory that makes an
  action for a class name, and the manager that holds the configured actions.

  An object of the code is its class, a constructor of \<open>action_kind\<close>, and its members, an
  \<open>action\<close>. The static \<open>ActionThermalLevel::lastValue_\<close> is the member of the one thermal
  level action the manager's map holds. A listener is the number of its remote object.
\<close>

section \<open>The thermal level\<close>

abbreviation (input) MIN_THERMAL_LEVEL :: int where "MIN_THERMAL_LEVEL \<equiv> 0"   \<comment> \<open>\<open>COOL\<close>\<close>
abbreviation (input) MAX_THERMAL_LEVEL :: int where "MAX_THERMAL_LEVEL \<equiv> 7"   \<comment> \<open>\<open>ESCAPE\<close>\<close>

definition ActionThermalLevel_NotifyThermalLevelChanged :: "int \<Rightarrow> service_world \<Rightarrow> service_world" where
  "ActionThermalLevel_NotifyThermalLevelChanged lev w =
     w\<lparr>effects := effects w @ [PublishLevelChanged lev] @
        map (\<lambda>l. OnAsyncThermalLevelChanged l lev) (asyncThermalLevelListeners w) @
        map (\<lambda>l. OnThermalLevelChanged l lev) (syncThermalLevelListeners w)\<rparr>"

definition ActionThermalLevel_LevelRequest :: "int \<Rightarrow> service_world \<Rightarrow> service_world" where
  "ActionThermalLevel_LevelRequest lev =
     (let lev = (if MAX_THERMAL_LEVEL < lev then MAX_THERMAL_LEVEL else lev);
          lev = (if lev < MIN_THERMAL_LEVEL then MIN_THERMAL_LEVEL else lev)
      in ActionThermalLevel_NotifyThermalLevelChanged lev)"

definition ActionThermalLevel :: action_class where
  "ActionThermalLevel =
     uint_class INT_MIN MIN_THERMAL_LEVEL INT_MIN (\<lambda>P value a w. ActionThermalLevel_LevelRequest value w)
     \<lparr>cls_result := to_int32\<rparr>"

text \<open>Whether the listener is new.\<close>

definition ActionThermalLevel_AddThermalLevelListeners ::
    "nat option \<Rightarrow> bool \<Rightarrow> service_world \<Rightarrow> bool \<times> service_world" where
  "ActionThermalLevel_AddThermalLevelListeners callback isSync w =
     (case callback of
        None \<Rightarrow> (False, w)
      | Some l \<Rightarrow>
          if isSync
          then if l \<notin> set (syncThermalLevelListeners w)
               then (True, w\<lparr>syncThermalLevelListeners := ss_insert l (syncThermalLevelListeners w),
                             levelWatched := ss_insert l (levelWatched w)\<rparr>)
               else (False, w)
          else if l \<notin> set (asyncThermalLevelListeners w)
               then (True, w\<lparr>asyncThermalLevelListeners := ss_insert l (asyncThermalLevelListeners w),
                             levelWatched := ss_insert l (levelWatched w)\<rparr>)
               else (False, w))"

definition ActionThermalLevel_SubscribeThermalLevelCallback ::
    "nat option \<Rightarrow> bool \<Rightarrow> action \<Rightarrow> service_world \<Rightarrow> service_world" where
  "ActionThermalLevel_SubscribeThermalLevelCallback callback isSync a w =
     (case callback of
        None \<Rightarrow> w
      | Some l \<Rightarrow>
          let (new, w) = ActionThermalLevel_AddThermalLevelListeners callback isSync w
          in if new
             then emit (if isSync then OnThermalLevelChanged l (lastValue a)
                        else OnAsyncThermalLevelChanged l (lastValue a)) w
             else w)"

definition ActionThermalLevel_UnSubscribeThermalLevelCallback :: "nat option \<Rightarrow> service_world \<Rightarrow> service_world" where
  "ActionThermalLevel_UnSubscribeThermalLevelCallback callback w =
     (case callback of
        None \<Rightarrow> w
      | Some l \<Rightarrow>
          let known = (l \<in> set (syncThermalLevelListeners w) \<or> l \<in> set (asyncThermalLevelListeners w));
              w = w\<lparr>syncThermalLevelListeners := ss_erase l (syncThermalLevelListeners w),
                    asyncThermalLevelListeners := ss_erase l (asyncThermalLevelListeners w)\<rparr>
          in if known then w\<lparr>levelWatched := ss_erase l (levelWatched w)\<rparr> else w)"

definition ThermalLevelCallbackDeathRecipient_OnRemoteDied :: "nat option \<Rightarrow> service_world \<Rightarrow> service_world" where
  "ThermalLevelCallbackDeathRecipient_OnRemoteDied remote w =
     (if remote = None then w else ActionThermalLevel_UnSubscribeThermalLevelCallback remote w)"

section \<open>The factory\<close>

datatype action_kind =
    KAirplane | KCpuBig | KCpuMed | KCpuLit | KGpu | KDisplay | KVolume | KShutdown | KThermalLevel | KPopup
  | KCharger | KVoltage | KCpuBoost | KCpuIsolate | KCpuNonVip | KProcess | KSocPerf | KSocPerfResource | KNode

fun class_of :: "(string \<Rightarrow> int) \<Rightarrow> action_kind \<Rightarrow> action_class" where
  "class_of strtof KAirplane = ActionAirplane"
| "class_of strtof KCpuBig = ActionCpuBig"
| "class_of strtof KCpuMed = ActionCpuMed"
| "class_of strtof KCpuLit = ActionCpuLit"
| "class_of strtof KGpu = ActionGpu"
| "class_of strtof KDisplay = ActionDisplay strtof"
| "class_of strtof KVolume = ActionVolume strtof"
| "class_of strtof KShutdown = ActionShutdown"
| "class_of strtof KThermalLevel = ActionThermalLevel"
| "class_of strtof KPopup = ActionPopup"
| "class_of strtof KCharger = ActionCharger"
| "class_of strtof KVoltage = ActionVoltage"
| "class_of strtof KCpuBoost = ActionCpuBoost"
| "class_of strtof KCpuIsolate = ActionCpuIsolate"
| "class_of strtof KCpuNonVip = ActionCpuNonVip"
| "class_of strtof KProcess = ActionApplicationProcess"
| "class_of strtof KSocPerf = ActionSocPerf"
| "class_of strtof KSocPerfResource = ActionSocPerfResource"
| "class_of strtof KNode = ActionNode"

definition ThermalActionFactory_InitFactory :: "(string \<times> action_kind) list" where
  "ThermalActionFactory_InitFactory =
     [(''airplane'', KAirplane), (''cpu_big'', KCpuBig), (''cpu_med'', KCpuMed), (''cpu_lit'', KCpuLit),
      (''gpu'', KGpu), (''lcd'', KDisplay), (''volume'', KVolume), (''shut_down'', KShutdown),
      (''thermallevel'', KThermalLevel), (''popup'', KPopup), (''current'', KCharger), (''voltage'', KVoltage),
      (''boost'', KCpuBoost), (''isolate'', KCpuIsolate), (''nonvip'', KCpuNonVip), (''process_ctrl'', KProcess),
      (''socperf'', KSocPerf), (''socperf_resource'', KSocPerfResource), (''node'', KNode)]"

definition ThermalActionFactory_Create :: "string \<Rightarrow> action_kind option" where
  "ThermalActionFactory_Create actionClass =
     map_option snd (find (\<lambda>(name, _). Compare actionClass name) ThermalActionFactory_InitFactory)"

section \<open>The manager\<close>

record ActionItem =
  ai_name :: string
  ai_params :: string
  ai_uid :: string
  ai_protocol :: string
  ai_strict :: bool
  ai_enableEvent :: bool

record ActionManager =
  vActionItem :: "ActionItem list"
  managedActions :: "(string, action_kind \<times> action) smap"   \<comment> \<open>\<open>actionMap_\<close>\<close>

abbreviation (input) THERMAL_LEVEL_NAME :: string where "THERMAL_LEVEL_NAME \<equiv> ''thermallevel''"

definition item_kind :: "ActionItem \<Rightarrow> action_kind option" where
  "item_kind item =
     (if ai_name item = THERMAL_LEVEL_NAME then Some KThermalLevel
      else if ai_protocol item \<noteq> [] then ThermalActionFactory_Create (ai_protocol item)
      else ThermalActionFactory_Create (ai_name item))"

text \<open>One pass of the loop of \<open>Init\<close>.\<close>

definition init_item :: "(string \<Rightarrow> int) \<Rightarrow> platform \<Rightarrow> ActionItem \<Rightarrow> ActionManager \<Rightarrow> ActionManager result" where
  "init_item strtof P item mgr =
     (case item_kind item of
        None \<Rightarrow> Inr mgr
      | Some kind \<Rightarrow>
          bindr (cls_InitParams (class_of strtof kind) P (ai_params item) (new_action (class_of strtof kind) (ai_name item))) (\<lambda>a.
            let a = SetEnableEvent (ai_enableEvent item) (SetStrict (ai_strict item) a)
            in Inr (mgr\<lparr>managedActions := sm_insert (ai_name item) (kind, a) (managedActions mgr)\<rparr>)))"

definition ThermalActionManager_CreateActionMockFile :: "service_world \<Rightarrow> service_world" where
  "ThermalActionManager_CreateActionMockFile w =
     w\<lparr>effects := effects w @
        map (\<lambda>f. CreateNodeFile (config_dir @ f))
          [''lcd'', ''process_ctrl'', ''configLevel'', ''shut_down'', ''sc_current'', ''buck_current'', ''sc_voltage'',
           ''buck_voltage''] @
        map (\<lambda>f. CreateNodeFile (''/data/service/el0/thermal/state/'' @ f)) [''scene'', ''screen'', ''charge'']\<rparr>"

definition ThermalActionManager_Init ::
    "(string \<Rightarrow> int) \<Rightarrow> platform \<Rightarrow> ActionManager \<times> service_world \<Rightarrow> (ActionManager \<times> service_world) result" where
  "ThermalActionManager_Init strtof P = (\<lambda>(mgr, w).
     bindr (foldr_result (init_item strtof P) (vActionItem mgr) mgr) (\<lambda>mgr.
       Inr (mgr, ThermalActionManager_CreateActionMockFile w)))"

text \<open>
  \<open>actionThermalLevel_\<close> is set when an item of that name is configured, and the map then holds it.
\<close>

definition thermal_level_action :: "ActionManager \<Rightarrow> action option" where
  "thermal_level_action mgr = map_option snd (sm_find (managedActions mgr) THERMAL_LEVEL_NAME)"

definition ThermalActionManager_SubscribeThermalLevelCallback ::
    "nat option \<Rightarrow> bool \<Rightarrow> ActionManager \<Rightarrow> service_world \<Rightarrow> service_world" where
  "ThermalActionManager_SubscribeThermalLevelCallback callback isSync mgr w =
     (case thermal_level_action mgr of
        Some a \<Rightarrow> ActionThermalLevel_SubscribeThermalLevelCallback callback isSync a w
      | None \<Rightarrow> w)"

definition ThermalActionManager_UnSubscribeThermalLevelCallback ::
    "nat option \<Rightarrow> ActionManager \<Rightarrow> service_world \<Rightarrow> service_world" where
  "ThermalActionManager_UnSubscribeThermalLevelCallback callback mgr w =
     (if thermal_level_action mgr \<noteq> None then ActionThermalLevel_UnSubscribeThermalLevelCallback callback w else w)"

text \<open>The level is returned as a \<open>uint32_t\<close>.\<close>

definition ThermalActionManager_GetThermalLevel :: "ActionManager \<Rightarrow> int" where
  "ThermalActionManager_GetThermalLevel mgr =
     (case thermal_level_action mgr of Some a \<Rightarrow> uint (word_of_int (lastValue a) :: u32) | None \<Rightarrow> 0)"

definition flag :: "bool \<Rightarrow> string" where
  "flag b = (if b then ''1'' else ''0'')"

definition ThermalActionManager_DumpAction :: "string \<Rightarrow> ActionManager \<Rightarrow> string" where
  "ThermalActionManager_DumpAction result mgr =
     fold (\<lambda>item result.
        result @ ''name: '' @ ai_name item @
        (if ai_params item \<noteq> [] then TAB @ ''params: '' @ ai_params item else []) @
        (if ai_protocol item \<noteq> [] then TAB @ ''protocol: '' @ ai_protocol item else []) @
        (if ai_uid item \<noteq> [] then TAB @ ''uid: '' @ ai_uid item else []) @
        TAB @ ''strict: '' @ flag (ai_strict item) @
        TAB @ ''enableEvent: '' @ flag (ai_enableEvent item) @ NEWLINE)
       (vActionItem mgr) result"

section \<open>What a request for a volume does\<close>

text \<open>The audio framework: the streams that play, with the user of each, and the reply to a change.\<close>

record audio =
  StreamManager_GetInstance :: bool                      \<comment> \<open>whether it is there\<close>
  GetCurrentRendererChangeInfos :: "int \<times> (int \<times> int) list"   \<comment> \<open>the result; \<open>clientUID\<close> and \<open>sessionId\<close> of each stream\<close>
  SetLowPowerVolume :: "int \<Rightarrow> int \<Rightarrow> int"

text \<open>The result and the calls of \<open>SetLowPowerVolume\<close>.\<close>

fun volume_loop :: "audio \<Rightarrow> string list \<Rightarrow> int \<Rightarrow> (int \<times> int) list \<Rightarrow> int \<times> (int \<times> int) list" where
  "volume_loop A uidList volume [] = (0, [])"
| "volume_loop A uidList volume ((clientUID, streamId) # infos) =
     (if to_string_int clientUID \<in> set uidList
      then let ret = SetLowPowerVolume A streamId volume
           in if ret < 0 then (ret, [(streamId, volume)])
              else let (ret, calls) = volume_loop A uidList volume infos in (ret, (streamId, volume) # calls)
      else volume_loop A uidList volume infos)"

text \<open>\<open>None\<close> is a build without the audio framework.\<close>

definition ActionVolume_VolumeRequest ::
    "audio option \<Rightarrow> int \<Rightarrow> ActionManager \<Rightarrow> (int \<times> (int \<times> int) list) result" where
  "ActionVolume_VolumeRequest audio volume mgr =
     (let uid = (case find (\<lambda>info. ai_name info = ''volume'') (vActionItem mgr) of Some item \<Rightarrow> ai_uid item | None \<Rightarrow> [])
      in bindr (SplitString uid [] '','') (\<lambda>uidList. Inr
           (case audio of
              None \<Rightarrow> (- 1, [])
            | Some A \<Rightarrow>
                if \<not> StreamManager_GetInstance A then (- 1, [])
                else let (ret, audioInfos) = GetCurrentRendererChangeInfos A
                     in if ret < 0 then (ret, [])
                        else if audioInfos = [] then (0, [])
                        else volume_loop A uidList volume audioInfos)))"

end
