(* ===== verification/Thermal_Policy.thy ===== *)
theory Thermal_Policy
  imports Sensor_Cluster Action_Manager
begin

text \<open>
  \<open>thermal_policy.cpp\<close>: the loop of the service. A report of sensor temperatures updates
  the level of every sensor cluster, the levels select the configured policies, the policies
  hand values to the actions, and the actions are executed.

  The policy works on its own members, the manager's actions and the world, which are passed
  as a triple. \<open>std::sort\<close> is a stable sort here; where two policies of a cluster have the
  same level the code leaves their order open, and the theorems ask for distinct levels.
  \<open>actionPolicyInfos\<close> is an \<open>unordered_map\<close>: its loop treats every action by itself, so
  its order does not matter. \<open>uninit\<close> stands for the indeterminate contents of the local
  \<open>PolicyDelayAction\<close>, which the code does not initialise. The task that
  \<open>ActionExecution\<close> submits runs later, as \<open>ThermalPolicy_FindSubscribeActionValue\<close>.
\<close>

section \<open>State\<close>

record PolicyAction =
  pa_actionName :: string
  pa_actionValue :: string
  pa_actionPropMap :: "(string, string) smap"
  pa_isProp :: bool

record PolicyConfig =
  pc_level :: nat
  pc_policyActionList :: "PolicyAction list"

record Policy =
  typeTempMap :: TypeTempMap
  sensorClusterMap :: "(string, SensorCluster) smap"
  clusterLevelMap :: "(string, nat) smap"
  clusterPolicyMap :: "(string, PolicyConfig list) smap"

definition Policy_new :: Policy where
  "Policy_new = \<lparr>typeTempMap = [], sensorClusterMap = [], clusterLevelMap = [], clusterPolicyMap = []\<rparr>"

definition ThermalPolicy_SetPolicyMap :: "(string, PolicyConfig list) smap \<Rightarrow> Policy \<Rightarrow> Policy" where
  "ThermalPolicy_SetPolicyMap pcm p = p\<lparr>clusterPolicyMap := pcm\<rparr>"

definition ThermalPolicy_SetSensorClusterMap :: "(string, SensorCluster) smap \<Rightarrow> Policy \<Rightarrow> Policy" where
  "ThermalPolicy_SetSensorClusterMap scm p = p\<lparr>sensorClusterMap := scm\<rparr>"

section \<open>Start\<close>

definition ThermalPolicy_SortLevel :: "Policy \<Rightarrow> Policy" where
  "ThermalPolicy_SortLevel p =
     p\<lparr>clusterPolicyMap := map (\<lambda>(name, cfgs). (name, sort_key pc_level cfgs)) (clusterPolicyMap p)\<rparr>"

definition ThermalPolicy_RegisterObserver :: "service_world \<Rightarrow> service_world" where
  "ThermalPolicy_RegisterObserver w = tell_observer ThermalObserver_SetRegisterCallback w"

definition ThermalPolicy_Init :: "Policy \<times> service_world \<Rightarrow> bool \<times> Policy \<times> service_world" where
  "ThermalPolicy_Init = (\<lambda>(p, w). (True, ThermalPolicy_SortLevel p, ThermalPolicy_RegisterObserver w))"

section \<open>Levels\<close>

fun level_loop :: "platform \<Rightarrow> sensor_rates \<Rightarrow> TypeTempMap \<Rightarrow> (string, SensorCluster) smap \<Rightarrow> (string, nat) smap \<Rightarrow>
    service_world \<Rightarrow> ((string, SensorCluster) smap \<times> (string, nat) smap \<times> service_world) result" where
  "level_loop P rates temps [] levels w = Inr ([], levels, w)"
| "level_loop P rates temps ((name, c) # rest) levels w =
     bindr (UpdateThermalLevel P rates temps (c, w)) (\<lambda>(c, w).
       bindr (level_loop P rates temps rest (sm_assign name (GetCurrentLevel c) levels) w) (\<lambda>(rest, levels, w).
         Inr ((name, c) # rest, levels, w)))"

definition ThermalPolicy_LevelDecision :: "platform \<Rightarrow> sensor_rates \<Rightarrow> Policy \<times> service_world \<Rightarrow>
    (Policy \<times> service_world) result" where
  "ThermalPolicy_LevelDecision P rates = (\<lambda>(p, w).
     bindr (level_loop P rates (typeTempMap p) (sensorClusterMap p) (clusterLevelMap p) w) (\<lambda>(clusters, levels, w).
       Inr (p\<lparr>sensorClusterMap := clusters, clusterLevelMap := levels\<rparr>, w)))"

text \<open>The greatest level of all clusters; without a cluster the code dereferences the end of a list.\<close>

definition ThermalPolicy_WriteLevel :: "Policy \<Rightarrow> service_world \<Rightarrow> service_world result" where
  "ThermalPolicy_WriteLevel p w =
     (if \<not> isSimulation w then Inr w
      else let levelList = map snd (clusterLevelMap p)
           in if levelList = [] then Inl UndefinedIndex
              else Inr (write_value (config_dir @ ''configLevel'') (int (Max (set levelList))) w))"

section \<open>Decisions\<close>

abbreviation (input) DELAY_TIME_FLAG :: string where "DELAY_TIME_FLAG \<equiv> ''delaytime''"

fun ThermalPolicy_StateMachineDecision :: "platform \<Rightarrow> (string \<times> string) list \<Rightarrow> service_world \<Rightarrow>
    (bool \<times> service_world) result" where
  "ThermalPolicy_StateMachineDecision P [] w = Inr (True, w)"
| "ThermalPolicy_StateMachineDecision P ((name, value) # rest) w =
     (if name = DELAY_TIME_FLAG then ThermalPolicy_StateMachineDecision P rest w
      else case sm_find (stateCollectionMap w) name of
        None \<Rightarrow> Inr (False, w)
      | Some coll \<Rightarrow>
          bindr (IStateCollection_DecideState P w value coll) (\<lambda>(b, coll).
            let w = w\<lparr>stateCollectionMap := sm_assign name coll (stateCollectionMap w)\<rparr>
            in if b then ThermalPolicy_StateMachineDecision P rest w else Inr (False, w)))"

text \<open>The first loop of \<open>ActionDecision\<close>: the last action of a name whose conditions hold.\<close>

fun collect_actions :: "platform \<Rightarrow> PolicyAction list \<Rightarrow> (string, PolicyAction) smap \<Rightarrow> service_world \<Rightarrow>
    ((string, PolicyAction) smap \<times> service_world) result" where
  "collect_actions P [] infos w = Inr (infos, w)"
| "collect_actions P (pa # rest) infos w =
     bindr (if pa_isProp pa then ThermalPolicy_StateMachineDecision P (pa_actionPropMap pa) w else Inr (True, w))
       (\<lambda>(ok, w). collect_actions P rest (if ok then sm_assign (pa_actionName pa) pa infos else infos) w)"

type_synonym action_map = "(string, action_kind \<times> action) smap"

text \<open>The second loop: one collected action.\<close>

definition add_policy_action :: "(string \<Rightarrow> int) \<Rightarrow> PolicyDelayAction \<Rightarrow> string \<times> PolicyAction \<Rightarrow> action_map \<Rightarrow>
    action_map result" where
  "add_policy_action strtof uninit = (\<lambda>(name, pa) acts.
     case sm_find acts name of
       None \<Rightarrow> Inr acts
     | Some (k, a) \<Rightarrow>
         (case (if pa_isProp pa then sm_find (pa_actionPropMap pa) DELAY_TIME_FLAG else None) of
            None \<Rightarrow> Inr (sm_assign name (k, AddActionValue (class_of strtof k) 0 (pa_actionValue pa) a) acts)
          | Some s \<Rightarrow>
              bindr (SplitString s [] '','') (\<lambda>delayStr.
                case delayStr of
                  [s0, s1] \<Rightarrow>
                    let actionId = (case StrToUint s0 of Some i \<Rightarrow> i | None \<Rightarrow> 0);
                        delayAction = (case StrToUint s1 of Some t \<Rightarrow> uninit\<lparr>delayTime := t\<rparr> | None \<Rightarrow> uninit);
                        a = IThermalAction_AddActionDelayTime actionId delayAction a;
                        a = AddActionValue (class_of strtof k) actionId (pa_actionValue pa) a
                    in Inr (sm_assign name (k, a) acts)
                | _ \<Rightarrow> Inr acts)))"

definition ThermalPolicy_ActionDecision :: "(string \<Rightarrow> int) \<Rightarrow> platform \<Rightarrow> PolicyDelayAction \<Rightarrow> PolicyAction list \<Rightarrow>
    action_map \<times> service_world \<Rightarrow> (action_map \<times> service_world) result" where
  "ThermalPolicy_ActionDecision strtof P uninit actionList = (\<lambda>(acts, w).
     bindr (collect_actions P actionList [] w) (\<lambda>(infos, w).
       bindr (foldr_result (add_policy_action strtof uninit) infos acts) (\<lambda>acts. Inr (acts, w))))"

text \<open>The policies are searched from the highest level down.\<close>

definition policy_choice :: "nat \<Rightarrow> PolicyConfig list \<Rightarrow> PolicyConfig option" where
  "policy_choice lev cfgs = find (\<lambda>cfg. pc_level cfg \<le> lev) (rev cfgs)"

definition decide_cluster :: "(string \<Rightarrow> int) \<Rightarrow> platform \<Rightarrow> PolicyDelayAction \<Rightarrow> (string, nat) smap \<Rightarrow>
    string \<times> PolicyConfig list \<Rightarrow> action_map \<times> service_world \<Rightarrow> (action_map \<times> service_world) result" where
  "decide_cluster strtof P uninit levels = (\<lambda>(clusterName, policyConfig) (acts, w).
     if clusterName = [] \<or> policyConfig = [] then Inr (acts, w)
     else case sm_find levels clusterName of
            None \<Rightarrow> Inr (acts, w)
          | Some lev \<Rightarrow>
              (case policy_choice lev policyConfig of
                 None \<Rightarrow> Inr (acts, w)
               | Some cfg \<Rightarrow> ThermalPolicy_ActionDecision strtof P uninit (pc_policyActionList cfg) (acts, w)))"

definition level_info :: "(string, nat) smap \<Rightarrow> string" where
  "level_info levels = concat (map (\<lambda>(name, lev). name @ ''-'' @ to_dec lev @ '' '') levels)"

definition ThermalPolicy_PrintPolicyState :: "Policy \<Rightarrow> service_world \<Rightarrow> service_world" where
  "ThermalPolicy_PrintPolicyState p w =
     tell_observer (ThermalObserver_UpdatePolicyState (level_info (clusterLevelMap p))) w"

section \<open>Execution\<close>

fun execute_all :: "(string \<Rightarrow> int) \<Rightarrow> platform \<Rightarrow> action_map \<Rightarrow> service_world \<Rightarrow> action_map \<times> service_world" where
  "execute_all strtof P [] w = ([], w)"
| "execute_all strtof P ((name, k, a) # rest) w =
     (let (a, w) = IThermalAction_Execute (class_of strtof k) P (a, w);
          (rest, w) = execute_all strtof P rest w
      in ((name, k, a) # rest, w))"

definition ThermalPolicy_ActionExecution :: "(string \<Rightarrow> int) \<Rightarrow> platform \<Rightarrow> action_map \<times> service_world \<Rightarrow>
    action_map \<times> service_world" where
  "ThermalPolicy_ActionExecution strtof P = (\<lambda>(acts, w).
     let (acts, w) = execute_all strtof P acts w in (acts, emit SubmitFindSubscribeActionValue w))"

definition ThermalPolicy_FindSubscribeActionValue :: "service_world \<Rightarrow> service_world" where
  "ThermalPolicy_FindSubscribeActionValue w =
     (let (obs, calls) = ThermalObserver_FindSubscribeActionValue (observer w)
      in w\<lparr>observer := obs, effects := effects w @ map ObserverCall calls\<rparr>)"

type_synonym system = "Policy \<times> ActionManager \<times> service_world"

definition ThermalPolicy_PolicyDecision :: "(string \<Rightarrow> int) \<Rightarrow> platform \<Rightarrow> PolicyDelayAction \<Rightarrow> system \<Rightarrow> system result" where
  "ThermalPolicy_PolicyDecision strtof P uninit = (\<lambda>(p, mgr, w).
     bindr (foldr_result (decide_cluster strtof P uninit (clusterLevelMap p)) (clusterPolicyMap p) (managedActions mgr, w))
       (\<lambda>(acts, w).
         let w = ThermalPolicy_PrintPolicyState p w;
             (acts, w) = ThermalPolicy_ActionExecution strtof P (acts, w)
         in Inr (p, mgr\<lparr>managedActions := acts\<rparr>,
                 ActionVoltage_ExecuteVoltageLimit P (ActionCharger_ExecuteCurrentLimit P w))))"

definition ThermalPolicy_OnSensorInfoReported ::
    "(string \<Rightarrow> int) \<Rightarrow> platform \<Rightarrow> PolicyDelayAction \<Rightarrow> sensor_rates \<Rightarrow> TypeTempMap \<Rightarrow> system \<Rightarrow> system result" where
  "ThermalPolicy_OnSensorInfoReported strtof P uninit rates info = (\<lambda>(p, mgr, w).
     bindr (ThermalPolicy_LevelDecision P rates (p\<lparr>typeTempMap := info\<rparr>, w)) (\<lambda>(p, w).
       bindr (ThermalPolicy_WriteLevel p w) (\<lambda>w.
         ThermalPolicy_PolicyDecision strtof P uninit (p, mgr, w))))"

definition ThermalPolicy_ExecutePolicy ::
    "(string \<Rightarrow> int) \<Rightarrow> platform \<Rightarrow> PolicyDelayAction \<Rightarrow> sensor_rates \<Rightarrow> system \<Rightarrow> system result" where
  "ThermalPolicy_ExecutePolicy strtof P uninit rates = (\<lambda>(p, mgr, w).
     bindr (ThermalPolicy_LevelDecision P rates (p, w)) (\<lambda>(p, w).
       ThermalPolicy_PolicyDecision strtof P uninit (p, mgr, w)))"

section \<open>Dumps\<close>

definition ThermalPolicy_DumpLevel :: "string \<Rightarrow> Policy \<Rightarrow> string" where
  "ThermalPolicy_DumpLevel result p =
     fold (\<lambda>(name, lev) result. result @ ''name: '' @ name @ TAB @ ''level: '' @ to_dec lev @ NEWLINE)
       (clusterLevelMap p) result"

definition ThermalPolicy_PrintPolicyAction :: "PolicyAction list \<Rightarrow> string \<Rightarrow> string" where
  "ThermalPolicy_PrintPolicyAction policyActionList result =
     fold (\<lambda>pa result.
        result @ ''actionName: '' @ pa_actionName pa @ TAB @ ''actionValue: '' @ pa_actionValue pa @ TAB @
        concat (map (\<lambda>(name, v). name @ '': '' @ v @ TAB) (pa_actionPropMap pa)) @
        ''isProp: '' @ flag (pa_isProp pa) @ NEWLINE)
       policyActionList result"

definition ThermalPolicy_DumpPolicy :: "string \<Rightarrow> Policy \<Rightarrow> string" where
  "ThermalPolicy_DumpPolicy result p =
     fold (\<lambda>(name, cfgs) result.
        fold (\<lambda>cfg result.
            ThermalPolicy_PrintPolicyAction (pc_policyActionList cfg)
              (result @ ''level: '' @ to_dec (pc_level cfg) @ NEWLINE) @ NEWLINE)
          cfgs (result @ ''name: '' @ name @ TAB) @ NEWLINE)
       (clusterPolicyMap p) result"

end
