(* ===== verification/Service_Subscriber.thy ===== *)
theory Service_Subscriber
  imports Sensor_Cluster
begin

text \<open>
  The base information of the configuration (\<open>thermal_config_base_info.cpp\<close>), the last
  temperatures (\<open>thermal_sensor_info.cpp\<close>) and the subscriber that keeps the history of each
  sensor and the rates at which its temperature rises (\<open>thermal_service_subscriber.cpp\<close>).

  The sums of \<open>GetThermalRiseRate\<close> are 32-bit integers, each operation of which is checked; its
  quotient and its product are those of \<open>double\<close>: the exact rational value, rounded by \<open>rnd\<close>.
  The call of \<open>OnTemperatureChanged\<close> that notifies the observer is composed with the policy in
  theory \<open>Thermal_Service\<close>.
\<close>

section \<open>ThermalConfigBaseInfo\<close>

record BaseInfo =
  historyTempCount :: u32
  riseRateCount :: u32
  bi_sensorType :: string
  sensorsType :: "string list"
  baseItems :: "(string, string) smap"

definition BaseInfo_new :: BaseInfo where
  "BaseInfo_new = \<lparr>historyTempCount = 0, riseRateCount = 0, bi_sensorType = [], sensorsType = [], baseItems = []\<rparr>"

definition ThermalConfigBaseInfo_SetBaseInfo :: "(string, string) smap \<Rightarrow> BaseInfo \<Rightarrow> BaseInfo" where
  "ThermalConfigBaseInfo_SetBaseInfo baseinfo b = b\<lparr>baseItems := baseinfo\<rparr>"

definition ThermalConfigBaseInfo_SetSensorsType :: "BaseInfo \<Rightarrow> BaseInfo result" where
  "ThermalConfigBaseInfo_SetSensorsType b =
     (let b = b\<lparr>sensorsType := []\<rparr>
      in case sm_find (baseItems b) ''temperature_query_enum'' of
           None \<Rightarrow> Inr b
         | Some s \<Rightarrow>
             let b = b\<lparr>bi_sensorType := s\<rparr>
             in bindr (SplitString (bi_sensorType b) (sensorsType b) '','') (\<lambda>types. Inr (b\<lparr>sensorsType := types\<rparr>)))"

text \<open>\<open>countSizes[INDEX0]\<close> is read although the value may have no field.\<close>

definition ThermalConfigBaseInfo_SetHistoryTempCount :: "BaseInfo \<Rightarrow> BaseInfo result" where
  "ThermalConfigBaseInfo_SetHistoryTempCount b =
     (case sm_find (baseItems b) ''history_temp_count'' of
        None \<Rightarrow> Inr b
      | Some s \<Rightarrow>
          bindr (SplitString s [] '','') (\<lambda>countSizes.
            bindr (vec_index countSizes 0) (\<lambda>count.
              let b = (case StrToUint count of Some n \<Rightarrow> b\<lparr>historyTempCount := n\<rparr> | None \<Rightarrow> b)
              in if 1 < length countSizes
                 then bindr (vec_index countSizes 1) (\<lambda>rates.
                        Inr (case StrToUint rates of Some n \<Rightarrow> b\<lparr>riseRateCount := n\<rparr> | None \<Rightarrow> b))
                 else Inr b)))"

definition ThermalConfigBaseInfo_Init :: "BaseInfo \<Rightarrow> (bool \<times> BaseInfo) result" where
  "ThermalConfigBaseInfo_Init b =
     bindr (ThermalConfigBaseInfo_SetSensorsType b) (\<lambda>b.
       bindr (ThermalConfigBaseInfo_SetHistoryTempCount b) (\<lambda>b. Inr (True, b)))"

section \<open>ThermalSensorInfo\<close>

definition ThermalSensorInfo_SetTypeTempMap :: "TypeTempMap \<Rightarrow> TypeTempMap \<Rightarrow> TypeTempMap" where
  "ThermalSensorInfo_SetTypeTempMap typeTempMap info = typeTempMap"

definition ThermalSensorInfo_GetTypeTempMap :: "TypeTempMap \<Rightarrow> TypeTempMap" where
  "ThermalSensorInfo_GetTypeTempMap info = info"

definition ThermalSensorInfo_GetTemp :: "int \<Rightarrow> string \<Rightarrow> TypeTempMap \<Rightarrow> int" where
  "ThermalSensorInfo_GetTemp ERR_INVALID_VALUE type info =
     (case sm_find info type of None \<Rightarrow> ERR_INVALID_VALUE | Some t \<Rightarrow> t)"

section \<open>ThermalServiceSubscriber\<close>

record Subscriber =
  sub_typeTempMap :: TypeTempMap
  sub_historyCount :: u32
  sub_rateCount :: u32
  typeHistoryMap :: "(string, int list) smap"   \<comment> \<open>the newest reading first\<close>
  sub_sensorsRateMap :: "(string, rat list) smap"   \<comment> \<open>the newest rate last\<close>

definition Subscriber_new :: Subscriber where
  "Subscriber_new = \<lparr>sub_typeTempMap = [], sub_historyCount = 0, sub_rateCount = 3, typeHistoryMap = [],
     sub_sensorsRateMap = []\<rparr>"

definition ThermalServiceSubscriber_Init :: "BaseInfo \<Rightarrow> Subscriber \<Rightarrow> bool \<times> Subscriber" where
  "ThermalServiceSubscriber_Init b s =
     (let s = s\<lparr>sub_historyCount := historyTempCount b\<rparr>
      in (True, s\<lparr>sub_rateCount := (if riseRateCount b \<le> 0 then sub_rateCount s else riseRateCount b)\<rparr>))"

text \<open>What the clusters read through \<open>GetSensorsRate\<close> and \<open>GetRateCount\<close>.\<close>

definition subscriber_rates :: "Subscriber \<Rightarrow> sensor_rates" where
  "subscriber_rates s = \<lparr>sensorsRateMap = sub_sensorsRateMap s, rateCount = unat (sub_rateCount s)\<rparr>"

abbreviation (input) THERMAL_UPDATE_PERIOD :: int where "THERMAL_UPDATE_PERIOD \<equiv> - 5"
abbreviation (input) SEC_MIN_NUM :: rat where "SEC_MIN_NUM \<equiv> 60"

type_synonym rate_sums = "int \<times> int \<times> int \<times> int"

text \<open>One pass of the loop: the sums of the times, the readings, the squared times and the products.\<close>

definition rate_step :: "nat \<times> int \<Rightarrow> rate_sums \<Rightarrow> rate_sums result" where
  "rate_step = (\<lambda>(timeIndex, temp) (timeSum, tempSum, timeSquaredSum, timeTempMultiplySum).
     bindr (check32 (int timeIndex * THERMAL_UPDATE_PERIOD)) (\<lambda>time.
     bindr (check32 (timeSum + time)) (\<lambda>timeSum.
     bindr (check32 (tempSum + temp)) (\<lambda>tempSum.
     bindr (check32 (time * time)) (\<lambda>sq.
     bindr (check32 (timeSquaredSum + sq)) (\<lambda>timeSquaredSum.
     bindr (check32 (time * temp)) (\<lambda>prod.
     bindr (check32 (timeTempMultiplySum + prod)) (\<lambda>timeTempMultiplySum.
       Inr (timeSum, tempSum, timeSquaredSum, timeTempMultiplySum)))))))))"

definition GetThermalRiseRate :: "(rat \<Rightarrow> rat) \<Rightarrow> u32 \<Rightarrow> int list \<Rightarrow> rat result" where
  "GetThermalRiseRate rd historyCount tempQueue =
     (if length tempQueue < unat historyCount then Inr 0
      else let tempQueueSize = int (length tempQueue) in
        bindr (foldr_result rate_step (enumerate 0 tempQueue) (0, 0, 0, 0))
          (\<lambda>(timeSum, tempSum, timeSquaredSum, timeTempMultiplySum).
            bindr (check32 (tempQueueSize * timeSquaredSum)) (\<lambda>a.
            bindr (check32 (timeSum * timeSum)) (\<lambda>b.
            bindr (check32 (a - b)) (\<lambda>calcTime.
              if calcTime = 0 then Inr 0
              else bindr (check32 (tempQueueSize * timeTempMultiplySum)) (\<lambda>c.
                   bindr (check32 (timeSum * tempSum)) (\<lambda>d.
                   bindr (check32 (c - d)) (\<lambda>n.
                     let slopeRate = rd (of_int n / of_int calcTime)
                     in Inr (rd (slopeRate * SEC_MIN_NUM))))))))))"

text \<open>One sensor of the report, and one sensor of the history.\<close>

definition push_history :: "u32 \<Rightarrow> string \<times> int \<Rightarrow> (string, int list) smap \<Rightarrow> (string, int list) smap" where
  "push_history historyCount = (\<lambda>(type, temp) history.
     case sm_find history type of
       Some q \<Rightarrow>
         if unat historyCount \<le> length q then sm_assign type (temp # butlast q) history
         else sm_assign type (temp # q) history
     | None \<Rightarrow> sm_insert type [temp] history)"

definition push_rate :: "(rat \<Rightarrow> rat) \<Rightarrow> u32 \<Rightarrow> u32 \<Rightarrow> string \<times> int list \<Rightarrow> (string, rat list) smap \<Rightarrow>
    (string, rat list) smap result" where
  "push_rate rd historyCount maxRates = (\<lambda>(type, q) rates.
     bindr (GetThermalRiseRate rd historyCount q) (\<lambda>rate.
       case sm_find rates type of
         Some r \<Rightarrow>
           if unat maxRates \<le> length r
           then (if r = [] then Inl UndefinedIndex else Inr (sm_assign type (tl r @ [rate]) rates))
           else Inr (sm_assign type (r @ [rate]) rates)
       | None \<Rightarrow> Inr (sm_insert type [rate] rates)))"

definition ThermalServiceSubscriber_SetHistoryTypeTempMap ::
    "(rat \<Rightarrow> rat) \<Rightarrow> TypeTempMap \<Rightarrow> Subscriber \<Rightarrow> Subscriber result" where
  "ThermalServiceSubscriber_SetHistoryTypeTempMap rd typeTempMap s =
     (if sub_historyCount s \<le> 1 then Inr s
      else let s = s\<lparr>typeHistoryMap := fold (push_history (sub_historyCount s)) typeTempMap (typeHistoryMap s)\<rparr>
        in bindr (foldr_result (push_rate rd (sub_historyCount s) (sub_rateCount s)) (typeHistoryMap s)
                    (sub_sensorsRateMap s))
             (\<lambda>rates. Inr (s\<lparr>sub_sensorsRateMap := rates\<rparr>)))"

text \<open>The copy of the report; the loop assigns every entry.\<close>

definition ThermalServiceSubscriber_store :: "TypeTempMap \<Rightarrow> Subscriber \<Rightarrow> Subscriber" where
  "ThermalServiceSubscriber_store typeTempMap s =
     s\<lparr>sub_typeTempMap := fold (\<lambda>(type, temp). sm_assign type temp) typeTempMap []\<rparr>"

end
