(* ===== verification/Fan_Fault.thy ===== *)
theory Fan_Fault
  imports Thermal_Action
begin

text \<open>
  \<open>services/native/src/thermal_policy/fan_fault_detect.cpp\<close>: a report of the fan's speed and of
  sensor temperatures is compared with the configured faults. A fan that is slow although a
  sensor is hot, or fast although all are cool, is reported once per fault. The lemmas show
  that no report makes \<open>at\<close> throw and exactly when which fault is reported.
\<close>

section \<open>The code\<close>

type_synonym FanSensorInfo = "(string, int) smap"
type_synonym FanFaultInfoMap = "(int, FanSensorInfo) smap"

abbreviation (input) FAN_FAULT_TOO_SLOW :: int where "FAN_FAULT_TOO_SLOW \<equiv> 1"
abbreviation (input) FAN_FAULT_TOO_FAST :: int where "FAN_FAULT_TOO_FAST \<equiv> 2"
abbreviation (input) SENSOR_INVALID_VALUE :: int where "SENSOR_INVALID_VALUE \<equiv> - 1"
abbreviation (input) FAN :: string where "FAN \<equiv> ''fan''"

definition FanFaultDetect_GetSensorValue :: "FanSensorInfo \<Rightarrow> string \<Rightarrow> int" where
  "FanFaultDetect_GetSensorValue m name = (case sm_find m name of None \<Rightarrow> SENSOR_INVALID_VALUE | Some v \<Rightarrow> v)"

definition FanFaultDetect_CheckFanSensorInfo :: "FanSensorInfo \<Rightarrow> FanSensorInfo \<Rightarrow> bool" where
  "FanFaultDetect_CheckFanSensorInfo report config \<longleftrightarrow>
     \<not> (FanFaultDetect_GetSensorValue report FAN < 0 \<or> FanFaultDetect_GetSensorValue config FAN < 0) \<and>
     list_all (\<lambda>(sensor, threshold). \<not> threshold < 0 \<and> \<not> FanFaultDetect_GetSensorValue report sensor < 0) config"

text \<open>The loop both checks share: whether a sensor other than the fan is above its threshold.\<close>

fun fan_hot_loop :: "FanSensorInfo \<Rightarrow> FanSensorInfo \<Rightarrow> bool result" where
  "fan_hot_loop report [] = Inr False"
| "fan_hot_loop report ((sensor, threshold) # rest) =
     (if sensor = FAN then fan_hot_loop report rest
      else bindr (sm_at report sensor) (\<lambda>v. if threshold < v then Inr True else fan_hot_loop report rest))"

fun report_info_loop :: "FanSensorInfo \<Rightarrow> FanSensorInfo \<Rightarrow> string \<Rightarrow> string result" where
  "report_info_loop report [] info = Inr info"
| "report_info_loop report ((sensor, _) # rest) info =
     bindr (sm_at report sensor) (\<lambda>v.
       report_info_loop report rest (info @ '' '' @ sensor @ '':'' @ to_string_int v))"

definition FanFaultDetect_FormatReportInfo :: "FanSensorInfo \<Rightarrow> FanSensorInfo \<Rightarrow> string result" where
  "FanFaultDetect_FormatReportInfo report config = report_info_loop report config ''Report''"

definition FanFaultDetect_CheckFanTooSlow :: "FanSensorInfo \<Rightarrow> FanSensorInfo \<Rightarrow> service_world \<Rightarrow> service_world result" where
  "FanFaultDetect_CheckFanTooSlow report config w =
     (if \<not> FanFaultDetect_CheckFanSensorInfo report config then Inr w
      else bindr (fan_hot_loop report config) (\<lambda>tempHigh.
        bindr (sm_at report FAN) (\<lambda>speed. bindr (sm_at config FAN) (\<lambda>limit.
          if speed < limit \<and> tempHigh
          then bindr (FanFaultDetect_FormatReportInfo report config) (\<lambda>reportInfo.
                 Inr (emit (WriteFanFaultEvent FAN_FAULT_TOO_SLOW reportInfo) w))
          else Inr w))))"

definition FanFaultDetect_CheckFanTooFast :: "FanSensorInfo \<Rightarrow> FanSensorInfo \<Rightarrow> service_world \<Rightarrow> service_world result" where
  "FanFaultDetect_CheckFanTooFast report config w =
     (if \<not> FanFaultDetect_CheckFanSensorInfo report config then Inr w
      else bindr (fan_hot_loop report config) (\<lambda>hot. let tempLow = \<not> hot in
        bindr (sm_at report FAN) (\<lambda>speed. bindr (sm_at config FAN) (\<lambda>limit.
          if limit < speed \<and> tempLow
          then bindr (FanFaultDetect_FormatReportInfo report config) (\<lambda>reportInfo.
                 Inr (emit (WriteFanFaultEvent FAN_FAULT_TOO_FAST reportInfo) w))
          else Inr w))))"

definition FanFaultDetect_CheckFanFault :: "FanSensorInfo \<Rightarrow> FanFaultInfoMap \<Rightarrow> service_world \<Rightarrow> service_world result" where
  "FanFaultDetect_CheckFanFault report fanFaultInfoMap w =
     foldr_result (\<lambda>(fault, config) w.
        if fault = FAN_FAULT_TOO_SLOW then FanFaultDetect_CheckFanTooSlow report config w
        else if fault = FAN_FAULT_TOO_FAST then FanFaultDetect_CheckFanTooFast report config w
        else Inr w) fanFaultInfoMap w"

definition FanFaultDetect_OnFanSensorInfoChanged ::
    "FanSensorInfo \<Rightarrow> FanFaultInfoMap \<Rightarrow> service_world \<Rightarrow> service_world result" where
  "FanFaultDetect_OnFanSensorInfoChanged report fanFaultInfoMap w =
     FanFaultDetect_CheckFanFault report fanFaultInfoMap w"

definition FanFaultDetect_HasFanConfig :: "FanFaultInfoMap \<Rightarrow> bool" where
  "FanFaultDetect_HasFanConfig fanFaultInfoMap \<longleftrightarrow> fanFaultInfoMap \<noteq> []"

definition FanFaultDetect_SetFaultInfoMap :: "FanFaultInfoMap \<Rightarrow> FanFaultInfoMap \<Rightarrow> FanFaultInfoMap" where
  "FanFaultDetect_SetFaultInfoMap m fanFaultInfoMap = m"

section \<open>What is a fault\<close>

text \<open>
  The specification speaks of the readings only: a fault applies when the fan and every
  configured sensor have thresholds and readings that are not negative.
\<close>

definition fault_applies :: "FanSensorInfo \<Rightarrow> FanSensorInfo \<Rightarrow> bool" where
  "fault_applies report config \<longleftrightarrow>
     FAN \<in> fst ` set config \<and>
     (\<forall>(sensor, threshold) \<in> set config. 0 \<le> threshold \<and> (\<exists>v \<ge> 0. sm_find report sensor = Some v))"

definition some_sensor_hot :: "FanSensorInfo \<Rightarrow> FanSensorInfo \<Rightarrow> bool" where
  "some_sensor_hot report config \<longleftrightarrow>
     (\<exists>(sensor, threshold) \<in> set config. sensor \<noteq> FAN \<and> threshold < the (sm_find report sensor))"

definition fan_fault :: "FanSensorInfo \<Rightarrow> int \<times> FanSensorInfo \<Rightarrow> bool" where
  "fan_fault report = (\<lambda>(fault, config).
     fault_applies report config \<and>
     (fault = FAN_FAULT_TOO_SLOW \<and> some_sensor_hot report config \<and>
        the (sm_find report FAN) < the (sm_find config FAN) \<or>
      fault = FAN_FAULT_TOO_FAST \<and> \<not> some_sensor_hot report config \<and>
        the (sm_find config FAN) < the (sm_find report FAN)))"

definition fault_message :: "FanSensorInfo \<Rightarrow> FanSensorInfo \<Rightarrow> string" where
  "fault_message report config =
     ''Report'' @ concat (map (\<lambda>(sensor, _). '' '' @ sensor @ '':'' @ to_string_int (the (sm_find report sensor))) config)"

section \<open>The code meets it\<close>

lemma fan_configured: "FAN \<in> fst ` set config \<longleftrightarrow> (\<exists>v. sm_find config FAN = Some v)"
  using map_of_eq_None_iff [of config FAN] by (cases "sm_find config FAN") auto

lemma sensor_valid:
  "FanFaultDetect_GetSensorValue report s < 0 \<longleftrightarrow> \<not> (\<exists>v \<ge> 0. sm_find report s = Some v)"
  by (cases "sm_find report s") (simp_all add: FanFaultDetect_GetSensorValue_def not_le [symmetric])

lemma CheckFanSensorInfo_eq:
  "FanFaultDetect_CheckFanSensorInfo report config = fault_applies report config"
proof
  assume *: "FanFaultDetect_CheckFanSensorInfo report config"
  then have "\<exists>v. sm_find config FAN = Some v"
    unfolding FanFaultDetect_CheckFanSensorInfo_def sensor_valid by blast
  with * show "fault_applies report config"
    unfolding FanFaultDetect_CheckFanSensorInfo_def fault_applies_def fan_configured list_all_iff sensor_valid
    by fastforce
next
  assume *: "fault_applies report config"
  then obtain v where v: "sm_find config FAN = Some v" by (auto simp: fault_applies_def fan_configured)
  then have "(FAN, v) \<in> set config" by (rule map_of_SomeD)
  with * have "0 \<le> v" "\<exists>u \<ge> 0. sm_find report FAN = Some u" by (auto simp: fault_applies_def)
  with v * show "FanFaultDetect_CheckFanSensorInfo report config"
    unfolding FanFaultDetect_CheckFanSensorInfo_def fault_applies_def list_all_iff sensor_valid
    by fastforce
qed

lemma fan_hot_loop_eq:
  assumes "\<forall>(s, t) \<in> set config. \<exists>v. sm_find report s = Some v"
  shows "fan_hot_loop report config = Inr (some_sensor_hot report config)"
  using assms by (induction report config rule: fan_hot_loop.induct) (auto simp: some_sensor_hot_def)

lemma report_info_loop_eq:
  assumes "\<forall>(s, t) \<in> set config. \<exists>v. sm_find report s = Some v"
  shows "report_info_loop report config info =
    Inr (info @ concat (map (\<lambda>(s, _). '' '' @ s @ '':'' @ to_string_int (the (sm_find report s))) config))"
  using assms by (induction report config info rule: report_info_loop.induct) auto

lemma fault_applies_readings:
  assumes "fault_applies report config"
  shows "\<forall>(s, t) \<in> set config. \<exists>v. sm_find report s = Some v"
    and "\<exists>v. sm_find config FAN = Some v" and "\<exists>v. sm_find report FAN = Some v"
proof -
  show *: "\<forall>(s, t) \<in> set config. \<exists>v. sm_find report s = Some v" using assms by (auto simp: fault_applies_def)
  show c: "\<exists>v. sm_find config FAN = Some v" using assms by (simp add: fault_applies_def fan_configured)
  then obtain t where "(FAN, t) \<in> set config" by (blast dest: map_of_SomeD)
  with * show "\<exists>v. sm_find report FAN = Some v" by fast
qed

lemma fan_check_eq:
  "(if fault = FAN_FAULT_TOO_SLOW then FanFaultDetect_CheckFanTooSlow report config w
      else if fault = FAN_FAULT_TOO_FAST then FanFaultDetect_CheckFanTooFast report config w else Inr w) =
    Inr (if fan_fault report (fault, config)
         then emit (WriteFanFaultEvent fault (fault_message report config)) w else w)"
proof (cases "fault_applies report config")
  case False
  then show ?thesis
    by (simp add: FanFaultDetect_CheckFanTooSlow_def FanFaultDetect_CheckFanTooFast_def
        CheckFanSensorInfo_eq fan_fault_def)
next
  case True
  note r = fault_applies_readings [OF this]
  then obtain speed limit where s: "sm_find report FAN = Some speed" "sm_find config FAN = Some limit" by blast
  show ?thesis
    using True s
    by (auto simp: FanFaultDetect_CheckFanTooSlow_def FanFaultDetect_CheckFanTooFast_def
        CheckFanSensorInfo_eq fan_hot_loop_eq [OF r(1)] fan_fault_def Let_def
        FanFaultDetect_FormatReportInfo_def report_info_loop_eq [OF r(1)] fault_message_def)
qed

lemma emit_append: "emit e w = w\<lparr>effects := effects w @ [e]\<rparr>"
  by (simp add: emit_def)

lemma CheckFanFault_eq:
  "FanFaultDetect_CheckFanFault report faults w =
    Inr (w\<lparr>effects := effects w @
      map (\<lambda>(fault, config). WriteFanFaultEvent fault (fault_message report config)) (filter (fan_fault report) faults)\<rparr>)"
proof (induction faults arbitrary: w)
  case (Cons p faults)
  obtain fault config where p: "p = (fault, config)" by (cases p)
  show ?case
    using Cons.IH by (simp add: FanFaultDetect_CheckFanFault_def p fan_check_eq emit_append)
qed (simp add: FanFaultDetect_CheckFanFault_def)

section \<open>Properties\<close>

text \<open>
  C25: whatever the report, the check of the fan returns, and it writes exactly one event for
  each configured fault that applies: too slow when the fan is below its configured speed while
  some sensor is above its threshold, too fast when it is above its speed while none is; nothing
  is written for a fault whose fan or some sensor has a negative threshold, is not reported or
  reads negative.
\<close>

theorem fan_fault_reported_iff:
  "FanFaultDetect_OnFanSensorInfoChanged report faults w =
    Inr (w\<lparr>effects := effects w @
      map (\<lambda>(fault, config). WriteFanFaultEvent fault (fault_message report config)) (filter (fan_fault report) faults)\<rparr>)"
  unfolding FanFaultDetect_OnFanSensorInfoChanged_def by (rule CheckFanFault_eq)

end
