(* ===== verification/Service_State.thy ===== *)
theory Service_State
  imports Thermal_Policy Service_Subscriber Fan_Fault
begin

text \<open>
  The members of \<open>ThermalService\<close> (\<open>services/native/include/thermal_service.h\<close>) and its accessors.

  A \<open>shared_ptr\<close> or \<open>sptr\<close> to an object that has a record of its own is an \<open>option\<close> of it; the
  state machine's and the observer's members live in the world that the actions change, so for
  these two only whether the pointer is set is kept here. Using a pointer that is not set is
  the error \<open>NullPointer\<close>. The scene, the flag of simulation and the two airplane flags are in the
  world, where the states and the actions read them.
\<close>

record thermal_service =
  sv_ready :: bool
  sv_isBootCompleted :: bool
  sv_isTempReport :: bool
  sv_isHdiRemove :: bool
  sv_serviceConfigParsed :: bool
  sv_subscriber :: "Subscriber option"
  sv_observer :: bool
  sv_info :: "TypeTempMap option"
  sv_policy :: "Policy option"
  sv_baseInfo :: "BaseInfo option"
  sv_state :: bool
  sv_actionMgr :: "ActionManager option"
  sv_fanFaultDetect :: "FanFaultInfoMap option"
  sv_thermalInterface :: bool
  sv_hdiServiceMgr :: bool
  sv_popup :: bool
  sv_airplaneSubscriber :: bool          \<comment> \<open>\<open>subscriberPtr_\<close>\<close>
  sv_socSet :: "string list"             \<comment> \<open>\<open>SocActionBase::SocSet\<close>\<close>
  sv_world :: service_world

definition ThermalService_new :: "service_world \<Rightarrow> thermal_service" where
  "ThermalService_new w = \<lparr>sv_ready = False, sv_isBootCompleted = False, sv_isTempReport = True, sv_isHdiRemove = False,
     sv_serviceConfigParsed = False, sv_subscriber = None, sv_observer = False, sv_info = None, sv_policy = None,
     sv_baseInfo = None, sv_state = False, sv_actionMgr = None, sv_fanFaultDetect = None, sv_thermalInterface = False,
     sv_hdiServiceMgr = False, sv_popup = False, sv_airplaneSubscriber = False, sv_socSet = [], sv_world = w\<rparr>"

definition upd_world :: "(service_world \<Rightarrow> service_world) \<Rightarrow> thermal_service \<Rightarrow> thermal_service" where
  "upd_world f s = s\<lparr>sv_world := f (sv_world s)\<rparr>"

definition SetSimulationXml :: "bool \<Rightarrow> thermal_service \<Rightarrow> thermal_service" where
  "SetSimulationXml b s = upd_world (\<lambda>w. w\<lparr>isSimulation := b\<rparr>) s"

definition GetSimulationXml :: "thermal_service \<Rightarrow> bool" where
  "GetSimulationXml s = isSimulation (sv_world s)"

definition SetTempReportSwitch :: "bool \<Rightarrow> thermal_service \<Rightarrow> thermal_service" where
  "SetTempReportSwitch enable s = s\<lparr>sv_isTempReport := enable\<rparr>"

definition IsServiceReady :: "thermal_service \<Rightarrow> bool" where
  "IsServiceReady s = sv_ready s"

definition GetScene :: "thermal_service \<Rightarrow> string" where
  "GetScene s = scene (sv_world s)"

text \<open>The setters through which the configuration is handed over.\<close>

definition StateMachine_SetStateItem :: "StateItem list \<Rightarrow> service_world \<Rightarrow> service_world" where
  "StateMachine_SetStateItem items w = w\<lparr>vState := items\<rparr>"

definition StateMachine_SetIdleStateConfig :: "IdleState \<Rightarrow> service_world \<Rightarrow> service_world" where
  "StateMachine_SetIdleStateConfig idle w = w\<lparr>idleStateConfig := idle\<rparr>"

definition ThermalActionManager_SetActionItem :: "ActionItem list \<Rightarrow> ActionManager \<Rightarrow> ActionManager" where
  "ThermalActionManager_SetActionItem items mgr = mgr\<lparr>vActionItem := items\<rparr>"

end
