(* ===== verification/Config_Parser.thy ===== *)
theory Config_Parser
  imports Xml_Node Service_State
begin

text \<open>
  \<open>services/native/src/thermal_policy/thermal_srv_config_parser.cpp\<close>: the configuration of the
  service, read from XML into the sensor clusters, the states, the actions, the policies, the
  idle condition and the fan faults. Each \<open>Parse...\<close> function is one definition; the object a
  function fills is its last argument and its result. libxml2 and the decryption hook are
  parameters (\<open>config_source\<close>). The code leaves some numbers uninitialised and does not look at
  the result of every conversion: their contents before the conversion are \<open>config_uninit\<close>.
\<close>

section \<open>The environment\<close>

text \<open>A document is the root element, or \<open>None\<close> if it has none; \<open>None\<close> is a null document.\<close>

record config_source =
  xmlReadMemory :: "string \<Rightarrow> xml_node option option"
  xmlReadFile :: "string \<Rightarrow> xml_node option option"
  HookMgrExecute :: "string \<Rightarrow> int \<times> string"  \<comment> \<open>of the stage \<open>THERMAL_DECRYPT_CONFIG\<close>: code and result\<close>

record config_uninit =
  un_LevelItem :: LevelItem
  un_AuxLevelItem :: AuxLevelItem
  un_policyLevel :: nat
  un_IdleState :: IdleState
  un_faultNum :: int
  un_fanValue :: int

abbreviation (input) TRUE_STR :: string where "TRUE_STR \<equiv> ''1''"

section \<open>Clusters\<close>

definition ParseLevelState :: "xml_node \<Rightarrow> SensorCluster \<Rightarrow> SensorCluster parse" where
  "ParseLevelState cur sc =
     for_children ''state'' (\<lambda>subNode sc.
       for_each (\<lambda>(propName, _) sc.
           case xmlGetProp subNode propName of
             Some propValue \<Rightarrow> accepted (AddState propName propValue sc)
           | None \<Rightarrow> rejected)
         (xml_properties subNode) sc) cur sc"

definition ParseAuxSensorTriggerRange :: "xml_node \<Rightarrow> string list \<Rightarrow> nat \<Rightarrow> string parse" where
  "ParseAuxSensorTriggerRange subNode auxsensors sensorIdx =
     (case xmlGetProp subNode ''aux_trigger_range'' of
        None \<Rightarrow> rejected
      | Some auxTriggerRange \<Rightarrow>
          if auxTriggerRange = [] then rejected
          else bindr (SplitString auxTriggerRange [] '','') (\<lambda>auxTempranges.
                 if length auxTempranges < length auxsensors then rejected
                 else bindr (vec_index auxTempranges sensorIdx) accepted))"

abbreviation (input) AUX_SENSOR_RANGE_LEN :: nat where "AUX_SENSOR_RANGE_LEN \<equiv> 2"

definition ParseAuxSensorLevInfo ::
    "platform \<Rightarrow> config_uninit \<Rightarrow> xml_node \<Rightarrow> string list \<Rightarrow> nat \<Rightarrow> AuxLevelItem list \<Rightarrow> AuxLevelItem list parse" where
  "ParseAuxSensorLevInfo P U cur auxsensors sensorIdx auxLevelItems =
     for_children ''item'' (\<lambda>subNode auxLevelItems.
       bindp (ParseAuxSensorTriggerRange subNode auxsensors sensorIdx) (\<lambda>tempRangeStr.
       bindr (SplitString tempRangeStr [] ''_'') (\<lambda>tempRanges.
         if length tempRanges < AUX_SENSOR_RANGE_LEN then rejected
         else bindr (vec_index tempRanges 0) (\<lambda>lower. bindr (vec_index tempRanges 1) (\<lambda>upper.
           let item = un_AuxLevelItem U;
               item = item\<lparr>lowerTemp := or_keep (StrToInt P lower) (lowerTemp item)\<rparr>;
               item = item\<lparr>upperTemp := or_keep (StrToInt P upper) (upperTemp item)\<rparr>
           in case xmlGetProp subNode ''level'' of
                None \<Rightarrow> rejected
              | Some lev \<Rightarrow>
                  accepted (auxLevelItems @ [item\<lparr>aux_level := or_keep (StrToInt P lev) (aux_level item)\<rparr>])))))) cur auxLevelItems"

definition ParseAuxSensorInfo :: "platform \<Rightarrow> config_uninit \<Rightarrow> xml_node \<Rightarrow> SensorCluster \<Rightarrow> SensorCluster parse" where
  "ParseAuxSensorInfo P U cur sc =
     (case xmlGetProp cur ''aux_sensor'' of
        None \<Rightarrow> accepted sc
      | Some auxsensor \<Rightarrow>
          let sc = SetAuxFlag True sc in
          bindr (SplitString auxsensor [] '','') (\<lambda>auxsensors.
          bindp (for_each (\<lambda>(i, sensorType) auxSensorLevelInfo.
              if sensorType = [] then rejected
              else bindp (ParseAuxSensorLevInfo P U cur auxsensors i []) (\<lambda>auxLevelItems.
                if auxLevelItems = [] then rejected
                else accepted (sm_insert sensorType auxLevelItems auxSensorLevelInfo)))
            (enumerate 0 auxsensors) []) (\<lambda>auxSensorLevelInfo.
          accepted (SetAuxSensorLevelInfo auxSensorLevelInfo sc))))"

definition ParseLevelThreshold ::
    "platform \<Rightarrow> xml_node \<Rightarrow> string list \<Rightarrow> nat \<Rightarrow> LevelItem \<Rightarrow> LevelItem parse" where
  "ParseLevelThreshold P subNode sensors sensorIdx levelItem =
     (case xmlGetProp subNode ''threshold'' of None \<Rightarrow> rejected | Some xmlThreshold \<Rightarrow>
      bindr (SplitString xmlThreshold [] '','') (\<lambda>thresholds.
      case xmlGetProp subNode ''threshold_clr'' of None \<Rightarrow> rejected | Some xmlThresholdClr \<Rightarrow>
      bindr (SplitString xmlThresholdClr [] '','') (\<lambda>thresholdClrs.
      if length sensors \<noteq> length thresholds \<or> length sensors \<noteq> length thresholdClrs then rejected
      else case xmlGetProp subNode ''level'' of None \<Rightarrow> rejected | Some xmlLevel \<Rightarrow>
        let levelItem = levelItem\<lparr>level := level_of xmlLevel (level levelItem)\<rparr> in
        bindr (vec_at thresholds sensorIdx) (\<lambda>t. bindr (vec_at thresholdClrs sensorIdx) (\<lambda>c.
          accepted (levelItem\<lparr>threshold := or_keep (StrToInt P t) (threshold levelItem),
                            thresholdClr := or_keep (StrToInt P c) (thresholdClr levelItem)\<rparr>))))))"

text \<open>The rate of a level that names none is the initial value of the member.\<close>

abbreviation (input) NO_RISE_RATE :: rat where "NO_RISE_RATE \<equiv> - 1000000"

definition ParseSensorLevelInfo ::
    "platform \<Rightarrow> config_uninit \<Rightarrow> xml_node \<Rightarrow> string list \<Rightarrow> nat \<Rightarrow> LevelItem list \<times> SensorCluster \<Rightarrow>
     (LevelItem list \<times> SensorCluster) parse" where
  "ParseSensorLevelInfo P U cur sensors sensorIdx =
     for_children ''item'' (\<lambda>subNode (levelItems, sc).
       bindp (ParseLevelThreshold P subNode sensors sensorIdx ((un_LevelItem U)\<lparr>tempRiseRate := NO_RISE_RATE\<rparr>)) (\<lambda>levelItem.
         case xmlGetProp subNode ''temp_rise_rate'' of
           None \<Rightarrow> accepted (levelItems @ [levelItem], sc)
         | Some tempRiseRates \<Rightarrow>
             let sc = SetRateFlag True sc in
             bindr (SplitString tempRiseRates [] '','') (\<lambda>rates.
               if length sensors \<noteq> length rates then rejected
               else bindr (vec_at rates sensorIdx) (\<lambda>r.
                 let levelItem = levelItem\<lparr>tempRiseRate := or_keep (StrToDouble (strtod P) r) (tempRiseRate levelItem)\<rparr>
                 in accepted (levelItems @ [levelItem], sc))))) cur"

definition ParseSensorInfo :: "platform \<Rightarrow> config_uninit \<Rightarrow> xml_node \<Rightarrow> SensorCluster \<Rightarrow> SensorCluster parse" where
  "ParseSensorInfo P U cur sc =
     (case xmlGetProp cur ''sensor'' of
        None \<Rightarrow> rejected
      | Some xmlSensor \<Rightarrow>
          bindr (SplitString xmlSensor [] '','') (\<lambda>sensors.
            if sensors = [] then rejected
            else bindp (for_each (\<lambda>(i, sensorType) (sensorLevelInfo, sc).
                     bindp (ParseSensorLevelInfo P U cur sensors i ([], sc)) (\<lambda>(levelItems, sc).
                       if levelItems = [] then rejected
                       else accepted (sm_insert sensorType levelItems sensorLevelInfo, sc)))
                   (enumerate 0 sensors) ([], sc)) (\<lambda>(sensorLevelInfo, sc).
                 accepted (SetSensorLevelInfo sensorLevelInfo sc))))"

definition ParseTempDiffValue :: "platform \<Rightarrow> xml_node \<Rightarrow> string \<Rightarrow> string \<Rightarrow> (int \<Rightarrow> TempDiffItem) parse" where
  "ParseTempDiffValue P cur s1 s2 =
     (case xmlGetProp cur ''temp_diff_trigger'' of
        None \<Rightarrow> rejected
      | Some xmlTempDiffTrigger \<Rightarrow>
          (case StrToInt P xmlTempDiffTrigger of
             None \<Rightarrow> rejected
           | Some d \<Rightarrow> accepted (\<lambda>lev. \<lparr>sensor1 = s1, sensor2 = s2, tempDiff = d, diff_level = lev\<rparr>)))"

definition ParseTempDiffLevInfo ::
    "platform \<Rightarrow> xml_node \<Rightarrow> string \<Rightarrow> string \<Rightarrow> TempDiffItem list \<Rightarrow> TempDiffItem list parse" where
  "ParseTempDiffLevInfo P cur s1 s2 =
     for_children ''item'' (\<lambda>subNode infoList.
       bindp (ParseTempDiffValue P subNode s1 s2) (\<lambda>item.
         case xmlGetProp subNode ''level'' of
           None \<Rightarrow> rejected
         | Some xmlLevel \<Rightarrow>
             (case StrToInt P xmlLevel of None \<Rightarrow> rejected | Some lev \<Rightarrow> accepted (infoList @ [item lev])))) cur"

abbreviation (input) TEMPDIFF_SENSOR_SIZE :: nat where "TEMPDIFF_SENSOR_SIZE \<equiv> 2"

definition ParseTempDiffInfo :: "platform \<Rightarrow> xml_node \<Rightarrow> SensorCluster \<Rightarrow> SensorCluster parse" where
  "ParseTempDiffInfo P cur sc =
     (case xmlGetProp cur ''temp_diff'' of
        None \<Rightarrow> accepted sc
      | Some xmlTempDiff \<Rightarrow>
          bindr (SplitString xmlTempDiff [] '','') (\<lambda>sensors.
            if length sensors \<noteq> TEMPDIFF_SENSOR_SIZE then rejected
            else bindr (vec_index sensors 0) (\<lambda>s1. bindr (vec_index sensors 1) (\<lambda>s2.
              bindp (ParseTempDiffLevInfo P cur s1 s2 []) (\<lambda>infoList.
                accepted (SetTempDiffFlag True (SetTempDiffInfo infoList sc)))))))"

text \<open>One cluster: the body of the loop of \<open>ParseLevelNode\<close>.\<close>

definition parse_cluster :: "platform \<Rightarrow> config_uninit \<Rightarrow> xml_node \<Rightarrow> (string, SensorCluster) smap \<Rightarrow>
    (string, SensorCluster) smap parse" where
  "parse_cluster P U cur msc =
     (case xmlGetProp cur ''name'' of
        None \<Rightarrow> rejected
      | Some name \<Rightarrow>
          bindp (ParseLevelState cur SensorCluster_new) (\<lambda>sc.
          bindp (ParseAuxSensorInfo P U cur sc) (\<lambda>sc.
          bindp (ParseSensorInfo P U cur sc) (\<lambda>sc.
          bindp (ParseTempDiffInfo P cur sc) (\<lambda>sc.
            let sc = (case xmlGetProp cur ''desc'' of
                        Some desc \<Rightarrow> if TrimStr P desc = TRUE_STR then SetDescFlag True sc else sc
                      | None \<Rightarrow> sc)
            in if \<not> CheckStandard sc then rejected else accepted (sm_insert name sc msc))))))"

text \<open>A function of a root node: \<open>finish\<close> is what it does with what it parsed.\<close>

definition finish :: "'a parse \<Rightarrow> ('a \<Rightarrow> thermal_service \<Rightarrow> thermal_service result) \<Rightarrow> thermal_service \<Rightarrow>
    (bool \<times> thermal_service) result" where
  "finish r f s = bindr r (\<lambda>p. case p of None \<Rightarrow> Inr (False, s) | Some x \<Rightarrow> bindr (f x s) (\<lambda>s. Inr (True, s)))"

definition ParseLevelNode :: "platform \<Rightarrow> config_uninit \<Rightarrow> xml_node \<Rightarrow> thermal_service \<Rightarrow> (bool \<times> thermal_service) result" where
  "ParseLevelNode P U node s =
     finish (for_children ''sensor_cluster'' (parse_cluster P U) node [])
       (\<lambda>msc s. bindr (deref (sv_policy s)) (\<lambda>p.
          Inr (s\<lparr>sv_policy := Some (ThermalPolicy_SetSensorClusterMap msc p)\<rparr>))) s"

section \<open>The base information\<close>

definition ParseBaseNode :: "xml_node \<Rightarrow> thermal_service \<Rightarrow> (bool \<times> thermal_service) result" where
  "ParseBaseNode node s =
     bindr (for_children ''item'' (\<lambda>cur baseInfoMap.
         case xmlGetProp cur ''tag'' of None \<Rightarrow> rejected | Some tag \<Rightarrow>
         case xmlGetProp cur ''value'' of None \<Rightarrow> rejected | Some v \<Rightarrow>
           accepted (sm_insert tag v baseInfoMap)) node []) (\<lambda>r.
     case r of
       None \<Rightarrow> Inr (False, s)
     | Some baseInfoMap \<Rightarrow>
         bindr (deref (sv_baseInfo s)) (\<lambda>b.
           let s = s\<lparr>sv_baseInfo := Some (ThermalConfigBaseInfo_SetBaseInfo baseInfoMap b)\<rparr>
           in case sm_find baseInfoMap ''sim_tz'' of
                None \<Rightarrow> Inr (True, SetSimulationXml False s)
              | Some v \<Rightarrow>
                  if v = [] then Inr (True, SetSimulationXml False s)
                  else if v = ''0'' \<or> v = ''1''
                  then (case ParseStrtollResult v of
                          None \<Rightarrow> Inr (False, s)
                        | Some i \<Rightarrow> Inr (True, SetSimulationXml (i \<noteq> 0) s))
                  else Inr (False, s)))"

section \<open>States and actions\<close>

definition parse_state_item :: "xml_node \<Rightarrow> StateItem parse" where
  "parse_state_item cur =
     (case xmlGetProp cur ''name'' of
        None \<Rightarrow> rejected
      | Some name \<Rightarrow>
          let si = \<lparr>si_name = name, si_params = [], si_isExistParam = False\<rparr>;
              si = (case xmlGetProp cur ''param'' of
                      Some param \<Rightarrow> si\<lparr>si_params := param, si_isExistParam := True\<rparr> | None \<Rightarrow> si);
              si = (case xmlGetProp cur ''delaytime'' of
                      Some delay \<Rightarrow> si\<lparr>si_params := delay, si_isExistParam := True\<rparr> | None \<Rightarrow> si)
          in accepted si)"

definition ParseStateNode :: "xml_node \<Rightarrow> thermal_service \<Rightarrow> (bool \<times> thermal_service) result" where
  "ParseStateNode node s =
     finish (for_children ''item'' (\<lambda>cur stateItems. bindp (parse_state_item cur) (\<lambda>si. accepted (stateItems @ [si]))) node [])
       (\<lambda>stateItems s. bindr (non_null (sv_state s)) (\<lambda>_.
          Inr (upd_world (StateMachine_SetStateItem stateItems) s))) s"

definition ParseActionInfo :: "platform \<Rightarrow> xml_node \<Rightarrow> ActionItem \<Rightarrow> ActionItem" where
  "ParseActionInfo P cur ai =
     (let ai = ai\<lparr>ai_params := or_keep (xmlGetProp cur ''param'') (ai_params ai)\<rparr>;
          ai = ai\<lparr>ai_uid := or_keep (xmlGetProp cur ''uid'') (ai_uid ai)\<rparr>;
          ai = ai\<lparr>ai_protocol := or_keep (xmlGetProp cur ''protocol'') (ai_protocol ai)\<rparr>;
          ai = (case xmlGetProp cur ''strict'' of
                  Some strict \<Rightarrow> ai\<lparr>ai_strict := (TrimStr P strict = TRUE_STR)\<rparr> | None \<Rightarrow> ai)
      in case xmlGetProp cur ''event'' of
           Some event \<Rightarrow> ai\<lparr>ai_enableEvent := (TrimStr P event = TRUE_STR)\<rparr>
         | None \<Rightarrow> ai)"

definition ActionItem_new :: "string \<Rightarrow> ActionItem" where
  "ActionItem_new name = \<lparr>ai_name = name, ai_params = [], ai_uid = [], ai_protocol = [], ai_strict = False,
     ai_enableEvent = False\<rparr>"

definition parse_action_item :: "platform \<Rightarrow> xml_node \<Rightarrow> ActionItem parse" where
  "parse_action_item P cur =
     (case xmlGetProp cur ''name'' of
        None \<Rightarrow> rejected
      | Some name \<Rightarrow> accepted (ParseActionInfo P cur (ActionItem_new name)))"

definition ParseActionNode :: "platform \<Rightarrow> xml_node \<Rightarrow> thermal_service \<Rightarrow> (bool \<times> thermal_service) result" where
  "ParseActionNode P node s =
     finish (for_children ''item'' (\<lambda>cur actionItems. bindp (parse_action_item P cur) (\<lambda>ai. accepted (actionItems @ [ai]))) node [])
       (\<lambda>actionItems s. bindr (deref (sv_actionMgr s)) (\<lambda>mgr.
          Inr (s\<lparr>sv_actionMgr := Some (ThermalActionManager_SetActionItem actionItems mgr)\<rparr>))) s"

section \<open>Policies\<close>

text \<open>The attributes of an action; \<open>None\<close> if one has no value.\<close>

fun action_prop_loop :: "xml_node \<Rightarrow> (string \<times> string option) list \<Rightarrow> PolicyAction \<Rightarrow> PolicyAction option" where
  "action_prop_loop subNode [] pa = Some pa"
| "action_prop_loop subNode ((propName, _) # props) pa =
     (case xmlGetProp subNode propName of
        None \<Rightarrow> None
      | Some v \<Rightarrow>
          action_prop_loop subNode props
            (pa\<lparr>pa_actionPropMap := sm_insert propName v (pa_actionPropMap pa), pa_isProp := True\<rparr>))"

text \<open>The caller ignores the result, and keeps the actions that were added before a failure.\<close>

fun policy_action_loop :: "xml_node list \<Rightarrow> PolicyAction list \<Rightarrow> bool \<times> PolicyAction list" where
  "policy_action_loop [] actions = (True, actions)"
| "policy_action_loop (subNode # rest) actions =
     (if xml_name subNode = ''comment'' then policy_action_loop rest actions
      else case xmlNodeGetContent subNode of
             None \<Rightarrow> (False, actions)
           | Some v \<Rightarrow>
               let pa = \<lparr>pa_actionName = xml_name subNode, pa_actionValue = v, pa_actionPropMap = [], pa_isProp = False\<rparr>
               in if xml_properties subNode = [] then policy_action_loop rest (actions @ [pa])
                  else (case action_prop_loop subNode (xml_properties subNode) pa of
                          None \<Rightarrow> (False, actions)
                        | Some pa \<Rightarrow> policy_action_loop rest (actions @ [pa])))"

definition ParsePolicyActionInfo :: "xml_node \<Rightarrow> PolicyConfig \<Rightarrow> bool \<times> PolicyConfig" where
  "ParsePolicyActionInfo cur policyConfig =
     (let (ok, actions) = policy_action_loop (xml_children cur) (pc_policyActionList policyConfig)
      in (ok, policyConfig\<lparr>pc_policyActionList := actions\<rparr>))"

definition parse_policy_config :: "config_uninit \<Rightarrow> xml_node \<Rightarrow> (string, PolicyConfig list) smap \<Rightarrow>
    (string, PolicyConfig list) smap parse" where
  "parse_policy_config U cur policies =
     (case xmlGetProp cur ''name'' of None \<Rightarrow> rejected | Some clusterName \<Rightarrow>
      case xmlGetProp cur ''level'' of None \<Rightarrow> rejected | Some xmlLevel \<Rightarrow>
        let policyConfig = \<lparr>pc_level = level_of xmlLevel (un_policyLevel U), pc_policyActionList = []\<rparr>;
            (_, policyConfig) = ParsePolicyActionInfo cur policyConfig
        in accepted (case sm_find policies clusterName of
                     None \<Rightarrow> sm_insert clusterName [policyConfig] policies
                   | Some policyList \<Rightarrow> sm_assign clusterName (policyList @ [policyConfig]) policies))"

definition ParsePolicyNode :: "config_uninit \<Rightarrow> xml_node \<Rightarrow> thermal_service \<Rightarrow> (bool \<times> thermal_service) result" where
  "ParsePolicyNode U node s =
     finish (for_children ''config'' (parse_policy_config U) node [])
       (\<lambda>pcm s. bindr (deref (sv_policy s)) (\<lambda>p.
          Inr (s\<lparr>sv_policy := Some (ThermalPolicy_SetPolicyMap pcm p)\<rparr>))) s"

section \<open>The idle condition\<close>

definition parse_idle_item :: "platform \<Rightarrow> xml_node \<Rightarrow> IdleState \<Rightarrow> IdleState" where
  "parse_idle_item P subNode idle =
     (let read = (\<lambda>d. case xmlNodeGetContent subNode of Some v \<Rightarrow> or_keep (StrToInt P v) d | None \<Rightarrow> d)
      in if xml_name subNode = ''thermallevel'' then idle\<lparr>idle_level := read (idle_level idle)\<rparr>
         else if xml_name subNode = ''soc'' then idle\<lparr>idle_soc := read (idle_soc idle)\<rparr>
         else if xml_name subNode = ''charging'' then idle\<lparr>idle_charging := read (idle_charging idle)\<rparr>
         else if xml_name subNode = ''current'' then idle\<lparr>idle_current := read (idle_current idle)\<rparr>
         else idle)"

definition ParseIdleNode :: "platform \<Rightarrow> config_uninit \<Rightarrow> xml_node \<Rightarrow> thermal_service \<Rightarrow> (bool \<times> thermal_service) result" where
  "ParseIdleNode P U node s =
     bindr (non_null (sv_state s)) (\<lambda>_.
       Inr (True, upd_world (StateMachine_SetIdleStateConfig (fold (parse_idle_item P) (xml_children node) (un_IdleState U))) s))"

section \<open>Fan faults\<close>

definition parse_fan_item :: "platform \<Rightarrow> config_uninit \<Rightarrow> string list \<Rightarrow> xml_node \<Rightarrow> FanFaultInfoMap \<Rightarrow>
    FanFaultInfoMap parse" where
  "parse_fan_item P U sensors cur fanFaultInfoMap =
     (case xmlGetProp cur ''fault'' of None \<Rightarrow> rejected | Some faultStr \<Rightarrow>
      let faultNum = or_keep (StrToInt P faultStr) (un_faultNum U) in
      case xmlGetProp cur ''threshold'' of None \<Rightarrow> rejected | Some thresholdStr \<Rightarrow>
      bindr (SplitString thresholdStr [] '','') (\<lambda>thresholds.
        if length thresholds \<noteq> length sensors then rejected
        else
          let fanSensorInfo = fold (\<lambda>(sensor, t). sm_insert sensor (or_keep (StrToInt P t) (un_fanValue U)))
                                (zip sensors thresholds) []
          in accepted (sm_insert faultNum fanSensorInfo fanFaultInfoMap)))"

definition ParseFanFaultInfo :: "platform \<Rightarrow> config_uninit \<Rightarrow> xml_node \<Rightarrow> string list \<Rightarrow> FanFaultInfoMap \<Rightarrow>
    FanFaultInfoMap parse" where
  "ParseFanFaultInfo P U node sensors fanFaultInfoMap =
     for_children ''item'' (parse_fan_item P U sensors) node fanFaultInfoMap"

definition ParseFanNode :: "platform \<Rightarrow> config_uninit \<Rightarrow> xml_node \<Rightarrow> thermal_service \<Rightarrow> (bool \<times> thermal_service) result" where
  "ParseFanNode P U node s =
     finish (for_children ''sensor_cluster'' (\<lambda>cur faults.
         case xmlGetProp cur ''sensor'' of
           None \<Rightarrow> rejected
         | Some sensorStr \<Rightarrow> bindr (SplitString sensorStr [] '','') (\<lambda>sensors. ParseFanFaultInfo P U cur sensors faults)) node [])
       (\<lambda>faults s. bindr (deref (sv_fanFaultDetect s)) (\<lambda>old.
          Inr (s\<lparr>sv_fanFaultDetect := Some (FanFaultDetect_SetFaultInfoMap faults old)\<rparr>))) s"

section \<open>The file\<close>

definition ParseRootNode :: "platform \<Rightarrow> config_uninit \<Rightarrow> xml_node \<Rightarrow> thermal_service \<Rightarrow> (bool \<times> thermal_service) result" where
  "ParseRootNode P U node s =
     (if xml_name node = ''base'' then ParseBaseNode node s
      else if xml_name node = ''level'' then ParseLevelNode P U node s
      else if xml_name node = ''state'' then ParseStateNode node s
      else if xml_name node = ''action'' then ParseActionNode P node s
      else if xml_name node = ''policy'' then ParsePolicyNode U node s
      else if xml_name node = ''idle'' then ParseIdleNode P U node s
      else if xml_name node = ''fan'' then ParseFanNode P U node s
      else if xml_name node = ''comment'' then Inr (True, s)
      else Inr (False, s))"

fun root_loop :: "platform \<Rightarrow> config_uninit \<Rightarrow> xml_node list \<Rightarrow> thermal_service \<Rightarrow> (bool \<times> thermal_service) result" where
  "root_loop P U [] s = Inr (True, s)"
| "root_loop P U (node # rest) s =
     bindr (ParseRootNode P U node s) (\<lambda>(ok, s). if ok then root_loop P U rest s else Inr (False, s))"

definition DecryptConfig :: "config_source \<Rightarrow> string \<Rightarrow> string option" where
  "DecryptConfig src path =
     (if take 7 path = ''/system'' then None
      else let (ret, res) = HookMgrExecute src path in if ret \<noteq> 0 then None else Some res)"

definition ParseXmlFile :: "config_source \<Rightarrow> platform \<Rightarrow> config_uninit \<Rightarrow> string \<Rightarrow> thermal_service \<Rightarrow>
    (bool \<times> thermal_service) result" where
  "ParseXmlFile src P U path s =
     (case (case DecryptConfig src path of Some res \<Rightarrow> xmlReadMemory src res | None \<Rightarrow> xmlReadFile src path) of
        None \<Rightarrow> Inr (False, s)
      | Some None \<Rightarrow> Inr (False, s)
      | Some (Some rootNode) \<Rightarrow> root_loop P U (xml_children rootNode) s)"

definition ThermalSrvConfigInit :: "config_source \<Rightarrow> platform \<Rightarrow> config_uninit \<Rightarrow> string \<Rightarrow> thermal_service \<Rightarrow>
    (bool \<times> thermal_service) result" where
  "ThermalSrvConfigInit src P U path s = ParseXmlFile src P U path s"

end
