(* ===== verification/Thermal_Service.thy ===== *)
theory Thermal_Service
  imports Config_Parser
begin

text \<open>
  \<open>services/native/src/thermal_service.cpp\<close>: the service that owns the other components. It
  creates them, reads the configuration, initialises them in order, follows the system
  abilities and the thermal driver, answers the clients, and takes the reports of the driver
  through the subscriber and the observer to the policy.

  \<open>environment\<close> holds what is outside the repository: the platform of the other theories, the
  uninitialised memory, libxml2, the permission check and the replies of the system; the calls
  into the system are recorded in \<open>service_call\<close>s. The airplane, battery and configuration
  policy parts are built in (a \<open>GetOneCfgFile\<close> that finds nothing is a build without the last);
  whether it is the build for users (\<open>THERMAL_USER_VERSION\<close>) is a field. The members are in
  theory \<open>Service_State\<close>. A task handed to a queue is a call; what it does is an operation of its
  own. The clusters read the rates through the subscriber; where they are run without one the
  result is \<open>NullPointer\<close>.
\<close>

section \<open>The environment\<close>

datatype ability =
    COMMON_EVENT_SERVICE_ID | SOC_PERF_SERVICE_SA_ID | POWER_MANAGER_BATT_SERVICE_ID | DEVICE_SERVICE_MANAGER_SA_ID
  | OtherAbility int

datatype service_call =
    ModuleMgrScan | ModuleMgrUninstall | ModuleMgrDestroy
  | AddSystemAbilityListener ability | RemoveSystemAbilityListener ability
  | Publish | RegisterBootCompletedCallback
  | RegisterServiceStatusListener | UnregisterServiceStatusListener
  | RetryRegisterHdiStatusListener | SubmitHdiStart | RetryUnRegisterThermalHdiCallback
  | HdiRegister | HdiUnregister | HdiRegisterFanCallback | HdiUnregisterFanCallback
  | SubscribeAirplaneEvent | UnSubscribeAirplaneEvent
  | SaveStringToFd int string

record environment =
  ev_platform :: platform
  ev_strtof :: "string \<Rightarrow> int"                 \<comment> \<open>into the \<open>float\<close>s of theory \<open>Float_Value\<close>\<close>
  ev_delay :: PolicyDelayAction                \<comment> \<open>uninitialised\<close>
  ev_uninit :: config_uninit
  ev_source :: config_source
  ev_userVersion :: bool
  ev_IsSystem :: bool                          \<comment> \<open>\<open>Permission::IsSystem\<close> of the caller\<close>
  ev_GetOneCfgFile :: "string option"          \<comment> \<open>\<open>None\<close> is a null pointer\<close>
  ev_Publish :: bool
  ev_SubscribeAirplane :: bool
  ev_IServiceManager :: bool                   \<comment> \<open>whether \<open>IServiceManager::Get\<close> finds the manager\<close>
  ev_RegisterServiceStatus :: int
  ev_IThermalInterface :: bool                 \<comment> \<open>whether \<open>IThermalInterface::Get\<close> finds the driver\<close>
  ev_GetThermalZoneInfo :: "int \<times> (string \<times> int) list"
  ev_Str16ToStr8 :: "int list \<Rightarrow> string"
  ev_ERR_NO_INIT :: int
  ev_ERR_PERMISSION_DENIED :: int

text \<open>The state of the service with the calls it made, oldest first.\<close>

type_synonym service = "thermal_service \<times> service_call list"

abbreviation (input) ERR_OK :: int where "ERR_OK \<equiv> 0"
abbreviation (input) ERR_FAIL :: int where "ERR_FAIL \<equiv> - 1"

abbreviation call :: "service_call \<Rightarrow> service \<Rightarrow> service" where
  "call c S \<equiv> (fst S, snd S @ [c])"

abbreviation on_service :: "(thermal_service \<Rightarrow> thermal_service) \<Rightarrow> service \<Rightarrow> service" where
  "on_service f S \<equiv> (f (fst S), snd S)"

text \<open>The actions reach the driver through the service's own pointer to it.\<close>

definition platform_of :: "environment \<Rightarrow> thermal_service \<Rightarrow> platform" where
  "platform_of E s = (ev_platform E)\<lparr>thermalInterface := sv_thermalInterface s\<rparr>"

section \<open>Creation and configuration\<close>

definition StateMachine_new :: "service_world \<Rightarrow> service_world" where
  "StateMachine_new w = w\<lparr>initFlag := False, stateCollectionMap := [], vState := [], receiver := None\<rparr>"

definition ThermalService_CreateConfigModule :: "thermal_service \<Rightarrow> bool \<times> thermal_service" where
  "ThermalService_CreateConfigModule s =
     (let s = (if sv_baseInfo s = None then s\<lparr>sv_baseInfo := Some BaseInfo_new\<rparr> else s);
          s = (if \<not> sv_state s then upd_world StateMachine_new (s\<lparr>sv_state := True\<rparr>) else s);
          s = (if sv_actionMgr s = None then s\<lparr>sv_actionMgr := Some \<lparr>vActionItem = [], managedActions = []\<rparr>\<rparr> else s);
          s = (if sv_policy s = None then s\<lparr>sv_policy := Some Policy_new\<rparr> else s);
          s = (if sv_fanFaultDetect s = None then s\<lparr>sv_fanFaultDetect := Some []\<rparr> else s)
      in (True, s))"

abbreviation (input) VENDOR_THERMAL_SERVICE_CONFIG_PATH :: string where
  "VENDOR_THERMAL_SERVICE_CONFIG_PATH \<equiv> ''/vendor/etc/thermal_config/thermal_service_config.xml''"

abbreviation (input) SYSTEM_THERMAL_SERVICE_CONFIG_PATH :: string where
  "SYSTEM_THERMAL_SERVICE_CONFIG_PATH \<equiv> ''/system/etc/thermal_config/thermal_service_config.xml''"

definition parse_config :: "environment \<Rightarrow> string \<Rightarrow> thermal_service \<Rightarrow> (bool \<times> thermal_service) result" where
  "parse_config E path s = ThermalSrvConfigInit (ev_source E) (ev_platform E) (ev_uninit E) path s"

text \<open>A file that fails is not undone before the next is tried.\<close>

definition ThermalService_InitConfigFile :: "environment \<Rightarrow> thermal_service \<Rightarrow> (bool \<times> thermal_service) result" where
  "ThermalService_InitConfigFile E s =
     (if sv_serviceConfigParsed s then Inr (True, s)
      else case ev_GetOneCfgFile E of
        Some (c # path) \<Rightarrow> parse_config E (c # path) s
      | _ \<Rightarrow>
          bindr (parse_config E VENDOR_THERMAL_SERVICE_CONFIG_PATH s) (\<lambda>(ok, s).
            if ok then Inr (True, s) else parse_config E SYSTEM_THERMAL_SERVICE_CONFIG_PATH s))"

definition ThermalService_InitConfigModule :: "environment \<Rightarrow> thermal_service \<Rightarrow> (bool \<times> thermal_service) result" where
  "ThermalService_InitConfigModule E s =
     (let (_, s) = ThermalService_CreateConfigModule s
      in bindr (parse_config E SYSTEM_THERMAL_SERVICE_CONFIG_PATH s) (\<lambda>(ok, s).
           if \<not> ok then Inr (False, s) else Inr (True, s\<lparr>sv_serviceConfigParsed := True\<rparr>)))"

section \<open>Initialisation\<close>

definition ThermalService_InitBaseInfo :: "thermal_service \<Rightarrow> (bool \<times> thermal_service) result" where
  "ThermalService_InitBaseInfo s =
     bindr (deref (sv_baseInfo s)) (\<lambda>b.
       bindr (ThermalConfigBaseInfo_Init b) (\<lambda>(ok, b). Inr (ok, s\<lparr>sv_baseInfo := Some b\<rparr>)))"

text \<open>A new observer; the function's static \<open>preSensor\<close> is not a member.\<close>

definition observer_created :: "Observer \<Rightarrow> Observer" where
  "observer_created ob = Observer_new\<lparr>preSensor := preSensor ob\<rparr>"

definition ThermalService_InitThermalObserver :: "thermal_service \<Rightarrow> (bool \<times> thermal_service) result" where
  "ThermalService_InitThermalObserver s =
     bindr (ThermalService_InitBaseInfo s) (\<lambda>(ok, s).
       if \<not> ok then Inr (False, s)
       else
         let s = (if \<not> sv_observer s
                  then upd_world (tell_observer (\<lambda>ob. snd (ThermalObserver_Init (map_option sensorsType (sv_baseInfo s))
                         (observer_created ob)))) (s\<lparr>sv_observer := True\<rparr>)
                  else s);
             s = (if sv_info s = None then s\<lparr>sv_info := Some []\<rparr> else s)
         in Inr (True, s))"

definition ThermalService_InitStateMachine :: "environment \<Rightarrow> thermal_service \<Rightarrow> (bool \<times> thermal_service) result" where
  "ThermalService_InitStateMachine E s =
     bindr (non_null (sv_state s)) (\<lambda>_.
       let (ok, w) = StateMachine_Init (platform_of E s) (sv_world s) in Inr (ok, s\<lparr>sv_world := w\<rparr>))"

text \<open>The constructors of these classes insert the action's name into \<open>SocActionBase::SocSet\<close>.\<close>

definition soc_kind :: "action_kind \<Rightarrow> bool" where
  "soc_kind k \<longleftrightarrow> k \<in> {KCpuBig, KCpuMed, KCpuLit, KGpu, KCpuBoost, KCpuIsolate, KCpuNonVip, KSocPerf, KSocPerfResource}"

definition soc_names :: "ActionItem list \<Rightarrow> string list" where
  "soc_names items = map ai_name (filter (\<lambda>item. case item_kind item of Some k \<Rightarrow> soc_kind k | None \<Rightarrow> False) items)"

definition ThermalService_InitActionManager :: "environment \<Rightarrow> thermal_service \<Rightarrow> (bool \<times> thermal_service) result" where
  "ThermalService_InitActionManager E s =
     bindr (deref (sv_actionMgr s)) (\<lambda>mgr.
       bindr (ThermalActionManager_Init (ev_strtof E) (platform_of E s) (mgr, sv_world s)) (\<lambda>(mgr, w).
         Inr (True, s\<lparr>sv_actionMgr := Some mgr, sv_world := w,
                      sv_socSet := fold ss_insert (soc_names (vActionItem mgr)) (sv_socSet s)\<rparr>)))"

definition ThermalService_InitThermalPolicy :: "thermal_service \<Rightarrow> (bool \<times> thermal_service) result" where
  "ThermalService_InitThermalPolicy s =
     bindr (deref (sv_policy s)) (\<lambda>p. bindr (non_null (sv_observer s)) (\<lambda>_.
       let (ok, p, w) = ThermalPolicy_Init (p, sv_world s) in Inr (ok, s\<lparr>sv_policy := Some p, sv_world := w\<rparr>)))"

definition ThermalService_InitThermalSubscriber :: "thermal_service \<Rightarrow> (bool \<times> thermal_service) result" where
  "ThermalService_InitThermalSubscriber s =
     (case sv_subscriber s of
        Some _ \<Rightarrow> Inr (True, s)
      | None \<Rightarrow>
          bindr (deref (sv_baseInfo s)) (\<lambda>b.
            let (ok, sub) = ThermalServiceSubscriber_Init b Subscriber_new in Inr (ok, s\<lparr>sv_subscriber := Some sub\<rparr>)))"

text \<open>An early return of a failed step.\<close>

definition if_ok :: "(bool \<times> 's) result \<Rightarrow> ('s \<Rightarrow> (bool \<times> 's) result) \<Rightarrow> (bool \<times> 's) result" where
  "if_ok r f = bindr r (\<lambda>(ok, s). if ok then f s else Inr (False, s))"

definition ThermalService_InitModules :: "environment \<Rightarrow> thermal_service \<Rightarrow> (bool \<times> thermal_service) result" where
  "ThermalService_InitModules E s =
     if_ok (ThermalService_InitConfigFile E s) (\<lambda>s.
     if_ok (ThermalService_InitThermalObserver (s\<lparr>sv_popup := True\<rparr>)) (\<lambda>s.
     if_ok (ThermalService_InitActionManager E s) (\<lambda>s.
     if_ok (ThermalService_InitThermalPolicy s)
       ThermalService_InitThermalSubscriber)))"

section \<open>The driver\<close>

text \<open>Whether there is an interface; the pointer is kept.\<close>

definition ThermalService_GetThermalInterfaceInner :: "environment \<Rightarrow> thermal_service \<Rightarrow> bool \<times> thermal_service" where
  "ThermalService_GetThermalInterfaceInner E s =
     (if sv_thermalInterface s then (True, s)
      else (ev_IThermalInterface E, s\<lparr>sv_thermalInterface := ev_IThermalInterface E\<rparr>))"

definition ThermalService_RegisterHdiStatusListener :: "environment \<Rightarrow> service \<Rightarrow> service" where
  "ThermalService_RegisterHdiStatusListener E S =
     (let S = on_service (sv_hdiServiceMgr_update (\<lambda>_. ev_IServiceManager E)) S
      in if \<not> ev_IServiceManager E then call RetryRegisterHdiStatusListener S
         else let S = call RegisterServiceStatusListener S
              in if ev_RegisterServiceStatus E \<noteq> ERR_OK then call RetryRegisterHdiStatusListener S else S)"

text \<open>What the listener does with a status of the driver's service.\<close>

datatype hdi_status = SERVIE_STATUS_START | SERVIE_STATUS_STOP | OtherStatus

definition drop_interface :: "service \<Rightarrow> service" where
  "drop_interface S =
     (if sv_thermalInterface (fst S)
      then on_service (sv_thermalInterface_update (\<lambda>_. False)) (call HdiUnregisterFanCallback (call HdiUnregister S))
      else S)"

definition hdi_status_callback :: "bool \<Rightarrow> hdi_status \<Rightarrow> service \<Rightarrow> service" where
  "hdi_status_callback ours status S =
     (if \<not> ours then S
      else case status of
        SERVIE_STATUS_START \<Rightarrow> call SubmitHdiStart S
      | SERVIE_STATUS_STOP \<Rightarrow> drop_interface S
      | OtherStatus \<Rightarrow> S)"

definition ThermalService_RegisterThermalHdiCallback :: "environment \<Rightarrow> service \<Rightarrow> service" where
  "ThermalService_RegisterThermalHdiCallback E S =
     (let (found, s) = ThermalService_GetThermalInterfaceInner E (fst S); S = (s, snd S)
      in if \<not> found then S else call HdiRegister S)"

definition ThermalService_UnRegisterThermalHdiCallback :: "environment \<Rightarrow> service \<Rightarrow> service" where
  "ThermalService_UnRegisterThermalHdiCallback E S =
     (let (found, s) = ThermalService_GetThermalInterfaceInner E (fst S); S = (s, snd S)
      in if \<not> found then call RetryUnRegisterThermalHdiCallback S else call HdiUnregister S)"

definition ThermalService_RegisterFanHdiCallback :: "environment \<Rightarrow> service \<Rightarrow> service result" where
  "ThermalService_RegisterFanHdiCallback E S =
     bindr (deref (sv_fanFaultDetect (fst S))) (\<lambda>faults.
       if \<not> FanFaultDetect_HasFanConfig faults then Inr S
       else let (found, s) = ThermalService_GetThermalInterfaceInner E (fst S); S = (s, snd S)
            in Inr (if \<not> found then S else call HdiRegisterFanCallback S))"

text \<open>The task that the start of the driver submits.\<close>

definition hdi_start_task :: "environment \<Rightarrow> service \<Rightarrow> service result" where
  "hdi_start_task E S = ThermalService_RegisterFanHdiCallback E (ThermalService_RegisterThermalHdiCallback E S)"

section \<open>Start and stop\<close>

definition ThermalService_Init :: "environment \<Rightarrow> service \<Rightarrow> (bool \<times> service) result" where
  "ThermalService_Init E S =
     (let (created, s) = ThermalService_CreateConfigModule (fst S)
      in if \<not> created then Inr (False, s, snd S)
         else bindr (ThermalService_InitModules E s) (\<lambda>(ok, s).
                if \<not> ok then Inr (False, s, snd S)
                else Inr (True, ThermalService_RegisterHdiStatusListener E (s, snd S))))"

definition ThermalService_OnStart :: "environment \<Rightarrow> service \<Rightarrow> service result" where
  "ThermalService_OnStart E S =
     (if sv_ready (fst S) then Inr S
      else bindr (ThermalService_Init E (call ModuleMgrScan S)) (\<lambda>(ok, S).
        let S = call ModuleMgrUninstall S
        in if \<not> ok then Inr S
           else
             let S = call (AddSystemAbilityListener COMMON_EVENT_SERVICE_ID) S;
                 S = call (AddSystemAbilityListener SOC_PERF_SERVICE_SA_ID) S;
                 S = call (AddSystemAbilityListener POWER_MANAGER_BATT_SERVICE_ID) S;
                 S = call Publish S
             in if \<not> ev_Publish E then Inr S
                else
                  let S = call RegisterBootCompletedCallback S;
                      S = call (AddSystemAbilityListener DEVICE_SERVICE_MANAGER_SA_ID) S
                  in Inr (on_service (sv_ready_update (\<lambda>_. True)) S)))"

text \<open>The callback that \<open>RegisterBootCompletedCallback\<close> registers.\<close>

definition ThermalService_boot_completed :: "thermal_service \<Rightarrow> thermal_service" where
  "ThermalService_boot_completed s = s\<lparr>sv_isBootCompleted := True\<rparr>"

definition ThermalService_OnStop :: "service \<Rightarrow> service" where
  "ThermalService_OnStop S =
     (if \<not> sv_ready (fst S) then S
      else
        let S = on_service (\<lambda>s. s\<lparr>sv_ready := False, sv_isBootCompleted := False\<rparr>) S;
            S = call (RemoveSystemAbilityListener COMMON_EVENT_SERVICE_ID) S;
            S = drop_interface S;
            S = (if sv_hdiServiceMgr (fst S)
                 then on_service (sv_hdiServiceMgr_update (\<lambda>_. False)) (call UnregisterServiceStatusListener S) else S);
            S = call UnSubscribeAirplaneEvent S
        in call ModuleMgrDestroy S)"

section \<open>System abilities\<close>

definition ThermalService_SubscribeCommonEvent :: "environment \<Rightarrow> service \<Rightarrow> bool \<times> service" where
  "ThermalService_SubscribeCommonEvent E S =
     (ev_SubscribeAirplane E,
      call SubscribeAirplaneEvent (on_service (sv_airplaneSubscriber_update (\<lambda>_. True)) S))"

definition AirplaneCommonEventSubscriber_OnReceiveEvent :: "int \<Rightarrow> service_world \<Rightarrow> service_world" where
  "AirplaneCommonEventSubscriber_OnReceiveEvent code w =
     (if \<not> isThermalAirplane w then w\<lparr>userAirplaneState := (code \<noteq> 0)\<rparr> else w\<lparr>isThermalAirplane := False\<rparr>)"

definition reset_soc_actions :: "(string \<Rightarrow> int) \<Rightarrow> string list \<Rightarrow> ActionManager \<Rightarrow> ActionManager" where
  "reset_soc_actions strtof socSet mgr =
     mgr\<lparr>managedActions := fold (\<lambda>name acts.
        case sm_find acts name of
          None \<Rightarrow> acts
        | Some (k, a) \<Rightarrow> sm_assign name (k, ResetActionValue (class_of strtof k) a) acts) socSet (managedActions mgr)\<rparr>"

definition ThermalService_OnAddSystemAbility :: "environment \<Rightarrow> ability \<Rightarrow> service \<Rightarrow> service result" where
  "ThermalService_OnAddSystemAbility E systemAbilityId S =
     (case systemAbilityId of
        COMMON_EVENT_SERVICE_ID \<Rightarrow>
          bindr (ThermalService_InitStateMachine E (fst S)) (\<lambda>(_, s).
            Inr (snd (ThermalService_SubscribeCommonEvent E (s, snd S))))
      | SOC_PERF_SERVICE_SA_ID \<Rightarrow>
          bindr (deref (sv_actionMgr (fst S))) (\<lambda>mgr.
            Inr (on_service (sv_actionMgr_update (\<lambda>_. Some (reset_soc_actions (ev_strtof E) (sv_socSet (fst S)) mgr))) S))
      | POWER_MANAGER_BATT_SERVICE_ID \<Rightarrow>
          Inr (on_service (upd_world (ChargerStateCollection_InitChargeState (ev_platform E))) S)
      | DEVICE_SERVICE_MANAGER_SA_ID \<Rightarrow>
          Inr (if sv_isHdiRemove (fst S)
               then on_service (sv_isHdiRemove_update (\<lambda>_. False)) (ThermalService_RegisterHdiStatusListener E S)
               else S)
      | OtherAbility _ \<Rightarrow> Inr S)"

definition ThermalService_OnRemoveSystemAbility :: "ability \<Rightarrow> thermal_service \<Rightarrow> thermal_service" where
  "ThermalService_OnRemoveSystemAbility systemAbilityId s =
     (if systemAbilityId = DEVICE_SERVICE_MANAGER_SA_ID \<and> \<not> sv_isHdiRemove s
      then s\<lparr>sv_hdiServiceMgr := False, sv_thermalInterface := False, sv_isHdiRemove := True\<rparr>
      else s)"

section \<open>Reports\<close>

text \<open>The callback that \<open>ThermalPolicy::RegisterObserver\<close> registers, and an immediate execution.\<close>

definition run_policy :: "(sensor_rates \<Rightarrow> system \<Rightarrow> system result) \<Rightarrow> thermal_service \<Rightarrow> thermal_service result" where
  "run_policy step s =
     bindr (deref (sv_policy s)) (\<lambda>p. bindr (deref (sv_actionMgr s)) (\<lambda>mgr. bindr (deref (sv_subscriber s)) (\<lambda>sub.
       bindr (step (subscriber_rates sub) (p, mgr, sv_world s)) (\<lambda>(p, mgr, w).
         Inr (s\<lparr>sv_policy := Some p, sv_actionMgr := Some mgr, sv_world := w\<rparr>)))))"

definition policy_callback :: "environment \<Rightarrow> TypeTempMap \<Rightarrow> thermal_service \<Rightarrow> thermal_service result" where
  "policy_callback E info s =
     run_policy (\<lambda>rates. ThermalPolicy_OnSensorInfoReported (ev_strtof E) (platform_of E s) (ev_delay E) rates info) s"

definition notify_listeners :: "service_world \<Rightarrow> service_world" where
  "notify_listeners w =
     (let (ob, calls) = ThermalObserver_NotifySensorTempChanged (observer w)
      in w\<lparr>observer := ob, effects := effects w @ map ObserverCall calls\<rparr>)"

text \<open>\<open>NotifyObserver\<close>, which is \<open>ThermalObserver::OnReceivedSensorInfo\<close> with the policy behind \<open>callback_\<close>.\<close>

definition ThermalSensorInfo_NotifyObserver :: "environment \<Rightarrow> thermal_service \<Rightarrow> thermal_service result" where
  "ThermalSensorInfo_NotifyObserver E s =
     bindr (deref (sv_info s)) (\<lambda>info. bindr (non_null (sv_observer s)) (\<lambda>_.
       let s = upd_world (tell_observer (callbackinfo_update (\<lambda>_. ThermalSensorInfo_GetTypeTempMap info))) s
       in bindr (if callbackSet (observer (sv_world s))
                 then policy_callback E (callbackinfo (observer (sv_world s))) s else Inr s) (\<lambda>s.
            Inr (upd_world notify_listeners s))))"

definition ThermalServiceSubscriber_OnTemperatureChanged ::
    "environment \<Rightarrow> TypeTempMap \<Rightarrow> thermal_service \<Rightarrow> thermal_service result" where
  "ThermalServiceSubscriber_OnTemperatureChanged E temps s =
     bindr (deref (sv_subscriber s)) (\<lambda>sub.
       if temps = [] then Inr s
       else
         let sub = ThermalServiceSubscriber_store temps sub;
             s = s\<lparr>sv_subscriber := Some sub\<rparr>
         in bindr (deref (sv_info s)) (\<lambda>info.
              let s = s\<lparr>sv_info := Some (ThermalSensorInfo_SetTypeTempMap (sub_typeTempMap sub) info)\<rparr>
              in bindr (ThermalSensorInfo_NotifyObserver E s) (\<lambda>s.
                   bindr (ThermalServiceSubscriber_SetHistoryTypeTempMap (rnd (ev_platform E)) (sub_typeTempMap sub) sub)
                     (\<lambda>sub. Inr (s\<lparr>sv_subscriber := Some sub\<rparr>)))))"

text \<open>The readings of an event: the first of a type counts.\<close>

definition event_map :: "(string \<times> int) list \<Rightarrow> TypeTempMap" where
  "event_map event = fold (\<lambda>(type, temp). sm_insert type temp) event []"

definition ThermalService_HandleThermalCallbackEvent ::
    "environment \<Rightarrow> (string \<times> int) list \<Rightarrow> thermal_service \<Rightarrow> (int \<times> thermal_service) result" where
  "ThermalService_HandleThermalCallbackEvent E event s =
     (if \<not> ev_userVersion E \<and> \<not> sv_isTempReport s then Inr (ERR_OK, s)
      else bindr (ThermalServiceSubscriber_OnTemperatureChanged E (event_map event) s) (\<lambda>s. Inr (ERR_OK, s)))"

definition ThermalService_HandleTempEmulation ::
    "environment \<Rightarrow> TypeTempMap \<Rightarrow> thermal_service \<Rightarrow> (bool \<times> thermal_service) result" where
  "ThermalService_HandleTempEmulation E temps s =
     (if sv_isTempReport s then Inr (False, s)
      else bindr (ThermalServiceSubscriber_OnTemperatureChanged E temps s) (\<lambda>s. Inr (True, s)))"

definition ThermalService_HandleFanCallbackEvent ::
    "(string \<times> int) list \<Rightarrow> thermal_service \<Rightarrow> (int \<times> thermal_service) result" where
  "ThermalService_HandleFanCallbackEvent event s =
     bindr (deref (sv_fanFaultDetect s)) (\<lambda>faults.
       bindr (FanFaultDetect_OnFanSensorInfoChanged (event_map event) faults (sv_world s)) (\<lambda>w.
         Inr (ERR_OK, s\<lparr>sv_world := w\<rparr>)))"

definition ThermalService_GetThermalInfo :: "environment \<Rightarrow> thermal_service \<Rightarrow> (int \<times> thermal_service) result" where
  "ThermalService_GetThermalInfo E s =
     (let (found, s) = ThermalService_GetThermalInterfaceInner E s
      in if \<not> found then Inr (ERR_FAIL, s)
         else let (res, info) = ev_GetThermalZoneInfo E
              in bindr (ThermalService_HandleThermalCallbackEvent E info s) (\<lambda>(_, s).
                   Inr (if res = 0 then ERR_OK else ERR_FAIL, s)))"

section \<open>Requests of clients\<close>

text \<open>A request that only a system application may make.\<close>

definition if_system :: "environment \<Rightarrow> (thermal_service \<Rightarrow> thermal_service result) \<Rightarrow> thermal_service \<Rightarrow>
    (int \<times> thermal_service) result" where
  "if_system E f s = (if \<not> ev_IsSystem E then Inr (ERR_FAIL, s) else bindr (f s) (\<lambda>s. Inr (ERR_OK, s)))"

definition with_observer :: "(Observer \<Rightarrow> Observer) \<Rightarrow> thermal_service \<Rightarrow> thermal_service result" where
  "with_observer f s = bindr (non_null (sv_observer s)) (\<lambda>_. Inr (upd_world (tell_observer f) s))"

definition ThermalService_SubscribeThermalTempCallback ::
    "environment \<Rightarrow> string list \<Rightarrow> listener option \<Rightarrow> thermal_service \<Rightarrow> (int \<times> thermal_service) result" where
  "ThermalService_SubscribeThermalTempCallback E typeList callback =
     if_system E (with_observer (ThermalObserver_SubscribeThermalTempCallback typeList callback))"

definition ThermalService_UnSubscribeThermalTempCallback ::
    "environment \<Rightarrow> listener option \<Rightarrow> thermal_service \<Rightarrow> (int \<times> thermal_service) result" where
  "ThermalService_UnSubscribeThermalTempCallback E callback =
     if_system E (with_observer (ThermalObserver_UnSubscribeThermalTempCallback callback))"

definition ThermalService_SubscribeThermalActionCallback ::
    "environment \<Rightarrow> string list \<Rightarrow> listener option \<Rightarrow> thermal_service \<Rightarrow> (int \<times> thermal_service) result" where
  "ThermalService_SubscribeThermalActionCallback E actionList callback =
     if_system E (\<lambda>s. bindr (non_null (sv_observer s)) (\<lambda>_.
       Inr (upd_world (\<lambda>w. let (ob, calls) = ThermalObserver_SubscribeThermalActionCallback actionList callback (observer w)
                           in w\<lparr>observer := ob, effects := effects w @ map ObserverCall calls\<rparr>) s)))"

definition ThermalService_UnSubscribeThermalActionCallback ::
    "environment \<Rightarrow> listener option \<Rightarrow> thermal_service \<Rightarrow> (int \<times> thermal_service) result" where
  "ThermalService_UnSubscribeThermalActionCallback E callback =
     if_system E (with_observer (ThermalObserver_UnSubscribeThermalActionCallback callback))"

definition ThermalService_SubscribeThermalLevelCallback ::
    "nat option \<Rightarrow> bool \<Rightarrow> thermal_service \<Rightarrow> (int \<times> thermal_service) result" where
  "ThermalService_SubscribeThermalLevelCallback callback isSync s =
     bindr (deref (sv_actionMgr s)) (\<lambda>mgr.
       Inr (ERR_OK, upd_world (ThermalActionManager_SubscribeThermalLevelCallback callback isSync mgr) s))"

definition ThermalService_UnSubscribeThermalLevelCallback ::
    "nat option \<Rightarrow> thermal_service \<Rightarrow> (int \<times> thermal_service) result" where
  "ThermalService_UnSubscribeThermalLevelCallback callback s =
     bindr (deref (sv_actionMgr s)) (\<lambda>mgr.
       Inr (ERR_OK, upd_world (ThermalActionManager_UnSubscribeThermalLevelCallback callback mgr) s))"

text \<open>The result, \<open>sensorInfoRet\<close> and the sensor's name and temperature.\<close>

definition ThermalService_GetThermalSrvSensorInfo ::
    "nat \<Rightarrow> string \<times> int \<Rightarrow> thermal_service \<Rightarrow> (int \<times> bool \<times> string \<times> int) result" where
  "ThermalService_GetThermalSrvSensorInfo type sensorInfo s =
     bindr (non_null (sv_observer s)) (\<lambda>_.
       let (ret, info) = ThermalObserver_GetThermalSrvSensorInfo type sensorInfo (observer (sv_world s))
       in Inr (if \<not> ret then ERR_FAIL else ERR_OK, ret, info))"

text \<open>\<open>None\<close> leaves the caller's level alone.\<close>

definition ThermalService_GetThermalLevel :: "thermal_service \<Rightarrow> int \<times> int option" where
  "ThermalService_GetThermalLevel s =
     (case sv_actionMgr s of
        None \<Rightarrow> (ERR_FAIL, None)
      | Some mgr \<Rightarrow> (ERR_OK, Some (to_int32 (ThermalActionManager_GetThermalLevel mgr))))"

definition ThermalService_SetScene :: "environment \<Rightarrow> string \<Rightarrow> thermal_service \<Rightarrow> (int \<times> thermal_service) result" where
  "ThermalService_SetScene E newScene = if_system E (\<lambda>s. Inr (upd_world (\<lambda>w. w\<lparr>scene := newScene\<rparr>) s))"

definition ThermalService_UpdateThermalState ::
    "environment \<Rightarrow> string \<Rightarrow> string \<Rightarrow> bool \<Rightarrow> thermal_service \<Rightarrow> (int \<times> thermal_service) result" where
  "ThermalService_UpdateThermalState E tag val isImmed =
     if_system E (\<lambda>s. bindr (non_null (sv_state s)) (\<lambda>_.
       let s = upd_world (StateMachine_UpdateState tag val) s
       in if isImmed
          then run_policy (\<lambda>rates. ThermalPolicy_ExecutePolicy (ev_strtof E) (platform_of E s) (ev_delay E) rates) s
          else Inr s))"

end
