(* ===== verification/Service_Dump.thy ===== *)
theory Service_Dump
  imports Thermal_Service
begin

text \<open>
  \<open>thermal_mgr_dumper.cpp\<close> and the two operations of the service that reach it: the shell's and
  the system's request for a dump. Besides printing, a dump stops and starts the reports of the
  driver, replaces them by given temperatures and shows the dialog. \<open>atoi\<close> converts the value
  of \<open>strtol\<close> to \<open>int\<close>.
\<close>

definition atoi :: "string \<Rightarrow> int" where
  "atoi s = to_int32 (fst (strtol (c_str s)))"

definition ThermalMgrDumper_ShowUsage :: string where
  "ThermalMgrDumper_ShowUsage =
     ''Thermal manager dump options:'' @ NEWLINE @
     ''  [-h] '' @ NEWLINE @
     ''  description of the cmd option:'' @ NEWLINE @
     ''    -h: show this help.'' @ NEWLINE @
     ''    -t: show thermal zone data.'' @ NEWLINE @
     ''  only for engineer:'' @ NEWLINE @
     ''    -st: switch temperature report, 0: stop, 1: start.'' @ NEWLINE @
     ''    -te: temperature emulation.'' @ NEWLINE @
     ''    -d: show thermal level dialog.'' @ NEWLINE @
     ''    -s: show thermal scene data.'' @ NEWLINE @
     ''    -l: show thermal level data.'' @ NEWLINE @
     ''    -a: show thermal action data.'' @ NEWLINE @
     ''    -p: show thermal policy data.'' @ NEWLINE @
     ''    -i: show thermal charging idle state data.'' @ NEWLINE"

definition ThermalMgrDumper_SwitchTempReport ::
    "environment \<Rightarrow> string list \<Rightarrow> string \<Rightarrow> thermal_service \<Rightarrow> string \<times> thermal_service" where
  "ThermalMgrDumper_SwitchTempReport E args out s =
     (if ev_userVersion E then (out @ ''[Failed] User version is not supported.'' @ NEWLINE, s)
      else if 2 \<le> length args \<and> args ! 1 = ''0''
           then (out @ ''Temperature reporting has been stopped.'' @ NEWLINE, SetTempReportSwitch False s)
           else (out @ ''Temperature reporting has been started.'' @ NEWLINE, SetTempReportSwitch True s))"

text \<open>The pairs of a type and a temperature; an odd argument at the end is not read.\<close>

fun emulation_loop :: "string list \<Rightarrow> TypeTempMap \<Rightarrow> string \<Rightarrow> TypeTempMap \<times> string" where
  "emulation_loop (type # temp # rest) tempMap out =
     emulation_loop rest (sm_insert type (atoi temp) tempMap)
       (out @ ''Report temperature [ '' @ type @ '' ]: '' @ temp @ NEWLINE)"
| "emulation_loop _ tempMap out = (tempMap, out)"

definition ThermalMgrDumper_EmulateTempReport ::
    "environment \<Rightarrow> string list \<Rightarrow> string \<Rightarrow> thermal_service \<Rightarrow> (string \<times> thermal_service) result" where
  "ThermalMgrDumper_EmulateTempReport E args out s =
     (if ev_userVersion E then Inr (out @ ''[Failed] User version is not supported.'' @ NEWLINE, s)
      else if length args \<le> 2 then Inr (out @ ''[Error] Insufficient input parameters!'' @ NEWLINE, s)
      else let (tempMap, out) = emulation_loop (tl args) [] out
           in bindr (ThermalService_HandleTempEmulation E tempMap s) (\<lambda>(ok, s).
                Inr (if \<not> ok
                     then out @ ''[Error] Original temperature reporting has not been closed! You need to close it first.''
                       @ NEWLINE
                     else out, s)))"

fun dump_policy_loop :: "platform \<Rightarrow> string list \<Rightarrow> string \<Rightarrow> thermal_service \<Rightarrow> (string \<times> thermal_service) result" where
  "dump_policy_loop P [] out s = Inr (out, s)"
| "dump_policy_loop P (arg # args) out s =
     (if arg = ''-d'' then
        bindr (non_null (sv_popup s)) (\<lambda>_. dump_policy_loop P args out (upd_world (emit (ShowThermalDialog True)) s))
      else if arg = ''-s'' then
        bindr (non_null (sv_state s)) (\<lambda>_. dump_policy_loop P args (StateMachine_DumpState out (sv_world s)) s)
      else if arg = ''-l'' then
        bindr (deref (sv_policy s)) (\<lambda>p. dump_policy_loop P args (ThermalPolicy_DumpLevel out p) s)
      else if arg = ''-a'' then
        bindr (deref (sv_actionMgr s)) (\<lambda>mgr. dump_policy_loop P args (ThermalActionManager_DumpAction out mgr) s)
      else if arg = ''-p'' then
        bindr (deref (sv_policy s)) (\<lambda>p. dump_policy_loop P args (ThermalPolicy_DumpPolicy out p) s)
      else if arg = ''-i'' then
        bindr (non_null (sv_state s)) (\<lambda>_. dump_policy_loop P args (StateMachine_DumpIdle out (sv_world s)) s)
      else Inr (out, s))"

text \<open>The first result is whether the dump was allowed.\<close>

definition ThermalMgrDumper_DumpPolicy ::
    "platform \<Rightarrow> string list \<Rightarrow> string \<Rightarrow> thermal_service \<Rightarrow> (bool \<times> string \<times> thermal_service) result" where
  "ThermalMgrDumper_DumpPolicy P args out s =
     (if \<not> GetSimulationXml s then Inr (False, out, s)
      else bindr (dump_policy_loop P args out s) (\<lambda>(out, s). Inr (True, out, s)))"

definition ThermalMgrDumper_ShowThermalZoneInfo :: "platform \<Rightarrow> string \<Rightarrow> thermal_service \<Rightarrow> string result" where
  "ThermalMgrDumper_ShowThermalZoneInfo P out s =
     bindr (deref (sv_subscriber s)) (\<lambda>sub.
       Inr (fold (\<lambda>(type, temp) out. out @ ''Type: '' @ type @ NEWLINE @ ''Temperature: '' @ ToString P temp @ NEWLINE)
              (sub_typeTempMap sub) out))"

definition ThermalMgrDumper_Dump ::
    "environment \<Rightarrow> string list \<Rightarrow> thermal_service \<Rightarrow> (bool \<times> string \<times> thermal_service) result" where
  "ThermalMgrDumper_Dump E args s =
     (case args of
        [] \<Rightarrow> Inr (True, ThermalMgrDumper_ShowUsage, s)
      | arg # _ \<Rightarrow>
          if arg = ''-h'' then Inr (True, ThermalMgrDumper_ShowUsage, s)
          else if arg = ''-st'' then
            let (out, s) = ThermalMgrDumper_SwitchTempReport E args [] s in Inr (True, out, s)
          else if arg = ''-te'' then
            bindr (ThermalMgrDumper_EmulateTempReport E args [] s) (\<lambda>(out, s). Inr (True, out, s))
          else if arg = ''-t'' then
            bindr (ThermalMgrDumper_ShowThermalZoneInfo (ev_platform E) [] s) (\<lambda>out. Inr (True, out, s))
          else ThermalMgrDumper_DumpPolicy (ev_platform E) args [] s)"

section \<open>The requests\<close>

definition ThermalService_ShellDump ::
    "environment \<Rightarrow> string list \<Rightarrow> thermal_service \<Rightarrow> (int \<times> string \<times> thermal_service) result" where
  "ThermalService_ShellDump E args s =
     (if \<not> ev_IsSystem E \<or> \<not> sv_isBootCompleted s then Inr (ERR_FAIL, [], s)
      else bindr (ThermalMgrDumper_Dump E args s) (\<lambda>(_, out, s). Inr (ERR_OK, out, s)))"

definition ThermalService_Dump :: "environment \<Rightarrow> int \<Rightarrow> int list list \<Rightarrow> service \<Rightarrow> (int \<times> service) result" where
  "ThermalService_Dump E fd args S =
     (if \<not> sv_isBootCompleted (fst S) then Inr (ev_ERR_NO_INIT E, S)
      else if \<not> ev_IsSystem E then Inr (ev_ERR_PERMISSION_DENIED E, S)
      else bindr (ThermalMgrDumper_Dump E (map (ev_Str16ToStr8 E) args) (fst S)) (\<lambda>(_, out, s).
             Inr (ERR_OK, call (SaveStringToFd fd out) (s, snd S))))"

end
