(* ===== verification/State_Machine_Proofs.thy ===== *)
theory State_Machine_Proofs
  imports State_Machine
begin

text \<open>
  What the state collections guarantee. The environment (the event service, the timer
  service, the policy thread) is a sequence of steps with a platform of its own choice in
  each of them; the invariants are proved by induction over such sequences.
\<close>

section \<open>The screen state over a sequence of events\<close>

datatype screen_event = ScreenTurnsOn | ScreenTurnsOff | ScreenTimerFires

fun screen_event_step ::
    "platform \<Rightarrow> screen_event \<Rightarrow> ScreenState \<times> 'a timer_world_scheme \<Rightarrow> ScreenState \<times> 'a timer_world_scheme" where
  "screen_event_step P ScreenTurnsOn = ScreenStateCollection_HandleScreenOnCompleted P"
| "screen_event_step P ScreenTurnsOff = ScreenStateCollection_HandleScreenOffCompleted P"
| "screen_event_step P ScreenTimerFires = ScreenStateCollection_ResetState P"

named_theorems screen_defs

lemmas [screen_defs] =
  ScreenStateCollection_HandleScreenOnCompleted_def ScreenStateCollection_HandleScreenOffCompleted_def
  ScreenStateCollection_ResetState_def ScreenStateCollection_StartDelayTimer_def
  ScreenStateCollection_StopDelayTimer_def ScreenStateCollection_DecideState_def

text \<open>One step of the environment: an event, or a decision, which may refresh the state.\<close>

inductive screen_step :: "ScreenState \<times> timer_world \<Rightarrow> ScreenState \<times> timer_world \<Rightarrow> bool" where
  event: "screen_step st (screen_event_step P e st)"
| decide: "screen_step (s, w) (snd (ScreenStateCollection_DecideState P value s), w)"

inductive_cases screen_stepE: "screen_step st st'"

inductive screen_reach :: "string \<Rightarrow> ScreenState \<times> timer_world \<Rightarrow> bool" for params where
  start: "live_timers w = {} \<Longrightarrow>
     screen_reach params (ScreenStateCollection_InitParam params ScreenStateCollection_new, w)"
| step: "screen_reach params st \<Longrightarrow> screen_step st st' \<Longrightarrow> screen_reach params st'"

text \<open>The invariant: it owns its timer, has one only while off, and only if there is a delay.\<close>

definition screen_ok :: "ScreenState \<times> 'a timer_world_scheme \<Rightarrow> bool" where
  "screen_ok = (\<lambda>(s, w).
     owns (scr_delayTimerId s) (live_timers w) \<and>
     (scr_state s = SCREEN_ON \<and> scr_delayTimerId s = 0 \<or> scr_state s = SCREEN_OFF) \<and>
     (scr_delayTime s = 0 \<longrightarrow> scr_delayTimerId s = 0))"

lemma screen_ok_event: "screen_ok st \<Longrightarrow> screen_ok (screen_event_step P e st)"
  by (cases st; cases e)
     (auto simp: screen_ok_def screen_defs Let_def split_def owns_def word_gt_0 split: if_splits)

lemma screen_ok_decide: "screen_ok (s, w) \<Longrightarrow> screen_ok (snd (ScreenStateCollection_DecideState P v s), w)"
  by (auto simp: screen_ok_def screen_defs Let_def)

lemma screen_ok_step: "screen_step st st' \<Longrightarrow> screen_ok st \<Longrightarrow> screen_ok st'"
  by (auto elim!: screen_stepE intro: screen_ok_event screen_ok_decide)

lemma screen_ok_reach: "screen_reach params st \<Longrightarrow> screen_ok st"
proof (induction rule: screen_reach.induct)
  case (start w)
  then show ?case
    by (simp add: screen_ok_def ScreenStateCollection_InitParam_def ScreenStateCollection_new_def split: option.split)
qed (rule screen_ok_step)

text \<open>
  C34: whatever the order of screen events, timer callbacks and decisions, the screen state
  never loses a timer: at most one is allocated, it is the one \<open>delayTimerId_\<close> names, it
  exists only while the state is off, and never without a configured delay.
\<close>

theorem screen_timer_owned:
  "screen_reach params (s, w) \<Longrightarrow>
     live_timers w = (if scr_delayTimerId s = 0 then {} else {scr_delayTimerId s}) \<and>
     (scr_state s = SCREEN_ON \<and> scr_delayTimerId s = 0 \<or> scr_state s = SCREEN_OFF) \<and>
     (scr_delayTime s = 0 \<longrightarrow> scr_delayTimerId s = 0)"
  using screen_ok_reach [of params "(s, w)"] by (simp add: screen_ok_def owns_def)

lemma StrToUint_5000: "StrToUint ''5000'' = Some 5000"
proof -
  have "to_dec 5000 = ''5000''" by (simp add: to_dec_eval)
  with StrToUint_to_dec [of 5000] show ?thesis by simp
qed

theorem screen_timer_owned_witness:
  "\<exists>s w. screen_reach ''5000'' (s, w) \<and> live_timers w = {1} \<and> scr_delayTimerId s = 1"
proof -
  let ?s0 = "ScreenStateCollection_InitParam ''5000'' ScreenStateCollection_new"
  let ?st = "screen_event_step sample_platform ScreenTurnsOn (?s0, sample_timers)"
  have r: "screen_reach ''5000'' (fst ?st, snd ?st)"
    unfolding prod.collapse
    by (rule screen_reach.step [OF screen_reach.start [OF sample_timers_none] screen_step.event])
  have "scr_delayTimerId (fst ?st) = 1"
    by (simp add: screen_defs ScreenStateCollection_InitParam_def ScreenStateCollection_new_def StrToUint_5000
        Let_def split_def sample_platform_def sample_timers_def stop_delay_timer_def)
  with r screen_timer_owned [OF r] show ?thesis by (metis one_neq_zero)
qed

text \<open>Every event overwrites the state, so with a delay the last one determines it.\<close>

fun screen_run :: "(platform \<times> screen_event) list \<Rightarrow> ScreenState \<times> 'a timer_world_scheme \<Rightarrow>
    ScreenState \<times> 'a timer_world_scheme" where
  "screen_run [] st = st"
| "screen_run ((P, e) # es) st = screen_run es (screen_event_step P e st)"

lemma screen_event_delay [simp]: "scr_delayTime (fst (screen_event_step P e st)) = scr_delayTime (fst st)"
  by (cases st; cases e) (auto simp: screen_defs Let_def split_def)

lemma screen_event_state:
  "0 < scr_delayTime (fst st) \<Longrightarrow>
     scr_state (fst (screen_event_step P e st)) = (if e = ScreenTimerFires then SCREEN_ON else SCREEN_OFF)"
  by (cases st; cases e) (simp_all add: screen_defs Let_def split_def)

lemma screen_run_delay [simp]: "scr_delayTime (fst (screen_run es st)) = scr_delayTime (fst st)"
  by (induction es st rule: screen_run.induct) simp_all

lemma screen_run_state:
  "0 < scr_delayTime (fst st) \<Longrightarrow>
     scr_state (fst (screen_run es st)) =
       (if es = [] then scr_state (fst st)
        else if snd (last es) = ScreenTimerFires then SCREEN_ON else SCREEN_OFF)"
  by (induction es st rule: screen_run.induct)
     (auto simp: screen_event_state simp del: screen_event_step.simps)

lemma ToString_eq: "ToString_injective P \<Longrightarrow> ToString P i = ToString P j \<longleftrightarrow> i = j"
  by (auto simp: ToString_injective_def)

lemma screen_decides_on:
  "ToString_injective P \<Longrightarrow>
     fst (ScreenStateCollection_DecideState P (ToString P SCREEN_ON) s) \<longleftrightarrow>
       (if scr_delayTime s = 0 then IsScreenOn P else scr_state s = SCREEN_ON)"
  by (simp add: ScreenStateCollection_DecideState_def ToString_eq)

text \<open>
  C35: the screen counts as on for a policy, after any sequence of screen events and timer
  callbacks, exactly when the delay timer fired last (with no delay configured: when the
  power manager says it is on). Turning on anew restarts the delay, turning off cancels it.
\<close>

theorem screen_on_decided_after_delay:
  "ToString_injective P \<Longrightarrow>
     fst (ScreenStateCollection_DecideState P (ToString P SCREEN_ON)
            (fst (screen_run es (ScreenStateCollection_InitParam params ScreenStateCollection_new, w)))) =
       (if StrToUint params \<in> {None, Some 0} then IsScreenOn P
        else es \<noteq> [] \<and> snd (last es) = ScreenTimerFires)"
  by (cases "StrToUint params")
     (auto simp: screen_decides_on screen_run_state word_gt_0
       ScreenStateCollection_InitParam_def ScreenStateCollection_new_def)

theorem screen_on_decided_after_delay_witness:
  "\<not> fst (ScreenStateCollection_DecideState sample_platform ''1''
       (fst (screen_run [(sample_platform, ScreenTimerFires), (sample_platform, ScreenTurnsOn)]
         (ScreenStateCollection_InitParam ''5000'' ScreenStateCollection_new, sample_timers))))"
proof -
  have "ToString sample_platform SCREEN_ON = ''1''" by (simp add: to_string_int_def to_dec_eval)
  then show ?thesis
    using screen_on_decided_after_delay [of sample_platform
      "[(sample_platform, ScreenTimerFires), (sample_platform, ScreenTurnsOn)]" "''5000''" sample_timers]
    by (simp add: StrToUint_5000 del: screen_run.simps)
qed

section \<open>The charge delay forgets its timers\<close>

named_theorems charge_delay_defs

lemmas [charge_delay_defs] =
  ChargeDelayStateCollection_HandlerPowerConnected_def ChargeDelayStateCollection_HandlerPowerDisconnected_def
  ChargeDelayStateCollection_ResetState_def ChargeDelayStateCollection_StartDelayTimer_def
  ChargeDelayStateCollection_StopDelayTimer_def ChargerStateCollection_GetCharge_def
  ChargerStateCollection_SetCharge_def upd_charger_def Let_def split_def

text \<open>Plug in, unplug, and let the delay expire.\<close>

definition charge_delay_cycle ::
    "platform \<Rightarrow> ChargeDelayState \<times> 'a machine_world_scheme \<Rightarrow> ChargeDelayState \<times> 'a machine_world_scheme" where
  "charge_delay_cycle P st =
     (let st = ChargeDelayStateCollection_HandlerPowerConnected P st;
          (s, w) = ChargeDelayStateCollection_HandlerPowerDisconnected P st
      in (ChargeDelayStateCollection_ResetState s, w))"

lemma live_timers_update [simp]: "live_timers (charger_instance_update f w) = live_timers w"
  by (simp add: live_timers_def)

lemma charge_delay_cycle:
  assumes "cd_delayTimerId (fst st) = 0"
  shows "cd_delayTimerId (fst (charge_delay_cycle P st)) = 0"
    and "createCount (snd (charge_delay_cycle P st)) = Suc (createCount (snd st))"
    and "live_timers (snd (charge_delay_cycle P st)) =
           live_timers (snd st) \<union> ({newTimerId P (createCount (snd st))} - {0})"
  using assms by (cases st; auto simp: charge_delay_cycle_def charge_delay_defs)+

lemma charge_delay_cycles:
  assumes "cd_delayTimerId (fst st) = 0"
  shows "live_timers (snd ((charge_delay_cycle P ^^ k) st)) =
           live_timers (snd st) \<union> (newTimerId P ` {createCount (snd st) ..< createCount (snd st) + k} - {0})"
  using assms
proof (induction k arbitrary: st)
  case (Suc k)
  note cyc = charge_delay_cycle [OF Suc.prems, of P]
  have "{createCount (snd st) ..< createCount (snd st) + Suc k} =
      insert (createCount (snd st)) {Suc (createCount (snd st)) ..< Suc (createCount (snd st)) + k}" by auto
  then show ?case
    using Suc.IH [OF cyc(1)] by (simp add: funpow_swap1 [symmetric] funpow_Suc_right cyc(2,3) del: funpow.simps) auto
qed simp

text \<open>
  The charge delay leaks: every plug, unplug and expiry leaves one more timer allocated,
  because \<open>ResetState\<close> forgets the id without destroying the timer.
\<close>

theorem charge_delay_leaks_timers:
  "live_timers (snd ((charge_delay_cycle P ^^ k)
      (ChargeDelayStateCollection_InitParam params ChargeDelayStateCollection_new, w))) =
     live_timers w \<union> (newTimerId P ` {createCount w ..< createCount w + k} - {0})"
  using charge_delay_cycles
    [where P = P and k = k
      and st = "(ChargeDelayStateCollection_InitParam params ChargeDelayStateCollection_new, w)"]
  by (simp add: ChargeDelayStateCollection_InitParam_def ChargeDelayStateCollection_new_def)

section \<open>The charge idle event\<close>

datatype battery_event =
    BatteryChanged platform CommonEventData | BatteryChangedInner CommonEventData | ThermalLevelChanged CommonEventData

fun battery_event_step :: "battery_event \<Rightarrow> 'a machine_world_scheme \<Rightarrow> 'a machine_world_scheme" where
  "battery_event_step (BatteryChanged P data) = ChargerStateCollection_HandleChangerStatusCompleted P data"
| "battery_event_step (BatteryChangedInner data) = ChargerStateCollection_HandleChangerInnerStatusCompleted data"
| "battery_event_step (ThermalLevelChanged data) = ChargerStateCollection_HandleThermalLevelCompleted data"

fun alternates :: "bool \<Rightarrow> bool list \<Rightarrow> bool" where
  "alternates b [] \<longleftrightarrow> True"
| "alternates b (x # xs) \<longleftrightarrow> x = (\<not> b) \<and> alternates x xs"

lemma alternates_append: "alternates b (xs @ ys) \<longleftrightarrow> alternates b xs \<and> alternates (last (b # xs)) ys"
  by (induction b xs rule: alternates.induct) auto

text \<open>What one event, and then a sequence of events, publishes.\<close>

definition publishes :: "'a machine_world_scheme \<Rightarrow> 'a machine_world_scheme \<Rightarrow> bool list \<Rightarrow> bool" where
  "publishes w w' ps \<longleftrightarrow>
     publishedIdle w' = publishedIdle w @ ps \<and> alternates (g_isChargeIdle w) ps \<and>
     g_isChargeIdle w' = last (g_isChargeIdle w # ps) \<and> g_idleStateConfig w' = g_idleStateConfig w"

lemma publishes_trans: "publishes w w1 ps \<Longrightarrow> publishes w1 w2 qs \<Longrightarrow> publishes w w2 (ps @ qs)"
  by (auto simp: publishes_def alternates_append)

lemma battery_event_publishes:
  "(\<exists>ps. publishes w (battery_event_step e w) ps) \<and>
   g_isChargeIdle (battery_event_step e w) =
     charge_idle (g_idleStateConfig w) (g_cachedIdleState (battery_event_step e w))"
  by (cases e)
     (auto simp: publishes_def ChargerStateCollection_HandleChangerStatusCompleted_def
       ChargerStateCollection_HandleChangerInnerStatusCompleted_def
       ChargerStateCollection_HandleThermalLevelCompleted_def ChargerStateCollection_PublishIdleEvent_def
       ChargerStateCollection_HandleChargeIdleState_def upd_cached_def upd_charger_def Let_def)

lemma battery_events_publish: "\<exists>ps. publishes w (fold battery_event_step es w) ps"
proof (induction es arbitrary: w)
  case Nil
  show ?case by (rule exI [of _ "[]"]) (simp add: publishes_def)
next
  case (Cons e es)
  then show ?case using battery_event_publishes [of w e] publishes_trans by (metis fold_simps(2))
qed

text \<open>
  The charge idle event is edge triggered: over any sequence of battery and thermal level
  events the published values alternate, starting from the opposite of the previous value,
  and the last value published is whether the idle condition holds now.
\<close>

theorem charge_idle_edge_triggered:
  "\<exists>ps. let w' = fold battery_event_step (es @ [e]) w in
     publishedIdle w' = publishedIdle w @ ps \<and> alternates (g_isChargeIdle w) ps \<and>
     last (g_isChargeIdle w # ps) = charge_idle (g_idleStateConfig w) (g_cachedIdleState w')"
proof -
  obtain ps where ps: "publishes w (fold battery_event_step es w) ps"
    using battery_events_publish by blast
  let ?w1 = "fold battery_event_step es w"
  obtain qs where qs: "publishes ?w1 (battery_event_step e ?w1) qs"
    using battery_event_publishes by blast
  have "publishes w (battery_event_step e ?w1) (ps @ qs)" using ps qs by (rule publishes_trans)
  moreover have "g_isChargeIdle (battery_event_step e ?w1) =
      charge_idle (g_idleStateConfig w) (g_cachedIdleState (battery_event_step e ?w1))"
    using battery_event_publishes [of ?w1 e] ps by (simp add: publishes_def)
  ultimately show ?thesis by (auto simp: publishes_def Let_def intro!: exI [of _ "ps @ qs"])
qed

section \<open>The state machine\<close>

text \<open>The name a collection is created for, and the names the factory has a class for.\<close>

fun coll_name :: "state_collection \<Rightarrow> string" where
  "coll_name ChargerColl = ''charge''"
| "coll_name (ScreenColl s) = ''screen''"
| "coll_name SceneColl = ''scene''"
| "coll_name (ChargeDelayColl s) = ''charge_delay''"
| "coll_name (StartupDelayColl s) = ''startup_delay''"
| "coll_name (CustColl c) = ''cust''"
| "coll_name (ExtendColl n v) = n"

definition builtin_states :: "string set" where
  "builtin_states = {''charge'', ''screen'', ''scene'', ''charge_delay'', ''startup_delay'', ''cust''}"

definition coll_ok :: "string \<Rightarrow> state_collection \<Rightarrow> bool" where
  "coll_ok n c \<longleftrightarrow> coll_name c = n \<and> (case c of ExtendColl _ _ \<Rightarrow> n \<notin> builtin_states | _ \<Rightarrow> True)"

text \<open>The collection whose handler an event handler is.\<close>

fun handler_owner :: "event_handler \<Rightarrow> string" where
  "handler_owner HandleScreenOn = ''screen''"
| "handler_owner HandleScreenOff = ''screen''"
| "handler_owner HandlePowerConnected = ''charge_delay''"
| "handler_owner HandlePowerDisconnected = ''charge_delay''"
| "handler_owner HandleChangerStatus = ''charge''"
| "handler_owner HandleChangerInnerStatus = ''charge''"
| "handler_owner HandleThermalLevel = ''charge''"

definition coll_map_ok :: "(string, state_collection) smap \<Rightarrow> bool" where
  "coll_map_ok m \<longleftrightarrow> sm_ok m \<and> (\<forall>n c. sm_find m n = Some c \<longrightarrow> coll_ok n c)"

text \<open>The handlers in a receiver that are not those of a collection in the given names.\<close>

definition handlers_ok :: "string set \<Rightarrow> Receiver option \<Rightarrow> bool" where
  "handlers_ok names r \<longleftrightarrow>
     (case r of None \<Rightarrow> True
      | Some r \<Rightarrow> sm_ok (eventHandles r) \<and>
          (\<forall>e h. sm_find (eventHandles r) e = Some h \<longrightarrow> handler_owner h \<in> names))"

definition machine_ok :: "'a machine_world_scheme \<Rightarrow> bool" where
  "machine_ok w \<longleftrightarrow> coll_map_ok (stateCollectionMap w) \<and>
     handlers_ok (dom (sm_find (stateCollectionMap w))) (receiver w)"

lemma coll_ok_Create: "coll_ok n (StateCollectionFactory_Create n)"
  by (simp add: coll_ok_def StateCollectionFactory_Create_def builtin_states_def)

lemma coll_ok_InitParam: "coll_ok n (fst (IStateCollection_InitParam p c w)) = coll_ok n c"
  by (cases c) (auto simp: coll_ok_def)

lemma coll_ok_Init: "coll_ok n (fst (IStateCollection_Init P c w)) = coll_ok n c"
  by (cases c) (auto simp: coll_ok_def Let_def split: prod.split)

lemma coll_ok_SetState: "coll_ok n (IStateCollection_SetState v c) = coll_ok n c"
  by (cases c) (auto simp: coll_ok_def)

lemma coll_ok_DecideState:
  "IStateCollection_DecideState P w v c = Inr (b, c') \<Longrightarrow> coll_ok n c' = coll_ok n c"
  by (cases c) (auto simp: coll_ok_def bindr_eq_Inr split: prod.splits)

lemma coll_ok_screen [simp]: "coll_ok ''screen'' c \<longleftrightarrow> (\<exists>s. c = ScreenColl s)"
  by (cases c) (auto simp: coll_ok_def builtin_states_def)

lemma coll_ok_charge_delay [simp]: "coll_ok ''charge_delay'' c \<longleftrightarrow> (\<exists>s. c = ChargeDelayColl s)"
  by (cases c) (auto simp: coll_ok_def builtin_states_def)

lemma coll_ok_startup_delay [simp]: "coll_ok ''startup_delay'' c \<longleftrightarrow> (\<exists>s. c = StartupDelayColl s)"
  by (cases c) (auto simp: coll_ok_def builtin_states_def)

lemma coll_map_ok_insert: "coll_map_ok m \<Longrightarrow> coll_ok n c \<Longrightarrow> coll_map_ok (sm_insert n c m)"
  by (auto simp: coll_map_ok_def)

lemma coll_map_ok_assign: "coll_map_ok m \<Longrightarrow> coll_ok n c \<Longrightarrow> coll_map_ok (sm_assign n c m)"
  by (auto simp: coll_map_ok_def)

lemma dom_sm_insert: "sm_ok m \<Longrightarrow> dom (sm_find (sm_insert k v m)) = insert k (dom (sm_find m))"
  by (auto simp: dom_def)

lemma dom_sm_assign: "sm_ok m \<Longrightarrow> dom (sm_find (sm_assign k v m)) = insert k (dom (sm_find m))"
  by (auto simp: dom_def)

lemma handlers_ok_mono: "handlers_ok A r \<Longrightarrow> A \<subseteq> B \<Longrightarrow> handlers_ok B r"
  by (auto simp: handlers_ok_def split: option.splits)

text \<open>What the operations of the collections leave alone.\<close>

definition same_machine :: "'a machine_world_scheme \<Rightarrow> 'a machine_world_scheme \<Rightarrow> bool" where
  "same_machine w w' \<longleftrightarrow> stateCollectionMap w' = stateCollectionMap w \<and> receiver w' = receiver w \<and>
     vState w' = vState w \<and> initFlag w' = initFlag w"

lemma same_machine_ok: "same_machine w w' \<Longrightarrow> machine_ok w' = machine_ok w"
  by (simp add: same_machine_def machine_ok_def)

lemma same_machine_start [simp]: "same_machine w (snd (start_delay_timer P d w))"
  by (simp add: same_machine_def timer_defs)

lemma same_machine_stop [simp]: "same_machine w (snd (stop_delay_timer P i w))"
  by (simp add: same_machine_def timer_defs)

lemma same_machine_start_stop [simp]: "same_machine w (snd (start_delay_timer P d (snd (stop_delay_timer P i w))))"
  by (simp add: same_machine_def timer_defs)

lemma same_machine_refl [simp]: "same_machine w w"
  by (simp add: same_machine_def)

lemma same_machine_charger [simp]: "same_machine w (upd_charger f w')  = same_machine w w'"
  by (simp add: same_machine_def upd_charger_def)

lemma same_machine_screen:
  "same_machine w (snd (ScreenStateCollection_HandleScreenOnCompleted P (s, w)))"
  "same_machine w (snd (ScreenStateCollection_HandleScreenOffCompleted P (s, w)))"
  "same_machine w (snd (ScreenStateCollection_ResetState P (s, w)))"
  by (simp_all add: screen_defs Let_def split_def)

lemma same_machine_charge_delay:
  "same_machine w (snd (ChargeDelayStateCollection_HandlerPowerConnected P (s, w)))"
  "same_machine w (snd (ChargeDelayStateCollection_HandlerPowerDisconnected P (s, w)))"
  by (simp_all add: charge_delay_defs) (simp_all add: same_machine_def timer_defs)

lemma same_machine_startup_delay:
  "same_machine w (snd (StartupDelayStateCollection_ResetState P (s, w)))"
  "same_machine w (snd (StartupDelayStateCollection_Init P (s, w)))"
  by (simp_all add: StartupDelayStateCollection_ResetState_def StartupDelayStateCollection_Init_def
      StartupDelayStateCollection_StopDelayTimer_def StartupDelayStateCollection_StartDelayTimer_def
      Let_def split_def)

lemma same_machine_battery: "same_machine w (battery_event_step e w)"
  by (cases e)
     (simp_all add: same_machine_def ChargerStateCollection_HandleChangerStatusCompleted_def
       ChargerStateCollection_HandleChangerInnerStatusCompleted_def
       ChargerStateCollection_HandleThermalLevelCompleted_def ChargerStateCollection_PublishIdleEvent_def
       ChargerStateCollection_HandleChargeIdleState_def upd_cached_def upd_charger_def Let_def)

lemmas same_machine_handlers = same_machine_screen same_machine_charge_delay same_machine_startup_delay
  same_machine_battery [of _ "BatteryChanged P data" for P data, simplified]
  same_machine_battery [of _ "BatteryChangedInner data" for data, simplified]
  same_machine_battery [of _ "ThermalLevelChanged data" for data, simplified]

text \<open>A collection replaced by another of its kind keeps the machine well formed.\<close>

lemma machine_ok_replace:
  assumes "machine_ok w" and "sm_find (stateCollectionMap w) n = Some c" and "same_machine w w'"
    and "coll_ok n c'"
  shows "machine_ok (w'\<lparr>stateCollectionMap := sm_assign n c' (stateCollectionMap w')\<rparr>)"
proof -
  have "dom (sm_find (sm_assign n c' (stateCollectionMap w))) = dom (sm_find (stateCollectionMap w))"
    using assms(1,2) by (auto simp: machine_ok_def coll_map_ok_def dom_sm_assign)
  with assms show ?thesis
    by (simp add: machine_ok_def same_machine_def coll_map_ok_assign)
qed

lemma machine_ok_with_screen:
  "machine_ok w \<Longrightarrow> (\<And>s. same_machine w (snd (f (s, w)))) \<Longrightarrow> machine_ok (with_screen f w)"
  by (auto simp: with_screen_def Let_def split_def split: option.splits state_collection.splits
      intro!: machine_ok_replace)

lemma machine_ok_with_charge_delay:
  "machine_ok w \<Longrightarrow> (\<And>s. same_machine w (snd (f (s, w)))) \<Longrightarrow> machine_ok (with_charge_delay f w)"
  by (auto simp: with_charge_delay_def Let_def split_def split: option.splits state_collection.splits
      intro!: machine_ok_replace)

lemma machine_ok_with_startup_delay:
  "machine_ok w \<Longrightarrow> (\<And>s. same_machine w (snd (f (s, w)))) \<Longrightarrow> machine_ok (with_startup_delay f w)"
  by (auto simp: with_startup_delay_def Let_def split_def split: option.splits state_collection.splits
      intro!: machine_ok_replace)

lemma machine_ok_run_handler: "machine_ok w \<Longrightarrow> machine_ok (run_handler P h data w)"
  by (cases h)
     (auto intro!: machine_ok_with_screen machine_ok_with_charge_delay simp: same_machine_handlers
       same_machine_ok [OF same_machine_handlers(8)] same_machine_ok [OF same_machine_handlers(9)]
       same_machine_ok [OF same_machine_handlers(10)])

lemma machine_ok_event: "machine_ok w \<Longrightarrow> machine_ok (EventSubscriber_HandleEvent P data w)"
  by (auto simp: EventSubscriber_HandleEvent_def machine_ok_run_handler split: option.split)

lemma machine_ok_timer: "machine_ok w \<Longrightarrow> machine_ok (ThermalTimerInfo_OnTrigger P owner w)"
  by (auto simp: ThermalTimerInfo_OnTrigger_def same_machine_handlers intro!: machine_ok_with_screen
      machine_ok_with_charge_delay machine_ok_with_startup_delay)

lemma machine_ok_update: "machine_ok w \<Longrightarrow> machine_ok (StateMachine_UpdateState n v w)"
proof (cases "sm_find (stateCollectionMap w) n")
  case None
  assume "machine_ok w"
  then have "coll_map_ok (sm_insert n (IStateCollection_SetState v (StateCollectionFactory_Create n)) (stateCollectionMap w))"
    and "dom (sm_find (stateCollectionMap w)) \<subseteq>
      dom (sm_find (sm_insert n (IStateCollection_SetState v (StateCollectionFactory_Create n)) (stateCollectionMap w)))"
    by (auto simp: machine_ok_def coll_map_ok_insert coll_ok_SetState coll_ok_Create dom_sm_insert coll_map_ok_def)
  with \<open>machine_ok w\<close> None show ?thesis
    by (auto simp: machine_ok_def StateMachine_UpdateState_def intro: handlers_ok_mono)
next
  case (Some c)
  assume "machine_ok w"
  with Some have "coll_ok n c" by (simp add: machine_ok_def coll_map_ok_def)
  with \<open>machine_ok w\<close> Some show ?thesis
    using machine_ok_replace [of w n c w "IStateCollection_SetState v c"]
    by (simp add: StateMachine_UpdateState_def coll_ok_SetState)
qed

text \<open>Registering handlers.\<close>

lemma handlers_ok_add:
  "handlers_ok A (Some r) \<Longrightarrow> handler_owner h \<in> A \<Longrightarrow> handlers_ok A (Some (Receiver_AddEvent e h r))"
  by (auto simp: handlers_ok_def Receiver_AddEvent_def)

lemma handlers_ok_fold:
  "handlers_ok A (Some r) \<Longrightarrow> \<forall>(e, h) \<in> set hs. handler_owner h \<in> A \<Longrightarrow>
     handlers_ok A (Some (fold (\<lambda>(e, h). Receiver_AddEvent e h) hs r))"
  by (induction hs arbitrary: r) (auto intro: handlers_ok_add)

lemma handlers_ok_register:
  "handlers_ok A (receiver w) \<Longrightarrow> \<forall>(e, h) \<in> set hs. handler_owner h \<in> A \<Longrightarrow>
     handlers_ok A (receiver (snd (register_events hs w)))"
  by (auto simp: register_events_def split: option.split intro: handlers_ok_fold)

lemma register_events_map [simp]:
  "stateCollectionMap (snd (register_events hs w)) = stateCollectionMap w"
  "vState (snd (register_events hs w)) = vState w"
  "initFlag (snd (register_events hs w)) = initFlag w"
  by (simp_all add: register_events_def split: option.split)

lemmas register_defs = ScreenStateCollection_Init_def ScreenStateCollection_RegisterEvent_def
  ChargeDelayStateCollection_Init_def ChargeDelayStateCollection_RegisterEvent_def
  ChargerStateCollection_Init_def ChargerStateCollection_RegisterEvent_def
  ChargerStateCollection_InitChargeState_def upd_charger_def Let_def split_def

lemma same_map_Init:
  "stateCollectionMap (snd (IStateCollection_Init P c w)) = stateCollectionMap w \<and>
   vState (snd (IStateCollection_Init P c w)) = vState w \<and>
   initFlag (snd (IStateCollection_Init P c w)) = initFlag w"
  using same_machine_handlers(7)
  by (cases c) (auto simp: register_defs same_machine_def)

lemma startup_receiver [simp]:
  "receiver (snd (StartupDelayStateCollection_Init P (s, w))) = receiver w"
  using same_machine_startup_delay(2) [of w P s] by (simp add: same_machine_def)

lemma handlers_ok_Init:
  "coll_ok n c \<Longrightarrow> n \<in> A \<Longrightarrow> handlers_ok A (receiver w) \<Longrightarrow>
     handlers_ok A (receiver (snd (IStateCollection_Init P c w)))"
  by (cases c) (auto simp: register_defs coll_ok_def intro!: handlers_ok_register)

lemma InitParam_world:
  "same_machine w (snd (IStateCollection_InitParam p c w))"
  by (cases c) (simp_all add: ChargerStateCollection_InitParam_def)

lemma StateMachine_create_eq:
  "\<exists>c w1. StateMachine_create P item w = w1\<lparr>stateCollectionMap := sm_insert (si_name item) c (stateCollectionMap w)\<rparr>
     \<and> coll_ok (si_name item) c \<and> vState w1 = vState w \<and> initFlag w1 = initFlag w
     \<and> (handlers_ok A (receiver w) \<longrightarrow> si_name item \<in> A \<longrightarrow> handlers_ok A (receiver w1))"
proof -
  let ?c0 = "StateCollectionFactory_Create (si_name item)"
  define cw where "cw = (if si_isExistParam item then IStateCollection_InitParam (si_params item) ?c0 w else (?c0, w))"
  have ok: "coll_ok (si_name item) (fst cw)" and same: "same_machine w (snd cw)"
    by (simp_all add: cw_def coll_ok_InitParam coll_ok_Create InitParam_world)
  let ?cw = "IStateCollection_Init P (fst cw) (snd cw)"
  have "StateMachine_create P item w =
      (snd ?cw)\<lparr>stateCollectionMap := sm_insert (si_name item) (fst ?cw) (stateCollectionMap w)\<rparr>"
    using same same_map_Init [of P "fst cw" "snd cw"]
    by (simp add: StateMachine_create_def Let_def split_def cw_def [symmetric] same_machine_def)
  moreover have "coll_ok (si_name item) (fst ?cw)" using ok by (simp add: coll_ok_Init)
  moreover have "handlers_ok A (receiver w) \<longrightarrow> si_name item \<in> A \<longrightarrow> handlers_ok A (receiver (snd ?cw))"
    using handlers_ok_Init [OF ok, of A "snd cw" P] same by (simp add: same_machine_def)
  ultimately show ?thesis
    using same same_map_Init [of P "fst cw" "snd cw"] by (auto simp: same_machine_def)
qed

lemma machine_ok_create: "machine_ok w \<Longrightarrow> machine_ok (StateMachine_create P item w)"
proof -
  assume ok: "machine_ok w"
  let ?A = "insert (si_name item) (dom (sm_find (stateCollectionMap w)))"
  obtain c w1 where eq: "StateMachine_create P item w =
      w1\<lparr>stateCollectionMap := sm_insert (si_name item) c (stateCollectionMap w)\<rparr>"
    and c: "coll_ok (si_name item) c"
    and h: "handlers_ok ?A (receiver w) \<longrightarrow> si_name item \<in> ?A \<longrightarrow> handlers_ok ?A (receiver w1)"
    using StateMachine_create_eq [of P item w ?A] by blast
  have "handlers_ok ?A (receiver w)" using ok by (auto simp: machine_ok_def intro: handlers_ok_mono)
  with h ok c show ?thesis
    by (simp add: eq machine_ok_def coll_map_ok_insert dom_sm_insert coll_map_ok_def)
qed

lemma create_map:
  "sm_ok (stateCollectionMap w) \<Longrightarrow>
     sm_ok (stateCollectionMap (StateMachine_create P item w)) \<and>
     dom (sm_find (stateCollectionMap (StateMachine_create P item w))) =
       insert (si_name item) (dom (sm_find (stateCollectionMap w))) \<and>
     vState (StateMachine_create P item w) = vState w \<and> initFlag (StateMachine_create P item w) = initFlag w"
  using StateMachine_create_eq [of P item w UNIV] by (auto simp: dom_sm_insert)

lemma create_fold_map:
  "sm_ok (stateCollectionMap w) \<Longrightarrow>
     sm_ok (stateCollectionMap (fold (StateMachine_create P) items w)) \<and>
     dom (sm_find (stateCollectionMap (fold (StateMachine_create P) items w))) =
       si_name ` set items \<union> dom (sm_find (stateCollectionMap w)) \<and>
     vState (fold (StateMachine_create P) items w) = vState w \<and>
     initFlag (fold (StateMachine_create P) items w) = initFlag w"
  by (induction items arbitrary: w) (auto simp: create_map)

lemma machine_ok_fold_create: "machine_ok w \<Longrightarrow> machine_ok (fold (StateMachine_create P) items w)"
  by (induction items arbitrary: w) (simp_all add: machine_ok_create)

lemma handlers_ok_Register [simp]:
  "handlers_ok A (map_option (\<lambda>r. snd (Receiver_Register P r)) r) = handlers_ok A r"
  by (cases r) (simp_all add: handlers_ok_def Receiver_Register_def Receiver_RegisterSubscriber_def)

lemma handlers_ok_fresh [simp]: "handlers_ok A (Some \<lparr>eventHandles = [], subscriber = None\<rparr>)"
  by (simp add: handlers_ok_def)

definition prepared :: "'a machine_world_scheme \<Rightarrow> 'a machine_world_scheme" where
  "prepared w = (let w = w\<lparr>initFlag := True\<rparr> in
     case receiver w of None \<Rightarrow> w\<lparr>receiver := Some \<lparr>eventHandles = [], subscriber = None\<rparr>\<rparr> | Some r \<Rightarrow> w)"

lemma StateMachine_Init_eq:
  "\<not> initFlag w \<Longrightarrow> StateMachine_Init P w =
     (let w' = fold (StateMachine_create P) (vState w) (prepared w)
      in (True, w'\<lparr>receiver := map_option (\<lambda>r. snd (Receiver_Register P r)) (receiver w')\<rparr>))"
  by (simp add: StateMachine_Init_def prepared_def Let_def split: option.split)

lemma prepared_simps [simp]:
  "stateCollectionMap (prepared w) = stateCollectionMap w" "vState (prepared w) = vState w"
  "initFlag (prepared w)" "machine_ok (prepared w) = machine_ok w"
  by (simp_all add: prepared_def machine_ok_def Let_def split: option.split)
     (auto simp: handlers_ok_def)

lemma machine_ok_StateMachine_Init: "machine_ok w \<Longrightarrow> machine_ok (snd (StateMachine_Init P w))"
proof (cases "initFlag w")
  case False
  assume "machine_ok w"
  then have "machine_ok (fold (StateMachine_create P) (vState w) (prepared w))"
    by (simp add: machine_ok_fold_create)
  with False show ?thesis
    by (simp add: StateMachine_Init_eq Let_def) (simp add: machine_ok_def)
qed (simp add: StateMachine_Init_def)

section \<open>Reachable states of the state machine\<close>

inductive machine_step :: "machine_world \<Rightarrow> machine_world \<Rightarrow> bool" where
  init: "machine_step w (snd (StateMachine_Init P w))"
| update: "machine_step w (StateMachine_UpdateState n v w)"
| event: "machine_step w (EventSubscriber_HandleEvent P data w)"
| timer: "machine_step w (ThermalTimerInfo_OnTrigger P owner w)"
| decide: "sm_find (stateCollectionMap w) n = Some c \<Longrightarrow>
     IStateCollection_DecideState P w v c = Inr (b, c') \<Longrightarrow>
     machine_step w (w\<lparr>stateCollectionMap := sm_assign n c' (stateCollectionMap w)\<rparr>)"
| config: "machine_step w (w\<lparr>vState := items, idleStateConfig := idle\<rparr>)"
| service: "machine_step w (w\<lparr>scene := sc, isSimulation := sim\<rparr>)"

inductive_cases machine_stepE: "machine_step w w'"

definition machine_start :: "machine_world \<Rightarrow> bool" where
  "machine_start w \<longleftrightarrow> \<not> initFlag w \<and> stateCollectionMap w = [] \<and> receiver w = None"

inductive machine_reach :: "machine_world \<Rightarrow> bool" where
  start: "machine_start w \<Longrightarrow> machine_reach w"
| step: "machine_reach w \<Longrightarrow> machine_step w w' \<Longrightarrow> machine_reach w'"

lemma machine_ok_decide:
  assumes "machine_ok w" and "sm_find (stateCollectionMap w) n = Some c"
    and "IStateCollection_DecideState P w v c = Inr (b, c')"
  shows "machine_ok (w\<lparr>stateCollectionMap := sm_assign n c' (stateCollectionMap w)\<rparr>)"
proof (rule machine_ok_replace [OF assms(1,2) same_machine_refl])
  show "coll_ok n c'" using assms coll_ok_DecideState [OF assms(3)] by (simp add: machine_ok_def coll_map_ok_def)
qed

lemma machine_ok_step: "machine_step w w' \<Longrightarrow> machine_ok w \<Longrightarrow> machine_ok w'"
  by (induction rule: machine_step.induct)
     (simp_all add: machine_ok_StateMachine_Init machine_ok_update machine_ok_event machine_ok_timer
       machine_ok_decide, simp_all add: machine_ok_def)

lemma machine_ok_start: "machine_start w \<Longrightarrow> machine_ok w"
  by (simp add: machine_start_def machine_ok_def coll_map_ok_def handlers_ok_def)

lemma machine_ok_reach: "machine_reach w \<Longrightarrow> machine_ok w"
  by (induction rule: machine_reach.induct) (auto intro: machine_ok_step machine_ok_start)


definition sample_machine :: machine_world where
  "sample_machine = \<lparr>timerCalls = [], createCount = 0, initFlag = False, stateCollectionMap = [],
     vState = [\<lparr>si_name = ''screen'', si_params = [], si_isExistParam = False\<rparr>,
               \<lparr>si_name = ''charge'', si_params = [], si_isExistParam = False\<rparr>],
     receiver = None, idleStateConfig = \<lparr>idle_level = 1, idle_soc = 90, idle_charging = 1, idle_current = 100\<rparr>,
     charger_instance = \<lparr>chg_state = [], chg_params = [], chg_mockState = [], chg_isCharge = False\<rparr>,
     g_idleStateConfig = \<lparr>idle_level = 0, idle_soc = 0, idle_charging = 0, idle_current = 0\<rparr>,
     g_cachedIdleState = \<lparr>idle_level = 0, idle_soc = 0, idle_charging = 0, idle_current = 0\<rparr>,
     g_isChargeIdle = True, publishedIdle = [], scene = [], isSimulation = False\<rparr>"

lemma machine_start_sample [simp]: "machine_start sample_machine"
  by (simp add: machine_start_def sample_machine_def)


text \<open>
  Initialising the state machine creates a collection for every configured state, keeps
  those it already had, and a second call changes nothing.
\<close>

theorem StateMachine_Init_complete:
  "machine_reach w \<Longrightarrow> \<not> initFlag w \<Longrightarrow>
     dom (sm_find (stateCollectionMap (snd (StateMachine_Init P w)))) =
       si_name ` set (vState w) \<union> dom (sm_find (stateCollectionMap w)) \<and>
     StateMachine_Init P' (snd (StateMachine_Init P w)) = (True, snd (StateMachine_Init P w))"
proof -
  assume "machine_reach w" and new: "\<not> initFlag w"
  then have "sm_ok (stateCollectionMap (prepared w))"
    using machine_ok_reach by (simp add: machine_ok_def coll_map_ok_def)
  from create_fold_map [OF this, of P "vState w"] new show ?thesis
    by (simp add: StateMachine_Init_eq Let_def) (simp add: StateMachine_Init_def)
qed

theorem StateMachine_Init_complete_witness:
  "dom (sm_find (stateCollectionMap (snd (StateMachine_Init sample_platform sample_machine)))) =
     {''screen'', ''charge''}"
proof -
  have "\<not> initFlag sample_machine" by (simp add: sample_machine_def)
  with StateMachine_Init_complete [OF machine_reach.start [OF machine_start_sample], of sample_platform sample_platform]
  show ?thesis by (simp add: sample_machine_def)
qed

section \<open>States the clients set\<close>

lemma UpdateState_find:
  "sm_ok (stateCollectionMap w) \<Longrightarrow>
     sm_find (stateCollectionMap (StateMachine_UpdateState n v w)) n =
       Some (IStateCollection_SetState v
         (case sm_find (stateCollectionMap w) n of Some c \<Rightarrow> c | None \<Rightarrow> StateCollectionFactory_Create n))"
  by (simp add: StateMachine_UpdateState_def split: option.split)

lemma coll_ok_extend: "coll_ok n c \<Longrightarrow> n \<notin> builtin_states \<Longrightarrow> \<exists>v. c = ExtendColl n v"
  by (cases c) (auto simp: coll_ok_def builtin_states_def)

lemma coll_ok_cust: "coll_ok ''cust'' c \<Longrightarrow> \<exists>b. c = CustColl b"
  by (cases c) (auto simp: coll_ok_def builtin_states_def)

text \<open>
  After \<open>UpdateState\<close> on a name that is not built in, in any reachable state, a policy
  condition on that name holds exactly if the new value is among its non-empty fields
  between commas; a condition that holds a space never comes to a decision.
\<close>

theorem UpdateState_then_decide:
  "machine_reach w \<Longrightarrow> n \<notin> builtin_states \<Longrightarrow>
     \<exists>c. sm_find (stateCollectionMap (StateMachine_UpdateState n v w)) n = Some c \<and>
       IStateCollection_DecideState P w' value c =
         (if CHR '' '' \<in> set value then Inl NoReturn else Inr (v \<in> set (nonempty_fields CHR '','' value), c))"
proof -
  assume r: "machine_reach w" and n: "n \<notin> builtin_states"
  let ?c = "case sm_find (stateCollectionMap w) n of Some c \<Rightarrow> c | None \<Rightarrow> StateCollectionFactory_Create n"
  have "coll_ok n ?c"
    using machine_ok_reach [OF r] by (auto simp: machine_ok_def coll_map_ok_def coll_ok_Create split: option.split)
  with n obtain old where "?c = ExtendColl n old" using coll_ok_extend by blast
  then show ?thesis
    using UpdateState_find [of w n v] machine_ok_reach [OF r]
    by (auto simp: machine_ok_def coll_map_ok_def ExtendStateCollection_DecideState_def SplitString_eq list_ex_iff)
qed

theorem UpdateState_then_decide_witness:
  "\<exists>c. sm_find (stateCollectionMap (StateMachine_UpdateState ''cam'' ''1'' sample_machine)) ''cam'' = Some c \<and>
     IStateCollection_DecideState sample_platform sample_machine ''0,1'' c = Inr (True, c)"
  using UpdateState_then_decide [OF machine_reach.start [OF machine_start_sample], of "''cam''" "''1''"
      sample_platform sample_machine "''0,1''"]
  by (simp add: builtin_states_def nonempty_fields_def)

lemma ParseStrtoulResult_to_dec:
  "n \<le> ULONG_MAX \<Longrightarrow> ParseStrtoulResult (to_dec n) = Some (of_nat n)"
  by (simp add: ParseStrtoulResult_def c_str_digits [OF to_dec_digits] strtoul_to_dec)

text \<open>
  The customer state is a bit set: once it has been set to a number, a condition holds
  exactly if the two numbers have a bit in common.
\<close>

theorem cust_state_bits:
  "machine_reach w \<Longrightarrow> a \<le> ULONG_MAX \<Longrightarrow> b \<le> ULONG_MAX \<Longrightarrow>
     \<exists>c. sm_find (stateCollectionMap (StateMachine_UpdateState ''cust'' (to_dec a) w)) ''cust'' = Some c \<and>
       IStateCollection_DecideState P w' (to_dec b) c = Inr (and a b \<noteq> 0, c)"
proof -
  assume r: "machine_reach w" and a: "a \<le> ULONG_MAX" and b: "b \<le> ULONG_MAX"
  let ?c = "case sm_find (stateCollectionMap w) ''cust'' of Some c \<Rightarrow> c
    | None \<Rightarrow> StateCollectionFactory_Create ''cust''"
  have "coll_ok ''cust'' ?c"
    using machine_ok_reach [OF r] by (auto simp: machine_ok_def coll_map_ok_def coll_ok_Create split: option.split)
  then obtain old where old: "?c = CustColl old" using coll_ok_cust by blast
  have "and (of_nat a) (of_nat b) = (of_nat (and a b) :: u64)" by (simp add: of_nat_and_eq)
  moreover have "of_nat (and a b) = (0 :: u64) \<longleftrightarrow> and a b = 0"
  proof -
    have "take_bit 64 a = a" and "take_bit 64 b = b" using a b by (auto intro: take_bit_nat_eq_self)
    then have "take_bit 64 (and a b) = and a b" by (simp only: take_bit_and)
    moreover have "of_nat (and a b) = (0 :: u64) \<longleftrightarrow> take_bit 64 (and a b) = 0"
      by (simp add: word_of_nat_eq_0_iff take_bit_eq_0_iff del: take_bit_and)
    ultimately show ?thesis by simp
  qed
  ultimately show ?thesis
    using UpdateState_find [of w "''cust''" "to_dec a"] machine_ok_reach [OF r] a b old
    by (simp add: machine_ok_def coll_map_ok_def CustStateCollection_DecideState_def
        CustStateCollection_SetState_def ParseStrtoulResult_to_dec)
qed

theorem cust_state_bits_witness:
  "\<exists>c. sm_find (stateCollectionMap (StateMachine_UpdateState ''cust'' (to_dec 6) sample_machine)) ''cust'' = Some c \<and>
     IStateCollection_DecideState sample_platform sample_machine (to_dec 2) c = Inr (True, c)"
  using cust_state_bits [OF machine_reach.start [OF machine_start_sample], of 6 2 sample_platform sample_machine]
  by simp

end
