(* ===== verification/Hysteresis.thy ===== *)
theory Hysteresis
  imports Prelude
begin

text \<open>
  The abstract specification of the level searches of the service
  (\<open>ThermalConfigSensorCluster\<close>) and of the protector (\<open>ThermalZoneInfo\<close>): a level moves up
  while the next level may be entered, or down to the highest level that may be held.

  The locale \<open>hysteresis\<close> is the interface the searches rely on: \<open>rise\<close>, \<open>enter\<close> and \<open>hold\<close>
  are what a configuration and a reading say of a level, and a level that may be entered
  may be held. It gives that the settled level does not move again, which is what keeps the
  policy from flapping. \<open>sorted_hysteresis\<close> adds that levels are entered in order and that a
  hotter reading enters, holds and rises at least as much; it gives monotonicity and the
  stability of a maximum over several sensors. The clusters of \<open>Sensor_Cluster_Proofs\<close> and
  the zones of \<open>Protector_Zone\<close> are its interpretations.
\<close>

text \<open>A reading reaches a threshold; in descending order, colder is worse.\<close>

definition reaches :: "bool \<Rightarrow> int \<Rightarrow> int \<Rightarrow> bool" where
  "reaches desc cur t \<longleftrightarrow> (if desc then cur \<le> t else t \<le> cur)"

lemma reaches_trans: "reaches d x y \<Longrightarrow> reaches d y z \<Longrightarrow> reaches d x z"
  by (auto simp: reaches_def split: if_splits)

text \<open>\<open>climb enter d l\<close>: at most \<open>d\<close> steps up from \<open>l\<close>; \<open>sink hold l\<close>: down to a held level.\<close>

fun climb :: "(nat \<Rightarrow> bool) \<Rightarrow> nat \<Rightarrow> nat \<Rightarrow> nat" where
  "climb enter 0 l = l"
| "climb enter (Suc d) l = (if enter (Suc l) then climb enter d (Suc l) else l)"

fun sink :: "(nat \<Rightarrow> bool) \<Rightarrow> nat \<Rightarrow> nat" where
  "sink hold 0 = 0"
| "sink hold (Suc l) = (if hold (Suc l) then Suc l else sink hold l)"

definition settle :: "nat \<Rightarrow> (nat \<Rightarrow> bool) \<Rightarrow> (nat \<Rightarrow> bool) \<Rightarrow> (nat \<Rightarrow> bool) \<Rightarrow> nat \<Rightarrow> nat" where
  "settle n rise enter hold l =
     (if l < n \<and> rise (Suc l) then climb enter (n - l) l else sink hold l)"

section \<open>Climbing and sinking\<close>

lemma climb_ge: "l \<le> climb enter d l"
  by (induction enter d l rule: climb.induct) auto

lemma climb_le: "climb enter d l \<le> l + d"
  by (induction enter d l rule: climb.induct) auto

lemma climb_entered: "l < k \<Longrightarrow> k \<le> climb enter d l \<Longrightarrow> enter k"
proof (induction enter d l rule: climb.induct)
  case (2 enter d l)
  then show ?case by (cases "k = Suc l") (auto split: if_splits)
qed simp

lemma climb_stops: "climb enter d l < l + d \<Longrightarrow> \<not> enter (Suc (climb enter d l))"
  by (induction enter d l rule: climb.induct) auto

lemma climb_reaches: "(\<And>k. l < k \<Longrightarrow> k \<le> m \<Longrightarrow> enter k) \<Longrightarrow> l \<le> m \<Longrightarrow> m \<le> l + d \<Longrightarrow> m \<le> climb enter d l"
proof (induction enter d l rule: climb.induct)
  case (2 enter d l)
  show ?case
  proof (cases "m = l")
    case False
    with 2 show ?thesis by auto
  next
    case True
    then show ?thesis using climb_ge [of l enter "Suc d"] by simp
  qed
qed simp

lemma sink_le: "sink hold l \<le> l"
  by (induction hold l rule: sink.induct) auto

lemma sink_held: "sink hold l = 0 \<or> hold (sink hold l)"
  by (induction hold l rule: sink.induct) auto

lemma sink_not_held: "sink hold l < k \<Longrightarrow> k \<le> l \<Longrightarrow> \<not> hold k"
proof (induction hold l rule: sink.induct)
  case (2 hold l)
  then show ?case by (cases "k = Suc l") (auto split: if_splits)
qed simp

lemma sink_fix: "hold l \<Longrightarrow> sink hold l = l"
  by (cases l) auto

lemma sink_ge: "m \<le> l \<Longrightarrow> m = 0 \<or> hold m \<Longrightarrow> m \<le> sink hold l"
  using sink_not_held [of hold l m] by force

lemma settle_le: "l \<le> n \<Longrightarrow> settle n rise enter hold l \<le> n"
  using climb_le [of enter "n - l" l] sink_le [of hold l] by (auto simp: settle_def)

section \<open>The interface\<close>

locale hysteresis =
  fixes ok :: "'c \<Rightarrow> bool"
    and size_of :: "'c \<Rightarrow> nat"
    and rise enter hold :: "'c \<Rightarrow> nat \<Rightarrow> bool"
  assumes enter_rise: "ok c \<Longrightarrow> 0 < k \<Longrightarrow> k \<le> size_of c \<Longrightarrow> enter c k \<Longrightarrow> rise c k"
    and enter_hold: "ok c \<Longrightarrow> 0 < k \<Longrightarrow> k \<le> size_of c \<Longrightarrow> enter c k \<Longrightarrow> hold c k"
begin

abbreviation settled_level :: "'c \<Rightarrow> nat \<Rightarrow> nat" where
  "settled_level c \<equiv> settle (size_of c) (rise c) (enter c) (hold c)"

text \<open>Above a settled level nothing may be entered, unless it was reached by the blocked climb.\<close>

lemma settled_blocked:
  assumes "ok c" and "l \<le> size_of c" and "settled_level c l < size_of c"
  shows "\<not> enter c (Suc (settled_level c l))"
proof (cases "l < size_of c \<and> rise c (Suc l)")
  case True
  with assms(3) show ?thesis using climb_stops [of "enter c" "size_of c - l" l] by (simp add: settle_def)
next
  case False
  then have eq: "settled_level c l = sink (hold c) l" unfolding settle_def by (rule if_not_P)
  show ?thesis
  proof (cases "sink (hold c) l < l")
    case True
    then have "\<not> hold c (Suc (sink (hold c) l))" by (intro sink_not_held [of _ l]) auto
    with True eq assms show ?thesis using enter_hold [of c "Suc (sink (hold c) l)"] by auto
  next
    case same: False
    then have "sink (hold c) l = l" using sink_le [of "hold c" l] by simp
    with False eq assms show ?thesis using enter_rise [of c "Suc l"] by auto
  qed
qed

theorem settled_stable:
  assumes "ok c" and "l \<le> size_of c"
  shows "settled_level c (settled_level c l) = settled_level c l"
proof -
  let ?m = "settled_level c l"
  have blocked: "\<not> enter c (Suc ?m)" if "?m < size_of c" using settled_blocked [OF assms that] .
  show ?thesis
  proof (cases "?m < size_of c \<and> rise c (Suc ?m)")
    case True
    then obtain d where "size_of c - ?m = Suc d" by (metis Suc_diff_Suc)
    with True blocked show ?thesis by (simp add: settle_def [of _ _ _ _ ?m])
  next
    case False
    have "?m = 0 \<or> hold c ?m"
    proof (cases "l < size_of c \<and> rise c (Suc l)")
      case True
      then have eq: "?m = climb (enter c) (size_of c - l) l" by (simp add: settle_def)
      show ?thesis
      proof (cases "?m = l")
        case True
        with \<open>l < size_of c \<and> rise c (Suc l)\<close> False show ?thesis by simp
      next
        case neq: False
        with eq climb_ge [of l "enter c"] have "l < ?m" by (metis le_neq_implies_less)
        moreover have "enter c ?m" using climb_entered [of l ?m "enter c" "size_of c - l"] eq \<open>l < ?m\<close> by simp
        ultimately show ?thesis using enter_hold [of c ?m] settle_le [OF assms(2)] assms(1) by auto
      qed
    next
      case False
      then have "?m = sink (hold c) l" unfolding settle_def by (rule if_not_P)
      then show ?thesis using sink_held [of "hold c" l] by simp
    qed
    then have "sink (hold c) ?m = ?m" using sink_fix by (metis sink.simps(1))
    with False show ?thesis by (subst (1) settle_def) auto
  qed
qed

end

locale sorted_hysteresis = hysteresis +
  fixes plain :: "'a \<Rightarrow> bool" and hotter :: "'a \<Rightarrow> 'a \<Rightarrow> bool"
  assumes enter_below: "ok c \<Longrightarrow> plain c \<Longrightarrow> 0 < k \<Longrightarrow> Suc k \<le> size_of c \<Longrightarrow> enter c (Suc k) \<Longrightarrow> enter c k"
    and hotter_size: "hotter c c' \<Longrightarrow> size_of c' = size_of c"
    and hotter_rise: "hotter c c' \<Longrightarrow> 0 < k \<Longrightarrow> k \<le> size_of c \<Longrightarrow> rise c k \<Longrightarrow> rise c' k"
    and hotter_enter: "hotter c c' \<Longrightarrow> 0 < k \<Longrightarrow> k \<le> size_of c \<Longrightarrow> enter c k \<Longrightarrow> enter c' k"
    and hotter_hold: "hotter c c' \<Longrightarrow> 0 < k \<Longrightarrow> k \<le> size_of c \<Longrightarrow> hold c k \<Longrightarrow> hold c' k"
begin

theorem settled_mono:
  assumes "hotter c c'" and "l \<le> size_of c"
  shows "settled_level c l \<le> settled_level c' l"
proof (cases "l < size_of c \<and> rise c (Suc l)")
  case True
  let ?m = "climb (enter c) (size_of c - l) l"
  have "?m \<le> climb (enter c') (size_of c - l) l"
  proof (rule climb_reaches)
    show "enter c' k" if "l < k" "k \<le> ?m" for k
      using hotter_enter [OF assms(1), of k] climb_entered [OF that] that climb_le [of "enter c" "size_of c - l" l]
        assms(2) by simp
  qed (use climb_ge [of l "enter c"] climb_le [of "enter c" "size_of c - l" l] in auto)
  with True assms hotter_rise [OF assms(1), of "Suc l"] show ?thesis
    by (simp add: settle_def hotter_size [OF assms(1)])
next
  case False
  then have eq: "settled_level c l = sink (hold c) l" unfolding settle_def by (rule if_not_P)
  show ?thesis
  proof (cases "l < size_of c' \<and> rise c' (Suc l)")
    case True
    then have "settled_level c' l \<ge> l" by (simp add: settle_def climb_ge)
    with eq sink_le [of "hold c" l] show ?thesis by simp
  next
    case False
    then have eq': "settled_level c' l = sink (hold c') l" unfolding settle_def by (rule if_not_P)
    have "sink (hold c) l = 0 \<or> hold c' (sink (hold c) l)"
      using sink_held [of "hold c" l] hotter_hold [OF assms(1), of "sink (hold c) l"] sink_le [of "hold c" l]
        assms(2) by (cases "sink (hold c) l = 0") auto
    then show ?thesis using eq eq' sink_ge [OF sink_le] by metis
  qed
qed

text \<open>Seen from a higher level, a sensor does not climb past what the others reached.\<close>

lemma enter_down: "ok c \<Longrightarrow> plain c \<Longrightarrow> enter c k \<Longrightarrow> 0 < j \<Longrightarrow> j \<le> k \<Longrightarrow> k \<le> size_of c \<Longrightarrow> enter c j"
proof (induction "k - j" arbitrary: j)
  case (Suc d)
  from Suc.hyps(2) have d: "d = k - Suc j" and less: "j < k" by simp_all
  have "enter c (Suc j)" using Suc.hyps(1) [OF d Suc.prems(1-3)] Suc.prems(6) less by simp
  then show ?case using enter_below [of c j] Suc.prems less by simp
qed simp

lemma settled_above:
  assumes "ok c" and "plain c" and "l \<le> size_of c" and "settled_level c l \<le> m" and "m \<le> size_of c"
  shows "settled_level c m \<le> m"
proof (cases "m < size_of c \<and> enter c (Suc m)")
  case True
  show ?thesis
  proof (cases "m < l")
    case True
    have "\<not> hold c (Suc m)"
    proof -
      have "\<not> (l < size_of c \<and> rise c (Suc l))"
      proof
        assume "l < size_of c \<and> rise c (Suc l)"
        then have "l \<le> settled_level c l" by (simp add: settle_def climb_ge)
        with assms(4) True show False by simp
      qed
      then have "settled_level c l = sink (hold c) l" unfolding settle_def by (rule if_not_P)
      with assms(4) True show ?thesis by (intro sink_not_held [of _ l]) auto
    qed
    with \<open>m < size_of c \<and> enter c (Suc m)\<close> assms show ?thesis using enter_hold [of c "Suc m"] by simp
  next
    case False
    with \<open>m < size_of c \<and> enter c (Suc m)\<close> have "l \<le> m" "l < size_of c" by auto
    have all: "enter c k" if "l < k" "k \<le> Suc m" for k
      using enter_down [OF assms(1,2), of "Suc m" k] True that by auto
    then have "rise c (Suc l)" using enter_rise [of c "Suc l"] assms(1) \<open>l \<le> m\<close> \<open>l < size_of c\<close> by auto
    moreover have "Suc m \<le> climb (enter c) (size_of c - l) l"
      by (rule climb_reaches) (use all True \<open>l \<le> m\<close> in auto)
    ultimately show ?thesis using \<open>l < size_of c\<close> assms(4) by (simp add: settle_def)
  qed
next
  case False
  show ?thesis
  proof (cases "m < size_of c \<and> rise c (Suc m)")
    case True
    then obtain d where "size_of c - m = Suc d" by (metis Suc_diff_Suc)
    with True False show ?thesis by (simp add: settle_def)
  next
    case False
    then have "settled_level c m = sink (hold c) m" unfolding settle_def by (rule if_not_P)
    then show ?thesis using sink_le by simp
  qed
qed

end

end
