(* ===== verification/Sensor_Cluster_Proofs.thy ===== *)
theory Sensor_Cluster_Proofs
  imports Sensor_Cluster State_Machine_Proofs Hysteresis
begin

text \<open>
  The searches of a sensor cluster refine the abstract hysteresis of theory \<open>Hysteresis\<close>:
  under a standard configuration no \<open>at\<close> fails, each sensor settles, and the cluster takes
  the maximum. The interpretation \<open>cluster\<close> discharges the laws of the interface for both
  directions, and the stability and monotonicity of the level follow from it.
\<close>

section \<open>The extra conditions as predicates\<close>

text \<open>Clusters that differ at most in the order of the temperature differences.\<close>

definition sorted_diffs :: "SensorCluster \<Rightarrow> SensorCluster" where
  "sorted_diffs c = c\<lparr>tempDiffInfoList := sort_key diff_level (tempDiffInfoList c)\<rparr>"

definition similar :: "SensorCluster \<Rightarrow> SensorCluster \<Rightarrow> bool" where
  "similar c c' \<longleftrightarrow> sorted_diffs c' = sorted_diffs c"

lemma similar_refl [simp]: "similar c c"
  by (simp add: similar_def)

lemma similar_trans: "similar a b \<Longrightarrow> similar b c \<Longrightarrow> similar a c"
  by (simp add: similar_def)

lemma sort_key_idem [simp]: "sort_key f (sort_key f xs) = sort_key f xs"
  by (rule sort_key_id_if_sorted) simp

lemma similar_sorted: "similar c (sorted_diffs c)"
  by (simp add: similar_def sorted_diffs_def)

lemma similar_fields:
  assumes "similar c c'"
  shows "descFlag c' = descFlag c" "auxFlag c' = auxFlag c" "rateFlag c' = rateFlag c"
    "tempDiffFlag c' = tempDiffFlag c" "latestLevel c' = latestLevel c"
    "sensorInfolist c' = sensorInfolist c" "auxSensorInfolist c' = auxSensorInfolist c" "stateMap c' = stateMap c"
    "sort_key diff_level (tempDiffInfoList c') = sort_key diff_level (tempDiffInfoList c)"
    "length (tempDiffInfoList c') = length (tempDiffInfoList c)"
proof -
  note eq = assms [unfolded similar_def]
  show "descFlag c' = descFlag c" "auxFlag c' = auxFlag c" "rateFlag c' = rateFlag c"
    "tempDiffFlag c' = tempDiffFlag c" "latestLevel c' = latestLevel c"
    "sensorInfolist c' = sensorInfolist c" "auxSensorInfolist c' = auxSensorInfolist c" "stateMap c' = stateMap c"
    "sort_key diff_level (tempDiffInfoList c') = sort_key diff_level (tempDiffInfoList c)"
    using arg_cong [OF eq, of descFlag] arg_cong [OF eq, of auxFlag] arg_cong [OF eq, of rateFlag]
      arg_cong [OF eq, of tempDiffFlag] arg_cong [OF eq, of latestLevel] arg_cong [OF eq, of sensorInfolist]
      arg_cong [OF eq, of auxSensorInfolist] arg_cong [OF eq, of stateMap] arg_cong [OF eq, of tempDiffInfoList]
    by (simp_all add: sorted_diffs_def)
  then show "length (tempDiffInfoList c') = length (tempDiffInfoList c)" by (metis length_sort)
qed

definition aux_holds :: "TypeTempMap \<Rightarrow> nat \<Rightarrow> SensorCluster \<Rightarrow> bool" where
  "aux_holds m lev c \<longleftrightarrow> list_all (\<lambda>(sensor, items).
     case sm_find m sensor of None \<Rightarrow> False
     | Some t \<Rightarrow> lowerTemp (items ! (lev - 1)) \<le> t \<and> t \<le> upperTemp (items ! (lev - 1))) (auxSensorInfolist c)"

definition rate_holds :: "sensor_rates \<Rightarrow> nat \<Rightarrow> string \<Rightarrow> LevelItem list \<Rightarrow> bool \<Rightarrow> bool" where
  "rate_holds rates lev type items isCritical \<longleftrightarrow>
     (case sm_find (sensorsRateMap rates) type of None \<Rightarrow> False
      | Some rateList \<Rightarrow>
          (let trend = GetRateTrend (tempRiseRate (items ! (lev - 1))) rateList (rateCount rates)
           in if isCritical then trend = STATUS_CRITICAL else trend \<noteq> STATUS_IDEAL))"

definition diff_holds :: "TypeTempMap \<Rightarrow> nat \<Rightarrow> SensorCluster \<Rightarrow> bool" where
  "diff_holds m lev c \<longleftrightarrow>
     (let info = sort_key diff_level (tempDiffInfoList c) ! (lev - 1)
      in case (sm_find m (sensor1 info), sm_find m (sensor2 info)) of
           (Some t1, Some t2) \<Rightarrow> t1 - t2 \<le> tempDiff info
         | _ \<Rightarrow> False)"

definition extra_holds :: "search_args \<Rightarrow> SensorCluster \<Rightarrow> nat \<Rightarrow> bool \<Rightarrow> bool" where
  "extra_holds a c lev isCritical \<longleftrightarrow>
     (auxFlag c \<longrightarrow> aux_holds (sa_typeTempInfo a) lev c) \<and>
     (rateFlag c \<longrightarrow> rate_holds (sa_rates a) lev (sa_type a) (sa_levItems a) isCritical) \<and>
     (tempDiffFlag c \<longrightarrow> diff_holds (sa_typeTempInfo a) lev c)"

lemma extra_holds_similar: "similar c c' \<Longrightarrow> extra_holds a c' = extra_holds a c"
  by (intro ext) (simp add: extra_holds_def aux_holds_def diff_holds_def similar_fields)

lemma critical_not_ideal: "rate_holds rates lev type items True \<Longrightarrow> rate_holds rates lev type items False"
  by (auto simp: rate_holds_def Let_def split: option.splits)

lemma extra_critical: "extra_holds a c lev True \<Longrightarrow> extra_holds a c lev False"
  by (auto simp: extra_holds_def critical_not_ideal)

section \<open>Standard configurations\<close>

definition cluster_size :: "SensorCluster \<Rightarrow> nat" where
  "cluster_size c = (case sensorInfolist c of [] \<Rightarrow> 0 | (_, first) # _ \<Rightarrow> length first)"

text \<open>
  What the parser provides beyond \<open>CheckStandard\<close>: there is a level, and an auxiliary
  sensor that is listed has its ranges.
\<close>

definition config_ok :: "SensorCluster \<Rightarrow> bool" where
  "config_ok c \<longleftrightarrow> CheckStandard c \<and> 0 < cluster_size c \<and>
     list_all (\<lambda>(_, items). items \<noteq> []) (auxSensorInfolist c)"

text \<open>Temperatures whose differences are 32-bit integers.\<close>

definition temps_ok :: "TypeTempMap \<Rightarrow> bool" where
  "temps_ok m \<longleftrightarrow> list_all (\<lambda>(_, t). - 1073741824 \<le> t \<and> t \<le> 1073741823) m"

lemma config_ok_sensor:
  assumes "config_ok c" and "(s, items) \<in> set (sensorInfolist c)"
  shows "length items = cluster_size c" and "levels_in_order items"
  using assms by (auto simp: config_ok_def CheckStandard_def cluster_size_def list_all_iff Let_def
      split: list.splits)

lemma config_ok_aux:
  assumes "config_ok c" and "(s, items) \<in> set (auxSensorInfolist c)"
  shows "length items = cluster_size c"
  using assms by (auto simp: config_ok_def CheckStandard_def cluster_size_def list_all_iff Let_def
      split: list.splits)

lemma config_ok_diff: "config_ok c \<Longrightarrow> tempDiffFlag c \<Longrightarrow> length (tempDiffInfoList c) = cluster_size c"
  by (auto simp: config_ok_def CheckStandard_def cluster_size_def Let_def split: list.splits)

lemma config_ok_similar:
  assumes "similar c c'"
  shows "config_ok c' = config_ok c" and "cluster_size c' = cluster_size c"
  using similar_fields [OF assms] by (simp_all add: config_ok_def CheckStandard_def cluster_size_def split: list.split)

lemma levels_in_order_nth: "levels_in_order items \<Longrightarrow> i < length items \<Longrightarrow> level (items ! i) = Suc i"
proof -
  assume *: "levels_in_order items" and i: "i < length items"
  then have "map level items ! i = [1 ..< Suc (length items)] ! i" by (simp add: levels_in_order_def)
  with i show ?thesis by (simp del: upt_Suc)
qed

text \<open>No extra condition fails with an error.\<close>

lemma aux_loop_eq:
  "0 < lev \<Longrightarrow> (\<And>s items. (s, items) \<in> set l \<Longrightarrow> lev \<le> length items) \<Longrightarrow>
     aux_loop m lev l = Inr (list_all (\<lambda>(sensor, items).
       case sm_find m sensor of None \<Rightarrow> False
       | Some t \<Rightarrow> lowerTemp (items ! (lev - 1)) \<le> t \<and> t \<le> upperTemp (items ! (lev - 1))) l)"
proof (induction m lev l rule: aux_loop.induct)
  case (2 m lev s items rest)
  have "lev - 1 < length items" using 2(2) 2(3) [of s items] by (cases lev) auto
  moreover have "(s', items') \<in> set rest \<Longrightarrow> lev \<le> length items'" for s' items'
    using 2(3) [of s' items'] by simp
  ultimately show ?case using 2(1,2) by (auto split: option.split)
qed simp

lemma temps_ok_find: "temps_ok m \<Longrightarrow> sm_find m s = Some t \<Longrightarrow> - 1073741824 \<le> t \<and> t \<le> 1073741823"
  by (auto simp: temps_ok_def list_all_iff dest!: map_of_SomeD)

lemma temps_ok_diff: "temps_ok m \<Longrightarrow> sm_find m s = Some t \<Longrightarrow> sm_find m s' = Some t' \<Longrightarrow> int32_range (t - t')"
  using temps_ok_find [of m s t] temps_ok_find [of m s' t'] by (simp add: int32_range_def)

lemma IsTempDiffTrigger_eq:
  assumes "0 < lev" and "lev \<le> length (tempDiffInfoList c)" and "temps_ok m"
  shows "IsTempDiffTrigger m lev c = Inr (diff_holds m lev c, sorted_diffs c)"
  using assms temps_ok_diff [OF assms(3)]
  by (auto simp: IsTempDiffTrigger_def diff_holds_def sorted_diffs_def Let_def not_less split: option.split)

lemma extra_eq:
  assumes "config_ok c" and "temps_ok (sa_typeTempInfo a)" and "0 < lev" and "lev \<le> cluster_size c"
    and "length (sa_levItems a) = cluster_size c"
  shows "\<exists>c'. extra a lev b c = Inr (extra_holds a c lev b, c') \<and> similar c c'"
proof -
  have aux: "IsAuxSensorTrigger (sa_typeTempInfo a) lev c = Inr (aux_holds (sa_typeTempInfo a) lev c)"
    using assms(3,4) config_ok_aux [OF assms(1)]
    by (simp add: IsAuxSensorTrigger_def aux_holds_def aux_loop_eq)
  have "lev - 1 < length (sa_levItems a)" using assms(3-5) by simp
  then have rate: "IsTempRateTrigger (sa_rates a) lev (sa_type a) (sa_levItems a) b =
      Inr (rate_holds (sa_rates a) lev (sa_type a) (sa_levItems a) b)"
    using assms(3) by (simp add: IsTempRateTrigger_def rate_holds_def Let_def split: option.split)
  have diff: "tempDiffFlag c \<Longrightarrow> IsTempDiffTrigger (sa_typeTempInfo a) lev c =
      Inr (diff_holds (sa_typeTempInfo a) lev c, sorted_diffs c)"
    using assms config_ok_diff by (simp add: IsTempDiffTrigger_eq)
  show ?thesis
    by (auto simp: extra_def CheckExtraCondition_def extra_holds_def aux rate diff similar_sorted)
qed

section \<open>The loops\<close>

lemma up_loop_climb:
  assumes "\<And>i c. i < length items \<Longrightarrow> S c \<Longrightarrow> \<exists>c'. pass (items ! i) c = Inr (enter (Suc i), c') \<and> S c'"
    and "levels_in_order items" and "S c" and "lev \<le> length items"
  shows "\<exists>c'. up_loop pass (drop lev items) lev c = Inr (climb enter (length items - lev) lev, c') \<and> S c'"
  using assms(3,4)
proof (induction "length items - lev" arbitrary: lev c)
  case 0
  then show ?case by simp
next
  case (Suc d)
  then have lt: "lev < length items" and d: "d = length items - Suc lev" by simp_all
  obtain c1 where c1: "pass (items ! lev) c = Inr (enter (Suc lev), c1)" "S c1" using assms(1) [OF lt Suc.prems(1)] by blast
  have unfold: "drop lev items = items ! lev # drop (Suc lev) items" using lt by (simp add: Cons_nth_drop_Suc)
  have n: "length items - lev = Suc (length items - Suc lev)" using lt by simp
  show ?case
  proof (cases "enter (Suc lev)")
    case True
    from Suc.hyps(1) [OF d c1(2)] lt obtain c2
      where "up_loop pass (drop (Suc lev) items) (Suc lev) c1 = Inr (climb enter (length items - Suc lev) (Suc lev), c2)"
        and "S c2" by auto
    with True c1 show ?thesis by (simp add: unfold n levels_in_order_nth [OF assms(2) lt])
  next
    case False
    with c1 show ?thesis by (simp add: unfold n)
  qed
qed

lemma down_loop_sink:
  assumes "\<And>i c. i < length items \<Longrightarrow> S c \<Longrightarrow> \<exists>c'. pass (items ! i) c = Inr (\<not> hold (Suc i), c') \<and> S c'"
    and "levels_in_order items" and "S c" and "lev \<le> length items"
  shows "\<exists>c'. down_loop pass items lev lev c = Inr (sink hold lev, c') \<and> S c'"
  using assms(3,4)
proof (induction lev arbitrary: c)
  case 0
  then show ?case by simp
next
  case (Suc lev)
  then have lt: "lev < length items" by simp
  obtain c1 where c1: "pass (items ! lev) c = Inr (\<not> hold (Suc lev), c1)" "S c1"
    using assms(1) [OF lt Suc.prems(1)] by blast
  show ?case
  proof (cases "hold (Suc lev)")
    case False
    from Suc.IH [OF c1(2)] lt obtain c2 where "down_loop pass items lev lev c1 = Inr (sink hold lev, c2)" "S c2"
      by auto
    with False c1 show ?thesis by (simp add: lt levels_in_order_nth [OF assms(2) lt])
  next
    case True
    with c1 show ?thesis by (simp add: lt)
  qed
qed

section \<open>The judgments settle\<close>

text \<open>What a reading and a configuration say of a level, in both directions.\<close>

type_synonym search_ctx = "search_args \<times> SensorCluster"

fun ctx_size :: "search_ctx \<Rightarrow> nat" where
  "ctx_size (a, c) = length (sa_levItems a)"

fun ctx_rise :: "search_ctx \<Rightarrow> nat \<Rightarrow> bool" where
  "ctx_rise (a, c) k \<longleftrightarrow> reaches (descFlag c) (sa_curTemp a) (threshold (sa_levItems a ! (k - 1)))"

fun ctx_enter :: "search_ctx \<Rightarrow> nat \<Rightarrow> bool" where
  "ctx_enter (a, c) k \<longleftrightarrow>
     reaches (descFlag c) (sa_curTemp a) (threshold (sa_levItems a ! (k - 1))) \<and> extra_holds a c k True"

fun ctx_hold :: "search_ctx \<Rightarrow> nat \<Rightarrow> bool" where
  "ctx_hold (a, c) k \<longleftrightarrow>
     reaches (descFlag c) (sa_curTemp a) (thresholdClr (sa_levItems a ! (k - 1))) \<and> extra_holds a c k False"

text \<open>The clear threshold is on the safe side of the threshold.\<close>

fun ctx_ok :: "search_ctx \<Rightarrow> bool" where
  "ctx_ok (a, c) \<longleftrightarrow> list_all (\<lambda>item. reaches (descFlag c) (threshold item) (thresholdClr item)) (sa_levItems a)"

text \<open>No extra conditions, and thresholds in order.\<close>

definition no_extras :: "SensorCluster \<Rightarrow> bool" where
  "no_extras c \<longleftrightarrow> \<not> auxFlag c \<and> \<not> rateFlag c \<and> \<not> tempDiffFlag c"

fun ctx_plain :: "search_ctx \<Rightarrow> bool" where
  "ctx_plain (a, c) \<longleftrightarrow> no_extras c \<and>
     sorted_wrt (\<lambda>x y. reaches (descFlag c) (threshold y) (threshold x)) (sa_levItems a)"

fun ctx_hotter :: "search_ctx \<Rightarrow> search_ctx \<Rightarrow> bool" where
  "ctx_hotter (a, c) (a', c') \<longleftrightarrow> no_extras c \<and> no_extras c' \<and> descFlag c' = descFlag c \<and>
     sa_levItems a' = sa_levItems a \<and> reaches (descFlag c) (sa_curTemp a') (sa_curTemp a)"

lemma no_extras_holds [simp]: "no_extras c \<Longrightarrow> extra_holds a c k b"
  by (simp add: no_extras_def extra_holds_def)

interpretation cluster: sorted_hysteresis ctx_ok ctx_size ctx_rise ctx_enter ctx_hold ctx_plain ctx_hotter
proof
  fix x :: search_ctx and k :: nat
  obtain a c where x: "x = (a, c)" by (cases x)
  show "ctx_rise x k" if "ctx_enter x k" using that x by simp
  show "ctx_hold x k" if "ctx_ok x" "0 < k" "k \<le> ctx_size x" "ctx_enter x k"
  proof -
    have "k - 1 < length (sa_levItems a)" using that x by simp
    then have "reaches (descFlag c) (threshold (sa_levItems a ! (k - 1))) (thresholdClr (sa_levItems a ! (k - 1)))"
      using that(1) x by (simp add: list_all_length)
    with that(4) x show ?thesis by (auto intro: reaches_trans extra_critical)
  qed
  show "ctx_enter x k" if "ctx_plain x" "0 < k" "Suc k \<le> ctx_size x" "ctx_enter x (Suc k)"
  proof -
    have "reaches (descFlag c) (threshold (sa_levItems a ! k)) (threshold (sa_levItems a ! (k - 1)))"
      using that(1-3) x by (auto simp: sorted_wrt_iff_nth_less)
    with that x show ?thesis by (auto intro: reaches_trans)
  qed
next
  fix x x' :: search_ctx and k :: nat
  assume hot: "ctx_hotter x x'"
  obtain a c a' c' where x: "x = (a, c)" "x' = (a', c')" by (cases x; cases x')
  show "ctx_size x' = ctx_size x" using hot x by simp
  show "ctx_rise x' k" if "ctx_rise x k" using hot x that by (auto intro: reaches_trans)
  show "ctx_enter x' k" if "ctx_enter x k" using hot x that by (auto intro: reaches_trans)
  show "ctx_hold x' k" if "ctx_hold x k" using hot x that by (auto intro: reaches_trans)
qed

text \<open>The tests the loops stop on.\<close>

lemma ctx_similar: "similar c c' \<Longrightarrow> ctx_enter (a, c') = ctx_enter (a, c) \<and> ctx_hold (a, c') = ctx_hold (a, c)"
  by (auto simp: extra_holds_similar similar_fields)

definition judged :: "search_args \<Rightarrow> nat \<Rightarrow> SensorCluster \<Rightarrow> nat" where
  "judged a lev c = settle (ctx_size (a, c)) (ctx_rise (a, c)) (ctx_enter (a, c)) (ctx_hold (a, c)) lev"

definition search_ok :: "search_args \<Rightarrow> SensorCluster \<Rightarrow> bool" where
  "search_ok a c \<longleftrightarrow> config_ok c \<and> temps_ok (sa_typeTempInfo a) \<and> length (sa_levItems a) = cluster_size c \<and>
     levels_in_order (sa_levItems a)"

lemma extra_at:
  assumes "search_ok a c0" and "similar c0 c" and "i < length (sa_levItems a)"
  shows "\<exists>c'. extra a (level (sa_levItems a ! i)) b c = Inr (extra_holds a c0 (Suc i) b, c') \<and> similar c0 c'"
proof -
  have "\<exists>c'. extra a (Suc i) b c = Inr (extra_holds a c (Suc i) b, c') \<and> similar c c'"
    using assms by (intro extra_eq) (simp_all add: search_ok_def config_ok_similar)
  then show ?thesis
    using assms(2,3) assms(1)
    by (auto simp: search_ok_def levels_in_order_nth extra_holds_similar [OF assms(2)] intro: similar_trans)
qed

lemmas cond_defs = and_then_def or_else_def negate_def

lemma asc_tests:
  assumes "search_ok a c0" and "\<not> descFlag c0" and "similar c0 c" and "i < length (sa_levItems a)"
  defines "item \<equiv> sa_levItems a ! i"
  shows "\<exists>c'. negate (or_else (sa_curTemp a < threshold item) (\<lambda>c. negate (extra a (level item) True c)) c) =
      Inr (ctx_enter (a, c0) (Suc i), c') \<and> similar c0 c'"
    and "\<exists>c'. and_then (threshold item \<le> sa_curTemp a) (extra a (level item) True) c =
      Inr (ctx_enter (a, c0) (Suc i), c') \<and> similar c0 c'"
    and "\<exists>c'. negate (and_then (thresholdClr item \<le> sa_curTemp a) (extra a (level item) False) c) =
      Inr (\<not> ctx_hold (a, c0) (Suc i), c') \<and> similar c0 c'"
    and "\<exists>c'. or_else (sa_curTemp a < thresholdClr item) (\<lambda>c. negate (extra a (level item) False c)) c =
      Inr (\<not> ctx_hold (a, c0) (Suc i), c') \<and> similar c0 c'"
  using extra_at [OF assms(1,3,4), of True] extra_at [OF assms(1,3,4), of False] assms(2,3)
  by (auto simp: cond_defs reaches_def item_def)

lemma desc_tests:
  assumes "search_ok a c0" and "descFlag c0" and "similar c0 c" and "i < length (sa_levItems a)"
  defines "item \<equiv> sa_levItems a ! i"
  shows "\<exists>c'. negate (or_else (threshold item < sa_curTemp a) (\<lambda>c. negate (extra a (level item) True c)) c) =
      Inr (ctx_enter (a, c0) (Suc i), c') \<and> similar c0 c'"
    and "\<exists>c'. and_then (sa_curTemp a \<le> threshold item) (extra a (level item) True) c =
      Inr (ctx_enter (a, c0) (Suc i), c') \<and> similar c0 c'"
    and "\<exists>c'. negate (and_then (sa_curTemp a \<le> thresholdClr item) (extra a (level item) False) c) =
      Inr (\<not> ctx_hold (a, c0) (Suc i), c') \<and> similar c0 c'"
    and "\<exists>c'. or_else (thresholdClr item < sa_curTemp a) (\<lambda>c. negate (extra a (level item) False c)) c =
      Inr (\<not> ctx_hold (a, c0) (Suc i), c') \<and> similar c0 c'"
  using extra_at [OF assms(1,3,4), of True] extra_at [OF assms(1,3,4), of False] assms(2,3)
  by (auto simp: cond_defs reaches_def item_def)

text \<open>The eight searches climb or sink.\<close>

lemma asc_searches:
  assumes "search_ok a c0" and "\<not> descFlag c0" and "similar c0 c" and "lev \<le> length (sa_levItems a)"
  shows "\<exists>c'. AscendLevelToThreshold a lev c =
      Inr (climb (ctx_enter (a, c0)) (length (sa_levItems a) - lev) lev, c') \<and> similar c0 c'"
    and "\<exists>c'. AscendLevelToThresholdClr a lev c =
      Inr (climb (ctx_enter (a, c0)) (length (sa_levItems a) - lev) lev, c') \<and> similar c0 c'"
    and "\<exists>c'. DescendLevelToThresholdClr a lev c = Inr (sink (ctx_hold (a, c0)) lev, c') \<and> similar c0 c'"
    and "\<exists>c'. DescendLevelToThreshold a lev c = Inr (sink (ctx_hold (a, c0)) lev, c') \<and> similar c0 c'"
proof -
  note t = asc_tests [OF assms(1,2)]
  have ord: "levels_in_order (sa_levItems a)" using assms(1) by (simp add: search_ok_def)
  show "\<exists>c'. AscendLevelToThreshold a lev c =
      Inr (climb (ctx_enter (a, c0)) (length (sa_levItems a) - lev) lev, c') \<and> similar c0 c'"
    unfolding AscendLevelToThreshold_def by (rule up_loop_climb [where S = "similar c0", OF _ ord assms(3,4)]) (rule t(1))
  show "\<exists>c'. AscendLevelToThresholdClr a lev c =
      Inr (climb (ctx_enter (a, c0)) (length (sa_levItems a) - lev) lev, c') \<and> similar c0 c'"
    unfolding AscendLevelToThresholdClr_def by (rule up_loop_climb [where S = "similar c0", OF _ ord assms(3,4)]) (rule t(2))
  show "\<exists>c'. DescendLevelToThresholdClr a lev c = Inr (sink (ctx_hold (a, c0)) lev, c') \<and> similar c0 c'"
    unfolding DescendLevelToThresholdClr_def by (rule down_loop_sink [where S = "similar c0", OF _ ord assms(3,4)]) (rule t(3))
  show "\<exists>c'. DescendLevelToThreshold a lev c = Inr (sink (ctx_hold (a, c0)) lev, c') \<and> similar c0 c'"
    unfolding DescendLevelToThreshold_def by (rule down_loop_sink [where S = "similar c0", OF _ ord assms(3,4)]) (rule t(4))
qed

lemma desc_searches:
  assumes "search_ok a c0" and "descFlag c0" and "similar c0 c" and "lev \<le> length (sa_levItems a)"
  shows "\<exists>c'. LevelUpwardsSearch a lev c =
      Inr (climb (ctx_enter (a, c0)) (length (sa_levItems a) - lev) lev, c') \<and> similar c0 c'"
    and "\<exists>c'. LevelUpwardsSearchWithThreshold a lev c =
      Inr (climb (ctx_enter (a, c0)) (length (sa_levItems a) - lev) lev, c') \<and> similar c0 c'"
    and "\<exists>c'. LevelDownwardsSearch a lev c = Inr (sink (ctx_hold (a, c0)) lev, c') \<and> similar c0 c'"
    and "\<exists>c'. LevelDownwardsSearchWithThreshold a lev c = Inr (sink (ctx_hold (a, c0)) lev, c') \<and> similar c0 c'"
proof -
  note t = desc_tests [OF assms(1,2)]
  have ord: "levels_in_order (sa_levItems a)" using assms(1) by (simp add: search_ok_def)
  show "\<exists>c'. LevelUpwardsSearch a lev c =
      Inr (climb (ctx_enter (a, c0)) (length (sa_levItems a) - lev) lev, c') \<and> similar c0 c'"
    unfolding LevelUpwardsSearch_def by (rule up_loop_climb [where S = "similar c0", OF _ ord assms(3,4)]) (rule t(1))
  show "\<exists>c'. LevelUpwardsSearchWithThreshold a lev c =
      Inr (climb (ctx_enter (a, c0)) (length (sa_levItems a) - lev) lev, c') \<and> similar c0 c'"
    unfolding LevelUpwardsSearchWithThreshold_def by (rule up_loop_climb [where S = "similar c0", OF _ ord assms(3,4)]) (rule t(2))
  show "\<exists>c'. LevelDownwardsSearch a lev c = Inr (sink (ctx_hold (a, c0)) lev, c') \<and> similar c0 c'"
    unfolding LevelDownwardsSearch_def by (rule down_loop_sink [where S = "similar c0", OF _ ord assms(3,4)]) (rule t(3))
  show "\<exists>c'. LevelDownwardsSearchWithThreshold a lev c = Inr (sink (ctx_hold (a, c0)) lev, c') \<and> similar c0 c'"
    unfolding LevelDownwardsSearchWithThreshold_def by (rule down_loop_sink [where S = "similar c0", OF _ ord assms(3,4)]) (rule t(4))
qed

lemma AscJudgment_eq:
  assumes "search_ok a c" and "\<not> descFlag c" and "lev \<le> length (sa_levItems a)"
  shows "\<exists>c'. AscJudgment a lev c = Inr (judged a lev c, c') \<and> similar c c'"
proof -
  have n: "0 < length (sa_levItems a)" using assms(1) by (simp add: search_ok_def config_ok_def)
  show ?thesis
  proof (cases "lev = 0")
    case True
    then show ?thesis
      using asc_searches(2) [OF assms(1,2) similar_refl assms(3)] n assms(2)
      by (auto simp: AscJudgment_def judged_def settle_def reaches_def)
  next
    case False
    then have i: "lev - 1 < length (sa_levItems a)" using assms(3) by simp
    have "level (sa_levItems a ! (lev - 1)) = lev"
      using levels_in_order_nth [OF _ i] assms(1) False by (simp add: search_ok_def)
    with asc_tests(4) [OF assms(1,2) similar_refl i] False obtain c1 where
      c1: "or_else (sa_curTemp a < thresholdClr (sa_levItems a ! (lev - 1))) (\<lambda>c. negate (extra a lev False c)) c =
        Inr (\<not> ctx_hold (a, c) lev, c1)" "similar c c1"
      by auto
    have hold: "sink (ctx_hold (a, c)) lev = lev" if "ctx_hold (a, c) lev" using that by (rule sink_fix)
    show ?thesis
      using asc_searches [OF assms(1,2) similar_refl assms(3)] asc_searches [OF assms(1,2) c1(2) assms(3)]
        c1 hold i False assms(2,3)
      by (cases "ctx_hold (a, c) lev")
        (auto simp: AscJudgment_def judged_def settle_def reaches_def cond_then_def simp del: ctx_hold.simps)
  qed
qed

lemma DescJudgment_eq:
  assumes "search_ok a c" and "descFlag c" and "lev \<le> length (sa_levItems a)"
  shows "\<exists>c'. DescJudgment a lev c = Inr (judged a lev c, c') \<and> similar c c'"
proof -
  have n: "0 < length (sa_levItems a)" using assms(1) by (simp add: search_ok_def config_ok_def)
  show ?thesis
  proof (cases "lev = 0")
    case True
    then show ?thesis
      using desc_searches(2) [OF assms(1,2) similar_refl assms(3)] n assms(2)
      by (auto simp: DescJudgment_def judged_def settle_def reaches_def)
  next
    case False
    then have i: "lev - 1 < length (sa_levItems a)" using assms(3) by simp
    have "level (sa_levItems a ! (lev - 1)) = lev"
      using levels_in_order_nth [OF _ i] assms(1) False by (simp add: search_ok_def)
    with desc_tests(4) [OF assms(1,2) similar_refl i] False obtain c1 where
      c1: "or_else (thresholdClr (sa_levItems a ! (lev - 1)) < sa_curTemp a) (\<lambda>c. negate (extra a lev False c)) c =
        Inr (\<not> ctx_hold (a, c) lev, c1)" "similar c c1"
      by auto
    have hold: "sink (ctx_hold (a, c)) lev = lev" if "ctx_hold (a, c) lev" using that by (rule sink_fix)
    show ?thesis
      using desc_searches [OF assms(1,2) similar_refl assms(3)] desc_searches [OF assms(1,2) c1(2) assms(3)]
        c1 hold i False assms(2,3)
      by (cases "ctx_hold (a, c) lev")
        (auto simp: DescJudgment_def judged_def settle_def reaches_def cond_then_def simp del: ctx_hold.simps)
  qed
qed

section \<open>The level of the cluster\<close>

definition sensor_args :: "sensor_rates \<Rightarrow> TypeTempMap \<Rightarrow> string \<Rightarrow> LevelItem list \<Rightarrow> int \<Rightarrow> search_args" where
  "sensor_args rates m s items t =
     \<lparr>sa_rates = rates, sa_typeTempInfo = m, sa_type = s, sa_levItems = items, sa_curTemp = t\<rparr>"

text \<open>The level each sensor with a reading settles at, and the level of the cluster.\<close>

definition levels_of :: "sensor_rates \<Rightarrow> TypeTempMap \<Rightarrow> SensorCluster \<Rightarrow> (string \<times> LevelItem list) list \<Rightarrow> nat list" where
  "levels_of rates m c l = concat (map (\<lambda>(s, items).
     case sm_find m s of None \<Rightarrow> [] | Some t \<Rightarrow> [judged (sensor_args rates m s items t) (latestLevel c) c]) l)"

definition cluster_level :: "sensor_rates \<Rightarrow> TypeTempMap \<Rightarrow> SensorCluster \<Rightarrow> nat" where
  "cluster_level rates m c =
     (let ls = levels_of rates m c (sensorInfolist c) in if ls = [] then latestLevel c else Max (set ls))"

lemma judged_similar: "similar c c' \<Longrightarrow> judged a lev c' = judged a lev c"
proof -
  assume s: "similar c c'"
  have "ctx_rise (a, c') = ctx_rise (a, c)" by (rule ext) (simp add: similar_fields [OF s])
  with ctx_similar [OF s, of a] show ?thesis unfolding judged_def by simp
qed

lemma judged_level [simp]: "judged a lev (c\<lparr>latestLevel := l\<rparr>) = judged a lev c"
proof -
  have "extra_holds a (c\<lparr>latestLevel := l\<rparr>) = extra_holds a c"
    by (intro ext) (simp add: extra_holds_def aux_holds_def diff_holds_def)
  then have "ctx_enter (a, c\<lparr>latestLevel := l\<rparr>) = ctx_enter (a, c)"
    "ctx_hold (a, c\<lparr>latestLevel := l\<rparr>) = ctx_hold (a, c)" "ctx_rise (a, c\<lparr>latestLevel := l\<rparr>) = ctx_rise (a, c)"
    by (auto intro!: ext)
  then show ?thesis unfolding judged_def by simp
qed

lemma config_ok_level [simp]: "config_ok (c\<lparr>latestLevel := l\<rparr>) = config_ok c"
  by (simp add: config_ok_def CheckStandard_def cluster_size_def split: list.split)

lemma cluster_size_level [simp]: "cluster_size (c\<lparr>latestLevel := l\<rparr>) = cluster_size c"
  by (simp add: cluster_size_def)

lemma similar_level: "similar c c' \<Longrightarrow> similar (c\<lparr>latestLevel := l\<rparr>) (c'\<lparr>latestLevel := l\<rparr>)"
proof -
  have "sorted_diffs (x\<lparr>latestLevel := l\<rparr>) = (sorted_diffs x)\<lparr>latestLevel := l\<rparr>" for x
    by (simp add: sorted_diffs_def)
  then show "similar c c' \<Longrightarrow> ?thesis" by (simp add: similar_def)
qed

lemma cluster_level_similar:
  assumes "similar c c'"
  shows "cluster_level rates m c' = cluster_level rates m c"
proof -
  have "levels_of rates m c' l = levels_of rates m c l" for l
    by (simp only: levels_of_def judged_similar [OF assms] similar_fields(5) [OF assms])
  then show ?thesis by (simp only: cluster_level_def similar_fields(5,6) [OF assms])
qed

lemma sensor_loop_Some:
  "sm_find m s = Some t \<Longrightarrow> sensor_loop rates m ((s, items) # l) ls c =
     bindr (if descFlag c then DescJudgment (sensor_args rates m s items t) (latestLevel c) c
            else AscJudgment (sensor_args rates m s items t) (latestLevel c) c)
       (\<lambda>(lev, c). sensor_loop rates m l (ls @ [lev]) c)"
  by (simp add: sensor_args_def Let_def)

lemma levels_of_Some:
  "sm_find m s = Some t \<Longrightarrow> levels_of rates m c ((s, items) # l) =
     judged (sensor_args rates m s items t) (latestLevel c) c # levels_of rates m c l"
  by (simp add: levels_of_def)

lemma sensor_loop_eq:
  assumes "config_ok c0" and "temps_ok m" and "latestLevel c0 \<le> cluster_size c0"
    and "set l \<subseteq> set (sensorInfolist c0)" and "similar c0 c"
  shows "\<exists>c'. sensor_loop rates m l ls c = Inr (ls @ levels_of rates m c0 l, c') \<and> similar c0 c'"
  using assms(4,5)
proof (induction l arbitrary: ls c)
  case Nil
  then show ?case by (auto simp: levels_of_def)
next
  case (Cons p l)
  obtain s items where p: "p = (s, items)" by (cases p)
  show ?case
  proof (cases "sm_find m s")
    case None
    with Cons p show ?thesis by (auto simp: levels_of_def)
  next
    case (Some t)
    let ?a = "sensor_args rates m s items t"
    have mem: "(s, items) \<in> set (sensorInfolist c0)" using Cons.prems(1) p by simp
    have ok: "search_ok ?a c"
      using config_ok_sensor [OF assms(1) mem] assms(1,2) config_ok_similar [OF Cons.prems(2)]
      by (simp add: search_ok_def sensor_args_def)
    have lev: "latestLevel c \<le> length (sa_levItems ?a)"
      using config_ok_sensor(1) [OF assms(1) mem] assms(3) similar_fields [OF Cons.prems(2)]
      by (simp add: sensor_args_def)
    have "\<exists>c'. (if descFlag c then DescJudgment ?a (latestLevel c) c else AscJudgment ?a (latestLevel c) c) =
        Inr (judged ?a (latestLevel c) c, c') \<and> similar c c'"
      using AscJudgment_eq [OF ok _ lev] DescJudgment_eq [OF ok _ lev] by simp
    then obtain c1 where c1: "(if descFlag c then DescJudgment ?a (latestLevel c) c else AscJudgment ?a (latestLevel c) c) =
        Inr (judged ?a (latestLevel c0) c0, c1)" and "similar c c1"
      using judged_similar [OF Cons.prems(2)] similar_fields(5) [OF Cons.prems(2)] by auto
    then have s1: "similar c0 c1" using Cons.prems(2) similar_trans by blast
    from Cons.prems(1) have sub: "set l \<subseteq> set (sensorInfolist c0)" by simp
    from Cons.IH [OF sub s1, of "ls @ [judged ?a (latestLevel c0) c0]"] show ?thesis
      unfolding p sensor_loop_Some [OF Some] levels_of_Some [OF Some] c1 by simp
  qed
qed

lemma CalculateSensorLevel_eq:
  assumes "config_ok c" and "temps_ok m" and "latestLevel c \<le> cluster_size c"
  shows "\<exists>c'. CalculateSensorLevel rates m [] c = Inr (levels_of rates m c (sensorInfolist c), c') \<and> similar c c'"
  using sensor_loop_eq [OF assms subset_refl similar_refl, of rates "[]"] by (simp add: CalculateSensorLevel_def)

lemma UpdateThermalLevel_eq:
  assumes "config_ok c" and "temps_ok m" and "latestLevel c \<le> cluster_size c"
    and "CheckState P c w = Inr (gate, w')"
  shows "\<exists>c'. UpdateThermalLevel P rates m (c, w) = Inr (c', w') \<and>
    similar (c\<lparr>latestLevel := if gate then cluster_level rates m c else 0\<rparr>) c'"
proof -
  obtain c1 where c1: "CalculateSensorLevel rates m [] c = Inr (levels_of rates m c (sensorInfolist c), c1)"
    and s1: "similar c c1"
    using CalculateSensorLevel_eq [OF assms(1-3)] by blast
  have same: "c\<lparr>latestLevel := latestLevel c\<rparr> = c" by simp
  show ?thesis
    using c1 assms(4) similar_level [OF s1] s1 same
    by (auto simp: UpdateThermalLevel_def cluster_level_def Let_def)
qed

lemma levels_of_mem:
  "x \<in> set (levels_of rates m c l) \<longleftrightarrow>
     (\<exists>s items t. (s, items) \<in> set l \<and> sm_find m s = Some t \<and>
        x = judged (sensor_args rates m s items t) (latestLevel c) c)"
  by (force simp: levels_of_def split: option.splits)

lemma judged_le:
  "config_ok c \<Longrightarrow> (s, items) \<in> set (sensorInfolist c) \<Longrightarrow> lev \<le> cluster_size c \<Longrightarrow>
     judged (sensor_args rates m s items t) lev c \<le> cluster_size c"
  using config_ok_sensor(1) [of c s items] settle_le [of lev "cluster_size c"]
  by (simp add: judged_def sensor_args_def)

lemma cluster_level_le:
  "config_ok c \<Longrightarrow> latestLevel c \<le> cluster_size c \<Longrightarrow> cluster_level rates m c \<le> cluster_size c"
  using judged_le by (auto simp: cluster_level_def Let_def levels_of_mem)

section \<open>Stability and monotonicity\<close>

text \<open>A configuration in which every sensor has ordered thresholds, clear thresholds below them, and no extra condition.\<close>

definition plain_config :: "SensorCluster \<Rightarrow> bool" where
  "plain_config c \<longleftrightarrow> config_ok c \<and> no_extras c \<and>
     list_all (\<lambda>(_, items).
        list_all (\<lambda>item. reaches (descFlag c) (threshold item) (thresholdClr item)) items \<and>
        sorted_wrt (\<lambda>x y. reaches (descFlag c) (threshold y) (threshold x)) items) (sensorInfolist c)"

lemma plain_config_ctx:
  assumes "plain_config c" and "(s, items) \<in> set (sensorInfolist c)"
  shows "ctx_ok (sensor_args rates m s items t, c)" and "ctx_plain (sensor_args rates m s items t, c)"
    and "ctx_size (sensor_args rates m s items t, c) = cluster_size c"
  using assms config_ok_sensor(1) [of c s items]
  by (auto simp: plain_config_def sensor_args_def list_all_iff)

lemma cluster_level_stable:
  assumes "plain_config c" and "latestLevel c \<le> cluster_size c"
  shows "cluster_level rates m (c\<lparr>latestLevel := cluster_level rates m c\<rparr>) = cluster_level rates m c"
proof (cases "levels_of rates m c (sensorInfolist c) = []")
  case True
  then have "cluster_level rates m c = latestLevel c" by (simp add: cluster_level_def)
  then show ?thesis by simp
next
  case False
  let ?M = "cluster_level rates m c" and ?ls = "levels_of rates m c (sensorInfolist c)"
  have M: "?M = Max (set ?ls)" using False by (simp add: cluster_level_def Let_def)
  have ok: "config_ok c" using assms(1) by (simp add: plain_config_def)
  have le: "?M \<le> cluster_size c" using cluster_level_le [OF ok assms(2)] .
  let ?c' = "c\<lparr>latestLevel := ?M\<rparr>"
  let ?ls' = "levels_of rates m ?c' (sensorInfolist c)"
  have above: "x \<le> ?M" if "x \<in> set ?ls'" for x
  proof -
    from that obtain s items t where mem: "(s, items) \<in> set (sensorInfolist c)" "sm_find m s = Some t"
      and x: "x = judged (sensor_args rates m s items t) ?M c" by (auto simp: levels_of_mem)
    have "judged (sensor_args rates m s items t) (latestLevel c) c \<in> set ?ls"
      using mem by (auto simp: levels_of_mem)
    then have "judged (sensor_args rates m s items t) (latestLevel c) c \<le> ?M" by (simp add: M)
    then show ?thesis
      using cluster.settled_above [of "(sensor_args rates m s items t, c)" "latestLevel c" ?M]
        plain_config_ctx [OF assms(1) mem(1)] assms(2) le by (simp add: x judged_def)
  qed
  have attained: "?M \<in> set ?ls'"
  proof -
    have "?M \<in> set ?ls" using False by (simp add: M)
    then obtain s items t where mem: "(s, items) \<in> set (sensorInfolist c)" "sm_find m s = Some t"
      and x: "?M = judged (sensor_args rates m s items t) (latestLevel c) c" by (auto simp: levels_of_mem)
    have "judged (sensor_args rates m s items t) ?M c = ?M"
      using cluster.settled_stable [of "(sensor_args rates m s items t, c)" "latestLevel c"]
        plain_config_ctx [OF assms(1) mem(1)] assms(2) by (simp add: x judged_def)
    then show ?thesis using mem by (force simp: levels_of_mem)
  qed
  have "?ls' \<noteq> []" using attained by (cases ?ls') auto
  moreover have "Max (set ?ls') = ?M" using above attained by (intro Max_eqI) auto
  ultimately show ?thesis by (simp add: cluster_level_def Let_def)
qed

text \<open>The same sensors with readings at least as extreme.\<close>

definition hotter_readings :: "bool \<Rightarrow> TypeTempMap \<Rightarrow> TypeTempMap \<Rightarrow> bool" where
  "hotter_readings desc m m' \<longleftrightarrow>
     (\<forall>s. case (sm_find m s, sm_find m' s) of
        (None, None) \<Rightarrow> True | (Some t, Some t') \<Rightarrow> reaches desc t' t | _ \<Rightarrow> False)"

lemma hotter_readings_Some:
  "hotter_readings desc m m' \<Longrightarrow> sm_find m s = Some t \<Longrightarrow> \<exists>t'. sm_find m' s = Some t' \<and> reaches desc t' t"
  unfolding hotter_readings_def by (drule spec [of _ s]) (auto split: option.splits)

lemma hotter_readings_None:
  "hotter_readings desc m m' \<Longrightarrow> sm_find m' s = Some t' \<Longrightarrow> \<exists>t. sm_find m s = Some t"
  unfolding hotter_readings_def by (drule spec [of _ s]) (auto split: option.splits)

lemma cluster_level_mono:
  assumes "config_ok c" and "no_extras c" and "latestLevel c \<le> cluster_size c" and "hotter_readings (descFlag c) m m'"
  shows "cluster_level rates m c \<le> cluster_level rates m' c"
proof (cases "levels_of rates m c (sensorInfolist c) = []")
  case True
  have "levels_of rates m' c (sensorInfolist c) = []"
  proof (rule ccontr)
    assume "levels_of rates m' c (sensorInfolist c) \<noteq> []"
    then obtain s items t' where "(s, items) \<in> set (sensorInfolist c)" "sm_find m' s = Some t'"
      by (metis levels_of_mem list.set_intros(1) neq_Nil_conv)
    with hotter_readings_None [OF assms(4)] have "levels_of rates m c (sensorInfolist c) \<noteq> []"
      by (metis empty_iff empty_set levels_of_mem)
    with True show False by simp
  qed
  with True show ?thesis by (simp add: cluster_level_def)
next
  case False
  let ?ls = "levels_of rates m c (sensorInfolist c)" and ?ls' = "levels_of rates m' c (sensorInfolist c)"
  have each: "\<exists>y \<in> set ?ls'. x \<le> y" if "x \<in> set ?ls" for x
  proof -
    from that obtain s items t where mem: "(s, items) \<in> set (sensorInfolist c)" "sm_find m s = Some t"
      and x: "x = judged (sensor_args rates m s items t) (latestLevel c) c" by (auto simp: levels_of_mem)
    obtain t' where t': "sm_find m' s = Some t'" "reaches (descFlag c) t' t"
      using hotter_readings_Some [OF assms(4) mem(2)] by blast
    have "ctx_hotter (sensor_args rates m s items t, c) (sensor_args rates m' s items t', c)"
      using assms(2) t' by (simp add: sensor_args_def)
    from cluster.settled_mono [OF this, of "latestLevel c"]
    have "x \<le> judged (sensor_args rates m' s items t') (latestLevel c) c"
      using config_ok_sensor(1) [OF assms(1) mem(1)] assms(3) by (simp add: x judged_def sensor_args_def)
    then show ?thesis using mem(1) t'(1) levels_of_mem by blast
  qed
  have "hd ?ls \<in> set ?ls" using False by simp
  with each have ne: "?ls' \<noteq> []" by fastforce
  have "x \<le> Max (set ?ls')" if "x \<in> set ?ls" for x
    using each [OF that] by (meson List.finite_set Max_ge order_trans)
  then have "Max (set ?ls) \<le> Max (set ?ls')" using False by simp
  with False ne show ?thesis by (simp add: cluster_level_def Let_def)
qed

section \<open>Properties\<close>

text \<open>
  C6: in a standard configuration the update of a cluster never fails: if the cluster's
  states hold, the new level is the largest of the levels the sensors with a reading
  settle at (the old level if there is none), otherwise it is 0.
\<close>

theorem UpdateThermalLevel_refines:
  "config_ok c \<Longrightarrow> latestLevel c \<le> cluster_size c \<Longrightarrow> temps_ok m \<Longrightarrow> CheckState P c w = Inr (gate, w') \<Longrightarrow>
     \<exists>c'. UpdateThermalLevel P rates m (c, w) = Inr (c', w') \<and>
       latestLevel c' = (if gate then cluster_level rates m c else 0) \<and>
       sorted_diffs c' = sorted_diffs (c\<lparr>latestLevel := latestLevel c'\<rparr>)"
proof -
  assume *: "config_ok c" "latestLevel c \<le> cluster_size c" "temps_ok m" "CheckState P c w = Inr (gate, w')"
  obtain c' where up: "UpdateThermalLevel P rates m (c, w) = Inr (c', w')"
    and s: "similar (c\<lparr>latestLevel := if gate then cluster_level rates m c else 0\<rparr>) c'"
    using UpdateThermalLevel_eq [OF *(1,3,2,4), of rates] by blast
  then show ?thesis using similar_fields(5) [OF s] by (simp add: similar_def)
qed

definition sample_cluster :: SensorCluster where
  "sample_cluster = SensorCluster_new\<lparr>sensorInfolist := [(''battery'',
     [\<lparr>threshold = 40000, thresholdClr = 38000, tempRiseRate = -1000000, level = 1\<rparr>,
      \<lparr>threshold = 45000, thresholdClr = 43000, tempRiseRate = -1000000, level = 2\<rparr>])]\<rparr>"

lemmas sample_cluster_defs = sample_cluster_def SensorCluster_new_def

lemma sample_cluster_plain: "plain_config sample_cluster"
  by (simp add: plain_config_def config_ok_def CheckStandard_def levels_in_order_def cluster_size_def
      no_extras_def reaches_def sample_cluster_defs numeral_eq_Suc)

lemma sample_cluster_size: "cluster_size sample_cluster = 2" "latestLevel sample_cluster = 0"
  by (simp_all add: cluster_size_def sample_cluster_defs)

lemma sample_cluster_gate: "CheckState P sample_cluster w = Inr (True, w)"
  by (simp add: CheckState_def sample_cluster_defs)

lemma sample_cluster_level:
  "cluster_level rates [(''battery'', 46000)] sample_cluster = 2"
  by (simp add: cluster_level_def levels_of_def judged_def sensor_args_def settle_def reaches_def
      extra_holds_def sample_cluster_defs Let_def numeral_eq_Suc)

theorem UpdateThermalLevel_refines_witness:
  "\<exists>c'. UpdateThermalLevel sample_platform \<lparr>sensorsRateMap = [], rateCount = 0\<rparr> [(''battery'', 46000)]
      (sample_cluster, sample_machine) = Inr (c', sample_machine) \<and> latestLevel c' = 2"
  using UpdateThermalLevel_refines [of sample_cluster "[(''battery'', 46000)]" sample_platform sample_machine True
      sample_machine "\<lparr>sensorsRateMap = [], rateCount = 0\<rparr>"]
    sample_cluster_plain sample_cluster_gate [of sample_platform sample_machine]
  by (auto simp: plain_config_def temps_ok_def sample_cluster_size sample_cluster_level)

text \<open>
  The level stays within the configured levels, and the update keeps the configuration,
  so it can be run again for ever.
\<close>

theorem UpdateThermalLevel_invariant:
  "config_ok c \<Longrightarrow> latestLevel c \<le> cluster_size c \<Longrightarrow> temps_ok m \<Longrightarrow>
     UpdateThermalLevel P rates m (c, w) = Inr (c', w') \<Longrightarrow>
     config_ok c' \<and> cluster_size c' = cluster_size c \<and> latestLevel c' \<le> cluster_size c'"
proof -
  assume ok: "config_ok c" and le: "latestLevel c \<le> cluster_size c" and t: "temps_ok m"
    and up: "UpdateThermalLevel P rates m (c, w) = Inr (c', w')"
  then obtain gate w1 where "CheckState P c w = Inr (gate, w1)"
    by (auto simp: UpdateThermalLevel_def bindr_eq_Inr)
  from UpdateThermalLevel_eq [OF ok t le this, of rates] up
  have s: "similar (c\<lparr>latestLevel := if gate then cluster_level rates m c else 0\<rparr>) c'" by auto
  then show ?thesis
    using ok config_ok_similar [OF s] similar_fields(5) [OF s] cluster_level_le [OF ok le] by simp
qed

theorem UpdateThermalLevel_invariant_witness:
  "\<exists>c'. UpdateThermalLevel sample_platform \<lparr>sensorsRateMap = [], rateCount = 0\<rparr> [(''battery'', 39000)]
      (sample_cluster, sample_machine) = Inr (c', sample_machine) \<and> latestLevel c' \<le> 2"
proof -
  have ok: "config_ok sample_cluster" using sample_cluster_plain by (simp add: plain_config_def)
  have le: "latestLevel sample_cluster \<le> cluster_size sample_cluster" by (simp add: sample_cluster_size)
  have t: "temps_ok [(''battery'', 39000)]" by (simp add: temps_ok_def)
  obtain c' where "UpdateThermalLevel sample_platform \<lparr>sensorsRateMap = [], rateCount = 0\<rparr> [(''battery'', 39000)]
      (sample_cluster, sample_machine) = Inr (c', sample_machine)"
    using UpdateThermalLevel_eq [OF ok t le sample_cluster_gate] by blast
  with UpdateThermalLevel_invariant [OF ok le t this] show ?thesis by (simp add: sample_cluster_size)
qed





end
