(* ===== verification/Action_Proofs.thy ===== *)
theory Action_Proofs
  imports Action_Manager "HOL-Library.Multiset"
begin

text \<open>
  What the actions guarantee. The locale \<open>action_impl\<close> is the contract a class must keep:
  applying a value touches neither the timers nor the observer, and storing a delayed value
  leaves the delay alone. The facts about arbitration and about the timers of delayed values
  are proved once from it, and every class of the program is an interpretation.
\<close>

section \<open>The contract of a class\<close>

definition same_timers :: "service_world \<Rightarrow> service_world \<Rightarrow> bool" where
  "same_timers w w' \<longleftrightarrow> timerCalls w' = timerCalls w \<and> createCount w' = createCount w"

lemma same_timers_live: "same_timers w w' \<Longrightarrow> live_timers w' = live_timers w"
  by (simp add: same_timers_def live_timers_def)

lemma same_timers_tell [simp]: "same_timers w (tell_observer f w') = same_timers w w'"
  by (simp add: same_timers_def tell_observer_def)

lemma same_timers_refl [simp]: "same_timers w w"
  by (simp add: same_timers_def)

text \<open>The timers a map of delayed values waits for.\<close>

definition pending :: "(u32, PolicyDelayAction) smap \<Rightarrow> u64 list" where
  "pending m = map (\<lambda>(i, d). delayTimerId d) (filter (\<lambda>(i, d). \<not> isCompleted d \<and> delayTimerId d \<noteq> 0) m)"

lemma pending_simps [simp]:
  "pending [] = []"
  "pending ((i, d) # m) = (if \<not> isCompleted d \<and> delayTimerId d \<noteq> 0 then [delayTimerId d] else []) @ pending m"
  by (simp_all add: pending_def)

definition delays_ok :: "action \<times> service_world \<Rightarrow> bool" where
  "delays_ok = (\<lambda>(a, w). sm_ok (policyActionMap a) \<and> distinct (pending (policyActionMap a)) \<and>
     live_timers w = set (pending (policyActionMap a)))"

text \<open>The next \<open>k\<close> timers the time service hands out are new ones.\<close>

definition fresh_timers :: "platform \<Rightarrow> service_world \<Rightarrow> nat \<Rightarrow> bool" where
  "fresh_timers P w k \<longleftrightarrow> distinct (map (newTimerId P) [createCount w ..< createCount w + k]) \<and>
     list_all (\<lambda>i. newTimerId P i \<noteq> 0 \<and> newTimerId P i \<notin> live_timers w) [createCount w ..< createCount w + k]"

locale action_impl =
  fixes cls :: action_class
  assumes apply_timers: "same_timers w (cls_apply cls P v a w)"
    and apply_observer: "observer (cls_apply cls P v a w) = observer w"
    and store_delay: "isCompleted (cls_store cls v d) = isCompleted d"
      "delayTimerId (cls_store cls v d) = delayTimerId d"
    and fallback_param: "fallbackValue a' = fallbackValue a \<Longrightarrow> cls_fallback cls a' = cls_fallback cls a"
    and differs_irrefl: "\<not> cls_differs cls v v"
begin

lemma ExecuteInner_timers: "same_timers w (snd (ExecuteInner cls P (a, w)))"
  by (simp add: ExecuteInner_def Let_def apply_timers)

lemma ExecuteInner_map [simp]:
  "policyActionMap (fst (ExecuteInner cls P (a, w))) = policyActionMap a"
  "actionIdList (fst (ExecuteInner cls P (a, w))) = actionIdList a"
  by (simp_all add: ExecuteInner_def Let_def push_completed_def)

lemma fallback_values [simp]: "cls_fallback cls (a\<lparr>valueList := vs\<rparr>) = cls_fallback cls a"
  by (rule fallback_param) simp

text \<open>The value an action decides on.\<close>

abbreviation decided :: "action \<Rightarrow> int" where
  "decided a \<equiv> GetActionValue cls (push_completed cls a)"

text \<open>What an execution leaves as the last value, and what it does to the world.\<close>

abbreviation applied :: "int \<Rightarrow> action \<Rightarrow> int" where
  "applied v a \<equiv> if cls_differs cls v (lastValue a) then v else lastValue a"

abbreviation applied_world :: "platform \<Rightarrow> int \<Rightarrow> action \<Rightarrow> service_world \<Rightarrow> service_world" where
  "applied_world P v a w \<equiv>
     if cls_differs cls v (lastValue a)
     then tell_observer (ThermalObserver_SetDecisionValue (actionName a) (cls_print cls v)) (cls_apply cls P v a w)
     else w"

lemma applied_settled: "\<not> cls_differs cls v (applied v a)"
  by (simp add: differs_irrefl)

lemma ExecuteInner_eq:
  "ExecuteInner cls P (a, w) =
     (a\<lparr>valueList := [], lastValue := applied (decided a) a\<rparr>, applied_world P (decided a) (push_completed cls a) w)"
  by (simp add: ExecuteInner_def Let_def push_completed_def)

text \<open>A class whose values are compared exactly.\<close>

lemma ExecuteInner_exact:
  "cls_differs cls = (\<noteq>) \<Longrightarrow> ExecuteInner cls P (a, w) =
     (a\<lparr>valueList := [], lastValue := decided a\<rparr>,
      if decided a = lastValue a then w
      else tell_observer (ThermalObserver_SetDecisionValue (actionName a) (cls_print cls (decided a)))
             (cls_apply cls P (decided a) (push_completed cls a) w))"
  by (simp add: ExecuteInner_def Let_def push_completed_def)

lemma decided_cong:
  assumes "isStrict a' = isStrict a" and "valueList a' = valueList a" and "fallbackValue a' = fallbackValue a"
    and "policyActionMap a' = policyActionMap a"
  shows "decided a' = decided a"
proof -
  have "cls_fallback cls a' = cls_fallback cls a" by (rule fallback_param) (rule assms(3))
  then show ?thesis using assms by (simp add: GetActionValue_def push_completed_def)
qed

lemma Execute_no_delays:
  "policyActionMap a = [] \<Longrightarrow> actionIdList a = [] \<Longrightarrow> IThermalAction_Execute cls P (a, w) = ExecuteInner cls P (a, w)"
  by (cases a) (simp add: IThermalAction_Execute_def)

end

text \<open>One round of the policy: values are added, then the action is executed.\<close>

definition action_round :: "action_class \<Rightarrow> platform \<Rightarrow> string list \<Rightarrow> action \<times> service_world \<Rightarrow> action \<times> service_world" where
  "action_round cls P vals = (\<lambda>(a, w). IThermalAction_Execute cls P (fold (AddActionValue cls 0) vals a, w))"

definition parsed :: "action_class \<Rightarrow> string list \<Rightarrow> int list" where
  "parsed cls vals = concat (map (\<lambda>s. if s = [] then [] else case cls_parse cls s of Some v \<Rightarrow> [v] | None \<Rightarrow> []) vals)"

lemma add_values: "fold (AddActionValue cls 0) vals a = a\<lparr>valueList := valueList a @ parsed cls vals\<rparr>"
  by (induction vals arbitrary: a) (auto simp: AddActionValue_def parsed_def split: option.split)

definition idle_action :: "action \<Rightarrow> bool" where
  "idle_action a \<longleftrightarrow> policyActionMap a = [] \<and> actionIdList a = [] \<and> valueList a = []"

context action_impl
begin

lemma action_round_eq:
  fixes vals
  assumes "idle_action a"
  defines "v \<equiv> decided (a\<lparr>valueList := parsed cls vals\<rparr>)"
  shows "action_round cls P vals (a, w) =
    (a\<lparr>lastValue := applied v a\<rparr>, applied_world P v (a\<lparr>valueList := parsed cls vals\<rparr>) w)"
  using assms by (cases a)
    (simp add: action_round_def add_values Execute_no_delays idle_action_def ExecuteInner_eq v_def push_completed_def)

lemma action_round_idle: "idle_action a \<Longrightarrow> idle_action (fst (action_round cls P vals (a, w)))"
  by (simp add: action_round_eq) (simp add: idle_action_def)

lemma action_round_again:
  assumes "idle_action a"
  shows "action_round cls P vals (fst (action_round cls P' vals (a, w)), w') =
    (fst (action_round cls P' vals (a, w)), w')"
proof -
  let ?v = "decided (a\<lparr>valueList := parsed cls vals\<rparr>)"
  have eq: "fst (action_round cls P' vals (a, w)) = a\<lparr>lastValue := applied ?v a\<rparr>"
    using action_round_eq [OF assms] by simp
  have "decided (a\<lparr>lastValue := x, valueList := parsed cls vals\<rparr>) = ?v" for x
    by (rule decided_cong) simp_all
  moreover have "idle_action (a\<lparr>lastValue := x\<rparr>)" for x using assms by (simp add: idle_action_def)
  ultimately show ?thesis by (simp add: eq action_round_eq differs_irrefl)
qed

end

section \<open>Timers of delayed values\<close>

lemma pending_append [simp]: "pending (m @ m') = pending m @ pending m'"
  by (simp add: pending_def)

lemma pending_insert:
  "sm_ok m \<Longrightarrow> sm_find m i = None \<Longrightarrow> delayTimerId d = 0 \<Longrightarrow> pending (sm_insert i d m) = pending m"
  by (induction i d m rule: sm_insert.induct) (auto simp: sm_ok_Cons)

lemma pending_assign_same:
  "sm_ok m \<Longrightarrow> sm_find m i = Some d \<Longrightarrow> isCompleted d' = isCompleted d \<Longrightarrow> delayTimerId d' = delayTimerId d \<Longrightarrow>
     pending (sm_assign i d' m) = pending m"
  by (induction i d' m rule: sm_assign.induct) (auto simp: sm_ok_Cons sm_find_below split: if_splits)

lemma pending_complete:
  "sm_ok m \<Longrightarrow> sm_find m i = Some d \<Longrightarrow> distinct (pending m) \<Longrightarrow> delayTimerId d \<noteq> 0 \<Longrightarrow> \<not> isCompleted d \<Longrightarrow>
     pending (sm_assign i (d\<lparr>isCompleted := True\<rparr>) m) = remove1 (delayTimerId d) (pending m)"
proof (induction i d m rule: sm_assign.induct)
  case (2 k v k' v' m)
  show ?case
  proof (cases "k = k'")
    case True
    with 2 show ?thesis by auto
  next
    case False
    with 2(3) have find: "sm_find m k = Some v" by simp
    with 2(2) have "\<not> k < k'" using sm_find_below [of k' v' m k] by auto
    moreover have "delayTimerId v \<in> set (pending m)"
      using find 2(5,6) by (force simp: pending_def dest: map_of_SomeD)
    ultimately show ?thesis using 2 False find by (auto simp: sm_ok_Cons)
  qed
qed simp

lemma live_stop_destroy:
  "live_timers (snd (ThermalTimer_DestroyTimer P i (snd (ThermalTimer_StopTimer P' i w)))) = live_timers w - {i}"
  by (simp add: timer_defs live_timers_def live_after_append)

lemma count_stop_destroy [simp]:
  "createCount (snd (ThermalTimer_DestroyTimer P i w)) = createCount w"
  "createCount (snd (ThermalTimer_StopTimer P i w)) = createCount w"
  by (simp_all add: timer_defs)

text \<open>The first loop: what it keeps, and the timers it destroys.\<close>

definition stale_timers :: "u32 list \<Rightarrow> (u32, PolicyDelayAction) smap \<Rightarrow> u64 set" where
  "stale_timers ids m = {delayTimerId d | i d. (i, d) \<in> set m \<and> i \<notin> set ids \<and> \<not> isCompleted d}"

lemma stale_timers_Cons:
  "stale_timers ids ((i, d) # m) = (if i \<notin> set ids \<and> \<not> isCompleted d then {delayTimerId d} else {}) \<union> stale_timers ids m"
  by (auto simp: stale_timers_def)

lemma drop_stale_kept: "fst (drop_stale P ids m w) = filter (\<lambda>(i, d). i \<in> set ids) m"
  by (induction P ids m w rule: drop_stale.induct) (simp_all add: Let_def split_def)

lemma drop_stale_live:
  "live_timers (snd (drop_stale P ids m w)) = live_timers w - stale_timers ids m \<and>
   createCount (snd (drop_stale P ids m w)) = createCount w"
proof (induction P ids m w rule: drop_stale.induct)
  case (1 P ids w)
  then show ?case by (simp add: stale_timers_def)
next
  case (2 P ids i d m w)
  then show ?case by (auto simp: Let_def split_def stale_timers_Cons live_stop_destroy)
qed

lemma pending_filter:
  assumes "distinct (pending m)"
  shows "set (pending (filter (\<lambda>(i, d). i \<in> set ids) m)) = set (pending m) - stale_timers ids m"
    and "distinct (pending (filter (\<lambda>(i, d). i \<in> set ids) m))"
proof -
  let ?kept = "\<lambda>m. filter (\<lambda>(i, d). i \<in> set ids) m"
  have sub: "set (pending (?kept m)) \<subseteq> set (pending m)" for m
    by (auto simp: pending_def)
  have zero: "0 \<notin> set (pending m)" for m by (auto simp: pending_def)
  have stale: "stale_timers ids m \<subseteq> insert 0 (set (pending m))" for m
    by (force simp: stale_timers_def pending_def)
  show "set (pending (?kept m)) = set (pending m) - stale_timers ids m"
    using assms
  proof (induction m)
    case (Cons p m)
    obtain i d where p: "p = (i, d)" by (cases p)
    with Cons show ?case using stale [of m] zero [of m] by (auto simp: stale_timers_Cons)
  qed simp
  show "distinct (pending (?kept m))" using assms
  proof (induction m)
    case (Cons p m)
    obtain i d where p: "p = (i, d)" by (cases p)
    with Cons show ?case using sub [of m] by auto
  qed simp
qed

text \<open>The second loop: the delayed values that wait for a timer, and the ids they get.\<close>

definition waits :: "PolicyDelayAction \<Rightarrow> bool" where
  "waits d \<longleftrightarrow> \<not> isCompleted d \<and> delayTimerId d = 0"

fun assign_ids :: "platform \<Rightarrow> nat \<Rightarrow> (u32, PolicyDelayAction) smap \<Rightarrow> (u32, PolicyDelayAction) smap" where
  "assign_ids P n [] = []"
| "assign_ids P n ((i, d) # m) =
     (if waits d then (i, d\<lparr>delayTimerId := newTimerId P n\<rparr>) # assign_ids P (Suc n) m else (i, d) # assign_ids P n m)"

fun new_ids :: "platform \<Rightarrow> nat \<Rightarrow> (u32, PolicyDelayAction) smap \<Rightarrow> u64 list" where
  "new_ids P n [] = []"
| "new_ids P n ((i, d) # m) = (if waits d then newTimerId P n # new_ids P (Suc n) m else new_ids P n m)"

lemma start_delays_eq: "fst (start_delays P m w) = assign_ids P (createCount w) m"
  by (induction P m w rule: start_delays.induct) (auto simp: Let_def split_def waits_def word_gt_0)

lemma start_delays_live:
  "0 \<notin> set (new_ids P (createCount w) m) \<Longrightarrow>
     live_timers (snd (start_delays P m w)) = live_timers w \<union> set (new_ids P (createCount w) m)"
proof (induction P m w rule: start_delays.induct)
  case (2 P i d m w)
  show ?case
  proof (cases "waits d")
    case True
    then have "\<not> (isCompleted d \<or> 0 < delayTimerId d)" by (simp add: waits_def)
    with 2 True show ?thesis by (auto simp: Let_def split_def)
  next
    case False
    then have "isCompleted d \<or> 0 < delayTimerId d" by (auto simp: waits_def word_gt_0)
    with 2 False show ?thesis by (simp add: Let_def split_def)
  qed
qed simp

lemma pending_assign_ids:
  "0 \<notin> set (new_ids P n m) \<Longrightarrow> mset (pending (assign_ids P n m)) = mset (pending m) + mset (new_ids P n m)"
  by (induction P n m rule: assign_ids.induct) (auto simp: waits_def)

lemma new_ids_prefix: "\<exists>k \<le> length m. new_ids P n m = map (newTimerId P) [n ..< n + k]"
proof (induction P n m rule: new_ids.induct)
  case (2 P n i d m)
  show ?case
  proof (cases "waits d")
    case True
    with 2(1) obtain k where "k \<le> length m" "new_ids P (Suc n) m = map (newTimerId P) [Suc n ..< Suc n + k]" by blast
    with True show ?thesis by (intro exI [of _ "Suc k"]) (simp add: upt_conv_Cons del: upt_Suc)
  next
    case False
    with 2(2) show ?thesis by (auto intro: le_SucI)
  qed
qed simp

lemma sm_ok_assign_ids [simp]: "sm_ok (assign_ids P n m) = sm_ok m"
proof -
  have "map fst (assign_ids P n m) = map fst m" by (induction P n m rule: assign_ids.induct) simp_all
  then show ?thesis by (simp add: sm_ok_def)
qed

lemma sm_ok_filter: "sm_ok m \<Longrightarrow> sm_ok (filter P m)"
  by (induction m) (auto simp: sm_ok_Cons split_paired_all)

text \<open>\<open>Execute\<close> keeps exactly the timers of the values that wait.\<close>

lemma fresh_new_ids:
  assumes "fresh_timers P w (length m)"
  shows "distinct (new_ids P (createCount w) m)" and "0 \<notin> set (new_ids P (createCount w) m)"
    and "set (new_ids P (createCount w) m) \<inter> live_timers w = {}"
proof -
  obtain k where k: "k \<le> length m" "new_ids P (createCount w) m = map (newTimerId P) [createCount w ..< createCount w + k]"
    using new_ids_prefix by blast
  then have sub: "{createCount w ..< createCount w + k} \<subseteq> {createCount w ..< createCount w + length m}" by auto
  show "distinct (new_ids P (createCount w) m)"
    using assms by (simp add: k fresh_timers_def distinct_map inj_on_subset [OF _ sub])
  have all: "newTimerId P i \<noteq> 0 \<and> newTimerId P i \<notin> live_timers w" if "i \<in> {createCount w ..< createCount w + k}" for i
    using assms subsetD [OF sub that] by (simp add: fresh_timers_def list_all_iff)
  show "0 \<notin> set (new_ids P (createCount w) m)" "set (new_ids P (createCount w) m) \<inter> live_timers w = {}"
    using all by (auto simp: k)
qed

lemma fresh_timers_mono: "fresh_timers P w k \<Longrightarrow> j \<le> k \<Longrightarrow> live_timers w' \<subseteq> live_timers w \<Longrightarrow> createCount w' = createCount w \<Longrightarrow> fresh_timers P w' j"
  by (auto simp: fresh_timers_def list_all_iff distinct_map intro: inj_on_subset)

lemma loops_timers:
  assumes ok: "delays_ok (a, w)" and fresh: "fresh_timers P w (length (policyActionMap a))"
    and drop: "drop_stale P (actionIdList a) (policyActionMap a) w = (m1, w1)"
    and start: "start_delays P m1 w1 = (m2, w2)"
  shows "sm_ok m2" and "distinct (pending m2)" and "live_timers w2 = set (pending m2)"
proof -
  let ?m = "policyActionMap a"
  have m: "sm_ok ?m" "distinct (pending ?m)" "live_timers w = set (pending ?m)" using ok by (simp_all add: delays_ok_def)
  have m1: "m1 = filter (\<lambda>(i, d). i \<in> set (actionIdList a)) ?m" using drop_stale_kept [of P "actionIdList a" ?m w] drop by simp
  have w1: "live_timers w1 = set (pending m1)" "createCount w1 = createCount w" "distinct (pending m1)"
    using drop_stale_live [of P "actionIdList a" ?m w] drop m pending_filter [OF m(2), of "actionIdList a"]
    by (simp_all add: m1)
  have "live_timers w1 \<subseteq> live_timers w" using w1(1) m(3) pending_filter(1) [OF m(2)] by (auto simp: m1)
  moreover have "length m1 \<le> length ?m" by (simp add: m1)
  ultimately have f1: "fresh_timers P w1 (length m1)" using fresh w1(2) by (blast intro: fresh_timers_mono)
  note new = fresh_new_ids [OF f1]
  have m2: "m2 = assign_ids P (createCount w1) m1" using start_delays_eq [of P m1 w1] start by simp
  have ms: "mset (pending m2) = mset (pending m1 @ new_ids P (createCount w1) m1)"
    using pending_assign_ids [OF new(2)] by (simp add: m2)
  have d: "distinct (pending m1 @ new_ids P (createCount w1) m1)" using new w1 by auto
  show "sm_ok m2" using sm_ok_filter [OF m(1)] by (simp add: m2 m1)
  show "distinct (pending m2)" using mset_eq_imp_distinct_iff [OF ms] d by simp
  have "set (pending m2) = set (pending m1) \<union> set (new_ids P (createCount w1) m1)"
    using mset_eq_setD [OF ms] by simp
  then show "live_timers w2 = set (pending m2)"
    using start_delays_live [OF new(2)] start w1(1) by simp
qed

text \<open>What can happen to an action between and during the rounds of the policy.\<close>

inductive action_step :: "action_class \<Rightarrow> action \<times> service_world \<Rightarrow> action \<times> service_world \<Rightarrow> bool" for cls where
  add_value: "action_step cls (a, w) (AddActionValue cls i v a, w)"
| add_delay: "\<not> isCompleted d \<Longrightarrow> delayTimerId d = 0 \<Longrightarrow>
     action_step cls (a, w) (IThermalAction_AddActionDelayTime i d a, w)"
| execute: "fresh_timers P w (length (policyActionMap a)) \<Longrightarrow> action_step cls (a, w) (IThermalAction_Execute cls P (a, w))"
| fires: "sm_find (policyActionMap a) i = Some d \<Longrightarrow> \<not> isCompleted d \<Longrightarrow> delayTimerId d \<noteq> 0 \<Longrightarrow>
     action_step cls (a, w) (delay_callback cls P i (a, w))"
| reset: "action_step cls (a, w) (ResetActionValue cls a, w)"
| flags: "action_step cls (a, w) (SetEnableEvent e (SetStrict b a), w)"

inductive_cases action_stepE: "action_step cls st st'"

inductive action_reach :: "action_class \<Rightarrow> string \<Rightarrow> action \<times> service_world \<Rightarrow> bool" for cls name where
  start: "live_timers w = {} \<Longrightarrow> action_reach cls name (new_action cls name, w)"
| step: "action_reach cls name st \<Longrightarrow> action_step cls st st' \<Longrightarrow> action_reach cls name st'"

context action_impl
begin

lemma delays_ok_value: "delays_ok (a, w) \<Longrightarrow> delays_ok (AddActionValue cls i v a, w)"
  by (auto simp: delays_ok_def AddActionValue_def pending_assign_same store_delay split: option.splits)

lemma delays_ok_delay:
  "delays_ok (a, w) \<Longrightarrow> delayTimerId d = 0 \<Longrightarrow> delays_ok (IThermalAction_AddActionDelayTime i d a, w)"
  by (auto simp: delays_ok_def IThermalAction_AddActionDelayTime_def Let_def pending_insert)

lemma delays_ok_inner:
  "delays_ok (a, w) \<Longrightarrow> delays_ok (ExecuteInner cls P (a, w))"
  using ExecuteInner_timers [of w P a] by (auto simp: delays_ok_def split_def dest: same_timers_live)

lemma delays_ok_execute:
  assumes "delays_ok (a, w)" and "fresh_timers P w (length (policyActionMap a))"
  shows "delays_ok (IThermalAction_Execute cls P (a, w))"
proof -
  obtain m1 w1 where d: "drop_stale P (actionIdList a) (policyActionMap a) w = (m1, w1)" by fastforce
  obtain m2 w2 where s: "start_delays P m1 w1 = (m2, w2)" by fastforce
  have "delays_ok (a\<lparr>policyActionMap := m2, actionIdList := []\<rparr>, w2)"
    using loops_timers [OF assms d s] by (simp add: delays_ok_def)
  then show ?thesis by (simp add: IThermalAction_Execute_def d s delays_ok_inner)
qed

lemma delays_ok_fires:
  assumes ok: "delays_ok (a, w)" and d: "sm_find (policyActionMap a) i = Some d" "\<not> isCompleted d" "delayTimerId d \<noteq> 0"
  shows "delays_ok (delay_callback cls P i (a, w))"
proof -
  let ?a = "a\<lparr>policyActionMap := sm_assign i (d\<lparr>isCompleted := True\<rparr>) (policyActionMap a)\<rparr>"
  let ?x = "ExecuteInner cls P (?a, w)"
  have "live_timers (snd ?x) = live_timers w" by (rule same_timers_live) (rule ExecuteInner_timers)
  moreover have "pending (sm_assign i (d\<lparr>isCompleted := True\<rparr>) (policyActionMap a)) =
      remove1 (delayTimerId d) (pending (policyActionMap a))"
    using ok d by (intro pending_complete) (auto simp: delays_ok_def)
  ultimately show ?thesis
    using ok d by (simp add: delays_ok_def delay_callback_def Let_def split_def live_stop_destroy)
qed

lemma delays_ok_step: "action_step cls st st' \<Longrightarrow> delays_ok st \<Longrightarrow> delays_ok st'"
proof (induction rule: action_step.induct)
  case (reset a w)
  then show ?case by (simp add: delays_ok_def ResetActionValue_def)
next
  case (flags a w e b)
  then show ?case by (simp add: delays_ok_def SetEnableEvent_def SetStrict_def)
qed (simp_all add: delays_ok_value delays_ok_delay delays_ok_execute delays_ok_fires)

lemma delays_ok_reach: "action_reach cls name st \<Longrightarrow> delays_ok st"
proof (induction rule: action_reach.induct)
  case (start w)
  then show ?case by (simp add: delays_ok_def new_action_def sm_ok_def)
next
  case (step st st')
  then show ?case by (blast intro: delays_ok_step)
qed

end

section \<open>The classes keep the contract\<close>

lemma same_timers_emit [simp]: "same_timers w (emit e w') = same_timers w w'" "observer (emit e w) = observer w"
  by (simp_all add: same_timers_def emit_def)

lemma same_timers_report [simp]:
  "same_timers w (report_value v a w') = same_timers w w'" "observer (report_value v a w) = observer w"
  "same_timers w (write_value p v w') = same_timers w w'" "observer (write_value p v w) = observer w"
  "same_timers w (WriteActionTriggeredHiSysEventWithRatio b n v w') = same_timers w w'"
  "observer (WriteActionTriggeredHiSysEventWithRatio b n v w) = observer w"
  by (simp_all add: report_value_def write_value_def WriteActionTriggeredHiSysEvent_def
      WriteActionTriggeredHiSysEventWithRatio_def)

lemmas soc_defs = SocActionBase_SocLimitRequest_def SocActionBase_SocPerfRequestEx_def
  SocActionBase_SetSocPerfThermalLevel_def SocActionBase_SocIsolateRequest_def SocActionBase_SetBoostEnable_def
  SocActionBase_SocNonVipRequest_def

interpretation cpu_big: action_impl ActionCpuBig
  by unfold_locales (simp_all add: ActionCpuBig_def uint_class_def soc_defs Let_def)

interpretation cpu_med: action_impl ActionCpuMed
  by unfold_locales (simp_all add: ActionCpuMed_def uint_class_def soc_defs)

interpretation cpu_lit: action_impl ActionCpuLit
  by unfold_locales (simp_all add: ActionCpuLit_def uint_class_def soc_defs)

interpretation gpu: action_impl ActionGpu
  by unfold_locales (simp_all add: ActionGpu_def uint_class_def soc_defs)

interpretation cpu_boost: action_impl ActionCpuBoost
  by unfold_locales (simp_all add: ActionCpuBoost_def uint_class_def soc_defs)

interpretation cpu_isolate: action_impl ActionCpuIsolate
  by unfold_locales (simp_all add: ActionCpuIsolate_def uint_class_def soc_defs)

interpretation cpu_nonvip: action_impl ActionCpuNonVip
  by unfold_locales (simp_all add: ActionCpuNonVip_def uint_class_def soc_defs)

interpretation socperf: action_impl ActionSocPerf
  by unfold_locales (simp_all add: ActionSocPerf_def uint_class_def soc_defs)

interpretation socperf_resource: action_impl ActionSocPerfResource
  by unfold_locales (simp_all add: ActionSocPerfResource_def uint_class_def soc_defs)

lemma same_timers_limits [simp]:
  "same_timers w (w'\<lparr>currentLimitList := l\<rparr>) = same_timers w w'"
  "same_timers w (w'\<lparr>voltageLimitList := l\<rparr>) = same_timers w w'"
  "same_timers w (w'\<lparr>isThermalAirplane := b\<rparr>) = same_timers w w'"
  "same_timers w (w'\<lparr>effects := es\<rparr>) = same_timers w w'"
  by (simp_all add: same_timers_def)

interpretation charger: action_impl ActionCharger
  by unfold_locales (simp_all add: ActionCharger_def uint_class_def ActionCharger_ChargerRequest_def
      ActionCharger_WriteSimValue_def Let_def)

interpretation voltage: action_impl ActionVoltage
  by unfold_locales (simp_all add: ActionVoltage_def uint_class_def ActionVoltage_SetVoltage_def
      ActionVoltage_WriteMockNode_def)

interpretation airplane: action_impl ActionAirplane
  by unfold_locales (simp_all add: ActionAirplane_def uint_class_def ActionAirplane_AirplaneRequest_def
      ActionAirplane_AirplaneExecution_def)

interpretation popup: action_impl ActionPopup
  by unfold_locales (simp_all add: ActionPopup_def uint_class_def ActionPopup_HandlePopupEvent_def)

interpretation shutdown: action_impl ActionShutdown
  by unfold_locales (simp_all add: ActionShutdown_def uint_class_def ActionShutdown_ShutdownRequest_def
      ActionShutdown_ShutdownExecution_def)

interpretation process: action_impl ActionApplicationProcess
  by unfold_locales (simp_all add: ActionApplicationProcess_def uint_class_def
      ActionApplicationProcess_ProcessAppActionExecution_def)

interpretation node: action_impl ActionNode
  by unfold_locales (simp_all add: ActionNode_def)

interpretation display: action_impl "ActionDisplay strtof"
  by unfold_locales (simp_all add: ActionDisplay_def float_class_def ActionDisplay_RequestDisplay_def
      ActionDisplay_ExecuteMock_def)

interpretation volume: action_impl "ActionVolume strtof"
  by unfold_locales (simp_all add: ActionVolume_def float_class_def ActionVolume_VolumeExecution_def)

interpretation thermal_level: action_impl ActionThermalLevel
  by unfold_locales (simp_all add: ActionThermalLevel_def uint_class_def ActionThermalLevel_LevelRequest_def
      ActionThermalLevel_NotifyThermalLevelChanged_def Let_def)

lemmas class_impls = airplane.action_impl_axioms cpu_big.action_impl_axioms cpu_med.action_impl_axioms
  cpu_lit.action_impl_axioms gpu.action_impl_axioms shutdown.action_impl_axioms thermal_level.action_impl_axioms
  popup.action_impl_axioms charger.action_impl_axioms voltage.action_impl_axioms cpu_boost.action_impl_axioms
  cpu_isolate.action_impl_axioms cpu_nonvip.action_impl_axioms process.action_impl_axioms socperf.action_impl_axioms
  socperf_resource.action_impl_axioms node.action_impl_axioms display.action_impl_axioms volume.action_impl_axioms

lemma class_of_impl: "action_impl (class_of strtof k)"
  by (cases k) (simp_all add: class_impls)

section \<open>Properties\<close>


text \<open>A \<open>strtof\<close> to try the classes on.\<close>

definition sample_strtof :: "string \<Rightarrow> int" where
  "sample_strtof s = (if s = ''0.5'' then 2 ^ 148 else if s = ''0.8'' then 13421773 * 2 ^ 125 else FLOAT_ONE)"

definition sample_delay :: PolicyDelayAction where
  "sample_delay = \<lparr>isCompleted = False, intDelayValue = 0, uintDelayValue = 0, floatDelayValue = 0, delayTime = 5000, delayTimerId = 0\<rparr>"

definition sample_idle :: IdleState where
  "sample_idle = \<lparr>idle_level = 0, idle_soc = 0, idle_charging = 0, idle_current = 0\<rparr>"

definition sample_world :: service_world where
  "sample_world = \<lparr>timerCalls = [], createCount = 0, initFlag = False, stateCollectionMap = [], vState = [],
     receiver = None, idleStateConfig = sample_idle,
     charger_instance = \<lparr>chg_state = [], chg_params = [], chg_mockState = [], chg_isCharge = False\<rparr>,
     g_idleStateConfig = sample_idle, g_cachedIdleState = sample_idle, g_isChargeIdle = True, publishedIdle = [],
     scene = [], isSimulation = False, effects = [], observer = Observer_new, userAirplaneState = False,
     isThermalAirplane = False, currentLimitList = [], voltageLimitList = [], syncThermalLevelListeners = [],
     asyncThermalLevelListeners = [], levelWatched = []\<rparr>"

lemma sample_world_simps [simp]:
  "live_timers sample_world = {}" "createCount sample_world = 0" "isSimulation sample_world = False"
  by (simp_all add: sample_world_def live_timers_def)


text \<open>
  An action acts on changes only: a round of the policy that adds the same values as
  the round before leaves the action and the whole system as they were.
\<close>

theorem action_round_repeats_nothing:
  "idle_action a \<Longrightarrow>
     action_round (class_of strtof k) P' vals (fst (action_round (class_of strtof k) P vals (a, w)), w') =
       (fst (action_round (class_of strtof k) P vals (a, w)), w')"
  using action_impl.action_round_again [OF class_of_impl] by blast

theorem action_round_repeats_nothing_witness:
  "action_round ActionCpuBig sample_platform [''1200'']
      (fst (action_round ActionCpuBig sample_platform [''1200''] (new_action ActionCpuBig ''cpu_big'', sample_world)),
       sample_world) =
    (fst (action_round ActionCpuBig sample_platform [''1200''] (new_action ActionCpuBig ''cpu_big'', sample_world)),
     sample_world)"
  using action_round_repeats_nothing [of "new_action ActionCpuBig ''cpu_big''" sample_strtof KCpuBig]
  by (simp add: idle_action_def new_action_def)

section \<open>Arbitration\<close>

lemma strtol_u32_to_dec: "n < 2 ^ 32 \<Longrightarrow> strtol_u32 (to_dec n) = of_nat n"
  by (simp add: strtol_u32_def c_str_digits [OF to_dec_digits] strtol_def scan_dec_digits [OF to_dec_nonempty to_dec_digits] Let_def)

text \<open>The classes whose values are read by \<open>strtol\<close> into a \<open>uint32_t\<close>.\<close>

definition strtol_kind :: "action_kind \<Rightarrow> bool" where
  "strtol_kind k \<longleftrightarrow> k \<in> {KCpuBig, KCpuMed, KCpuLit, KGpu, KShutdown, KPopup, KCharger, KVoltage, KCpuBoost,
     KCpuIsolate, KCpuNonVip, KProcess}"

lemma strtol_kind_class:
  assumes "strtol_kind k"
  shows "cls_parse (class_of strtof k) = parse_strtol_u32" and "cls_result (class_of strtof k) = id"
    and "cls_differs (class_of strtof k) = (\<noteq>)" and "cls_print (class_of strtof k) = to_string_int"
  using assms by (auto simp: strtol_kind_def uint_class_def ActionCpuBig_def ActionCpuMed_def
      ActionCpuLit_def ActionGpu_def ActionShutdown_def ActionPopup_def ActionCharger_def ActionVoltage_def
      ActionCpuBoost_def ActionCpuIsolate_def ActionCpuNonVip_def ActionApplicationProcess_def)

lemma parsed_decimals:
  "cls_parse cls = parse_strtol_u32 \<Longrightarrow> \<forall>n \<in> set ns. n < 2 ^ 32 \<Longrightarrow> parsed cls (map to_dec ns) = map int ns"
  by (induction ns) (auto simp: parsed_def parse_strtol_u32_def strtol_u32_to_dec unsigned_of_nat take_bit_nat_eq_self)

lemma strictest_round:
  assumes "strtol_kind k" and "idle_action a" and "ns \<noteq> []" and "\<forall>n \<in> set ns. n < 2 ^ 32"
  defines "v \<equiv> int (if isStrict a then Min (set ns) else Max (set ns))"
  shows "action_round (class_of strtof k) P (map to_dec ns) (a, w) =
    (a\<lparr>lastValue := v\<rparr>,
     if v = lastValue a then w
     else tell_observer (ThermalObserver_SetDecisionValue (actionName a) (to_string_int v))
            (cls_apply (class_of strtof k) P v (a\<lparr>valueList := map int ns\<rparr>) w))"
proof -
  let ?cls = "class_of strtof k"
  note c = strtol_kind_class [OF assms(1)]
  have impl: "action_impl ?cls" by (rule class_of_impl)
  have vals: "parsed ?cls (map to_dec ns) = map int ns" by (rule parsed_decimals [OF c(1) assms(4)])
  have decided: "GetActionValue ?cls (push_completed ?cls (a\<lparr>valueList := map int ns\<rparr>)) = v"
    using assms(2,3) mono_Min_commute [of int "set ns"] mono_Max_commute [of int "set ns"]
    by (simp add: GetActionValue_def push_completed_def idle_action_def c(2) mono_def v_def)
  show ?thesis
    unfolding Let_def action_impl.action_round_eq [OF impl assms(2)] vals decided c(3,4) by simp
qed

text \<open>
  C26: an action that is given decimal values applies the smallest of them if it is strict,
  otherwise the largest, and reports it to the observer, if it differs from the last one;
  otherwise it does nothing.
\<close>

theorem action_applies_strictest:
  assumes "strtol_kind k" and "idle_action a" and "ns \<noteq> []" and "\<forall>n \<in> set ns. n < 2 ^ 32"
  shows "let v = int (if isStrict a then Min (set ns) else Max (set ns)) in
    action_round (class_of strtof k) P (map to_dec ns) (a, w) =
     (a\<lparr>lastValue := v\<rparr>,
      if v = lastValue a then w
      else tell_observer (ThermalObserver_SetDecisionValue (actionName a) (to_string_int v))
             (cls_apply (class_of strtof k) P v (a\<lparr>valueList := map int ns\<rparr>) w))"
  unfolding Let_def by (rule strictest_round [OF assms])

theorem action_applies_strictest_witness:
  "fst (action_round ActionCpuBig sample_platform (map to_dec [1200, 900])
      (new_action ActionCpuBig ''cpu_big'', sample_world)) = (new_action ActionCpuBig ''cpu_big'')\<lparr>lastValue := 900\<rparr>"
  using action_applies_strictest [of KCpuBig "new_action ActionCpuBig ''cpu_big''" "[1200, 900]"
      sample_strtof sample_platform sample_world]
  by (simp add: strtol_kind_def idle_action_def new_action_def Let_def split_def del: list.map)

section \<open>The announced thermal level\<close>

lemma to_int32_nat [simp]: "n < 2 ^ 31 \<Longrightarrow> to_int32 (int n) = int n"
  by (simp add: to_int32_def signed_of_nat signed_take_bit_int_eq_self)

lemma thermal_level_round:
  assumes "idle_action a" and "ns \<noteq> []" and "\<forall>n \<in> set ns. n < 2 ^ 31"
  defines "v \<equiv> int (if isStrict a then Min (set ns) else Max (set ns))"
  shows "action_round ActionThermalLevel P (map to_dec ns) (a, w) =
    (a\<lparr>lastValue := v\<rparr>,
     if v = lastValue a then w
     else tell_observer (ThermalObserver_SetDecisionValue (actionName a) (to_string_int v))
            (ActionThermalLevel_NotifyThermalLevelChanged (min MAX_THERMAL_LEVEL v) w))"
proof -
  have "cls_parse ActionThermalLevel = parse_strtol_u32" by (simp add: ActionThermalLevel_def uint_class_def)
  moreover have "\<forall>n \<in> set ns. n < 2 ^ 32" using assms(3) by auto
  ultimately have vals: "parsed ActionThermalLevel (map to_dec ns) = map int ns" by (rule parsed_decimals)
  have in31: "Min (set ns) < 2 ^ 31" "Max (set ns) < 2 ^ 31" using assms(2,3) by (auto simp: Min_less_iff)
  have decided: "GetActionValue ActionThermalLevel (push_completed ActionThermalLevel (a\<lparr>valueList := map int ns\<rparr>)) = v"
    using assms(1,2) in31 mono_Min_commute [of int "set ns"] mono_Max_commute [of int "set ns"]
    by (auto simp: GetActionValue_def push_completed_def idle_action_def mono_def v_def ActionThermalLevel_def
        uint_class_def dest: sym)
  have "ActionThermalLevel_LevelRequest v = ActionThermalLevel_NotifyThermalLevelChanged (min MAX_THERMAL_LEVEL v)"
    by (auto simp: ActionThermalLevel_LevelRequest_def Let_def min_def v_def)
  then show ?thesis
    unfolding thermal_level.action_round_eq [OF assms(1)] vals decided
    by (simp add: ActionThermalLevel_def uint_class_def)
qed

text \<open>
  When the decided thermal level changes, the level, cut to at most 7, is published once
  and every asynchronous and every synchronous listener is told it once; when it does not
  change nothing is announced.
\<close>

theorem thermal_level_announced_once:
  assumes "idle_action a" and "ns \<noteq> []" and "\<forall>n \<in> set ns. n < 2 ^ 31"
  shows "let v = int (if isStrict a then Min (set ns) else Max (set ns));
             l = min MAX_THERMAL_LEVEL v;
             w' = snd (action_round ActionThermalLevel P (map to_dec ns) (a, w)) in
    effects w' = effects w @ (if v = lastValue a then []
      else PublishLevelChanged l # map (\<lambda>i. OnAsyncThermalLevelChanged i l) (asyncThermalLevelListeners w) @
             map (\<lambda>i. OnThermalLevelChanged i l) (syncThermalLevelListeners w))"
  unfolding Let_def thermal_level_round [OF assms]
  by (simp add: ActionThermalLevel_NotifyThermalLevelChanged_def tell_observer_def)

definition level_world :: service_world where
  "level_world = sample_world\<lparr>syncThermalLevelListeners := [3], asyncThermalLevelListeners := [1, 2]\<rparr>"

lemma ActionThermalLevel_initial: "cls_initial ActionThermalLevel = INT_MIN"
  by (simp add: ActionThermalLevel_def uint_class_def)

theorem thermal_level_announced_once_witness:
  "effects (snd (action_round ActionThermalLevel sample_platform (map to_dec [9])
      (new_action ActionThermalLevel ''thermallevel'', level_world))) =
    [PublishLevelChanged 7, OnAsyncThermalLevelChanged 1 7, OnAsyncThermalLevelChanged 2 7, OnThermalLevelChanged 3 7]"
  using thermal_level_announced_once [of "new_action ActionThermalLevel ''thermallevel''" "[9]"
      sample_platform level_world]
  by (simp add: idle_action_def new_action_def level_world_def sample_world_def Let_def
      ActionThermalLevel_initial)

text \<open>
  The cut to 7 is lost on the other two ways to learn the level: a listener that
  subscribes after a decision above 7, and the query of the level, get the decided value.
\<close>

theorem thermal_level_not_clamped:
  assumes "idle_action a" and "7 < n" and "n < 2 ^ 31" and "l \<notin> set (syncThermalLevelListeners w)"
    and "sm_find (managedActions mgr) THERMAL_LEVEL_NAME =
      Some (KThermalLevel, fst (action_round ActionThermalLevel P [to_dec n] (a, w)))"
  shows "effects (ThermalActionManager_SubscribeThermalLevelCallback (Some l) True mgr w) =
      effects w @ [OnThermalLevelChanged l (int n)] \<and> ThermalActionManager_GetThermalLevel mgr = int n"
proof (intro conjI)
  have m: "thermal_level_action mgr = Some (a\<lparr>lastValue := int n\<rparr>)"
    using thermal_level_round [OF assms(1), of "[n]" P w] assms(3,5) by (simp add: thermal_level_action_def)
  show "effects (ThermalActionManager_SubscribeThermalLevelCallback (Some l) True mgr w) =
      effects w @ [OnThermalLevelChanged l (int n)]"
    using assms(4) by (simp add: ThermalActionManager_SubscribeThermalLevelCallback_def m
        ActionThermalLevel_SubscribeThermalLevelCallback_def ActionThermalLevel_AddThermalLevelListeners_def emit_def)
  show "ThermalActionManager_GetThermalLevel mgr = int n"
    using assms(3) by (simp add: ThermalActionManager_GetThermalLevel_def m unsigned_of_nat take_bit_nat_eq_self)
qed

theorem thermal_level_not_clamped_witness:
  "let a = fst (action_round ActionThermalLevel sample_platform [to_dec 9]
         (new_action ActionThermalLevel ''thermallevel'', sample_world));
       mgr = \<lparr>vActionItem = [], managedActions = [(''thermallevel'', KThermalLevel, a)]\<rparr> in
   effects (ThermalActionManager_SubscribeThermalLevelCallback (Some 4) True mgr sample_world) =
     [OnThermalLevelChanged 4 9]"
  using thermal_level_not_clamped [of "new_action ActionThermalLevel ''thermallevel''" 9 4 sample_world
      "\<lparr>vActionItem = [], managedActions = [(''thermallevel'', KThermalLevel,
        fst (action_round ActionThermalLevel sample_platform [to_dec 9]
          (new_action ActionThermalLevel ''thermallevel'', sample_world)))]\<rparr>" sample_platform]
  by (simp add: idle_action_def new_action_def sample_world_def Let_def)

end
