(* ===== verification/Policy_Proofs.thy ===== *)
theory Policy_Proofs
  imports Thermal_Policy Sensor_Cluster_Proofs Action_Proofs
begin

text \<open>
  What the policy guarantees. \<open>policy_values\<close> says which values an action should get: one
  from each cluster whose level selects a policy that names the action, the last one whose
  conditions hold. \<open>PolicyDecision\<close> is shown to give every action exactly these values and
  to execute it, so that every action ends up with the strictest of them, and a second
  decision on the same levels changes nothing.
\<close>

section \<open>The specification\<close>

text \<open>\<open>sat\<close> says which actions' conditions hold.\<close>

definition satisfied :: "(PolicyAction \<Rightarrow> bool) \<Rightarrow> PolicyAction \<Rightarrow> bool" where
  "satisfied sat pa \<longleftrightarrow> \<not> pa_isProp pa \<or> sat pa"

definition winner :: "(PolicyAction \<Rightarrow> bool) \<Rightarrow> PolicyAction list \<Rightarrow> string \<Rightarrow> PolicyAction option" where
  "winner sat l name = find (\<lambda>pa. pa_actionName pa = name \<and> satisfied sat pa) (rev l)"

definition cluster_values :: "(PolicyAction \<Rightarrow> bool) \<Rightarrow> (string, nat) smap \<Rightarrow> string \<times> PolicyConfig list \<Rightarrow> string \<Rightarrow>
    string list" where
  "cluster_values sat levels = (\<lambda>(clusterName, cfgs) name.
     if clusterName = [] then []
     else case sm_find levels clusterName of
            None \<Rightarrow> []
          | Some lev \<Rightarrow>
              (case policy_choice lev cfgs of
                 None \<Rightarrow> []
               | Some cfg \<Rightarrow>
                   (case winner sat (pc_policyActionList cfg) name of None \<Rightarrow> [] | Some pa \<Rightarrow> [pa_actionValue pa])))"

definition policy_values :: "(PolicyAction \<Rightarrow> bool) \<Rightarrow> Policy \<Rightarrow> string \<Rightarrow> string list" where
  "policy_values sat p name = concat (map (\<lambda>c. cluster_values sat (clusterLevelMap p) c name) (clusterPolicyMap p))"

fun run_rounds :: "(string \<Rightarrow> int) \<Rightarrow> platform \<Rightarrow> (string \<Rightarrow> string list) \<Rightarrow> action_map \<Rightarrow> service_world \<Rightarrow>
    action_map \<times> service_world" where
  "run_rounds strtof P V [] w = ([], w)"
| "run_rounds strtof P V ((name, k, a) # rest) w =
     (let (a, w) = action_round (class_of strtof k) P (V name) (a, w);
          (rest, w) = run_rounds strtof P V rest w
      in ((name, k, a) # rest, w))"

text \<open>The actions of a policy, and when they are plain: conditions decided, no delays.\<close>

definition policy_actions :: "Policy \<Rightarrow> PolicyAction set" where
  "policy_actions p = (\<Union>(name, cfgs) \<in> set (clusterPolicyMap p). \<Union>cfg \<in> set cfgs. set (pc_policyActionList cfg))"

definition plain_action :: "platform \<Rightarrow> (PolicyAction \<Rightarrow> bool) \<Rightarrow> service_world \<Rightarrow> PolicyAction \<Rightarrow> bool" where
  "plain_action P sat w pa \<longleftrightarrow> pa_isProp pa \<longrightarrow>
     sm_find (pa_actionPropMap pa) DELAY_TIME_FLAG = None \<and>
     ThermalPolicy_StateMachineDecision P (pa_actionPropMap pa) w = Inr (sat pa, w)"

section \<open>The decision gives every action its values\<close>

definition give_values :: "(string \<Rightarrow> int) \<Rightarrow> (string \<Rightarrow> string list) \<Rightarrow> action_map \<Rightarrow> action_map" where
  "give_values strtof V = map (\<lambda>(name, k, a). (name, k, fold (AddActionValue (class_of strtof k) 0) (V name) a))"

lemma give_values_again: "give_values strtof V' (give_values strtof V acts) = give_values strtof (\<lambda>n. V n @ V' n) acts"
  by (simp add: give_values_def split_def)

lemma give_values_none: "(\<And>n. n \<in> fst ` set acts \<Longrightarrow> V n = []) \<Longrightarrow> give_values strtof V acts = acts"
  by (induction acts) (auto simp: give_values_def)

lemma keys_give_values [simp]: "map fst (give_values strtof V acts) = map fst acts"
  by (simp add: give_values_def split_def comp_def)

lemma sm_ok_give_values [simp]: "sm_ok (give_values strtof V acts) = sm_ok acts"
  by (simp add: sm_ok_def)

lemma execute_give_values: "execute_all strtof P (give_values strtof V acts) w = run_rounds strtof P V acts w"
  by (induction acts arbitrary: w) (auto simp: give_values_def action_round_def split: prod.split)

lemma sm_assign_give:
  "sm_ok acts \<Longrightarrow> sm_find acts name = Some (k, a) \<Longrightarrow>
     sm_assign name (k, AddActionValue (class_of strtof k) 0 v a) acts = give_values strtof (\<lambda>n. if n = name then [v] else []) acts"
proof (induction acts)
  case (Cons e acts)
  obtain n k' a' where e: "e = (n, k', a')" by (cases e) auto
  show ?case
  proof (cases "n = name")
    case True
    have "name \<notin> fst ` set acts" using Cons.prems(1) by (auto simp: e True sm_ok_Cons)
    then have "give_values strtof (\<lambda>n. if n = name then [v] else []) acts = acts" by (intro give_values_none) auto
    then show ?thesis using Cons.prems by (simp add: e True give_values_def)
  next
    case False
    then have "name \<in> fst ` set acts" using Cons.prems(2) by (force simp: e dest: map_of_SomeD)
    then have "n < name" using Cons.prems(1) by (auto simp: e sm_ok_Cons)
    then show ?thesis using Cons False by (auto simp: e sm_ok_Cons give_values_def)
  qed
qed simp

lemma collect_plain:
  assumes "\<forall>pa \<in> set l. plain_action P sat w pa"
  shows "collect_actions P l infos w = Inr (fold (\<lambda>pa infos. if satisfied sat pa then sm_assign (pa_actionName pa) pa infos else infos) l infos, w)"
  using assms by (induction l arbitrary: infos) (auto simp: plain_action_def satisfied_def)

definition collected :: "(PolicyAction \<Rightarrow> bool) \<Rightarrow> PolicyAction list \<Rightarrow> (string, PolicyAction) smap" where
  "collected sat l = fold (\<lambda>pa infos. if satisfied sat pa then sm_assign (pa_actionName pa) pa infos else infos) l []"

lemma collected_winner: "sm_ok (collected sat l) \<and> sm_find (collected sat l) name = winner sat l name"
  unfolding collected_def
proof (induction l rule: rev_induct)
  case Nil
  then show ?case by (simp add: winner_def)
next
  case (snoc pa l)
  then show ?case by (auto simp: winner_def split: option.splits)
qed

lemma add_collected:
  assumes "distinct (map fst infos)" and "\<forall>pa \<in> snd ` set infos. plain_action P sat w pa" and "sm_ok acts"
  shows "foldr_result (add_policy_action strtof uninit) infos acts =
    Inr (give_values strtof (\<lambda>n. case sm_find infos n of None \<Rightarrow> [] | Some pa \<Rightarrow> [pa_actionValue pa]) acts)"
  using assms
proof (induction infos arbitrary: acts)
  case Nil
  then show ?case by (simp add: give_values_none)
next
  case (Cons e infos)
  obtain name pa where e: "e = (name, pa)" by (cases e) auto
  let ?one = "\<lambda>n. if n = name then [pa_actionValue pa] else []"
  have one: "add_policy_action strtof uninit e acts = Inr (give_values strtof ?one acts)"
  proof (cases "sm_find acts name")
    case None
    then have "give_values strtof ?one acts = acts"
      by (intro give_values_none) (auto simp: map_of_eq_None_iff)
    with None show ?thesis by (simp add: e add_policy_action_def)
  next
    case (Some ka)
    obtain k a where "ka = (k, a)" by (cases ka)
    with Some Cons.prems(2,3) sm_assign_give [of acts name k a strtof "pa_actionValue pa"] show ?thesis
      by (simp add: e add_policy_action_def plain_action_def)
  qed
  have none: "sm_find infos name = None" using Cons.prems(1) by (simp add: e map_of_eq_None_iff)
  have "(\<lambda>n. ?one n @ (case sm_find infos n of None \<Rightarrow> [] | Some pa \<Rightarrow> [pa_actionValue pa])) =
      (\<lambda>n. case sm_find (e # infos) n of None \<Rightarrow> [] | Some pa \<Rightarrow> [pa_actionValue pa])"
    using none by (auto simp: e)
  with one Cons show ?case by (simp add: give_values_again)
qed

lemma ActionDecision_plain:
  assumes "\<forall>pa \<in> set l. plain_action P sat w pa" and "sm_ok acts"
  shows "ThermalPolicy_ActionDecision strtof P uninit l (acts, w) =
    Inr (give_values strtof (\<lambda>n. case winner sat l n of None \<Rightarrow> [] | Some pa \<Rightarrow> [pa_actionValue pa]) acts, w)"
proof -
  let ?infos = "collected sat l"
  note ok = collected_winner [THEN conjunct1, of sat l] and found = collected_winner [THEN conjunct2, of sat l]
  have "\<forall>pa \<in> snd ` set ?infos. plain_action P sat w pa"
  proof (clarsimp, goal_cases)
    case (1 n pa)
    then have "winner sat l n = Some pa" using ok found by (simp add: sm_find_mem)
    then have "pa \<in> set l" by (auto simp: winner_def find_Some_iff) (metis length_rev nth_mem set_rev)
    then show ?case using assms(1) by simp
  qed
  from add_collected [OF sm_ok_distinct [OF ok] this assms(2)] show ?thesis
    by (simp add: ThermalPolicy_ActionDecision_def collect_plain [OF assms(1)] found flip: collected_def)
qed

lemma policy_choice_mem: "policy_choice lev cfgs = Some cfg \<Longrightarrow> cfg \<in> set cfgs"
  by (auto simp: policy_choice_def find_Some_iff) (metis length_rev nth_mem set_rev)

lemma decide_cluster_plain:
  assumes "\<forall>cfg \<in> set cfgs. \<forall>pa \<in> set (pc_policyActionList cfg). plain_action P sat w pa" and "sm_ok acts"
  shows "decide_cluster strtof P uninit levels (name, cfgs) (acts, w) =
    Inr (give_values strtof (cluster_values sat levels (name, cfgs)) acts, w)"
proof (cases "sm_find levels name")
  case None
  then show ?thesis by (simp add: decide_cluster_def cluster_values_def give_values_none)
next
  case (Some lev)
  show ?thesis
  proof (cases "policy_choice lev cfgs")
    case None
    with Some show ?thesis by (simp add: decide_cluster_def cluster_values_def give_values_none)
  next
    case (Some cfg)
    then have cfg: "cfg \<in> set cfgs" by (rule policy_choice_mem)
    then have "\<forall>pa \<in> set (pc_policyActionList cfg). plain_action P sat w pa" using assms(1) by blast
    from ActionDecision_plain [OF this assms(2)] Some \<open>sm_find levels name = Some lev\<close> cfg show ?thesis
      by (auto simp: decide_cluster_def cluster_values_def give_values_none)
  qed
qed

lemma decide_clusters_plain:
  assumes "\<forall>(name, cfgs) \<in> set cs. \<forall>cfg \<in> set cfgs. \<forall>pa \<in> set (pc_policyActionList cfg). plain_action P sat w pa"
    and "sm_ok acts"
  shows "foldr_result (decide_cluster strtof P uninit levels) cs (acts, w) =
    Inr (give_values strtof (\<lambda>n. concat (map (\<lambda>c. cluster_values sat levels c n) cs)) acts, w)"
  using assms
proof (induction cs arbitrary: acts)
  case Nil
  then show ?case by (simp add: give_values_none)
next
  case (Cons c cs)
  obtain name cfgs where c: "c = (name, cfgs)" by (cases c)
  have "decide_cluster strtof P uninit levels c (acts, w) = Inr (give_values strtof (cluster_values sat levels c) acts, w)"
    unfolding c using Cons.prems by (intro decide_cluster_plain) (simp_all add: c)
  with Cons show ?case by (simp add: give_values_again)
qed

lemma PolicyDecision_plain:
  assumes "\<forall>pa \<in> policy_actions p. plain_action P sat w pa" and "sm_ok (managedActions mgr)"
  shows "ThermalPolicy_PolicyDecision strtof P uninit (p, mgr, w) =
    (let (acts, w') = run_rounds strtof P (policy_values sat p) (managedActions mgr) (ThermalPolicy_PrintPolicyState p w)
     in Inr (p, mgr\<lparr>managedActions := acts\<rparr>,
          ActionVoltage_ExecuteVoltageLimit P (ActionCharger_ExecuteCurrentLimit P
            (emit SubmitFindSubscribeActionValue w'))))"
proof -
  have "\<forall>(name, cfgs) \<in> set (clusterPolicyMap p). \<forall>cfg \<in> set cfgs. \<forall>pa \<in> set (pc_policyActionList cfg).
      plain_action P sat w pa"
    using assms(1) by (auto simp: policy_actions_def)
  from decide_clusters_plain [OF this assms(2)] show ?thesis
    by (simp add: ThermalPolicy_PolicyDecision_def ThermalPolicy_ActionExecution_def execute_give_values Let_def
        policy_values_def [abs_def] split_def)
qed

text \<open>What a round does to an action does not depend on the world.\<close>

lemma run_rounds_actions:
  assumes "\<forall>(name, k, a) \<in> set acts. idle_action a"
  shows "fst (run_rounds strtof P V acts w) = map (\<lambda>(name, k, a). (name, k, fst (action_round (class_of strtof k) P (V name) (a, w0)))) acts"
  using assms
proof (induction acts arbitrary: w)
  case (Cons e acts)
  obtain name k a where e: "e = (name, k, a)" by (cases e)
  then have idle: "idle_action a" using Cons.prems by auto
  show ?case using Cons by (simp add: e Let_def split_def action_impl.action_round_eq [OF class_of_impl idle])
qed simp

lemma run_rounds_again:
  assumes "\<forall>(name, k, a) \<in> set acts. idle_action a"
  shows "run_rounds strtof P V (fst (run_rounds strtof P V acts w)) w' = (fst (run_rounds strtof P V acts w), w')"
  using assms
proof (induction acts arbitrary: w w')
  case (Cons e acts)
  obtain name k a where e: "e = (name, k, a)" by (cases e)
  then have idle: "idle_action a" using Cons.prems by auto
  show ?case using Cons by (simp add: e Let_def split_def action_impl.action_round_again [OF class_of_impl idle])
qed simp

lemma map_of_rounds: "map_of (map (\<lambda>(name, k, a). (name, k, f name k a)) acts) name =
    map_option (\<lambda>(k, a). (k, f name k a)) (map_of acts name)"
  by (induction acts) auto

lemma run_rounds_keys: "map fst (fst (run_rounds strtof P V acts w)) = map fst acts"
  by (induction acts arbitrary: w) (auto simp: split_def Let_def)

lemma limits_passed_on:
  assumes "batteryInterface P" and "SetChargingLimit_ok P"
  shows "currentLimitList (ActionVoltage_ExecuteVoltageLimit P (ActionCharger_ExecuteCurrentLimit P w)) = []"
    and "voltageLimitList (ActionVoltage_ExecuteVoltageLimit P w) = []"
  using assms by (simp_all add: ActionVoltage_ExecuteVoltageLimit_def ActionCharger_ExecuteCurrentLimit_def Let_def emit_def)

lemma no_limits:
  "currentLimitList w = [] \<Longrightarrow> voltageLimitList w = [] \<Longrightarrow>
     ActionVoltage_ExecuteVoltageLimit P (ActionCharger_ExecuteCurrentLimit P w) = w"
  by (simp add: ActionVoltage_ExecuteVoltageLimit_def ActionCharger_ExecuteCurrentLimit_def)

section \<open>Properties of the decision\<close>




section \<open>A policy to try it on\<close>

definition sample_policy :: Policy where
  "sample_policy =
     \<lparr>typeTempMap = [(''battery'', 46000)], sensorClusterMap = [(''base'', sample_cluster)],
      clusterLevelMap = [(''base'', 2)],
      clusterPolicyMap = [(''base'',
        [\<lparr>pc_level = 1, pc_policyActionList = [\<lparr>pa_actionName = ''cpu_big'', pa_actionValue = to_dec 1200,
            pa_actionPropMap = [], pa_isProp = False\<rparr>]\<rparr>,
         \<lparr>pc_level = 2, pc_policyActionList = [\<lparr>pa_actionName = ''cpu_big'', pa_actionValue = to_dec 900,
            pa_actionPropMap = [], pa_isProp = False\<rparr>]\<rparr>])]\<rparr>"

definition sample_manager :: ActionManager where
  "sample_manager = \<lparr>vActionItem = [], managedActions = [(''cpu_big'', KCpuBig, new_action ActionCpuBig ''cpu_big'')]\<rparr>"

lemma sample_policy_plain: "\<forall>pa \<in> policy_actions sample_policy. plain_action P sat w pa"
  by (simp add: policy_actions_def sample_policy_def plain_action_def)

lemma sample_manager_ok:
  "sm_ok (managedActions sample_manager)"
  "\<forall>(name, k, a) \<in> set (managedActions sample_manager). idle_action a"
  by (simp_all add: sample_manager_def sm_ok_def idle_action_def new_action_def)

lemma sample_policy_values: "policy_values sat sample_policy ''cpu_big'' = map to_dec [900]"
  by (simp add: policy_values_def cluster_values_def sample_policy_def policy_choice_def winner_def satisfied_def)




section \<open>Levels\<close>

lemma sorted_choice:
  assumes "sorted (map pc_level cfgs)" and "distinct (map pc_level cfgs)"
  shows "policy_choice lev cfgs = Some cfg \<longleftrightarrow>
    cfg \<in> set cfgs \<and> pc_level cfg \<le> lev \<and> (\<forall>d \<in> set cfgs. pc_level d \<le> lev \<longrightarrow> pc_level d \<le> pc_level cfg)"
  using assms
proof (induction cfgs rule: rev_induct)
  case (snoc c cfgs)
  have le: "\<forall>d \<in> set cfgs. pc_level d < pc_level c"
  proof
    fix d assume "d \<in> set cfgs"
    then have "pc_level d \<le> pc_level c" "pc_level d \<noteq> pc_level c"
      using snoc.prems by (auto simp: sorted_append image_def)
    then show "pc_level d < pc_level c" by simp
  qed
  show ?case
  proof (cases "pc_level c \<le> lev")
    case True
    then have "policy_choice lev (cfgs @ [c]) = Some c" by (simp add: policy_choice_def)
    with True le show ?thesis by (auto simp: not_le [symmetric])
  next
    case False
    then have "policy_choice lev (cfgs @ [c]) = policy_choice lev cfgs" by (simp add: policy_choice_def)
    with False snoc show ?thesis by (auto simp: sorted_append)
  qed
qed (simp add: policy_choice_def)

lemma map_of_map_snd: "map_of (map (\<lambda>(k, v). (k, f v)) m) k = map_option f (map_of m k)"
  by (induction m) auto

text \<open>
  C4: after the start, a cluster at a level gets the configured policy of the greatest level
  that is not above it, and none exactly if every policy's level is above it.
\<close>

theorem policy_of_highest_level:
  assumes "sm_find (clusterPolicyMap p) name = Some cfgs" and "distinct (map pc_level cfgs)"
  shows "\<exists>cfgs'. sm_find (clusterPolicyMap (fst (snd (ThermalPolicy_Init (p, w))))) name = Some cfgs' \<and>
    (\<forall>lev cfg. policy_choice lev cfgs' = Some cfg \<longleftrightarrow> cfg \<in> set cfgs \<and> pc_level cfg \<le> lev \<and>
      (\<forall>d \<in> set cfgs. pc_level d \<le> lev \<longrightarrow> pc_level d \<le> pc_level cfg))"
proof (intro exI conjI allI)
  show "sm_find (clusterPolicyMap (fst (snd (ThermalPolicy_Init (p, w))))) name = Some (sort_key pc_level cfgs)"
    by (simp add: ThermalPolicy_Init_def ThermalPolicy_SortLevel_def map_of_map_snd assms(1))
  have "distinct (map pc_level (sort_key pc_level cfgs))"
    using assms(2) by (simp add: distinct_map)
  from sorted_choice [OF sorted_sort_key this]
  show "policy_choice lev (sort_key pc_level cfgs) = Some cfg \<longleftrightarrow> cfg \<in> set cfgs \<and> pc_level cfg \<le> lev \<and>
      (\<forall>d \<in> set cfgs. pc_level d \<le> lev \<longrightarrow> pc_level d \<le> pc_level cfg)" for lev cfg
    by simp
qed

definition two_policies :: "PolicyConfig list" where
  "two_policies = [\<lparr>pc_level = 3, pc_policyActionList = []\<rparr>, \<lparr>pc_level = 1, pc_policyActionList = []\<rparr>]"

theorem policy_of_highest_level_witness:
  "\<exists>cfgs'. sm_find (clusterPolicyMap (fst (snd (ThermalPolicy_Init
      (Policy_new\<lparr>clusterPolicyMap := [(''base'', two_policies)]\<rparr>, sample_world))))) ''base'' = Some cfgs' \<and>
    policy_choice 2 cfgs' = Some \<lparr>pc_level = 1, pc_policyActionList = []\<rparr>"
proof -
  have "sm_find (clusterPolicyMap (Policy_new\<lparr>clusterPolicyMap := [(''base'', two_policies)]\<rparr>)) ''base'' = Some two_policies"
    "distinct (map pc_level two_policies)"
    by (simp_all add: two_policies_def)
  from policy_of_highest_level [OF this, of sample_world] show ?thesis by (auto simp: two_policies_def)
qed

text \<open>A cluster that can be updated in any world.\<close>

definition cluster_ready :: "platform \<Rightarrow> SensorCluster \<Rightarrow> bool" where
  "cluster_ready P c \<longleftrightarrow> config_ok c \<and> latestLevel c \<le> cluster_size c \<and>
     (\<forall>w :: service_world. \<exists>gate w'. CheckState P c w = Inr (gate, w'))"

lemma update_ready:
  assumes "cluster_ready P c" and "temps_ok m"
  shows "\<exists>c' w'. UpdateThermalLevel P rates m (c, w) = Inr (c', w' :: service_world) \<and> cluster_ready P c'"
proof -
  obtain gate w' where "CheckState P c w = Inr (gate, w')" using assms(1) unfolding cluster_ready_def by blast
  moreover have c: "config_ok c" "latestLevel c \<le> cluster_size c" using assms(1) by (simp_all add: cluster_ready_def)
  ultimately obtain c' where up: "UpdateThermalLevel P rates m (c, w) = Inr (c', w')"
    and s: "similar (c\<lparr>latestLevel := if gate then cluster_level rates m c else 0\<rparr>) c'"
    using UpdateThermalLevel_eq [OF c(1) assms(2) c(2), of P w gate w' rates] by blast
  have "CheckState P c' v = CheckState P c v" for v :: service_world
    by (simp add: CheckState_def similar_fields(8) [OF s])
  with assms(1) have "cluster_ready P c'"
    using config_ok_similar [OF s] similar_fields(5) [OF s] cluster_level_le [OF c, of rates m]
    by (simp add: cluster_ready_def)
  with up show ?thesis by blast
qed

lemma level_loop_ready:
  assumes "\<forall>(n, c) \<in> set cs. cluster_ready P c" and "temps_ok m" and "sm_ok levels" and "distinct (map fst cs)"
  shows "\<exists>cs' levels' w'. level_loop P rates m cs levels w = Inr (cs', levels', w') \<and> map fst cs' = map fst cs \<and>
    (\<forall>(n, c) \<in> set cs'. cluster_ready P c) \<and> sm_ok levels' \<and>
    (\<forall>n. sm_find levels' n = (case sm_find cs' n of Some c \<Rightarrow> Some (latestLevel c) | None \<Rightarrow> sm_find levels n))"
  using assms
proof (induction cs arbitrary: levels w)
  case (Cons e cs)
  obtain name c where e: "e = (name, c)" by (cases e)
  obtain c1 w1 where up: "UpdateThermalLevel P rates m (c, w) = Inr (c1, w1)" "cluster_ready P c1"
    using update_ready [of P c m rates w] Cons.prems(1,2) by (auto simp: e)
  let ?levels = "sm_assign name (latestLevel c1) levels"
  obtain cs' levels' w' where rest: "level_loop P rates m cs ?levels w1 = Inr (cs', levels', w')"
      "map fst cs' = map fst cs" "\<forall>(n, c) \<in> set cs'. cluster_ready P c" "sm_ok levels'"
      "\<forall>n. sm_find levels' n = (case sm_find cs' n of Some c \<Rightarrow> Some (latestLevel c) | None \<Rightarrow> sm_find ?levels n)"
    using Cons.IH [of ?levels w1] Cons.prems by auto
  have "sm_find cs' name = None"
    using Cons.prems(4) rest(2) by (simp add: e map_of_eq_None_iff flip: set_map)
  then have "sm_find levels' n = (case sm_find ((name, c1) # cs') n of Some c \<Rightarrow> Some (latestLevel c) | None \<Rightarrow> sm_find levels n)" for n
    using rest(5) Cons.prems(3) by (auto split: option.split)
  moreover have "level_loop P rates m (e # cs) levels w = Inr ((name, c1) # cs', levels', w')"
    using rest(1) up(1) by (simp add: e GetCurrentLevel_def)
  ultimately show ?case using rest(2-4) up(2)
    by (intro exI [of _ "(name, c1) # cs'"] exI [of _ levels'] exI [of _ w'] conjI) (simp_all add: e)
qed simp

definition policy_ready :: "platform \<Rightarrow> Policy \<Rightarrow> bool" where
  "policy_ready P p \<longleftrightarrow> sm_ok (sensorClusterMap p) \<and> sm_ok (clusterLevelMap p) \<and>
     (\<forall>(name, c) \<in> set (sensorClusterMap p). cluster_ready P c)"

lemma LevelDecision_ready:
  assumes "policy_ready P p" and "temps_ok (typeTempMap p)"
  shows "\<exists>p' w'. ThermalPolicy_LevelDecision P rates (p, w) = Inr (p', w') \<and> policy_ready P p' \<and>
    map fst (sensorClusterMap p') = map fst (sensorClusterMap p) \<and> clusterPolicyMap p' = clusterPolicyMap p \<and>
    (\<forall>name c. sm_find (sensorClusterMap p') name = Some c \<longrightarrow>
       sm_find (clusterLevelMap p') name = Some (latestLevel c) \<and> latestLevel c \<le> cluster_size c)"
proof -
  obtain cs levels w' where l: "level_loop P rates (typeTempMap p) (sensorClusterMap p) (clusterLevelMap p) w = Inr (cs, levels, w')"
      "map fst cs = map fst (sensorClusterMap p)" "\<forall>(n, c) \<in> set cs. cluster_ready P c" "sm_ok levels"
      "\<forall>n. sm_find levels n = (case sm_find cs n of Some c \<Rightarrow> Some (latestLevel c) | None \<Rightarrow> sm_find (clusterLevelMap p) n)"
    using level_loop_ready [of "sensorClusterMap p" P "typeTempMap p" "clusterLevelMap p" rates w] assms sm_ok_distinct
    unfolding policy_ready_def by blast
  have "latestLevel c \<le> cluster_size c" if "sm_find cs name = Some c" for name c
    using map_of_SomeD [OF that] l(3) by (auto simp: cluster_ready_def)
  with l assms(1) show ?thesis
    by (intro exI [of _ "p\<lparr>sensorClusterMap := cs, clusterLevelMap := levels\<rparr>"] exI [of _ w'])
      (auto simp: ThermalPolicy_LevelDecision_def policy_ready_def sm_ok_def)
qed

text \<open>
  With standard clusters the decision of the levels always returns, records the level of
  every cluster under its name, and leaves the policy ready for the next report.
\<close>

theorem LevelDecision_records_levels:
  assumes "policy_ready P p" and "temps_ok (typeTempMap p)"
  shows "\<exists>p' w'. ThermalPolicy_LevelDecision P rates (p, w) = Inr (p', w') \<and> policy_ready P p' \<and>
    map fst (sensorClusterMap p') = map fst (sensorClusterMap p) \<and> clusterPolicyMap p' = clusterPolicyMap p \<and>
    (\<forall>name c. sm_find (sensorClusterMap p') name = Some c \<longrightarrow>
       sm_find (clusterLevelMap p') name = Some (latestLevel c) \<and> latestLevel c \<le> cluster_size c)"
  by (rule LevelDecision_ready [OF assms])

theorem LevelDecision_records_levels_witness:
  "\<exists>p' w'. ThermalPolicy_LevelDecision sample_platform \<lparr>sensorsRateMap = [], rateCount = 0\<rparr> (sample_policy, sample_world) =
     Inr (p', w') \<and> (\<exists>lev. sm_find (clusterLevelMap p') ''base'' = Some lev)"
proof -
  have "cluster_ready sample_platform sample_cluster"
    using sample_cluster_plain sample_cluster_gate
    unfolding cluster_ready_def plain_config_def sample_cluster_size by (auto simp: sample_cluster_defs)
  then have "policy_ready sample_platform sample_policy" by (simp add: policy_ready_def sample_policy_def sm_ok_def)
  moreover have "temps_ok (typeTempMap sample_policy)" by (simp add: temps_ok_def sample_policy_def)
  ultimately obtain p' w' where r: "ThermalPolicy_LevelDecision sample_platform \<lparr>sensorsRateMap = [], rateCount = 0\<rparr>
        (sample_policy, sample_world) = Inr (p', w')"
      "policy_ready sample_platform p'" "map fst (sensorClusterMap p') = map fst (sensorClusterMap sample_policy)"
      "\<forall>name c. sm_find (sensorClusterMap p') name = Some c \<longrightarrow>
         sm_find (clusterLevelMap p') name = Some (latestLevel c) \<and> latestLevel c \<le> cluster_size c"
    using LevelDecision_records_levels [of sample_platform sample_policy "\<lparr>sensorsRateMap = [], rateCount = 0\<rparr>" sample_world]
    by blast
  have "''base'' \<in> fst ` set (sensorClusterMap p')"
    using arg_cong [OF r(3), of set] by (simp add: sample_policy_def)
  then obtain c where "sm_find (sensorClusterMap p') ''base'' = Some c"
    by (metis map_of_eq_None_iff not_None_eq)
  with r(1,4) show ?thesis by blast
qed

section \<open>Delayed values\<close>

lemma strtol_kind_delay:
  assumes "strtol_kind k"
  shows "cls_store (class_of strtof k) = (\<lambda>v d. d\<lparr>uintDelayValue := v\<rparr>)" and "cls_delayed (class_of strtof k) = uintDelayValue"
  using assms by (auto simp: strtol_kind_def uint_class_def ActionCpuBig_def ActionCpuMed_def
      ActionCpuLit_def ActionGpu_def ActionShutdown_def ActionPopup_def ActionCharger_def ActionVoltage_def
      ActionCpuBoost_def ActionCpuIsolate_def ActionCpuNonVip_def ActionApplicationProcess_def)

definition delay_props :: "nat \<Rightarrow> nat \<Rightarrow> string" where
  "delay_props i t = to_dec i @ CHR '','' # to_dec t"

lemma split_delay_props: "SplitString (delay_props i t) [] '','' = Inr [to_dec i, to_dec t]"
proof -
  have no: "CHR '','' \<notin> set (to_dec m)" "CHR '' '' \<notin> set (to_dec m)" for m
    using to_dec_digits [of m] by (auto simp: is_digit_def)
  then have "nonempty_fields CHR '','' (to_dec t) = [to_dec t]"
    by (subst nonempty_fields_unfold) (simp add: push_nonempty_def)
  with no show ?thesis by (simp add: SplitString_eq delay_props_def fields_append_sep)
qed

text \<open>The action after it got a delayed value.\<close>

definition delayed_action :: "PolicyDelayAction \<Rightarrow> nat \<Rightarrow> nat \<Rightarrow> nat \<Rightarrow> action \<Rightarrow> action" where
  "delayed_action uninit i t n a =
     a\<lparr>actionIdList := [of_nat i], policyActionMap := [(of_nat i, uninit\<lparr>delayTime := of_nat t, uintDelayValue := int n\<rparr>)]\<rparr>"

lemma add_delayed_value:
  assumes "strtol_kind k" and "idle_action a" and "sm_find acts name = Some (k, a)" and "pa_isProp pa"
    and "sm_find (pa_actionPropMap pa) DELAY_TIME_FLAG = Some (delay_props i t)" and "pa_actionValue pa = to_dec n"
    and "0 < i" and "i < 2 ^ 32" and "t < 2 ^ 32" and "n < 2 ^ 32"
  shows "add_policy_action strtof uninit (name, pa) acts = Inr (sm_assign name (k, delayed_action uninit i t n a) acts)"
proof -
  have i: "(of_nat i :: u32) > 0" using assms(7,8) by (auto simp: word_greater_zero_iff word_of_nat_eq_0_iff dest: nat_dvd_not_less)
  have m: "policyActionMap a = []" "actionIdList a = []" using assms(2) by (simp_all add: idle_action_def)
  have v: "cls_parse (class_of strtof k) (to_dec n) = Some (int n)"
    using assms(10) by (simp add: strtol_kind_class [OF assms(1)] parse_strtol_u32_def strtol_u32_to_dec
        unsigned_of_nat take_bit_nat_eq_self)
  show ?thesis
    using assms(3-9) i v
    by (simp add: add_policy_action_def split_delay_props StrToUint_to_dec IThermalAction_AddActionDelayTime_def m
        AddActionValue_def strtol_kind_delay [OF assms(1)] delayed_action_def ss_insert_def Let_def)
qed

lemma execute_delayed_eq:
  assumes "idle_action a"
  shows "\<exists>d w1. isCompleted d = isCompleted uninit \<and> uintDelayValue d = int n \<and>
    createCount w1 = createCount w + (if isCompleted uninit \<or> 0 < delayTimerId uninit then 0 else 1) \<and>
    IThermalAction_Execute cls P (delayed_action uninit i t n a, w) =
      ExecuteInner cls P (a\<lparr>policyActionMap := [(of_nat i, d)]\<rparr>, w1)"
proof -
  let ?d = "uninit\<lparr>delayTime := of_nat t, uintDelayValue := int n\<rparr>"
  have ids: "a\<lparr>policyActionMap := m, actionIdList := []\<rparr> = a\<lparr>policyActionMap := m\<rparr>" for m
    using assms by (cases a) (simp add: idle_action_def)
  show ?thesis
  proof (cases "isCompleted uninit \<or> 0 < delayTimerId uninit")
    case True
    then show ?thesis
      by (intro exI [of _ ?d] exI [of _ w]) (auto simp: IThermalAction_Execute_def delayed_action_def ids)
  next
    case False
    obtain timerId w1 where t: "start_delay_timer P (uint (of_nat t :: u32)) w = (timerId, w1)" by fastforce
    with createCount_start [of P "uint (of_nat t :: u32)" w] have "createCount w1 = Suc (createCount w)" by simp
    with False t show ?thesis
      by (intro exI [of _ "?d\<lparr>delayTimerId := timerId\<rparr>"] exI [of _ w1])
         (auto simp: IThermalAction_Execute_def delayed_action_def ids)
  qed
qed

lemma decided_delayed:
  assumes "strtol_kind k" and "idle_action a" and "uintDelayValue d = int n"
  shows "GetActionValue (class_of strtof k) (push_completed (class_of strtof k) (a\<lparr>policyActionMap := [(i, d)]\<rparr>)) =
    (if isCompleted d then int n else cls_fallback (class_of strtof k) a)"
proof -
  have "cls_fallback (class_of strtof k) (a\<lparr>policyActionMap := m, valueList := vs\<rparr>) = cls_fallback (class_of strtof k) a" for m vs
    by (rule action_impl.fallback_param [OF class_of_impl]) simp
  then show ?thesis
    using assms(2,3) by (simp add: GetActionValue_def push_completed_def idle_action_def strtol_kind_class [OF assms(1)]
        strtol_kind_delay [OF assms(1)])
qed

text \<open>
  C5: a policy's delayed value. The action it names does not use the value before the timer
  fires, one timer is started for it, and the timer's callback makes the action use it, if
  the record the policy passes is fresh (\<open>isCompleted\<close> false, no timer). The code does not
  initialise the record: if the indeterminate \<open>isCompleted\<close> is true the value is used at
  once, and if it is false but the indeterminate \<open>delayTimerId\<close> is not 0 no timer is
  started.
\<close>

theorem delayed_value_waits:
  assumes "strtol_kind k" and "idle_action a" and "sm_find acts name = Some (k, a)" and "pa_isProp pa"
    and "sm_find (pa_actionPropMap pa) DELAY_TIME_FLAG = Some (delay_props i t)" and "pa_actionValue pa = to_dec n"
    and "0 < i" and "i < 2 ^ 32" and "t < 2 ^ 32" and "n < 2 ^ 32"
  shows "\<exists>a1 a2 w2. add_policy_action strtof uninit (name, pa) acts = Inr (sm_assign name (k, a1) acts) \<and>
    IThermalAction_Execute (class_of strtof k) P (a1, w) = (a2, w2) \<and>
    lastValue a2 = (if isCompleted uninit then int n else cls_fallback (class_of strtof k) a) \<and>
    createCount w2 = createCount w + (if isCompleted uninit \<or> 0 < delayTimerId uninit then 0 else 1) \<and>
    lastValue (fst (delay_callback (class_of strtof k) P (of_nat i) (a2, w2))) = int n"
proof -
  let ?cls = "class_of strtof k" and ?a1 = "delayed_action uninit i t n a"
  have impl: "action_impl ?cls" by (rule class_of_impl)
  obtain d w1 where d: "isCompleted d = isCompleted uninit" "uintDelayValue d = int n"
      "createCount w1 = createCount w + (if isCompleted uninit \<or> 0 < delayTimerId uninit then 0 else 1)"
      "IThermalAction_Execute ?cls P (?a1, w) = ExecuteInner ?cls P (a\<lparr>policyActionMap := [(of_nat i, d)]\<rparr>, w1)"
    using execute_delayed_eq [OF assms(2)] by blast
  let ?r = "ExecuteInner ?cls P (a\<lparr>policyActionMap := [(of_nat i, d)]\<rparr>, w1)"
  define v where "v = (if isCompleted uninit then int n else cls_fallback ?cls a)"
  have "a\<lparr>policyActionMap := m, valueList := [], lastValue := x\<rparr> = a\<lparr>policyActionMap := m, lastValue := x\<rparr>" for m x
    using assms(2) by (cases a) (simp add: idle_action_def)
  then have a2: "fst ?r = a\<lparr>policyActionMap := [(of_nat i, d)], lastValue := v\<rparr>"
    by (simp add: action_impl.ExecuteInner_exact [OF impl strtol_kind_class(3) [OF assms(1)]] decided_delayed [OF assms(1,2) d(2)] d(1) v_def)
  have w2: "createCount (snd ?r) = createCount w1"
    using action_impl.ExecuteInner_timers [OF impl, of w1 P] by (simp add: same_timers_def)
  let ?d = "d\<lparr>isCompleted := True\<rparr>"
  have idle: "idle_action (a\<lparr>lastValue := v\<rparr>)" using assms(2) by (simp add: idle_action_def)
  have "lastValue (fst (delay_callback ?cls P (of_nat i) (fst ?r, snd ?r))) = int n"
    using decided_delayed [OF assms(1) idle, of ?d n strtof "of_nat i"] d(2) unfolding a2
    by (simp add: delay_callback_def Let_def split_def action_impl.ExecuteInner_exact [OF impl strtol_kind_class(3) [OF assms(1)]])
  then show ?thesis
    using add_delayed_value [OF assms, of strtof uninit] d(3,4) a2 w2
    by - (rule exI [of _ ?a1], rule exI [of _ "fst ?r"], rule exI [of _ "snd ?r"], simp add: v_def prod_eq_iff)
qed

lemma fallback_cpu_big: "cls_fallback ActionCpuBig a = FALLBACK_VALUE_UINT_SOC"
  by (simp add: ActionCpuBig_def uint_class_def)

definition sample_delayed :: PolicyAction where
  "sample_delayed = \<lparr>pa_actionName = ''cpu_big'', pa_actionValue = to_dec 900,
     pa_actionPropMap = [(DELAY_TIME_FLAG, delay_props 1 5000)], pa_isProp = True\<rparr>"

theorem delayed_value_waits_witness:
  "\<exists>a1 a2 w2. add_policy_action sample_strtof sample_delay (''cpu_big'', sample_delayed) (managedActions sample_manager) =
      Inr (sm_assign ''cpu_big'' (KCpuBig, a1) (managedActions sample_manager)) \<and>
    IThermalAction_Execute ActionCpuBig sample_platform (a1, sample_world) = (a2, w2) \<and> createCount w2 = 1 \<and>
    lastValue a2 = FALLBACK_VALUE_UINT_SOC \<and> lastValue (fst (delay_callback ActionCpuBig sample_platform 1 (a2, w2))) = 900"
  using delayed_value_waits [of KCpuBig "new_action ActionCpuBig ''cpu_big''" "managedActions sample_manager" "''cpu_big''"
      sample_delayed 1 5000 900 sample_strtof sample_delay sample_platform sample_world]
  by (simp add: strtol_kind_def idle_action_def new_action_def sample_manager_def sample_delayed_def sample_delay_def
      fallback_cpu_big) blast

end
