(* ===== verification/Config_Proofs.thy ===== *)
theory Config_Proofs
  imports Config_Parser Policy_Proofs
begin

text \<open>
  What the configuration parser guarantees: every cluster it accepts is one the level search
  works on, a section is installed as a whole or not at all, a configuration whose lists hold no
  space is always parsed to an answer, and a malformed section is rejected.
\<close>

section \<open>Accepted clusters\<close>

text \<open>The parts of a cluster that its functions leave alone.\<close>

lemmas cluster_setters = SetSensorLevelInfo_def SetAuxSensorLevelInfo_def SetTempDiffInfo_def SetDescFlag_def
  SetAuxFlag_def SetRateFlag_def SetTempDiffFlag_def AddState_def

definition aux_filled :: "SensorCluster \<Rightarrow> bool" where
  "aux_filled c \<longleftrightarrow> list_all (\<lambda>(_, items). items \<noteq> []) (auxSensorInfolist c)"

text \<open>All values a state is compared with are free of spaces.\<close>

definition states_spaceless :: "SensorCluster \<Rightarrow> bool" where
  "states_spaceless c \<longleftrightarrow> list_all (\<lambda>(_, v). CHR '' '' \<notin> set v) (stateMap c)"

definition fresh_cluster :: "SensorCluster \<Rightarrow> bool" where
  "fresh_cluster c \<longleftrightarrow> latestLevel c = 0 \<and> aux_filled c"

lemma sm_insert_nonempty [simp]: "sm_insert k v m \<noteq> []"
  by (cases "(k, v, m)" rule: sm_insert.cases) auto

lemma ParseLevelState_keeps:
  assumes "ParseLevelState cur sc = accepted sc'" and "fresh_cluster sc"
  shows "fresh_cluster sc'"
  using assms(1) unfolding ParseLevelState_def for_children_eq
proof (rule for_each_invariant)
  show "fresh_cluster sc" by (rule assms(2))
next
  fix sub sc1 sc2
  assume "fresh_cluster sc1" and "for_each (\<lambda>(propName, _) sc. case xmlGetProp sub propName of
      None \<Rightarrow> rejected | Some v \<Rightarrow> accepted (AddState propName v sc)) (xml_properties sub) sc1 = accepted sc2"
  from this(2,1) show "fresh_cluster sc2"
    by (rule for_each_invariant) (auto simp: fresh_cluster_def aux_filled_def AddState_def split: option.splits)
qed

lemma ParseAuxSensorInfo_keeps:
  assumes "ParseAuxSensorInfo P U cur sc = accepted sc'" and "fresh_cluster sc"
  shows "fresh_cluster sc' \<and> stateMap sc' = stateMap sc"
proof (cases "xmlGetProp cur ''aux_sensor''")
  case None
  with assms show ?thesis by (simp add: ParseAuxSensorInfo_def)
next
  case (Some a)
  let ?pass = "\<lambda>auxsensors (i, sensorType) info.
      if sensorType = [] then rejected
      else bindp (ParseAuxSensorLevInfo P U cur auxsensors i []) (\<lambda>items.
        if items = [] then rejected else accepted (sm_insert sensorType items info))"
  from assms(1) Some obtain auxsensors info where
    loop: "for_each (?pass auxsensors) (enumerate 0 auxsensors) [] = accepted info"
    and sc': "sc' = SetAuxSensorLevelInfo info (SetAuxFlag True sc)"
    by (auto simp: ParseAuxSensorInfo_def Let_def bindr_eq_Inr bindp_eq_parsed)
  from loop have "list_all (\<lambda>(_, items). items \<noteq> []) info"
    by (rule for_each_invariant) (auto simp: bindp_eq_parsed list_all_sm_insert split: if_splits)
  with assms(2) sc' show ?thesis by (simp add: fresh_cluster_def aux_filled_def cluster_setters)
qed

lemma ParseSensorLevelInfo_keeps:
  assumes "ParseSensorLevelInfo P U cur sensors i (items, sc) = accepted (items', sc')"
  shows "sc'\<lparr>rateFlag := False\<rparr> = sc\<lparr>rateFlag := False\<rparr>"
proof -
  have "(\<lambda>(_, c). c\<lparr>rateFlag := False\<rparr> = sc\<lparr>rateFlag := False\<rparr>) (items', sc')"
    using assms unfolding ParseSensorLevelInfo_def for_children_eq
    by (rule for_each_invariant)
      (auto simp: bindp_eq_parsed bindr_eq_Inr SetRateFlag_def Let_def split: option.splits if_splits)
  then show ?thesis by simp
qed

lemma ParseSensorInfo_keeps:
  assumes "ParseSensorInfo P U cur sc = accepted sc'"
  shows "sc'\<lparr>rateFlag := False, sensorInfolist := []\<rparr> = sc\<lparr>rateFlag := False, sensorInfolist := []\<rparr>"
    and "list_all (\<lambda>(_, items). items \<noteq> []) (sensorInfolist sc')"
proof -
  let ?pass = "\<lambda>sensors (i, sensorType) (infos, sc).
      bindp (ParseSensorLevelInfo P U cur sensors i ([], sc)) (\<lambda>(items, sc).
        if items = [] then rejected else accepted (sm_insert sensorType items infos, sc))"
  let ?I = "\<lambda>(infos, c). c\<lparr>rateFlag := False\<rparr> = sc\<lparr>rateFlag := False\<rparr> \<and> list_all (\<lambda>(_, items). items \<noteq> []) infos"
  from assms obtain sensors infos sc1 where
    loop: "for_each (?pass sensors) (enumerate 0 sensors) ([], sc) = accepted (infos, sc1)"
    and sc': "sc' = SetSensorLevelInfo infos sc1"
    by (auto simp: ParseSensorInfo_def bindr_eq_Inr bindp_eq_parsed split: option.splits if_splits)
  from loop have "?I (infos, sc1)"
  proof (rule for_each_invariant)
    fix x s s'
    assume I: "?I s" and "?pass sensors x s = accepted s'"
    then obtain i type infos1 c1 items c2 where "x = (i, type)" "s = (infos1, c1)"
      and p: "ParseSensorLevelInfo P U cur sensors i ([], c1) = accepted (items, c2)" "items \<noteq> []"
        "s' = (sm_insert type items infos1, c2)"
      by (cases x; cases s) (auto simp: bindp_eq_parsed split: if_splits)
    with I ParseSensorLevelInfo_keeps [OF p(1)] show "?I s'" by (auto simp: list_all_sm_insert)
  qed simp
  then have eq: "sc1\<lparr>rateFlag := False\<rparr> = sc\<lparr>rateFlag := False\<rparr>" and "list_all (\<lambda>(_, items). items \<noteq> []) infos" by auto
  with sc' show "list_all (\<lambda>(_, items). items \<noteq> []) (sensorInfolist sc')" by (simp add: SetSensorLevelInfo_def)
  show "sc'\<lparr>rateFlag := False, sensorInfolist := []\<rparr> = sc\<lparr>rateFlag := False, sensorInfolist := []\<rparr>"
    using arg_cong [OF eq, of "\<lambda>c. c\<lparr>sensorInfolist := []\<rparr>"] sc' by (simp add: SetSensorLevelInfo_def)
qed

lemma ParseTempDiffInfo_keeps:
  assumes "ParseTempDiffInfo P cur sc = accepted sc'"
  shows "sc'\<lparr>tempDiffFlag := False, tempDiffInfoList := []\<rparr> = sc\<lparr>tempDiffFlag := False, tempDiffInfoList := []\<rparr>"
  using assms
  by (auto simp: ParseTempDiffInfo_def bindp_eq_parsed bindr_eq_Inr cluster_setters split: option.splits if_splits)

text \<open>Every cluster the parser accepts has the shape the search relies on, and starts at level 0.\<close>

lemma accepted_config_ok:
  assumes "CheckStandard c" and "list_all (\<lambda>(_, items). items \<noteq> []) (sensorInfolist c)" and "fresh_cluster c"
  shows "config_ok c"
  using assms by (auto simp: config_ok_def fresh_cluster_def aux_filled_def CheckStandard_def cluster_size_def
      split: list.splits)

lemma parse_cluster_accepts:
  assumes "parse_cluster P U cur msc = accepted msc'"
  shows "\<exists>name c sc. xmlGetProp cur ''name'' = Some name \<and> msc' = sm_insert name c msc \<and> config_ok c \<and>
    latestLevel c = 0 \<and> ParseLevelState cur SensorCluster_new = accepted sc \<and> stateMap c = stateMap sc"
proof -
  from assms obtain name c1 c2 c3 c4 where
    name: "xmlGetProp cur ''name'' = Some name" and 1: "ParseLevelState cur SensorCluster_new = accepted c1"
    and 2: "ParseAuxSensorInfo P U cur c1 = accepted c2" and 3: "ParseSensorInfo P U cur c2 = accepted c3"
    and 4: "ParseTempDiffInfo P cur c3 = accepted c4"
    by (auto simp: parse_cluster_def bindp_eq_parsed split: option.splits)
  define c where "c = (case xmlGetProp cur ''desc'' of
      Some desc \<Rightarrow> if TrimStr P desc = TRUE_STR then SetDescFlag True c4 else c4 | None \<Rightarrow> c4)"
  from assms name 1 2 3 4 have std: "CheckStandard c" and msc': "msc' = sm_insert name c msc"
    unfolding parse_cluster_def c_def by (simp_all add: Let_def split: if_splits)
  have f1: "fresh_cluster c1"
    by (rule ParseLevelState_keeps [OF 1]) (simp add: fresh_cluster_def aux_filled_def SensorCluster_new_def)
  from ParseAuxSensorInfo_keeps [OF 2 f1] have f2: "fresh_cluster c2" "stateMap c2 = stateMap c1" by auto
  note c3 = ParseSensorInfo_keeps [OF 3] and c4 = ParseTempDiffInfo_keeps [OF 4]
  have c: "c = c4 \<or> c = c4\<lparr>descFlag := True\<rparr>" by (auto simp: c_def SetDescFlag_def split: option.splits)
  have parts: "latestLevel c = latestLevel c2" "stateMap c = stateMap c2" "auxSensorInfolist c = auxSensorInfolist c2"
      "sensorInfolist c = sensorInfolist c3"
    using c arg_cong [OF c3(1), of latestLevel] arg_cong [OF c4, of latestLevel] arg_cong [OF c3(1), of stateMap]
      arg_cong [OF c4, of stateMap] arg_cong [OF c3(1), of auxSensorInfolist] arg_cong [OF c4, of auxSensorInfolist]
      arg_cong [OF c4, of sensorInfolist] by auto
  have fresh: "fresh_cluster c" using f2(1) by (simp add: fresh_cluster_def aux_filled_def parts)
  have "config_ok c" by (rule accepted_config_ok [OF std _ fresh]) (use c3(2) parts in simp)
  moreover have "latestLevel c = 0" "stateMap c = stateMap c1"
    using fresh f2 parts by (auto simp: fresh_cluster_def)
  ultimately show ?thesis using name msc' 1 by blast
qed

section \<open>Whole sections\<close>

lemma finish_cases:
  assumes "finish r f s = Inr (ok, s')"
  shows "(\<not> ok \<and> r = rejected \<and> s' = s) \<or> (ok \<and> (\<exists>x. r = accepted x \<and> f x s = Inr s'))"
  using assms by (auto simp: finish_def bindr_eq_Inr split: option.splits)

definition clusters_ok :: "(string, SensorCluster) smap \<Rightarrow> bool" where
  "clusters_ok m \<longleftrightarrow> sm_ok m \<and> list_all (\<lambda>(_, c). config_ok c \<and> latestLevel c = 0) m"

lemma parse_clusters_ok:
  assumes "for_children ''sensor_cluster'' (parse_cluster P U) node [] = accepted m"
  shows "clusters_ok m"
  using assms unfolding for_children_eq
proof (rule for_each_invariant)
  show "clusters_ok []" by (simp add: clusters_ok_def)
next
  fix cur m1 m2
  assume "clusters_ok m1" and "parse_cluster P U cur m1 = accepted m2"
  then show "clusters_ok m2"
    by (auto simp: clusters_ok_def list_all_sm_insert dest!: parse_cluster_accepts)
qed

text \<open>The values of the states of a cluster.\<close>

definition state_values_spaceless :: "xml_node \<Rightarrow> bool" where
  "state_values_spaceless cur \<longleftrightarrow>
     (\<forall>sub \<in> set (named ''state'' cur). \<forall>a v. xmlGetProp sub a = Some v \<longrightarrow> CHR '' '' \<notin> set v)"

lemma ParseLevelState_spaceless:
  assumes "ParseLevelState cur sc = accepted sc'" and "state_values_spaceless cur" and "states_spaceless sc"
  shows "states_spaceless sc'"
  using assms(1) unfolding ParseLevelState_def for_children_eq
proof (rule for_each_invariant)
  show "states_spaceless sc" by (rule assms(3))
next
  fix sub sc1 sc2
  assume sub: "sub \<in> set (named ''state'' cur)" and "states_spaceless sc1"
    and "for_each (\<lambda>(propName, _) sc. case xmlGetProp sub propName of
      None \<Rightarrow> rejected | Some v \<Rightarrow> accepted (AddState propName v sc)) (xml_properties sub) sc1 = accepted sc2"
  from this(3,2) show "states_spaceless sc2"
    by (rule for_each_invariant) (use assms(2) sub in \<open>auto simp: states_spaceless_def AddState_def list_all_sm_insert
        state_values_spaceless_def split: option.splits\<close>)
qed

lemma SplitString_spaceless: "CHR '' '' \<notin> set s \<Longrightarrow> SplitString s [] [c] = Inr (nonempty_fields c s)"
  by (simp add: SplitString_eq)

lemma DecideState_total:
  "CHR '' '' \<notin> set v \<Longrightarrow> \<exists>b coll'. IStateCollection_DecideState P w v coll = Inr (b, coll')"
  by (cases coll) (auto simp: ExtendStateCollection_DecideState_def SplitString_spaceless split_def Let_def)

lemma check_state_loop_total:
  "list_all (\<lambda>(_, v). CHR '' '' \<notin> set v) sts \<Longrightarrow> \<exists>gate w'. check_state_loop P sts w = Inr (gate, w')"
proof (induction sts arbitrary: w)
  case (Cons e sts)
  obtain name v where e: "e = (name, v)" by (cases e)
  show ?case
  proof (cases "sm_find (stateCollectionMap w) name")
    case (Some coll)
    obtain b coll' where "IStateCollection_DecideState P w v coll = Inr (b, coll')"
      using DecideState_total [of v P w coll] Cons.prems e by auto
    with Some Cons show ?thesis by (cases b) (auto simp: e Let_def)
  qed (auto simp: e)
qed auto

lemma accepted_cluster_ready:
  assumes "config_ok c" and "latestLevel c = 0" and "states_spaceless c"
  shows "cluster_ready P c"
  using assms check_state_loop_total unfolding cluster_ready_def CheckState_def states_spaceless_def by auto

definition clusters_ready :: "platform \<Rightarrow> (string, SensorCluster) smap \<Rightarrow> bool" where
  "clusters_ready P m \<longleftrightarrow> sm_ok m \<and> list_all (\<lambda>(_, c). cluster_ready P c) m"

lemma parse_clusters_ready:
  assumes "for_children ''sensor_cluster'' (parse_cluster P U) node [] = accepted m"
    and "\<forall>cur \<in> set (named ''sensor_cluster'' node). state_values_spaceless cur"
  shows "clusters_ready Q m"
  using assms(1) unfolding for_children_eq
proof (rule for_each_invariant)
  show "clusters_ready Q []" by (simp add: clusters_ready_def)
next
  fix cur m1 m2
  assume cur: "cur \<in> set (named ''sensor_cluster'' node)" and m1: "clusters_ready Q m1"
    and "parse_cluster P U cur m1 = accepted m2"
  then obtain name c sc where c: "m2 = sm_insert name c m1" "config_ok c" "latestLevel c = 0"
      "ParseLevelState cur SensorCluster_new = accepted sc" "stateMap c = stateMap sc"
    using parse_cluster_accepts by blast
  have "states_spaceless sc"
    by (rule ParseLevelState_spaceless [OF c(4)])
      (use assms(2) cur in \<open>auto simp: states_spaceless_def SensorCluster_new_def\<close>)
  then have "cluster_ready Q c"
    by (intro accepted_cluster_ready [OF c(2,3)]) (simp add: states_spaceless_def c(5))
  with m1 c(1) show "clusters_ready Q m2" by (simp add: clusters_ready_def list_all_sm_insert)
qed

text \<open>A sequence of reports, each with the rates of rise at that time.\<close>

definition decide_reports :: "platform \<Rightarrow> (sensor_rates \<times> TypeTempMap) list \<Rightarrow> Policy \<times> service_world \<Rightarrow>
    (Policy \<times> service_world) result" where
  "decide_reports P = foldr_result (\<lambda>(rates, m) (p, w). ThermalPolicy_LevelDecision P rates (p\<lparr>typeTempMap := m\<rparr>, w))"

lemma decide_reports_ready:
  assumes "policy_ready P p" and "\<forall>(rates, m) \<in> set reports. temps_ok m"
  shows "\<exists>p' w'. decide_reports P reports (p, w) = Inr (p', w') \<and> policy_ready P p' \<and>
    map fst (sensorClusterMap p') = map fst (sensorClusterMap p) \<and>
    (reports \<noteq> [] \<longrightarrow> (\<forall>name c. sm_find (sensorClusterMap p') name = Some c \<longrightarrow>
       sm_find (clusterLevelMap p') name = Some (latestLevel c) \<and> latestLevel c \<le> cluster_size c))"
  using assms
proof (induction reports arbitrary: p w)
  case Nil
  then show ?case by (simp add: decide_reports_def)
next
  case (Cons r reports)
  obtain rates m where r: "r = (rates, m)" by (cases r)
  from Cons.prems have ready: "policy_ready P (p\<lparr>typeTempMap := m\<rparr>)" and m: "temps_ok m"
    by (simp_all add: policy_ready_def r)
  obtain p1 w1 where 1: "ThermalPolicy_LevelDecision P rates (p\<lparr>typeTempMap := m\<rparr>, w) = Inr (p1, w1)" "policy_ready P p1"
      "map fst (sensorClusterMap p1) = map fst (sensorClusterMap p)"
      "\<forall>name c. sm_find (sensorClusterMap p1) name = Some c \<longrightarrow>
         sm_find (clusterLevelMap p1) name = Some (latestLevel c) \<and> latestLevel c \<le> cluster_size c"
    using LevelDecision_ready [OF ready, of rates w] m by auto
  obtain p2 w2 where 2: "decide_reports P reports (p1, w1) = Inr (p2, w2)" "policy_ready P p2"
      "map fst (sensorClusterMap p2) = map fst (sensorClusterMap p1)"
      "reports \<noteq> [] \<longrightarrow> (\<forall>name c. sm_find (sensorClusterMap p2) name = Some c \<longrightarrow>
         sm_find (clusterLevelMap p2) name = Some (latestLevel c) \<and> latestLevel c \<le> cluster_size c)"
    using Cons.IH [OF 1(2), of w1] Cons.prems(2) by auto
  have "decide_reports P (r # reports) (p, w) = Inr (p2, w2)"
    using 1(1) 2(1) by (simp add: decide_reports_def r)
  moreover have "reports = [] \<Longrightarrow> p2 = p1" using 2(1) by (simp add: decide_reports_def)
  ultimately show ?case using 1 2 by (cases "reports = []") auto
qed

section \<open>Parsing returns\<close>

definition answers :: "'a result \<Rightarrow> bool" where
  "answers r \<longleftrightarrow> (\<exists>x. r = Inr x)"

lemma answers_simps [simp]: "answers (Inr x)" "\<not> answers (Inl e)"
  by (simp_all add: answers_def)

lemma answers_bindp: "answers r \<Longrightarrow> (\<And>x. r = accepted x \<Longrightarrow> answers (f x)) \<Longrightarrow> answers (bindp r f)"
  by (cases r rule: parse_cases) simp_all

lemma answers_for_each: "(\<And>x s. x \<in> set xs \<Longrightarrow> answers (f x s)) \<Longrightarrow> answers (for_each f xs s)"
  by (induction xs arbitrary: s) (simp_all add: answers_bindp)

text \<open>The attributes that are split into lists.\<close>

definition list_attributes :: "string list" where
  "list_attributes =
     [''sensor'', ''aux_sensor'', ''aux_trigger_range'', ''threshold'', ''threshold_clr'', ''temp_rise_rate'', ''temp_diff'']"

definition lists_spaceless :: "xml_node \<Rightarrow> bool" where
  "lists_spaceless n \<longleftrightarrow>
     list_all (\<lambda>a. case xmlGetProp n a of Some v \<Rightarrow> CHR '' '' \<notin> set v | None \<Rightarrow> True) list_attributes"

definition section_spaceless :: "xml_node \<Rightarrow> bool" where
  "section_spaceless node \<longleftrightarrow>
     list_all (\<lambda>cur. lists_spaceless cur \<and> list_all lists_spaceless (xml_children cur)) (xml_children node)"

lemma list_attribute:
  "lists_spaceless n \<Longrightarrow> a \<in> set list_attributes \<Longrightarrow> xmlGetProp n a = Some v \<Longrightarrow> CHR '' '' \<notin> set v"
  by (auto simp: lists_spaceless_def list_all_iff split: option.splits)

lemma split_list_attribute:
  "lists_spaceless n \<Longrightarrow> a \<in> set list_attributes \<Longrightarrow> xmlGetProp n a = Some v \<Longrightarrow>
     SplitString v [] [c] = Inr (nonempty_fields c v)"
  by (rule SplitString_spaceless) (rule list_attribute)

lemma chars_of_field: "f \<in> set (nonempty_fields c s) \<Longrightarrow> set f \<subseteq> set s"
proof -
  have "\<forall>f \<in> set (split_on c s). set f \<subseteq> set s" by (induction s) (auto split: list.splits)
  then show "f \<in> set (nonempty_fields c s) \<Longrightarrow> set f \<subseteq> set s" by (auto simp: nonempty_fields_def)
qed

lemma answers_TriggerRange:
  assumes "lists_spaceless sub" and "i < length auxs"
  shows "answers (ParseAuxSensorTriggerRange sub auxs i)"
    and "ParseAuxSensorTriggerRange sub auxs i = accepted r \<Longrightarrow> CHR '' '' \<notin> set r"
proof -
  have fields: "SplitString v [] '','' = Inr (nonempty_fields CHR '','' v)" "CHR '' '' \<notin> set v"
    if "xmlGetProp sub ''aux_trigger_range'' = Some v" for v
    using split_list_attribute [OF assms(1) _ that, of "CHR '',''"] list_attribute [OF assms(1) _ that]
    by (simp_all add: list_attributes_def)
  show "answers (ParseAuxSensorTriggerRange sub auxs i)"
    using assms(2) by (auto simp: ParseAuxSensorTriggerRange_def fields(1) split: option.split)
  assume r: "ParseAuxSensorTriggerRange sub auxs i = accepted r"
  then obtain v where v: "xmlGetProp sub ''aux_trigger_range'' = Some v"
    by (auto simp: ParseAuxSensorTriggerRange_def split: option.splits)
  with r assms(2) fields(1) [OF v] have "r \<in> set (nonempty_fields CHR '','' v)"
    by (auto simp: ParseAuxSensorTriggerRange_def split: if_splits)
  with chars_of_field fields(2) [OF v] show "CHR '' '' \<notin> set r" by blast
qed

lemma two_fields: "\<not> length xs < 2 \<Longrightarrow> vec_index xs 0 = Inr (xs ! 0) \<and> vec_index xs 1 = Inr (xs ! 1)"
  by (cases xs) (auto simp: vec_index_def)

lemma answers_AuxLevInfo:
  assumes "list_all lists_spaceless (xml_children cur)" and "i < length auxs"
  shows "answers (ParseAuxSensorLevInfo P U cur auxs i items)"
  unfolding ParseAuxSensorLevInfo_def for_children_def
proof (rule answers_for_each, goal_cases)
  case (1 sub s)
  with assms(1) have sub: "lists_spaceless sub" by (simp add: list_all_iff)
  show ?case
    using answers_TriggerRange [OF sub assms(2)]
    by (auto intro!: answers_bindp simp: SplitString_spaceless Let_def two_fields split: option.split)
qed

lemma answers_AuxSensorInfo:
  assumes "lists_spaceless cur" and "list_all lists_spaceless (xml_children cur)"
  shows "answers (ParseAuxSensorInfo P U cur sc)"
proof (cases "xmlGetProp cur ''aux_sensor''")
  case (Some v)
  then have "SplitString v [] '','' = Inr (nonempty_fields CHR '','' v)"
    by (rule split_list_attribute [OF assms(1), rotated]) (simp add: list_attributes_def)
  with Some show ?thesis
    by (auto simp: ParseAuxSensorInfo_def Let_def in_set_enumerate_eq
        intro!: answers_bindp answers_for_each answers_AuxLevInfo [OF assms(2)])
qed (simp add: ParseAuxSensorInfo_def)

lemma answers_LevelThreshold:
  assumes sub: "lists_spaceless sub" and "i < length sensors"
  shows "answers (ParseLevelThreshold P sub sensors i item)"
proof -
  have 1: "SplitString v [] '','' = Inr (nonempty_fields CHR '','' v)" if "xmlGetProp sub ''threshold'' = Some v" for v
    by (rule split_list_attribute [OF sub _ that]) (simp add: list_attributes_def)
  have 2: "SplitString v [] '','' = Inr (nonempty_fields CHR '','' v)" if "xmlGetProp sub ''threshold_clr'' = Some v" for v
    by (rule split_list_attribute [OF sub _ that]) (simp add: list_attributes_def)
  show ?thesis
    using assms(2) by (auto simp: ParseLevelThreshold_def Let_def 1 2 split: option.split)
qed

lemma answers_SensorLevelInfo:
  assumes "list_all lists_spaceless (xml_children cur)" and "i < length sensors"
  shows "answers (ParseSensorLevelInfo P U cur sensors i s)"
  unfolding ParseSensorLevelInfo_def for_children_def
proof (rule answers_for_each, goal_cases)
  case (1 sub s)
  with assms(1) have sub: "lists_spaceless sub" by (simp add: list_all_iff)
  have r: "SplitString v [] '','' = Inr (nonempty_fields CHR '','' v)" if "xmlGetProp sub ''temp_rise_rate'' = Some v" for v
    by (rule split_list_attribute [OF sub _ that]) (simp add: list_attributes_def)
  obtain items sc where s: "s = (items, sc)" by (cases s)
  show ?case
    using answers_LevelThreshold [OF sub assms(2)] assms(2)
    by (auto intro!: answers_bindp simp: s r Let_def split: option.split)
qed

lemma answers_SensorInfo:
  assumes "lists_spaceless cur" and "list_all lists_spaceless (xml_children cur)"
  shows "answers (ParseSensorInfo P U cur sc)"
proof (cases "xmlGetProp cur ''sensor''")
  case (Some v)
  then have "SplitString v [] '','' = Inr (nonempty_fields CHR '','' v)"
    by (rule split_list_attribute [OF assms(1), rotated]) (simp add: list_attributes_def)
  with Some show ?thesis
    by (auto simp: ParseSensorInfo_def in_set_enumerate_eq
        intro!: answers_bindp answers_for_each answers_SensorLevelInfo [OF assms(2)])
qed (simp add: ParseSensorInfo_def)

lemma answers_TempDiffInfo:
  assumes "lists_spaceless cur"
  shows "answers (ParseTempDiffInfo P cur sc)"
proof (cases "xmlGetProp cur ''temp_diff''")
  case (Some v)
  then have v: "SplitString v [] '','' = Inr (nonempty_fields CHR '','' v)"
    by (rule split_list_attribute [OF assms, rotated]) (simp add: list_attributes_def)
  have "answers (ParseTempDiffLevInfo P cur s1 s2 [])" for s1 s2
    unfolding ParseTempDiffLevInfo_def for_children_def
    by (rule answers_for_each) (auto intro!: answers_bindp simp: ParseTempDiffValue_def split: option.split)
  with Some v show ?thesis by (auto simp: ParseTempDiffInfo_def intro!: answers_bindp)
qed (simp add: ParseTempDiffInfo_def)

lemma answers_LevelState: "answers (ParseLevelState cur sc)"
  unfolding ParseLevelState_def for_children_def
  by (rule answers_for_each) (auto intro!: answers_for_each split: option.split)

lemma answers_cluster:
  assumes "lists_spaceless cur" and "list_all lists_spaceless (xml_children cur)"
  shows "answers (parse_cluster P U cur m)"
  unfolding parse_cluster_def
  by (auto intro!: answers_bindp answers_LevelState answers_AuxSensorInfo [OF assms] answers_SensorInfo [OF assms]
      answers_TempDiffInfo [OF assms(1)] simp: Let_def split: option.split)

lemma answers_FanFaultInfo:
  assumes "list_all lists_spaceless (xml_children cur)"
  shows "answers (ParseFanFaultInfo P U cur sensors faults)"
  unfolding ParseFanFaultInfo_def for_children_def
proof (rule answers_for_each, goal_cases)
  case (1 sub s)
  with assms have sub: "lists_spaceless sub" by (simp add: list_all_iff)
  have r: "SplitString v [] '','' = Inr (nonempty_fields CHR '','' v)" if "xmlGetProp sub ''threshold'' = Some v" for v
    by (rule split_list_attribute [OF sub _ that]) (simp add: list_attributes_def)
  show ?case by (auto simp: parse_fan_item_def r Let_def split: option.split)
qed

lemma answers_children:
  assumes "list_all Q (xml_children node)" and "\<And>cur s. Q cur \<Longrightarrow> answers (f cur s)"
  shows "answers (for_children tag f node s)"
  unfolding for_children_def using assms by (intro answers_for_each) (auto simp: list_all_iff)

text \<open>A section that is parsed to an answer and whose object exists.\<close>

lemma finish_answers:
  assumes "answers r" and "\<And>x. \<exists>s'. f x s = Inr s' \<and> Q s'" and "Q s"
  shows "\<exists>ok s'. finish r f s = Inr (ok, s') \<and> Q s'"
proof -
  obtain p where r: "r = Inr p" using assms(1) by (auto simp: answers_def)
  show ?thesis
  proof (cases p)
    case None
    with r assms(3) show ?thesis by (auto simp: finish_def)
  next
    case (Some x)
    obtain s' where "f x s = Inr s'" "Q s'" using assms(2) by blast
    with r Some show ?thesis by (simp add: finish_def)
  qed
qed

section \<open>The whole file\<close>

text \<open>The objects \<open>CreateConfigModule\<close> has made.\<close>

definition config_targets :: "thermal_service \<Rightarrow> bool" where
  "config_targets s \<longleftrightarrow> sv_baseInfo s \<noteq> None \<and> sv_state s \<and> sv_actionMgr s \<noteq> None \<and> sv_policy s \<noteq> None \<and>
     sv_fanFaultDetect s \<noteq> None"

lemma upd_world_targets [simp]: "config_targets (upd_world f s) = config_targets s"
  by (simp add: config_targets_def upd_world_def)

lemma ParseBaseNode_answers:
  assumes "config_targets s"
  shows "\<exists>ok s'. ParseBaseNode node s = Inr (ok, s') \<and> config_targets s'"
proof -
  let ?items = "for_children ''item'' (\<lambda>cur baseInfoMap.
      case xmlGetProp cur ''tag'' of None \<Rightarrow> rejected | Some tag \<Rightarrow>
      case xmlGetProp cur ''value'' of None \<Rightarrow> rejected | Some v \<Rightarrow> accepted (sm_insert tag v baseInfoMap)) node []"
  have "answers ?items"
    unfolding for_children_def by (rule answers_for_each) (auto split: option.split)
  moreover obtain b where "sv_baseInfo s = Some b" using assms by (auto simp: config_targets_def)
  ultimately show ?thesis
    using assms by (cases ?items rule: parse_cases)
      (auto simp: ParseBaseNode_def Let_def SetSimulationXml_def config_targets_def upd_world_def split: option.split)
qed

lemma ParseRootNode_answers:
  assumes s: "config_targets s" and node: "section_spaceless node"
  shows "\<exists>ok s'. ParseRootNode P U node s = Inr (ok, s') \<and> config_targets s'"
proof -
  have cur: "list_all (\<lambda>cur. lists_spaceless cur \<and> list_all lists_spaceless (xml_children cur)) (xml_children node)"
    using node by (simp add: section_spaceless_def)
  obtain p mgr faults where t: "sv_policy s = Some p" "sv_actionMgr s = Some mgr" "sv_fanFaultDetect s = Some faults" "sv_state s"
    using s by (auto simp: config_targets_def)
  have lev: "\<exists>ok s'. ParseLevelNode P U node s = Inr (ok, s') \<and> config_targets s'"
    unfolding ParseLevelNode_def
    by (rule finish_answers [OF answers_children [OF cur]])
      (use s t in \<open>auto simp: config_targets_def intro: answers_cluster\<close>)
  have state: "\<exists>ok s'. ParseStateNode node s = Inr (ok, s') \<and> config_targets s'"
    unfolding ParseStateNode_def for_children_def
    by (rule finish_answers [OF answers_for_each])
      (use s t in \<open>auto simp: parse_state_item_def Let_def split: option.split\<close>)
  have action: "\<exists>ok s'. ParseActionNode P node s = Inr (ok, s') \<and> config_targets s'"
    unfolding ParseActionNode_def for_children_def
    by (rule finish_answers [OF answers_for_each])
      (use s t in \<open>auto simp: config_targets_def parse_action_item_def split: option.split\<close>)
  have policy: "\<exists>ok s'. ParsePolicyNode U node s = Inr (ok, s') \<and> config_targets s'"
    unfolding ParsePolicyNode_def for_children_def
    by (rule finish_answers [OF answers_for_each])
      (use s t in \<open>auto simp: config_targets_def parse_policy_config_def split_def Let_def split: option.split\<close>)
  have idle: "\<exists>ok s'. ParseIdleNode P U node s = Inr (ok, s') \<and> config_targets s'"
    using s t by (auto simp: ParseIdleNode_def)
  have sensors: "SplitString v [] '','' = Inr (nonempty_fields CHR '','' v)"
    if "lists_spaceless c" "xmlGetProp c ''sensor'' = Some v" for c v
    by (rule split_list_attribute [OF that(1) _ that(2)]) (simp add: list_attributes_def)
  have fan: "\<exists>ok s'. ParseFanNode P U node s = Inr (ok, s') \<and> config_targets s'"
    unfolding ParseFanNode_def
    by (rule finish_answers [OF answers_children [OF cur]])
      (use s t sensors in \<open>auto simp: config_targets_def intro: answers_FanFaultInfo split: option.split\<close>)
  show ?thesis
    using lev state action policy idle fan ParseBaseNode_answers [OF s, of node] s by (simp add: ParseRootNode_def)
qed

lemma root_loop_answers:
  assumes "config_targets s" and "list_all section_spaceless nodes"
  shows "\<exists>ok s'. root_loop P U nodes s = Inr (ok, s') \<and> config_targets s'"
  using assms
proof (induction nodes arbitrary: s)
  case (Cons node nodes)
  obtain ok s1 where "ParseRootNode P U node s = Inr (ok, s1)" "config_targets s1"
    using ParseRootNode_answers [of s node P U] Cons.prems by auto
  with Cons show ?case by (cases ok) auto
qed auto

section \<open>What an accepted file looks like\<close>

text \<open>One item of a cluster, for the sensor at \<open>i\<close>, and the level it gives.\<close>

definition item_ok :: "config_uninit \<Rightarrow> nat \<Rightarrow> xml_node \<Rightarrow> LevelItem \<Rightarrow> bool" where
  "item_ok U n sub item \<longleftrightarrow>
     (\<exists>t c l. xmlGetProp sub ''threshold'' = Some t \<and> xmlGetProp sub ''threshold_clr'' = Some c \<and>
        xmlGetProp sub ''level'' = Some l \<and> level item = level_of l (level (un_LevelItem U)) \<and>
        length (nonempty_fields CHR '','' t) = n \<and> length (nonempty_fields CHR '','' c) = n)"

lemma SplitString_fieldsD: "SplitString s [] [c] = Inr fs \<Longrightarrow> fs = nonempty_fields c s"
  by (simp add: SplitString_eq split: if_splits)

lemma ParseLevelThreshold_ok:
  assumes "ParseLevelThreshold P sub sensors i ((un_LevelItem U)\<lparr>tempRiseRate := r\<rparr>) = accepted item"
  shows "item_ok U (length sensors) sub item"
proof -
  from assms obtain t c l ts cs where a: "xmlGetProp sub ''threshold'' = Some t" "xmlGetProp sub ''threshold_clr'' = Some c"
      "xmlGetProp sub ''level'' = Some l" "SplitString t [] '','' = Inr ts" "SplitString c [] '','' = Inr cs"
      "length sensors = length ts" "length sensors = length cs" "level item = level_of l (level (un_LevelItem U))"
    by (auto simp: ParseLevelThreshold_def Let_def bindr_eq_Inr split: option.splits if_splits)
  moreover have "ts = nonempty_fields CHR '','' t" "cs = nonempty_fields CHR '','' c"
    using a(4,5) by (simp_all add: SplitString_fieldsD)
  ultimately show ?thesis by (simp add: item_ok_def)
qed

lemma item_ok_rate [simp]: "item_ok U n sub (item\<lparr>tempRiseRate := r\<rparr>) = item_ok U n sub item"
  by (simp add: item_ok_def)

lemma ParseSensorLevelInfo_items:
  assumes "ParseSensorLevelInfo P U cur sensors i ([], sc) = accepted (items, sc')"
  shows "list_all2 (item_ok U (length sensors)) (named ''item'' cur) items"
proof -
  let ?pass = "\<lambda>subNode (levelItems, sc).
      bindp (ParseLevelThreshold P subNode sensors i ((un_LevelItem U)\<lparr>tempRiseRate := NO_RISE_RATE\<rparr>)) (\<lambda>levelItem.
        case xmlGetProp subNode ''temp_rise_rate'' of
          None \<Rightarrow> accepted (levelItems @ [levelItem], sc)
        | Some tempRiseRates \<Rightarrow>
            let sc = SetRateFlag True sc in
            bindr (SplitString tempRiseRates [] '','') (\<lambda>rates.
              if length sensors \<noteq> length rates then rejected
              else bindr (vec_at rates i) (\<lambda>r.
                let levelItem = levelItem\<lparr>tempRiseRate := or_keep (StrToDouble (strtod P) r) (tempRiseRate levelItem)\<rparr>
                in accepted (levelItems @ [levelItem], sc))))"
  have pass: "\<exists>item sc2. item_ok U (length sensors) sub item \<and> s' = (its @ [item], sc2)"
    if "?pass sub (its, sc1) = accepted s'" for sub its sc1 s'
  proof -
    from that obtain item where item: "ParseLevelThreshold P sub sensors i ((un_LevelItem U)\<lparr>tempRiseRate := NO_RISE_RATE\<rparr>) = accepted item"
      by (auto simp: bindp_eq_parsed)
    note ok = ParseLevelThreshold_ok [OF item]
    show ?thesis
    proof (cases "xmlGetProp sub ''temp_rise_rate''")
      case None
      with that item ok show ?thesis by auto
    next
      case (Some v)
      with that item obtain r where
        "s' = (its @ [item\<lparr>tempRiseRate := or_keep (StrToDouble (strtod P) r) (tempRiseRate item)\<rparr>], SetRateFlag True sc1)"
        by (auto simp: bindr_eq_Inr Let_def split: if_splits)
      then show ?thesis using ok item_ok_rate by blast
    qed
  qed
  have "\<exists>new. items' = its @ new \<and> list_all2 (item_ok U (length sensors)) subs new"
    if "for_each ?pass subs (its, sc1) = accepted (items', sc')" for subs its sc1 items'
    using that
  proof (induction subs arbitrary: its sc1)
    case (Cons sub subs)
    from Cons.prems obtain s where s: "?pass sub (its, sc1) = accepted s" "for_each ?pass subs s = accepted (items', sc')"
      by (auto simp only: for_each.simps bindp_eq_parsed)
    from pass [OF s(1)] obtain item sc2 where item: "item_ok U (length sensors) sub item" "s = (its @ [item], sc2)" by blast
    with Cons.IH s(2) obtain new where "items' = (its @ [item]) @ new" "list_all2 (item_ok U (length sensors)) subs new"
      by blast
    with item(1) show ?case by (intro exI [of _ "item # new"]) simp
  qed simp
  from this [of "named ''item'' cur" "[]" sc items] assms show ?thesis
    by (simp add: ParseSensorLevelInfo_def for_children_eq)
qed

lemma ParseSensorInfo_items:
  assumes "ParseSensorInfo P U cur sc = accepted sc'"
  shows "\<exists>v. xmlGetProp cur ''sensor'' = Some v \<and> nonempty_fields CHR '','' v \<noteq> [] \<and> sensorInfolist sc' \<noteq> [] \<and>
    list_all (\<lambda>(_, items). list_all2 (item_ok U (length (nonempty_fields CHR '','' v))) (named ''item'' cur) items)
      (sensorInfolist sc')"
proof -
  let ?pass = "\<lambda>sensors (i, sensorType) (infos, sc).
      bindp (ParseSensorLevelInfo P U cur sensors i ([], sc)) (\<lambda>(items, sc).
        if items = [] then rejected else accepted (sm_insert sensorType items infos, sc))"
  from assms obtain v sensors infos sc1 where v: "xmlGetProp cur ''sensor'' = Some v"
      "SplitString v [] '','' = Inr sensors" "sensors \<noteq> []"
    and loop: "for_each (?pass sensors) (enumerate 0 sensors) ([], sc) = accepted (infos, sc1)"
    and sc': "sc' = SetSensorLevelInfo infos sc1"
    by (auto simp: ParseSensorInfo_def bindr_eq_Inr bindp_eq_parsed split: option.splits if_splits)
  let ?ok = "\<lambda>infos. list_all (\<lambda>(_, items). list_all2 (item_ok U (length sensors)) (named ''item'' cur) items) infos"
  have step: "?ok infos2 \<and> infos2 \<noteq> []" if "?pass sensors x (infos1, c1) = accepted (infos2, c2)" "?ok infos1" for x infos1 c1 infos2 c2
    using that by (cases x) (auto simp: bindp_eq_parsed list_all_sm_insert split: if_splits
        dest!: ParseSensorLevelInfo_items)
  from v(3) obtain x xs where xs: "enumerate 0 sensors = x # xs" by (cases sensors) auto
  with loop obtain infos1 c1 where 1: "?pass sensors x ([], sc) = accepted (infos1, c1)"
      "for_each (?pass sensors) xs (infos1, c1) = accepted (infos, sc1)"
    by (auto simp only: for_each.simps bindp_eq_parsed)
  from 1(2) have "(\<lambda>(infos, _). ?ok infos \<and> infos \<noteq> []) (infos, sc1)"
  proof (rule for_each_invariant)
    show "(\<lambda>(infos, _). ?ok infos \<and> infos \<noteq> []) (infos1, c1)" using step [OF 1(1)] by simp
  next
    fix y s s'
    assume "(\<lambda>(infos, _). ?ok infos \<and> infos \<noteq> []) s" and "?pass sensors y s = accepted s'"
    then show "(\<lambda>(infos, _). ?ok infos \<and> infos \<noteq> []) s'"
      using step [of y "fst s" "snd s" "fst s'" "snd s'"] by (simp add: split_def)
  qed
  then have "?ok infos" "infos \<noteq> []" by auto
  moreover have "sensors = nonempty_fields CHR '','' v" by (rule SplitString_fieldsD [OF v(2)])
  ultimately show ?thesis using v(1,3) sc' by (simp add: SetSensorLevelInfo_def)
qed

text \<open>
  The shape of a cluster, and of a section: the attributes the code asks for, as many thresholds
  as sensors, and the levels 1, 2, ... in order.
\<close>

definition level_item_wellformed :: "config_uninit \<Rightarrow> nat \<Rightarrow> nat \<Rightarrow> xml_node \<Rightarrow> bool" where
  "level_item_wellformed U n k sub \<longleftrightarrow>
     (\<exists>t c l. xmlGetProp sub ''threshold'' = Some t \<and> xmlGetProp sub ''threshold_clr'' = Some c \<and>
        xmlGetProp sub ''level'' = Some l \<and> level_of l (level (un_LevelItem U)) = Suc k \<and>
        length (nonempty_fields CHR '','' t) = n \<and> length (nonempty_fields CHR '','' c) = n)"

definition cluster_wellformed :: "config_uninit \<Rightarrow> xml_node \<Rightarrow> bool" where
  "cluster_wellformed U cur \<longleftrightarrow>
     xmlGetProp cur ''name'' \<noteq> None \<and> named ''item'' cur \<noteq> [] \<and>
     (\<exists>v. xmlGetProp cur ''sensor'' = Some v \<and> nonempty_fields CHR '','' v \<noteq> [] \<and>
        (\<forall>k < length (named ''item'' cur).
           level_item_wellformed U (length (nonempty_fields CHR '','' v)) k (named ''item'' cur ! k)))"

definition fan_cluster_wellformed :: "xml_node \<Rightarrow> bool" where
  "fan_cluster_wellformed cur \<longleftrightarrow>
     (\<exists>v. xmlGetProp cur ''sensor'' = Some v \<and>
        (\<forall>sub \<in> set (named ''item'' cur). xmlGetProp sub ''fault'' \<noteq> None \<and>
           (\<exists>t. xmlGetProp sub ''threshold'' = Some t \<and>
              length (nonempty_fields CHR '','' t) = length (nonempty_fields CHR '','' v))))"

definition section_wellformed :: "config_uninit \<Rightarrow> xml_node \<Rightarrow> bool" where
  "section_wellformed U node \<longleftrightarrow>
     xml_name node \<in> {''base'', ''level'', ''state'', ''action'', ''policy'', ''idle'', ''fan'', ''comment''} \<and>
     (xml_name node = ''base'' \<longrightarrow>
        (\<forall>cur \<in> set (named ''item'' node). xmlGetProp cur ''tag'' \<noteq> None \<and> xmlGetProp cur ''value'' \<noteq> None)) \<and>
     (xml_name node = ''level'' \<longrightarrow> (\<forall>cur \<in> set (named ''sensor_cluster'' node). cluster_wellformed U cur)) \<and>
     (xml_name node \<in> {''state'', ''action''} \<longrightarrow> (\<forall>cur \<in> set (named ''item'' node). xmlGetProp cur ''name'' \<noteq> None)) \<and>
     (xml_name node = ''policy'' \<longrightarrow>
        (\<forall>cur \<in> set (named ''config'' node). xmlGetProp cur ''name'' \<noteq> None \<and> xmlGetProp cur ''level'' \<noteq> None)) \<and>
     (xml_name node = ''fan'' \<longrightarrow> (\<forall>cur \<in> set (named ''sensor_cluster'' node). fan_cluster_wellformed cur))"

lemma parse_cluster_wellformed:
  assumes "parse_cluster P U cur msc = accepted msc'"
  shows "cluster_wellformed U cur"
proof -
  from assms obtain name c1 c2 c3 c4 where
    name: "xmlGetProp cur ''name'' = Some name" and 1: "ParseLevelState cur SensorCluster_new = accepted c1"
    and 2: "ParseAuxSensorInfo P U cur c1 = accepted c2" and 3: "ParseSensorInfo P U cur c2 = accepted c3"
    and 4: "ParseTempDiffInfo P cur c3 = accepted c4"
    by (auto simp: parse_cluster_def bindp_eq_parsed split: option.splits)
  define c where "c = (case xmlGetProp cur ''desc'' of
      Some desc \<Rightarrow> if TrimStr P desc = TRUE_STR then SetDescFlag True c4 else c4 | None \<Rightarrow> c4)"
  from assms name 1 2 3 4 have std: "CheckStandard c"
    unfolding parse_cluster_def c_def by (simp_all add: Let_def split: if_splits)
  have infos: "sensorInfolist c = sensorInfolist c3"
    using arg_cong [OF ParseTempDiffInfo_keeps [OF 4], of sensorInfolist]
    by (auto simp: c_def SetDescFlag_def split: option.split)
  from ParseSensorInfo_items [OF 3] obtain v where v: "xmlGetProp cur ''sensor'' = Some v"
      "nonempty_fields CHR '','' v \<noteq> []" "sensorInfolist c3 \<noteq> []"
      "list_all (\<lambda>(_, items). list_all2 (item_ok U (length (nonempty_fields CHR '','' v))) (named ''item'' cur) items)
        (sensorInfolist c3)" by blast
  then obtain s items rest where first: "sensorInfolist c3 = (s, items) # rest"
    by (cases "sensorInfolist c3") auto
  with v(4) ParseSensorInfo_keeps(2) [OF 3] have items: "items \<noteq> []"
      "list_all2 (item_ok U (length (nonempty_fields CHR '','' v))) (named ''item'' cur) items" by auto
  from std infos first have "levels_in_order items" by (simp add: CheckStandard_def Let_def)
  then have lev: "level (items ! k) = Suc k" if "k < length items" for k
    using that by (rule levels_in_order_nth)
  have len: "length (named ''item'' cur) = length items" using items(2) by (rule list_all2_lengthD)
  have "level_item_wellformed U (length (nonempty_fields CHR '','' v)) k (named ''item'' cur ! k)"
    if k: "k < length (named ''item'' cur)" for k
  proof -
    from k items(2) have "item_ok U (length (nonempty_fields CHR '','' v)) (named ''item'' cur ! k) (items ! k)"
      by (rule list_all2_nthD [rotated])
    then show ?thesis using lev [of k] k len unfolding item_ok_def level_item_wellformed_def by auto
  qed
  moreover have "named ''item'' cur \<noteq> []" using items(1) len by auto
  ultimately show ?thesis using name v(1,2) by (simp add: cluster_wellformed_def)
qed

lemma ParseFanFaultInfo_wellformed:
  assumes "ParseFanFaultInfo P U cur sensors faults = accepted faults'" and "sub \<in> set (named ''item'' cur)"
  shows "xmlGetProp sub ''fault'' \<noteq> None \<and>
    (\<exists>t. xmlGetProp sub ''threshold'' = Some t \<and> length (nonempty_fields CHR '','' t) = length sensors)"
proof -
  obtain f1 f2 where "parse_fan_item P U sensors sub f1 = accepted f2"
    using for_each_accepts assms unfolding ParseFanFaultInfo_def for_children_eq by metis
  then show ?thesis
    by (auto simp: parse_fan_item_def Let_def bindr_eq_Inr split: option.splits if_splits dest!: SplitString_fieldsD)
qed

lemma accepted_children:
  assumes "for_children tag f node s = accepted s'" and "cur \<in> set (named tag node)"
  shows "\<exists>s1 s2. f cur s1 = accepted s2"
  using assms unfolding for_children_eq by (rule for_each_accepts)

lemma accepted_finish: "finish r f s = Inr (True, s') \<Longrightarrow> \<exists>x. r = accepted x"
  by (auto dest: finish_cases)

lemma ParseRootNode_wellformed:
  assumes "ParseRootNode P U node s = Inr (True, s')"
  shows "section_wellformed U node"
proof -
  have known: "xml_name node \<in> {''base'', ''level'', ''state'', ''action'', ''policy'', ''idle'', ''fan'', ''comment''}"
    using assms by (auto simp: ParseRootNode_def split: if_splits)
  have base: "xmlGetProp cur ''tag'' \<noteq> None \<and> xmlGetProp cur ''value'' \<noteq> None"
    if n: "xml_name node = ''base''" and cur: "cur \<in> set (named ''item'' node)" for cur
  proof -
    from assms n obtain m where "for_children ''item'' (\<lambda>cur baseInfoMap.
        case xmlGetProp cur ''tag'' of None \<Rightarrow> rejected | Some tag \<Rightarrow>
        case xmlGetProp cur ''value'' of None \<Rightarrow> rejected | Some v \<Rightarrow>
          accepted (sm_insert tag v baseInfoMap)) node [] = accepted m"
      by (auto simp: ParseRootNode_def ParseBaseNode_def bindr_eq_Inr split: option.splits)
    from accepted_children [OF this cur] show ?thesis by (auto split: option.splits)
  qed
  have lev: "cluster_wellformed U cur"
    if n: "xml_name node = ''level''" and cur: "cur \<in> set (named ''sensor_cluster'' node)" for cur
  proof -
    from assms n obtain m where "for_children ''sensor_cluster'' (parse_cluster P U) node [] = accepted m"
      by (auto simp: ParseRootNode_def ParseLevelNode_def dest!: accepted_finish)
    from accepted_children [OF this cur] show ?thesis by (auto dest: parse_cluster_wellformed)
  qed
  have st: "xmlGetProp cur ''name'' \<noteq> None"
    if n: "xml_name node = ''state''" and cur: "cur \<in> set (named ''item'' node)" for cur
  proof -
    from assms n obtain m where "for_children ''item'' (\<lambda>cur items. bindp (parse_state_item cur) (\<lambda>si. accepted (items @ [si])))
        node [] = accepted m"
      by (auto simp: ParseRootNode_def ParseStateNode_def dest!: accepted_finish)
    from accepted_children [OF this cur] show ?thesis
      by (auto simp: parse_state_item_def bindp_eq_parsed split: option.splits)
  qed
  have ac: "xmlGetProp cur ''name'' \<noteq> None"
    if n: "xml_name node = ''action''" and cur: "cur \<in> set (named ''item'' node)" for cur
  proof -
    from assms n obtain m where "for_children ''item'' (\<lambda>cur items. bindp (parse_action_item P cur) (\<lambda>ai. accepted (items @ [ai])))
        node [] = accepted m"
      by (auto simp: ParseRootNode_def ParseActionNode_def dest!: accepted_finish)
    from accepted_children [OF this cur] show ?thesis
      by (auto simp: parse_action_item_def bindp_eq_parsed split: option.splits)
  qed
  have po: "xmlGetProp cur ''name'' \<noteq> None \<and> xmlGetProp cur ''level'' \<noteq> None"
    if n: "xml_name node = ''policy''" and cur: "cur \<in> set (named ''config'' node)" for cur
  proof -
    from assms n obtain m where "for_children ''config'' (parse_policy_config U) node [] = accepted m"
      by (auto simp: ParseRootNode_def ParsePolicyNode_def dest!: accepted_finish)
    from accepted_children [OF this cur] show ?thesis by (auto simp: parse_policy_config_def split: option.splits)
  qed
  have fan: "fan_cluster_wellformed cur"
    if n: "xml_name node = ''fan''" and cur: "cur \<in> set (named ''sensor_cluster'' node)" for cur
  proof -
    from assms n obtain m where "for_children ''sensor_cluster'' (\<lambda>cur faults.
        case xmlGetProp cur ''sensor'' of None \<Rightarrow> rejected
        | Some str \<Rightarrow> bindr (SplitString str [] '','') (\<lambda>sensors. ParseFanFaultInfo P U cur sensors faults)) node [] = accepted m"
      by (auto simp: ParseRootNode_def ParseFanNode_def dest!: accepted_finish)
    from accepted_children [OF this cur] obtain v sensors f1 f2 where v: "xmlGetProp cur ''sensor'' = Some v"
        "SplitString v [] '','' = Inr sensors" "ParseFanFaultInfo P U cur sensors f1 = accepted f2"
      by (auto simp: bindr_eq_Inr split: option.splits)
    with ParseFanFaultInfo_wellformed [OF v(3)] SplitString_fieldsD [OF v(2)] show ?thesis
      unfolding fan_cluster_wellformed_def by blast
  qed
  show ?thesis using known base lev st ac po fan unfolding section_wellformed_def by blast
qed

lemma root_loop_wellformed:
  "root_loop P U nodes s = Inr (True, s') \<Longrightarrow> list_all (section_wellformed U) nodes"
proof (induction nodes arbitrary: s)
  case (Cons node nodes)
  then obtain s1 where "ParseRootNode P U node s = Inr (True, s1)" "root_loop P U nodes s1 = Inr (True, s')"
    by (auto simp: bindr_eq_Inr split: if_splits)
  with Cons.IH show ?case by (auto dest: ParseRootNode_wellformed)
qed simp

text \<open>The root element the parser reads.\<close>

definition config_root :: "config_source \<Rightarrow> string \<Rightarrow> xml_node option" where
  "config_root src path =
     (case (case DecryptConfig src path of Some res \<Rightarrow> xmlReadMemory src res | None \<Rightarrow> xmlReadFile src path) of
        Some doc \<Rightarrow> doc | None \<Rightarrow> None)"

lemma ParseXmlFile_root:
  "ParseXmlFile src P U path s =
     (case config_root src path of None \<Rightarrow> Inr (False, s) | Some doc \<Rightarrow> root_loop P U (xml_children doc) s)"
  by (auto simp: ParseXmlFile_def config_root_def split: option.split)

section \<open>A concrete configuration\<close>

definition sample_item :: xml_node where
  "sample_item = element ''item'' [(''level'', ''1''), (''threshold'', ''40''), (''threshold_clr'', ''38'')] []"

definition sample_cluster_node :: xml_node where
  "sample_cluster_node = element ''sensor_cluster'' [(''name'', ''base''), (''sensor'', ''soc'')] [sample_item]"

definition sample_level_node :: xml_node where
  "sample_level_node = element ''level'' [] [sample_cluster_node]"

definition sample_source :: "xml_node \<Rightarrow> config_source" where
  "sample_source n = \<lparr>xmlReadMemory = (\<lambda>_. None), xmlReadFile = (\<lambda>_. Some (Some (element ''thermal'' [] [n]))),
     HookMgrExecute = (\<lambda>_. (1, []))\<rparr>"

definition sample_uninit :: config_uninit where
  "sample_uninit = \<lparr>un_LevelItem = \<lparr>threshold = 0, thresholdClr = 0, tempRiseRate = 0, level = 0\<rparr>,
     un_AuxLevelItem = \<lparr>lowerTemp = 0, upperTemp = 0, aux_level = 0\<rparr>, un_policyLevel = 0,
     un_IdleState = \<lparr>idle_level = 0, idle_soc = 0, idle_charging = 0, idle_current = 0\<rparr>, un_faultNum = 0, un_fanValue = 0\<rparr>"

definition number_platform :: platform where
  "number_platform = sample_platform\<lparr>StrToInt := (\<lambda>s. if s = ''40'' then Some 40 else if s = ''38'' then Some 38 else None)\<rparr>"

definition sample_service :: thermal_service where
  "sample_service = (ThermalService_new sample_world)\<lparr>sv_policy := Some Policy_new, sv_baseInfo := Some BaseInfo_new,
     sv_state := True, sv_actionMgr := Some \<lparr>vActionItem = [], managedActions = []\<rparr>, sv_fanFaultDetect := Some []\<rparr>"

lemma sample_service_targets [simp]: "config_targets sample_service"
  by (simp add: config_targets_def sample_service_def)

lemma named_simps [simp]:
  "named tag (element n ps []) = []"
  "named tag (element n ps (c # cs)) = (if xml_name c = tag then c # named tag (element n ps cs) else named tag (element n ps cs))"
  by (simp_all add: named_def)

lemma sample_level: "level_of ''1'' d = 1"
proof -
  have "''1'' = to_dec 1" by (simp add: to_dec_eval)
  then show ?thesis using StrToUint_to_dec [of 1] by (simp add: level_of_def)
qed

lemma one_field [simp]: "c \<notin> set s \<Longrightarrow> s \<noteq> [] \<Longrightarrow> nonempty_fields c s = [s]"
  by (subst nonempty_fields_unfold) (simp add: push_nonempty_def)

definition parsed_cluster :: SensorCluster where
  "parsed_cluster = SensorCluster_new\<lparr>sensorInfolist :=
     [(''soc'', [\<lparr>threshold = 40, thresholdClr = 38, tempRiseRate = NO_RISE_RATE, level = 1\<rparr>])]\<rparr>"

lemma parse_sample_cluster:
  "parse_cluster number_platform sample_uninit sample_cluster_node [] = accepted [(''base'', parsed_cluster)]"
  by (simp add: parse_cluster_def sample_cluster_node_def ParseLevelState_def for_children_eq ParseAuxSensorInfo_def
      ParseSensorInfo_def ParseSensorLevelInfo_def ParseLevelThreshold_def ParseTempDiffInfo_def sample_item_def
      SplitString_spaceless sample_level number_platform_def SetSensorLevelInfo_def CheckStandard_def levels_in_order_def
      parsed_cluster_def SensorCluster_new_def sample_uninit_def)

lemma parse_sample_level:
  "ParseLevelNode number_platform sample_uninit sample_level_node sample_service =
     Inr (True, sample_service\<lparr>sv_policy := Some (Policy_new\<lparr>sensorClusterMap := [(''base'', parsed_cluster)]\<rparr>)\<rparr>)"
  using parse_sample_cluster
  by (simp add: ParseLevelNode_def sample_level_node_def for_children_eq sample_cluster_node_def finish_def sample_service_def
      ThermalPolicy_SetSensorClusterMap_def)

lemma sample_spaceless:
  "list_all section_spaceless [sample_level_node, element ''sensors'' [] []]"
  by (simp add: section_spaceless_def sample_level_node_def sample_cluster_node_def lists_spaceless_def list_attributes_def
      sample_item_def)

lemma sample_document: "config_root (sample_source n) path = Some (element ''thermal'' [] [n])"
  by (simp add: config_root_def sample_source_def DecryptConfig_def)

section \<open>Properties\<close>

text \<open>
  C20: parsing a configuration file always ends with an answer, success or failure, and never
  fails otherwise (no exception, no access out of range, no null pointer), if the values of its
  list attributes hold no space and the objects it fills exist. It leaves these in existence.
\<close>

theorem parser_returns:
  assumes "config_targets s"
    and "\<forall>doc. config_root src path = Some doc \<longrightarrow> list_all section_spaceless (xml_children doc)"
  shows "\<exists>ok s'. ThermalSrvConfigInit src P U path s = Inr (ok, s') \<and> config_targets s'"
  using assms root_loop_answers by (auto simp: ThermalSrvConfigInit_def ParseXmlFile_root split: option.split)

theorem parser_returns_witness:
  "\<exists>ok s'. ThermalSrvConfigInit (sample_source sample_level_node) number_platform sample_uninit ''/vendor/c.xml'' sample_service =
     Inr (ok, s') \<and> config_targets s'"
  by (rule parser_returns) (use sample_spaceless in \<open>simp_all add: sample_document\<close>)

text \<open>
  C21: a file with a malformed section is rejected: an unknown section, a cluster without a name,
  a sensor list, an item, or with items that lack an attribute, list too many or too few
  thresholds, or are not numbered 1, 2, ...; a state, action, policy or base item without the
  attributes the code asks for; a fan fault without its number or with a wrong count of thresholds.
\<close>

theorem malformed_file_rejected:
  assumes "config_root src path = Some doc" and "node \<in> set (xml_children doc)" and "\<not> section_wellformed U node"
    and "config_targets s" and "list_all section_spaceless (xml_children doc)"
  shows "\<exists>s'. ThermalSrvConfigInit src P U path s = Inr (False, s')"
proof -
  have eq: "ThermalSrvConfigInit src P U path s = root_loop P U (xml_children doc) s"
    using assms(1) by (simp add: ThermalSrvConfigInit_def ParseXmlFile_root)
  obtain ok s' where r: "root_loop P U (xml_children doc) s = Inr (ok, s')"
    using root_loop_answers [OF assms(4,5)] by blast
  have "\<not> ok" using root_loop_wellformed [of P U "xml_children doc" s s'] r assms(2,3) by (auto simp: list_all_iff)
  with r eq show ?thesis by simp
qed

theorem malformed_file_rejected_witness:
  "\<exists>s'. ThermalSrvConfigInit (sample_source (element ''sensors'' [] [])) number_platform sample_uninit ''/vendor/c.xml''
     sample_service = Inr (False, s')"
  by (rule malformed_file_rejected [OF sample_document, of "element ''sensors'' [] []"])
    (use sample_spaceless in \<open>simp_all add: section_wellformed_def\<close>)

text \<open>
  C22: a section of levels is taken over as a whole or not at all. When it is accepted, every
  cluster it installs starts at level 0 with a configuration the level search works on: the same
  number of levels for every sensor, numbered in order, at least one, with the ranges of all
  auxiliary sensors and the temperature differences of all levels.
\<close>

theorem level_section_installs_standard_clusters:
  assumes "ParseLevelNode P U node s = Inr (ok, s')" and "sv_policy s = Some p"
  shows "if ok then \<exists>m. s' = s\<lparr>sv_policy := Some (p\<lparr>sensorClusterMap := m\<rparr>)\<rparr> \<and> clusters_ok m else s' = s"
proof (cases ok)
  case True
  with finish_cases [OF assms(1) [unfolded ParseLevelNode_def]] obtain m where
    m: "for_children ''sensor_cluster'' (parse_cluster P U) node [] = accepted m"
      "s' = s\<lparr>sv_policy := Some (ThermalPolicy_SetSensorClusterMap m p)\<rparr>"
    using assms(2) by auto
  with parse_clusters_ok True show ?thesis by (auto simp: ThermalPolicy_SetSensorClusterMap_def)
next
  case False
  with finish_cases [OF assms(1) [unfolded ParseLevelNode_def]] show ?thesis by simp
qed

theorem level_section_installs_standard_clusters_witness:
  "clusters_ok [(''base'', parsed_cluster)]"
  using level_section_installs_standard_clusters [OF parse_sample_level, of Policy_new]
  by (auto simp: sample_service_def Policy_new_def ThermalService_new_def)

text \<open>
  Once a section of levels is accepted, the service keeps deciding: for every sequence of
  reports with temperatures in range the decision of the levels returns each time, and after the
  last report every configured cluster has its level recorded, within its configured levels. The
  states the clusters name must not hold a space.
\<close>

theorem accepted_levels_keep_deciding:
  assumes "ParseLevelNode P U node s = Inr (True, s')" and "sv_policy s = Some p" and "sm_ok (clusterLevelMap p)"
    and "\<forall>cur \<in> set (named ''sensor_cluster'' node). state_values_spaceless cur"
    and "\<forall>(rates, m) \<in> set reports. temps_ok m" and "reports \<noteq> []"
  shows "\<exists>p' p2 w2. sv_policy s' = Some p' \<and> decide_reports P reports (p', w) = Inr (p2, w2) \<and>
    (\<forall>name \<in> fst ` set (sensorClusterMap p').
       \<exists>c. sm_find (sensorClusterMap p2) name = Some c \<and>
         sm_find (clusterLevelMap p2) name = Some (latestLevel c) \<and> latestLevel c \<le> cluster_size c)"
proof -
  from finish_cases [OF assms(1) [unfolded ParseLevelNode_def]] assms(2) obtain m where
    m: "for_children ''sensor_cluster'' (parse_cluster P U) node [] = accepted m"
      "s' = s\<lparr>sv_policy := Some (p\<lparr>sensorClusterMap := m\<rparr>)\<rparr>"
    by (auto simp: ThermalPolicy_SetSensorClusterMap_def)
  let ?p = "p\<lparr>sensorClusterMap := m\<rparr>"
  have "policy_ready P ?p"
    using parse_clusters_ready [OF m(1) assms(4)] assms(3) by (auto simp: clusters_ready_def policy_ready_def list_all_iff)
  from decide_reports_ready [OF this assms(5), of w] assms(6) obtain p2 w2 where
    d: "decide_reports P reports (?p, w) = Inr (p2, w2)" "map fst (sensorClusterMap p2) = map fst m"
      "\<forall>name c. sm_find (sensorClusterMap p2) name = Some c \<longrightarrow>
         sm_find (clusterLevelMap p2) name = Some (latestLevel c) \<and> latestLevel c \<le> cluster_size c"
    by auto
  have "\<exists>c. sm_find (sensorClusterMap p2) name = Some c" if "name \<in> fst ` set m" for name
    using that arg_cong [OF d(2), of set] by (metis list.set_map map_of_eq_None_iff not_None_eq)
  with d(3) have "\<forall>name \<in> fst ` set m. \<exists>c. sm_find (sensorClusterMap p2) name = Some c \<and>
      sm_find (clusterLevelMap p2) name = Some (latestLevel c) \<and> latestLevel c \<le> cluster_size c"
    by blast
  with d(1) m(2) show ?thesis by (intro exI [of _ ?p] exI [of _ p2] exI [of _ w2]) simp
qed


theorem accepted_levels_keep_deciding_witness:
  "\<exists>p2 w2 lev. decide_reports number_platform [(\<lparr>sensorsRateMap = [], rateCount = 0\<rparr>, [(''soc'', 41)])]
      (Policy_new\<lparr>sensorClusterMap := [(''base'', parsed_cluster)]\<rparr>, sample_world) = Inr (p2, w2) \<and>
     sm_find (clusterLevelMap p2) ''base'' = Some lev"
  using accepted_levels_keep_deciding [OF parse_sample_level, of Policy_new
      "[(\<lparr>sensorsRateMap = [], rateCount = 0\<rparr>, [(''soc'', 41)])]" sample_world]
  by (auto simp: sample_service_def Policy_new_def sample_level_node_def sample_cluster_node_def sample_item_def
      state_values_spaceless_def temps_ok_def)
end
