(* ===== verification/Service_Proofs.thy ===== *)
theory Service_Proofs
  imports Service_Dump Config_Proofs
begin

text \<open>
  The two ways to reason about the operations of the service, with the rules for every component
  it runs: \<open>no_null\<close>, that an operation is not stopped by a pointer that is not set, and
  \<open>on_success\<close>, what holds of the result if there is one. The components are shown to leave the
  policy's registration with the observer alone.
\<close>

section \<open>Null pointers come from the service alone\<close>

definition no_null :: "'a result \<Rightarrow> bool" where
  "no_null r \<longleftrightarrow> r \<noteq> Inl NullPointer"

named_theorems no_null_intros

lemma no_null_Inr [simp]: "no_null (Inr x)"
  by (simp add: no_null_def)

lemma no_null_errors [simp]: "no_null (Inl e) \<longleftrightarrow> e \<noteq> NullPointer"
  by (simp add: no_null_def)

lemma no_null_bindr [no_null_intros]: "no_null r \<Longrightarrow> (\<And>x. r = Inr x \<Longrightarrow> no_null (f x)) \<Longrightarrow> no_null (bindr r f)"
  by (cases r) simp_all

lemma no_null_fold [no_null_intros]: "(\<And>x s. no_null (f x s)) \<Longrightarrow> no_null (foldr_result f xs s)"
  by (induction xs arbitrary: s) (simp_all add: no_null_bindr)

lemma no_null_basic [simp]: "no_null (vec_at xs i)" "no_null (vec_index xs i)" "no_null (check32 n)" "no_null (returns r)"
  by (simp_all add: vec_at_def vec_index_def check32_def returns_def split: option.split)

lemma no_null_SplitString [simp]: "no_null (SplitString s ret [c])"
  by (simp add: SplitString_eq)

lemma no_null_DecideState [simp]: "no_null (IStateCollection_DecideState P w v coll)"
  by (cases coll) (auto simp: ExtendStateCollection_DecideState_def split_def Let_def intro!: no_null_intros)

lemma no_null_check_state [simp]: "no_null (check_state_loop P l w)"
  by (induction l arbitrary: w)
    (auto intro!: no_null_intros split: option.split prod.split simp: Let_def)

lemma no_null_decision [simp]: "no_null (ThermalPolicy_StateMachineDecision P l w)"
  by (induction l arbitrary: w)
    (auto intro!: no_null_intros split: option.split prod.split simp: Let_def)

lemma no_null_aux_loop [simp]: "no_null (aux_loop temps lev l)"
  by (induction l) (auto intro!: no_null_intros split: option.split)

lemma no_null_extra [simp]: "no_null (extra a lev isCritical c)"
  by (auto simp: extra_def CheckExtraCondition_def IsAuxSensorTrigger_def IsTempRateTrigger_def IsTempDiffTrigger_def Let_def
      intro!: no_null_intros split: option.split)

lemma no_null_tests [no_null_intros]:
  "no_null r \<Longrightarrow> no_null (negate r)" "no_null (q c) \<Longrightarrow> no_null (Sensor_Cluster.and_then b q c)"
  "no_null (q c) \<Longrightarrow> no_null (or_else b q c)" "no_null test \<Longrightarrow> (\<And>c. no_null (search c)) \<Longrightarrow> no_null (cond_then test search lev)"
  by (auto simp: negate_def Sensor_Cluster.and_then_def or_else_def cond_then_def intro!: no_null_intros)

lemma no_null_up [no_null_intros]: "(\<And>item c. no_null (pass item c)) \<Longrightarrow> no_null (up_loop pass items lev c)"
  by (induction items arbitrary: lev c) (auto intro!: no_null_bindr)

lemma no_null_down [no_null_intros]: "(\<And>item c. no_null (pass item c)) \<Longrightarrow> no_null (down_loop pass items i lev c)"
  by (induction i arbitrary: lev c) (auto intro!: no_null_bindr)

lemma no_null_judgments [simp]: "no_null (AscJudgment a lev c)" "no_null (DescJudgment a lev c)"
  by (auto simp: AscJudgment_def DescJudgment_def AscendLevelToThreshold_def DescendLevelToThresholdClr_def
      DescendLevelToThreshold_def AscendLevelToThresholdClr_def LevelUpwardsSearch_def LevelDownwardsSearch_def
      LevelDownwardsSearchWithThreshold_def LevelUpwardsSearchWithThreshold_def intro!: no_null_intros)

lemma no_null_sensor_loop [simp]: "no_null (sensor_loop rates temps l levels c)"
  by (induction rates temps l levels c rule: sensor_loop.induct)
    (auto intro!: no_null_intros split: option.split simp: Let_def)

lemma no_null_UpdateThermalLevel [simp]: "no_null (UpdateThermalLevel P rates temps cw)"
  by (auto simp: UpdateThermalLevel_def CheckState_def CalculateSensorLevel_def intro!: no_null_intros split: prod.split)

lemma no_null_level_loop [simp]: "no_null (level_loop P rates temps cs levels w)"
  by (induction P rates temps cs levels w rule: level_loop.induct) (auto intro!: no_null_intros)

lemma no_null_collect [simp]: "no_null (collect_actions P pas infos w)"
  by (induction P pas infos w rule: collect_actions.induct) (auto intro!: no_null_intros)

lemma no_null_add [simp]: "no_null (add_policy_action strtof u x acts)"
  by (auto simp: add_policy_action_def Let_def intro!: no_null_intros split: prod.split option.split list.split)

lemma no_null_policy [simp]:
  "no_null (ThermalPolicy_LevelDecision P rates pw)" "no_null (ThermalPolicy_WriteLevel p w)"
  "no_null (ThermalPolicy_PolicyDecision strtof P u sys)"
  by (auto simp: ThermalPolicy_LevelDecision_def ThermalPolicy_WriteLevel_def ThermalPolicy_PolicyDecision_def
      decide_cluster_def ThermalPolicy_ActionDecision_def Let_def intro!: no_null_intros split: prod.split option.split)

lemma no_null_report [simp]:
  "no_null (ThermalPolicy_OnSensorInfoReported strtof P u rates info sys)" "no_null (ThermalPolicy_ExecutePolicy strtof P u rates sys)"
  by (auto simp: ThermalPolicy_OnSensorInfoReported_def ThermalPolicy_ExecutePolicy_def intro!: no_null_intros split: prod.split)

lemma no_null_history [simp]: "no_null (ThermalServiceSubscriber_SetHistoryTypeTempMap rd temps sub)"
  by (auto simp: ThermalServiceSubscriber_SetHistoryTypeTempMap_def push_rate_def GetThermalRiseRate_def rate_step_def Let_def
      intro!: no_null_intros split: prod.split option.split)

lemma no_null_sm_at [simp]: "no_null (sm_at m k)"
  by (simp add: sm_at_def split: option.split)

lemma no_null_fan_loops [simp]: "no_null (fan_hot_loop report l)" "no_null (report_info_loop report l info)"
  by (induction l arbitrary: info) (auto intro!: no_null_bindr)

lemma no_null_fan [simp]: "no_null (FanFaultDetect_OnFanSensorInfoChanged report m w)"
  by (auto simp: FanFaultDetect_OnFanSensorInfoChanged_def FanFaultDetect_CheckFanFault_def FanFaultDetect_CheckFanTooSlow_def
      FanFaultDetect_CheckFanTooFast_def FanFaultDetect_FormatReportInfo_def Let_def intro!: no_null_intros split: prod.split)

lemma no_null_bindp [no_null_intros]: "no_null r \<Longrightarrow> (\<And>x. r = accepted x \<Longrightarrow> no_null (f x)) \<Longrightarrow> no_null (bindp r f)"
  by (cases r rule: parse_cases) simp_all

lemma no_null_for_each [no_null_intros]: "(\<And>x s. no_null (f x s)) \<Longrightarrow> no_null (for_each f xs s)"
  by (induction xs arbitrary: s) (auto intro: no_null_bindp)

lemma no_null_for_children [no_null_intros]: "(\<And>x s. no_null (f x s)) \<Longrightarrow> no_null (for_children tag f node s)"
  by (auto simp: for_children_def intro!: no_null_intros)

lemma no_null_parse_aux [simp]: "no_null (ParseAuxSensorInfo P U cur sc)"
  by (auto simp: ParseAuxSensorInfo_def ParseAuxSensorLevInfo_def ParseAuxSensorTriggerRange_def Let_def
      intro!: no_null_intros split: option.split)

lemma no_null_parse_sensor [simp]: "no_null (ParseSensorInfo P U cur sc)"
  by (auto simp: ParseSensorInfo_def ParseSensorLevelInfo_def ParseLevelThreshold_def Let_def
      intro!: no_null_intros split: option.split)

lemma no_null_parse_cluster [simp]: "no_null (parse_cluster P U cur msc)"
  by (auto simp: parse_cluster_def ParseLevelState_def ParseTempDiffInfo_def ParseTempDiffLevInfo_def ParseTempDiffValue_def
      Let_def intro!: no_null_intros split: option.split)

lemma no_null_finish: "no_null r \<Longrightarrow> (\<And>x. no_null (f x s)) \<Longrightarrow> no_null (finish r f s)"
  by (auto simp: finish_def intro!: no_null_intros split: option.split)

lemma no_null_section:
  assumes "config_targets s"
  shows "no_null (ParseRootNode P U node s)"
proof -
  obtain b p mgr faults where t: "sv_baseInfo s = Some b" "sv_policy s = Some p" "sv_actionMgr s = Some mgr"
      "sv_fanFaultDetect s = Some faults" "sv_state s"
    using assms by (auto simp: config_targets_def)
  have "no_null (ParseBaseNode node s)"
    by (auto simp: ParseBaseNode_def t Let_def intro!: no_null_intros split: option.split)
  moreover have "no_null (ParseLevelNode P U node s)"
    unfolding ParseLevelNode_def by (rule no_null_finish) (auto simp: t intro!: no_null_intros)
  moreover have "no_null (ParseStateNode node s)"
    unfolding ParseStateNode_def
    by (rule no_null_finish) (auto simp: t parse_state_item_def Let_def intro!: no_null_intros split: option.split)
  moreover have "no_null (ParseActionNode P node s)"
    unfolding ParseActionNode_def
    by (rule no_null_finish) (auto simp: t parse_action_item_def intro!: no_null_intros split: option.split)
  moreover have "no_null (ParsePolicyNode U node s)"
    unfolding ParsePolicyNode_def
    by (rule no_null_finish) (auto simp: t parse_policy_config_def split_def Let_def intro!: no_null_intros split: option.split)
  moreover have "no_null (ParseIdleNode P U node s)"
    by (simp add: ParseIdleNode_def t)
  moreover have "no_null (ParseFanNode P U node s)"
    unfolding ParseFanNode_def
    by (rule no_null_finish)
      (auto simp: t ParseFanFaultInfo_def parse_fan_item_def Let_def intro!: no_null_intros split: option.split)
  ultimately show ?thesis by (simp add: ParseRootNode_def)
qed

section \<open>What the world of the policy keeps\<close>

text \<open>Nothing that a report or a request does to the world takes the policy's callback away.\<close>

definition same_callback :: "service_world \<Rightarrow> service_world \<Rightarrow> bool" where
  "same_callback w w' \<longleftrightarrow> callbackSet (observer w') = callbackSet (observer w)"

lemma same_callback_simps [simp]:
  "same_callback w w" "same_callback w (emit e w') = same_callback w w'"
  "same_callback w (w'\<lparr>effects := es\<rparr>) = same_callback w w'"
  "same_callback w (write_value p v w') = same_callback w w'"
  by (simp_all add: same_callback_def)

lemma same_callback_observer: "observer w' = observer w \<Longrightarrow> same_callback w w'"
  by (simp add: same_callback_def)

lemma same_callback_trans [trans]: "same_callback w w' \<Longrightarrow> same_callback w' w'' \<Longrightarrow> same_callback w w''"
  by (simp add: same_callback_def)

text \<open>What holds of a result, if there is one.\<close>

definition on_success :: "'a result \<Rightarrow> ('a \<Rightarrow> bool) \<Rightarrow> bool" where
  "on_success r Q \<longleftrightarrow> (\<forall>x. r = Inr x \<longrightarrow> Q x)"

lemma on_success_simps [simp]: "on_success (Inr x) Q = Q x" "on_success (Inl e) Q"
  by (simp_all add: on_success_def)

lemma on_successD: "on_success r Q \<Longrightarrow> r = Inr x \<Longrightarrow> Q x"
  by (simp add: on_success_def)

lemma on_success_mono: "on_success r P \<Longrightarrow> (\<And>x. P x \<Longrightarrow> Q x) \<Longrightarrow> on_success r Q"
  by (simp add: on_success_def)

lemma on_success_bind: "on_success r R \<Longrightarrow> (\<And>x. R x \<Longrightarrow> on_success (f x) Q) \<Longrightarrow> on_success (bindr r f) Q"
  by (cases r) simp_all

lemma on_success_any: "(\<And>x. on_success (f x) Q) \<Longrightarrow> on_success (bindr r f) Q"
  by (cases r) simp_all

lemma on_success_fold:
  "(\<And>x s. R s \<Longrightarrow> on_success (f x s) R) \<Longrightarrow> R s \<Longrightarrow> on_success (foldr_result f xs s) R"
  by (induction xs arbitrary: s) (auto intro: on_success_bind)

lemma check_state_observer: "on_success (check_state_loop P l w) (\<lambda>(b, w'). observer w' = observer w)"
proof (induction l arbitrary: w)
  case (Cons p l)
  obtain name val where p: "p = (name, val)" by (cases p)
  have "on_success (check_state_loop P l (w\<lparr>stateCollectionMap := m\<rparr>)) (\<lambda>(b, w'). observer w' = observer w)" for m
    using Cons.IH [of "w\<lparr>stateCollectionMap := m\<rparr>"] by simp
  then show ?case by (auto simp: p Let_def split: option.split intro!: on_success_any)
qed simp

lemma state_decision_observer:
  "on_success (ThermalPolicy_StateMachineDecision P l w) (\<lambda>(b, w'). observer w' = observer w)"
proof (induction l arbitrary: w)
  case (Cons p l)
  obtain name val where p: "p = (name, val)" by (cases p)
  have "on_success (ThermalPolicy_StateMachineDecision P l (w\<lparr>stateCollectionMap := m\<rparr>)) (\<lambda>(b, w'). observer w' = observer w)"
    for m
    using Cons.IH [of "w\<lparr>stateCollectionMap := m\<rparr>"] by simp
  with Cons.IH show ?case by (auto simp: p Let_def split: option.split intro!: on_success_any)
qed simp

lemma UpdateThermalLevel_observer:
  "on_success (UpdateThermalLevel P rates temps (c, w)) (\<lambda>(c', w'). observer w' = observer w)"
  unfolding UpdateThermalLevel_def CheckState_def prod.case
  by (rule on_success_bind [OF check_state_observer]) (auto intro!: on_success_any)

lemma level_loop_observer:
  "on_success (level_loop P rates temps cs levels w) (\<lambda>(cs', levels', w'). observer w' = observer w)"
proof (induction cs arbitrary: levels w)
  case (Cons e rest)
  obtain name c where e: "e = (name, c)" by (cases e)
  show ?case
    unfolding level_loop.simps e
  proof (rule on_success_bind [OF UpdateThermalLevel_observer], clarify)
    fix c' and w' :: service_world
    assume w': "observer w' = observer w"
    have "on_success (level_loop P rates temps rest levels' w') (\<lambda>(cs', levels'', w''). observer w'' = observer w)" for levels'
      using Cons.IH [of levels' w'] w' by simp
    then show "on_success (bindr (level_loop P rates temps rest (sm_assign name (GetCurrentLevel c') levels) w')
        (\<lambda>(rest, levels, w). Inr ((name, c') # rest, levels, w))) (\<lambda>(cs', levels', w'). observer w' = observer w)"
      by (rule on_success_bind) auto
  qed
qed simp

lemma collect_actions_observer:
  "on_success (collect_actions P pas infos w) (\<lambda>(infos', w'). observer w' = observer w)"
proof (induction pas arbitrary: infos w)
  case (Cons pa pas)
  have "on_success (if pa_isProp pa then ThermalPolicy_StateMachineDecision P (pa_actionPropMap pa) w else Inr (True, w))
      (\<lambda>(ok, w'). observer w' = observer w)"
    using state_decision_observer by simp
  then show ?case
    unfolding collect_actions.simps
  proof (rule on_success_bind, clarify)
    fix ok and w' :: service_world
    assume "observer w' = observer w"
    with Cons.IH [where w = w'] show "on_success (collect_actions P pas (if ok then sm_assign (pa_actionName pa) pa infos else infos) w')
        (\<lambda>(infos', w'). observer w' = observer w)"
      by simp
  qed
qed simp

lemma decide_cluster_observer:
  "on_success (decide_cluster strtof P u levels e (acts, w)) (\<lambda>(acts', w'). observer w' = observer w)"
  unfolding decide_cluster_def ThermalPolicy_ActionDecision_def
  by (auto split: prod.split option.split intro!: on_success_bind [OF collect_actions_observer]) (auto intro!: on_success_any)

lemma same_callback_tell:
  "(\<And>ob. callbackSet (f ob) = callbackSet ob) \<Longrightarrow> same_callback w (tell_observer f w') = same_callback w w'"
  by (simp add: same_callback_def tell_observer_def)

lemma callbackSet_simps [simp]:
  "callbackSet (ThermalObserver_UpdatePolicyState st ob) = callbackSet ob"
  "callbackSet (ThermalObserver_SetDecisionValue n v ob) = callbackSet ob"
  "callbackSet (ThermalObserver_SubscribeThermalTempCallback l cb ob) = callbackSet ob"
  "callbackSet (ThermalObserver_UnSubscribeThermalTempCallback cb ob) = callbackSet ob"
  "callbackSet (fst (ThermalObserver_SubscribeThermalActionCallback l cb ob)) = callbackSet ob"
  "callbackSet (ThermalObserver_UnSubscribeThermalActionCallback cb ob) = callbackSet ob"
  "callbackSet (fst (ThermalObserver_NotifySensorTempChanged ob)) = callbackSet ob"
  by (simp_all add: ThermalObserver_UpdatePolicyState_def ThermalObserver_SetDecisionValue_def Let_def
      ThermalObserver_SubscribeThermalTempCallback_def ThermalObserver_UnSubscribeThermalTempCallback_def
      ThermalObserver_SubscribeThermalActionCallback_def ThermalObserver_UnSubscribeThermalActionCallback_def
      ThermalObserver_NotifySensorTempChanged_def split: option.split prod.split)

lemma drop_stale_observer: "observer (snd (drop_stale P ids m w)) = observer w"
  by (induction P ids m w rule: drop_stale.induct) (auto simp: timer_defs split_def)

lemma start_delays_observer: "observer (snd (start_delays P m w)) = observer w"
  by (induction P m w rule: start_delays.induct) (auto simp: timer_defs split_def)

context action_impl
begin

lemma Execute_callback: "same_callback w (snd (IThermalAction_Execute cls P (a, w)))"
proof -
  have "same_callback v (snd (ExecuteInner cls P (b, v)))" for b v
    by (simp add: ExecuteInner_eq same_callback_tell same_callback_observer apply_observer)
  moreover have "observer (snd (start_delays P m (snd (drop_stale P ids m' w)))) = observer w" for m ids m'
    by (simp add: start_delays_observer drop_stale_observer)
  ultimately show ?thesis
    by (simp add: IThermalAction_Execute_def split_def same_callback_def Let_def)
qed

end

lemma execute_all_callback: "same_callback w (snd (execute_all strtof P acts w))"
proof (induction acts arbitrary: w)
  case (Cons e acts)
  obtain name k a where e: "e = (name, k, a)" by (cases e)
  have "same_callback w (snd (IThermalAction_Execute (class_of strtof k) P (a, w)))"
    by (rule action_impl.Execute_callback [OF class_of_impl])
  with Cons show ?case
    by (simp add: e Let_def split_def) (blast intro: same_callback_trans)
qed simp

lemma limits_callback [simp]:
  "observer (ActionVoltage_ExecuteVoltageLimit P w) = observer w" "observer (ActionCharger_ExecuteCurrentLimit P w) = observer w"
  by (simp_all add: ActionVoltage_ExecuteVoltageLimit_def ActionCharger_ExecuteCurrentLimit_def emit_def Let_def)

lemma PolicyDecision_callback:
  shows "on_success (ThermalPolicy_PolicyDecision strtof P u (p, mgr, w)) (\<lambda>(p', mgr', w'). same_callback w w')"
  unfolding ThermalPolicy_PolicyDecision_def prod.case
proof (rule on_success_bind [where R = "\<lambda>(acts, w'). observer w' = observer w"])
  show "on_success (foldr_result (decide_cluster strtof P u (clusterLevelMap p)) (clusterPolicyMap p) (managedActions mgr, w))
      (\<lambda>(acts, w'). observer w' = observer w)"
  proof (rule on_success_fold, clarify)
    fix e acts and w' :: service_world
    assume "observer w' = observer w"
    with decide_cluster_observer [of strtof P u "clusterLevelMap p" e acts w'] show
      "on_success (decide_cluster strtof P u (clusterLevelMap p) e (acts, w')) (\<lambda>(acts', w''). observer w'' = observer w)"
      by simp
  qed simp
next
  fix x :: "action_map \<times> service_world"
  assume "case x of (acts, w') \<Rightarrow> observer w' = observer w"
  then obtain acts w1 where x: "x = (acts, w1)" "same_callback w w1" by (cases x) (simp add: same_callback_def)
  have "same_callback w1 (snd (execute_all strtof P acts (ThermalPolicy_PrintPolicyState p w1)))"
    using execute_all_callback [of "ThermalPolicy_PrintPolicyState p w1" strtof P acts]
    by (simp add: ThermalPolicy_PrintPolicyState_def same_callback_def tell_observer_def)
  with x(2) have "same_callback w (snd (execute_all strtof P acts (ThermalPolicy_PrintPolicyState p w1)))"
    by (rule same_callback_trans)
  then show "on_success (case x of (acts, w) \<Rightarrow>
        let w = ThermalPolicy_PrintPolicyState p w; (acts, w) = ThermalPolicy_ActionExecution strtof P (acts, w)
        in Inr (p, mgr\<lparr>managedActions := acts\<rparr>, ActionVoltage_ExecuteVoltageLimit P (ActionCharger_ExecuteCurrentLimit P w)))
      (\<lambda>(p', mgr', w'). same_callback w w')"
    by (simp add: x(1) ThermalPolicy_ActionExecution_def split_def Let_def same_callback_def)
qed

lemma WriteLevel_observer: "on_success (ThermalPolicy_WriteLevel p w) (\<lambda>w'. observer w' = observer w)"
  by (auto simp: ThermalPolicy_WriteLevel_def Let_def)

lemma LevelDecision_observer:
  "on_success (ThermalPolicy_LevelDecision P rates (p, w)) (\<lambda>(p', w'). observer w' = observer w)"
  unfolding ThermalPolicy_LevelDecision_def prod.case
  by (rule on_success_bind [OF level_loop_observer]) auto

lemma policy_step_callback:
  shows "on_success (ThermalPolicy_OnSensorInfoReported strtof P u rates info (p, mgr, w)) (\<lambda>(p', mgr', w'). same_callback w w')"
    and "on_success (ThermalPolicy_ExecutePolicy strtof P u rates (p, mgr, w)) (\<lambda>(p', mgr', w'). same_callback w w')"
proof -
  have step: "on_success (ThermalPolicy_PolicyDecision strtof P u (p', mgr, w')) (\<lambda>(p'', mgr', w''). same_callback w w'')"
    if "observer w' = observer w" for p' w'
    using PolicyDecision_callback [of strtof P u p' mgr w'] that by (simp add: same_callback_def)
  then show "on_success (ThermalPolicy_OnSensorInfoReported strtof P u rates info (p, mgr, w)) (\<lambda>(p', mgr', w'). same_callback w w')"
    unfolding ThermalPolicy_OnSensorInfoReported_def prod.case
    by (auto intro!: on_success_bind [OF LevelDecision_observer] on_success_bind [OF WriteLevel_observer])
  show "on_success (ThermalPolicy_ExecutePolicy strtof P u rates (p, mgr, w)) (\<lambda>(p', mgr', w'). same_callback w w')"
    using step unfolding ThermalPolicy_ExecutePolicy_def prod.case
    by (auto intro!: on_success_bind [OF LevelDecision_observer])
qed

lemma fan_checks_observer:
  "on_success (FanFaultDetect_CheckFanTooSlow report config w) (\<lambda>w'. observer w' = observer w)"
  "on_success (FanFaultDetect_CheckFanTooFast report config w) (\<lambda>w'. observer w' = observer w)"
  by (auto simp: FanFaultDetect_CheckFanTooSlow_def FanFaultDetect_CheckFanTooFast_def Let_def on_success_def bindr_eq_Inr
      split: if_splits)

lemma fan_world: "on_success (FanFaultDetect_OnFanSensorInfoChanged report m w) (\<lambda>w'. observer w' = observer w)"
  unfolding FanFaultDetect_OnFanSensorInfoChanged_def FanFaultDetect_CheckFanFault_def
proof (rule on_success_fold)
  fix e :: "int \<times> FanSensorInfo" and v :: service_world
  assume v: "observer v = observer w"
  obtain fault config where e: "e = (fault, config)" by (cases e)
  show "on_success ((\<lambda>(fault, config) w.
        if fault = FAN_FAULT_TOO_SLOW then FanFaultDetect_CheckFanTooSlow report config w
        else if fault = FAN_FAULT_TOO_FAST then FanFaultDetect_CheckFanTooFast report config w
        else Inr w) e v) (\<lambda>w'. observer w' = observer w)"
    using fan_checks_observer [of report config v] by (simp add: e v)
qed simp

end
