(* ===== verification/Service_Safety.thy ===== *)
theory Service_Safety
  imports Service_Proofs
begin

text \<open>
  The life of the service: every event that reaches it, the states it can be in, and that a
  started service has all its components, so that no event is stopped by a pointer that is not
  set. The environment may differ from event to event.
\<close>

section \<open>Events\<close>

datatype request =
    SubscribeTemp "string list" "listener option" | UnSubscribeTemp "listener option"
  | SubscribeAction "string list" "listener option" | UnSubscribeAction "listener option"
  | SubscribeLevel "nat option" bool | UnSubscribeLevel "nat option"
  | GetSensorInfo nat "string \<times> int" | GetLevel | GetInfo
  | SetSceneTo string | UpdateState string string bool | ShellDump "string list"

fun serve :: "environment \<Rightarrow> request \<Rightarrow> thermal_service \<Rightarrow> (int \<times> thermal_service) result" where
  "serve E (SubscribeTemp l cb) s = ThermalService_SubscribeThermalTempCallback E l cb s"
| "serve E (UnSubscribeTemp cb) s = ThermalService_UnSubscribeThermalTempCallback E cb s"
| "serve E (SubscribeAction l cb) s = ThermalService_SubscribeThermalActionCallback E l cb s"
| "serve E (UnSubscribeAction cb) s = ThermalService_UnSubscribeThermalActionCallback E cb s"
| "serve E (SubscribeLevel cb isSync) s = ThermalService_SubscribeThermalLevelCallback cb isSync s"
| "serve E (UnSubscribeLevel cb) s = ThermalService_UnSubscribeThermalLevelCallback cb s"
| "serve E (GetSensorInfo type info) s =
     bindr (ThermalService_GetThermalSrvSensorInfo type info s) (\<lambda>(ret, _). Inr (ret, s))"
| "serve E GetLevel s = Inr (fst (ThermalService_GetThermalLevel s), s)"
| "serve E GetInfo s = ThermalService_GetThermalInfo E s"
| "serve E (SetSceneTo sc) s = ThermalService_SetScene E sc s"
| "serve E (UpdateState tag val isImmed) s = ThermalService_UpdateThermalState E tag val isImmed s"
| "serve E (ShellDump args) s = bindr (ThermalService_ShellDump E args s) (\<lambda>(ret, _, s). Inr (ret, s))"

datatype service_event =
    Start | Stop | BootCompleted | AbilityAdded ability | AbilityRemoved ability | AirplaneEvent int
  | HdiStatus bool hdi_status | HdiStartTask | RetryListener | RetryUnregister
  | DriverReport "(string \<times> int) list" | FanReport "(string \<times> int) list"
  | Request request | DumpRequest int "int list list"

definition lift :: "thermal_service result \<Rightarrow> service_call list \<Rightarrow> service result" where
  "lift r cs = bindr r (\<lambda>s. Inr (s, cs))"

fun run_event :: "environment \<Rightarrow> service_event \<Rightarrow> service \<Rightarrow> service result" where
  "run_event E Start S = ThermalService_OnStart E S"
| "run_event E Stop S = Inr (ThermalService_OnStop S)"
| "run_event E BootCompleted S = Inr (on_service ThermalService_boot_completed S)"
| "run_event E (AbilityAdded a) S = ThermalService_OnAddSystemAbility E a S"
| "run_event E (AbilityRemoved a) S = Inr (on_service (ThermalService_OnRemoveSystemAbility a) S)"
| "run_event E (AirplaneEvent code) S =
     Inr (on_service (upd_world (AirplaneCommonEventSubscriber_OnReceiveEvent code)) S)"
| "run_event E (HdiStatus ours status) S = Inr (hdi_status_callback ours status S)"
| "run_event E HdiStartTask S = hdi_start_task E S"
| "run_event E RetryListener S = Inr (ThermalService_RegisterHdiStatusListener E S)"
| "run_event E RetryUnregister S = Inr (ThermalService_UnRegisterThermalHdiCallback E S)"
| "run_event E (DriverReport event) S =
     bindr (ThermalService_HandleThermalCallbackEvent E event (fst S)) (\<lambda>(_, s). Inr (s, snd S))"
| "run_event E (FanReport event) S =
     bindr (ThermalService_HandleFanCallbackEvent event (fst S)) (\<lambda>(_, s). Inr (s, snd S))"
| "run_event E (Request r) S = bindr (serve E r (fst S)) (\<lambda>(_, s). Inr (s, snd S))"
| "run_event E (DumpRequest fd args) S = bindr (ThermalService_Dump E fd args S) (\<lambda>(_, S). Inr S)"

text \<open>
  Besides its own events, the world changes under the service: the states and the timers run,
  listeners die. None of that takes the policy's callback away.
\<close>

inductive service_reach :: "service \<Rightarrow> bool" where
  initial: "service_reach (ThermalService_new w, [])"
| event: "service_reach S \<Longrightarrow> run_event E ev S = Inr S' \<Longrightarrow> service_reach S'"
| world: "service_reach (s, cs) \<Longrightarrow> same_callback (sv_world s) w' \<Longrightarrow> service_reach (s\<lparr>sv_world := w'\<rparr>, cs)"

section \<open>A complete service\<close>

definition complete :: "thermal_service \<Rightarrow> bool" where
  "complete s \<longleftrightarrow> config_targets s \<and> sv_subscriber s \<noteq> None \<and> sv_observer s \<and> sv_info s \<noteq> None \<and> sv_popup s"

definition linked :: "thermal_service \<Rightarrow> bool" where
  "linked s \<longleftrightarrow> complete s \<and> callbackSet (observer (sv_world s))"

definition keeps :: "thermal_service \<Rightarrow> thermal_service \<Rightarrow> bool" where
  "keeps s s' \<longleftrightarrow> sv_ready s' = sv_ready s \<and> (linked s \<longrightarrow> linked s')"

lemmas linked_defs = linked_def complete_def config_targets_def

lemma keeps_refl [simp]: "keeps s s"
  by (simp add: keeps_def)

lemma keeps_trans: "keeps s s' \<Longrightarrow> keeps s' s'' \<Longrightarrow> keeps s s''"
  by (simp add: keeps_def)

lemma on_success_keeps: "keeps s t \<Longrightarrow> on_success r (keeps t) \<Longrightarrow> on_success r (keeps s)"
  by (auto simp: on_success_def intro: keeps_trans)

lemma on_success_keeps_pair:
  "keeps s t \<Longrightarrow> on_success r (\<lambda>p. keeps t (snd p)) \<Longrightarrow> on_success r (\<lambda>p. keeps s (snd p))"
  by (auto simp: on_success_def split_def intro: keeps_trans)

lemma keeps_world: "same_callback (sv_world s) (f (sv_world s)) \<Longrightarrow> keeps s (upd_world f s)"
  by (simp add: keeps_def linked_defs upd_world_def same_callback_def)

lemma run_policy_keeps:
  assumes "\<And>rates p mgr w. on_success (step rates (p, mgr, w)) (\<lambda>(p', mgr', w'). same_callback w w')"
  shows "on_success (run_policy step s) (keeps s)"
proof -
  have *: "on_success (bindr (step r (p, mgr, sv_world s)) (\<lambda>(p, mgr, w).
      Inr (s\<lparr>sv_policy := Some p, sv_actionMgr := Some mgr, sv_world := w\<rparr>))) (keeps s)" for r p mgr
    by (rule on_success_bind [OF assms]) (auto simp: keeps_def linked_defs same_callback_def)
  show ?thesis
    unfolding run_policy_def by (rule on_success_any, rule on_success_any, rule on_success_any, rule *)
qed

lemma NotifyObserver_keeps:
  shows "on_success (ThermalSensorInfo_NotifyObserver E s) (keeps s)"
proof -
  have notify: "same_callback w (notify_listeners w)" for w
    by (simp add: notify_listeners_def same_callback_def split_def Let_def)
  have run: "on_success (bindr (if callbackSet (observer (sv_world t)) then policy_callback E i t else Inr t)
      (\<lambda>s. Inr (upd_world notify_listeners s))) (keeps t)" for t i
    by (rule on_success_bind [where R = "keeps t"])
      (auto simp: policy_callback_def intro!: run_policy_keeps policy_step_callback(1)
        intro: keeps_trans keeps_world notify)
  have "keeps s (upd_world (tell_observer (callbackinfo_update (\<lambda>_. i))) s)" for i
    by (rule keeps_world) (simp add: same_callback_tell)
  note step = on_success_keeps [OF this run]
  show ?thesis
    unfolding ThermalSensorInfo_NotifyObserver_def Let_def
    by (rule on_success_any, rule on_success_any, rule step)
qed

lemma OnTemperatureChanged_keeps:
  shows "on_success (ThermalServiceSubscriber_OnTemperatureChanged E temps s) (keeps s)"
proof -
  have run: "on_success (bindr (ThermalSensorInfo_NotifyObserver E t) (\<lambda>u. bindr h (\<lambda>x. Inr (u\<lparr>sv_subscriber := Some x\<rparr>))))
      (keeps t)" for t and h :: "Subscriber result"
    by (rule on_success_bind [OF NotifyObserver_keeps])
      (auto simp: keeps_def linked_defs intro!: on_success_any)
  have "keeps s (s\<lparr>sv_subscriber := Some x, sv_info := Some i\<rparr>)" for x i
    by (simp add: keeps_def linked_defs)
  note step = on_success_keeps [OF this run]
  show ?thesis
    unfolding ThermalServiceSubscriber_OnTemperatureChanged_def Let_def
    by (rule on_success_any, simp, intro impI on_success_any step)
qed

lemma report_keeps:
  shows "on_success (ThermalService_HandleThermalCallbackEvent E event s) (\<lambda>p. keeps s (snd p))"
    and "on_success (ThermalService_HandleTempEmulation E temps s) (\<lambda>p. keeps s (snd p))"
  by (auto simp: ThermalService_HandleThermalCallbackEvent_def ThermalService_HandleTempEmulation_def
      intro!: on_success_bind [OF OnTemperatureChanged_keeps])

lemma keeps_interface [simp]: "keeps s (snd (ThermalService_GetThermalInterfaceInner E s))"
  by (simp add: ThermalService_GetThermalInterfaceInner_def keeps_def linked_defs)

lemma GetThermalInfo_keeps:
  shows "on_success (ThermalService_GetThermalInfo E s) (\<lambda>p. keeps s (snd p))"
proof -
  obtain found t where t: "ThermalService_GetThermalInterfaceInner E s = (found, t)" by fastforce
  then have st: "keeps s t" using keeps_interface [of s E] by simp
  have "on_success (bindr (ThermalService_HandleThermalCallbackEvent E info t) (\<lambda>(_, s). Inr (r, s))) (\<lambda>p. keeps s (snd p))"
    for info and r :: int
    by (rule on_success_bind [OF on_success_keeps_pair [OF st report_keeps(1)]]) auto
  then show ?thesis
    using st by (simp add: ThermalService_GetThermalInfo_def t split_def Let_def)
qed

lemma if_system_keeps:
  "(on_success (f s) (keeps s)) \<Longrightarrow> on_success (if_system E f s) (\<lambda>p. keeps s (snd p))"
  by (auto simp: if_system_def intro: on_success_bind)

lemma with_observer_keeps:
  "(\<And>ob. callbackSet (f ob) = callbackSet ob) \<Longrightarrow> on_success (with_observer f s) (keeps s)"
  by (auto simp: with_observer_def same_callback_tell intro!: on_success_any keeps_world)

lemma machine_observer [simp]:
  "observer (StateMachine_UpdateState tag val w) = observer w"
  by (simp add: StateMachine_UpdateState_def split: option.split)

lemma level_listeners_observer [simp]:
  "observer (ThermalActionManager_SubscribeThermalLevelCallback cb isSync mgr w) = observer w"
  "observer (ThermalActionManager_UnSubscribeThermalLevelCallback cb mgr w) = observer w"
  by (simp_all add: ThermalActionManager_SubscribeThermalLevelCallback_def Let_def split_def
      ThermalActionManager_UnSubscribeThermalLevelCallback_def ActionThermalLevel_SubscribeThermalLevelCallback_def
      ActionThermalLevel_AddThermalLevelListeners_def ActionThermalLevel_UnSubscribeThermalLevelCallback_def
      split: option.split)

lemma dump_policy_keeps: "on_success (dump_policy_loop P args out s) (\<lambda>p. keeps s (snd p))"
proof (induction P args out s rule: dump_policy_loop.induct)
  case (2 P arg args out s)
  have "keeps s (upd_world (emit (ShowThermalDialog True)) s)" by (rule keeps_world) simp
  then show ?case
    using "2.IH" by (auto simp: on_success_def bindr_eq_Inr intro: keeps_trans)
qed simp

lemma Dump_keeps:
  shows "on_success (ThermalMgrDumper_Dump E args s) (\<lambda>p. keeps s (snd (snd p)))"
proof -
  have switch: "keeps s (snd (ThermalMgrDumper_SwitchTempReport E a out s))" for a out
    by (simp add: ThermalMgrDumper_SwitchTempReport_def SetTempReportSwitch_def keeps_def linked_defs)
  have emulate: "on_success (ThermalMgrDumper_EmulateTempReport E a out s) (\<lambda>p. keeps s (snd p))" for a out
    unfolding ThermalMgrDumper_EmulateTempReport_def
    by (auto simp: split_def Let_def intro!: on_success_bind [OF report_keeps(2)])
  have policy: "on_success (ThermalMgrDumper_DumpPolicy P a out s) (\<lambda>p. keeps s (snd (snd p)))" for P a out
    unfolding ThermalMgrDumper_DumpPolicy_def by (auto intro!: on_success_bind [OF dump_policy_keeps])
  have zone: "on_success (bindr r (\<lambda>out. Inr (True, out, s))) (\<lambda>p. keeps s (snd (snd p)))" for r
    by (cases r) simp_all
  have emulate': "on_success (bindr (ThermalMgrDumper_EmulateTempReport E a out s) (\<lambda>p. Inr (True, p)))
      (\<lambda>p. keeps s (snd (snd p)))" for a out
    by (rule on_success_bind [OF emulate]) auto
  show ?thesis
    unfolding ThermalMgrDumper_Dump_def
    using switch by (auto simp: split_def zone emulate' policy split: list.split)
qed

lemma serve_keeps:
  shows "on_success (serve E r s) (\<lambda>p. keeps s (snd p))"
proof (cases r)
  case (UpdateState tag val isImmed)
  let ?s = "upd_world (StateMachine_UpdateState tag val) s"
  have st: "keeps s ?s" by (rule keeps_world) (simp add: same_callback_observer)
  have "on_success (if isImmed then run_policy (\<lambda>rates. ThermalPolicy_ExecutePolicy (ev_strtof E) (platform_of E ?s) (ev_delay E) rates) ?s
      else Inr ?s) (keeps ?s)"
    by (auto intro!: run_policy_keeps policy_step_callback(2))
  note step = on_success_keeps [OF st this]
  show ?thesis
    unfolding UpdateState serve.simps ThermalService_UpdateThermalState_def Let_def
    by (rule if_system_keeps, rule on_success_any, rule step)
next
  case (ShellDump args)
  show ?thesis
    by (auto simp: ShellDump ThermalService_ShellDump_def on_success_def bindr_eq_Inr
        dest!: on_successD [OF Dump_keeps])
qed (auto simp: ThermalService_SubscribeThermalTempCallback_def ThermalService_UnSubscribeThermalTempCallback_def
    ThermalService_SubscribeThermalActionCallback_def ThermalService_UnSubscribeThermalActionCallback_def
    ThermalService_SubscribeThermalLevelCallback_def ThermalService_UnSubscribeThermalLevelCallback_def
    ThermalService_SetScene_def GetThermalInfo_keeps same_callback_def split_def Let_def
    intro!: if_system_keeps with_observer_keeps on_success_any keeps_world)

section \<open>Events other than the start\<close>

lemma keeps_registration:
  "keeps s (fst (ThermalService_RegisterHdiStatusListener E (s, cs)))" "keeps s (fst (drop_interface (s, cs)))"
  "keeps s (fst (hdi_status_callback ours status (s, cs)))"
  "keeps s (fst (ThermalService_UnRegisterThermalHdiCallback E (s, cs)))"
  "keeps s (fst (ThermalService_RegisterThermalHdiCallback E (s, cs)))"
  by (auto simp: ThermalService_RegisterHdiStatusListener_def drop_interface_def hdi_status_callback_def keeps_def linked_defs
      ThermalService_UnRegisterThermalHdiCallback_def ThermalService_RegisterThermalHdiCallback_def Let_def split_def
      ThermalService_GetThermalInterfaceInner_def split: hdi_status.split)

lemma register_events_observer [simp]: "observer (snd (register_events hs w)) = observer w"
  by (simp add: register_events_def split: option.split)

lemma collection_init_observer [simp]:
  "observer (snd (IStateCollection_InitParam params c w)) = observer w"
  by (cases c) (simp_all add: ChargerStateCollection_InitParam_def upd_charger_def)

lemma collection_start_observer [simp]: "observer (snd (IStateCollection_Init P c w)) = observer w"
proof (cases c)
  case ChargerColl
  have "observer (snd (ChargerStateCollection_RegisterEvent v)) = observer v" for v :: "'a service_world_scheme"
    by (simp add: ChargerStateCollection_RegisterEvent_def)
  then show ?thesis
    by (simp add: ChargerColl ChargerStateCollection_Init_def ChargerStateCollection_InitChargeState_def upd_charger_def
        Let_def split_def)
qed (simp_all add: ScreenStateCollection_Init_def ScreenStateCollection_RegisterEvent_def ChargeDelayStateCollection_Init_def
    ChargeDelayStateCollection_RegisterEvent_def StartupDelayStateCollection_Init_def
    StartupDelayStateCollection_StartDelayTimer_def StartupDelayStateCollection_StopDelayTimer_def timer_defs)

lemma StateMachine_Init_observer [simp]: "observer (snd (StateMachine_Init P w)) = observer (w :: service_world)"
proof -
  have "observer (fold (StateMachine_create P) items v) = observer v" for items and v :: service_world
    by (induction items arbitrary: v) (simp_all add: StateMachine_create_def split_def Let_def)
  then show ?thesis by (simp add: StateMachine_Init_def Let_def split: option.split)
qed

lemma ability_keeps: "on_success (ThermalService_OnAddSystemAbility E a (s, cs)) (\<lambda>S. keeps s (fst S))"
proof (cases a)
  case COMMON_EVENT_SERVICE_ID
  then show ?thesis
    by (cases "sv_state s") (simp_all add: ThermalService_OnAddSystemAbility_def ThermalService_InitStateMachine_def Let_def
      split_def keeps_def linked_defs ThermalService_SubscribeCommonEvent_def)
next
  case DEVICE_SERVICE_MANAGER_SA_ID
  have "keeps s (fst (ThermalService_RegisterHdiStatusListener E (s, cs)))" by (rule keeps_registration)
  then show ?thesis
    by (simp add: DEVICE_SERVICE_MANAGER_SA_ID ThermalService_OnAddSystemAbility_def keeps_def linked_defs)
qed (auto simp: ThermalService_OnAddSystemAbility_def keeps_def linked_defs upd_world_def
    ChargerStateCollection_InitChargeState_def upd_charger_def intro!: on_success_any)

lemma HdiStart_keeps: "on_success (hdi_start_task E (s, cs)) (\<lambda>S. keeps s (fst S))"
proof -
  obtain s1 cs1 where S1: "ThermalService_RegisterThermalHdiCallback E (s, cs) = (s1, cs1)" by fastforce
  then have k: "keeps s s1" using keeps_registration(5) [of s E cs] by simp
  have "keeps s (snd (ThermalService_GetThermalInterfaceInner E s1))" by (rule keeps_trans [OF k keeps_interface])
  with k show ?thesis
    by (auto simp: hdi_start_task_def S1 ThermalService_RegisterFanHdiCallback_def Let_def split_def intro!: on_success_any)
qed

lemma Dump_request_keeps:
  shows "on_success (ThermalService_Dump E fd args (s, cs)) (\<lambda>p. keeps s (fst (snd p)))"
  by (auto simp: ThermalService_Dump_def split_def intro!: on_success_bind [OF Dump_keeps])

text \<open>Stopping is the one event that changes \<open>ready\<close>.\<close>

lemma event_keeps:
  assumes "ev \<noteq> Start" and "ev \<noteq> Stop"
  shows "on_success (run_event E ev (s, cs)) (\<lambda>S. keeps s (fst S))"
proof (cases ev)
  case (DriverReport event)
  show ?thesis
    unfolding DriverReport run_event.simps
    by (rule on_success_bind [where R = "\<lambda>p. keeps s (snd p)"]) (use report_keeps(1) in auto)
next
  case (FanReport event)
  show ?thesis
    by (auto simp: FanReport ThermalService_HandleFanCallbackEvent_def on_success_def bindr_eq_Inr keeps_def linked_defs
        dest!: on_successD [OF fan_world])
next
  case (Request r)
  show ?thesis
    unfolding Request run_event.simps
    by (rule on_success_bind [where R = "\<lambda>p. keeps s (snd p)"]) (use serve_keeps in auto)
next
  case (DumpRequest fd args)
  show ?thesis
    unfolding DumpRequest run_event.simps
    by (rule on_success_bind [where R = "\<lambda>p. keeps s (fst (snd p))"]) (use Dump_request_keeps in auto)
qed (use assms ability_keeps keeps_registration HdiStart_keeps in \<open>auto simp: ThermalService_boot_completed_def keeps_def linked_defs
    ThermalService_OnRemoveSystemAbility_def AirplaneCommonEventSubscriber_OnReceiveEvent_def upd_world_def\<close>)

section \<open>The start\<close>

text \<open>What parsing a file keeps of the service.\<close>

definition parse_keeps :: "thermal_service \<Rightarrow> thermal_service \<Rightarrow> bool" where
  "parse_keeps s s' \<longleftrightarrow> sv_ready s' = sv_ready s \<and> (config_targets s \<longrightarrow> config_targets s')"

lemma parse_keeps_refl [simp]: "parse_keeps s s"
  by (simp add: parse_keeps_def)

lemma parse_keeps_trans: "parse_keeps s s' \<Longrightarrow> parse_keeps s' s'' \<Longrightarrow> parse_keeps s s''"
  unfolding parse_keeps_def by blast

lemma parse_keeps_step:
  "parse_keeps s t \<Longrightarrow> on_success r (\<lambda>p. parse_keeps t (snd p)) \<Longrightarrow> on_success r (\<lambda>p. parse_keeps s (snd p))"
  unfolding on_success_def using parse_keeps_trans by blast

lemma finish_keeps:
  assumes "\<And>x. on_success (f x s) (parse_keeps s)"
  shows "on_success (finish r f s) (\<lambda>p. parse_keeps s (snd p))"
proof -
  have "on_success (bindr (f x s) (\<lambda>s. Inr (True, s))) (\<lambda>p. parse_keeps s (snd p))" for x
    by (rule on_success_bind [OF assms]) simp
  then show ?thesis by (auto simp: finish_def parse_keeps_def split: option.split intro!: on_success_any)
qed

lemma ParseBaseNode_keeps: "on_success (ParseBaseNode node s) (\<lambda>p. parse_keeps s (snd p))"
proof -
  have set: "parse_keeps s (SetSimulationXml v (s\<lparr>sv_baseInfo := Some b\<rparr>))" "parse_keeps s (s\<lparr>sv_baseInfo := Some b\<rparr>)" for v b
    by (simp_all add: SetSimulationXml_def upd_world_def parse_keeps_def config_targets_def)
  have "on_success (case r of None \<Rightarrow> Inr (False, s) | Some m \<Rightarrow> bindr (deref (sv_baseInfo s)) (h m))
      (\<lambda>p. parse_keeps s (snd p))" if "\<And>m b. on_success (h m b) (\<lambda>p. parse_keeps s (snd p))" for r h
    using that by (cases r) (auto intro: on_success_any)
  note cases = on_success_any [OF this]
  show ?thesis
    unfolding ParseBaseNode_def Let_def
    by (rule cases) (simp add: set split: option.split)
qed

lemma ParseRootNode_keeps: "on_success (ParseRootNode P U node s) (\<lambda>p. parse_keeps s (snd p))"
proof -
  have "on_success (ParseLevelNode P U node s) (\<lambda>p. parse_keeps s (snd p))"
    unfolding ParseLevelNode_def by (rule finish_keeps) (auto simp: parse_keeps_def config_targets_def intro!: on_success_any)
  moreover have "on_success (ParseStateNode node s) (\<lambda>p. parse_keeps s (snd p))"
    unfolding ParseStateNode_def
    by (rule finish_keeps) (auto simp: parse_keeps_def upd_world_def config_targets_def intro!: on_success_any)
  moreover have "on_success (ParseActionNode P node s) (\<lambda>p. parse_keeps s (snd p))"
    unfolding ParseActionNode_def by (rule finish_keeps) (auto simp: parse_keeps_def config_targets_def intro!: on_success_any)
  moreover have "on_success (ParsePolicyNode U node s) (\<lambda>p. parse_keeps s (snd p))"
    unfolding ParsePolicyNode_def by (rule finish_keeps) (auto simp: parse_keeps_def config_targets_def intro!: on_success_any)
  moreover have "on_success (ParseIdleNode P U node s) (\<lambda>p. parse_keeps s (snd p))"
    unfolding ParseIdleNode_def by (auto simp: parse_keeps_def upd_world_def config_targets_def intro!: on_success_any)
  moreover have "on_success (ParseFanNode P U node s) (\<lambda>p. parse_keeps s (snd p))"
    unfolding ParseFanNode_def by (rule finish_keeps) (auto simp: parse_keeps_def config_targets_def intro!: on_success_any)
  ultimately show ?thesis using ParseBaseNode_keeps [of node s] by (simp add: ParseRootNode_def parse_keeps_def)
qed

lemma root_loop_keeps: "on_success (root_loop P U nodes s) (\<lambda>p. parse_keeps s (snd p))"
proof (induction nodes arbitrary: s)
  case (Cons node nodes)
  show ?case
    unfolding root_loop.simps
    by (rule on_success_bind [OF ParseRootNode_keeps]) (auto intro: parse_keeps_step [OF _ Cons.IH])
qed simp

lemma parse_config_keeps: "on_success (parse_config E path s) (\<lambda>p. parse_keeps s (snd p))"
  unfolding parse_config_def ThermalSrvConfigInit_def ParseXmlFile_def
  by (auto intro!: root_loop_keeps split: option.split)

lemma InitConfigFile_keeps: "on_success (ThermalService_InitConfigFile E s) (\<lambda>p. parse_keeps s (snd p))"
proof -
  have "on_success (bindr (parse_config E path s) (\<lambda>(ok, s).
      if ok then Inr (True, s) else parse_config E path' s)) (\<lambda>p. parse_keeps s (snd p))" for path path'
    by (rule on_success_bind [OF parse_config_keeps])
      (auto intro: parse_keeps_step [OF _ parse_config_keeps])
  then show ?thesis
    using parse_config_keeps
    by (auto simp: ThermalService_InitConfigFile_def split: option.split list.split)
qed

lemma CreateConfigModule_targets:
  "fst (ThermalService_CreateConfigModule s)" "config_targets (snd (ThermalService_CreateConfigModule s))"
  "sv_ready (snd (ThermalService_CreateConfigModule s)) = sv_ready s"
  by (auto simp: ThermalService_CreateConfigModule_def Let_def config_targets_def upd_world_def)

text \<open>A step of the initialisation: \<open>ready\<close> stays, and where it succeeds \<open>Q\<close> holds.\<close>

definition init_step :: "bool \<Rightarrow> (thermal_service \<Rightarrow> bool) \<Rightarrow> bool \<times> thermal_service \<Rightarrow> bool" where
  "init_step ready Q = (\<lambda>(ok, s). sv_ready s = ready \<and> (ok \<longrightarrow> Q s))"

lemma init_step_then:
  assumes "on_success r (init_step ready Q)" and "\<And>s. sv_ready s = ready \<Longrightarrow> Q s \<Longrightarrow> on_success (f s) (init_step ready R)"
  shows "on_success (if_ok r f) (init_step ready R)"
  unfolding if_ok_def by (rule on_success_bind [OF assms(1)]) (use assms(2) in \<open>auto simp: init_step_def\<close>)

lemma InitThermalObserver_step:
  assumes "config_targets s" and "sv_popup s"
  shows "on_success (ThermalService_InitThermalObserver s)
    (init_step (sv_ready s) (\<lambda>s. config_targets s \<and> sv_popup s \<and> sv_observer s \<and> sv_info s \<noteq> None))"
proof -
  obtain b where b: "sv_baseInfo s = Some b" using assms by (auto simp: config_targets_def)
  have "on_success (bindr r (\<lambda>(ok, b). Inr (ok, s\<lparr>sv_baseInfo := Some b\<rparr>))) (init_step (sv_ready s) (\<lambda>t. config_targets t \<and> sv_popup t))"
    for r
    using assms by (auto simp: init_step_def config_targets_def intro!: on_success_any)
  then have base: "on_success (ThermalService_InitBaseInfo s) (init_step (sv_ready s) (\<lambda>t. config_targets t \<and> sv_popup t))"
    by (simp add: ThermalService_InitBaseInfo_def b)
  show ?thesis
    unfolding ThermalService_InitThermalObserver_def
    by (rule on_success_bind [OF base]) (auto simp: init_step_def config_targets_def upd_world_def Let_def)
qed

lemma InitActionManager_step:
  assumes "config_targets s \<and> sv_popup s \<and> sv_observer s \<and> sv_info s \<noteq> None"
  shows "on_success (ThermalService_InitActionManager E s)
    (init_step (sv_ready s) (\<lambda>s. config_targets s \<and> sv_popup s \<and> sv_observer s \<and> sv_info s \<noteq> None))"
  using assms
  by (auto simp: ThermalService_InitActionManager_def init_step_def config_targets_def intro!: on_success_any)

lemma InitThermalPolicy_step:
  assumes "config_targets s \<and> sv_popup s \<and> sv_observer s \<and> sv_info s \<noteq> None"
  shows "on_success (ThermalService_InitThermalPolicy s)
    (init_step (sv_ready s) (\<lambda>s. config_targets s \<and> sv_popup s \<and> sv_observer s \<and> sv_info s \<noteq> None \<and>
       callbackSet (observer (sv_world s))))"
  using assms
  by (auto simp: ThermalService_InitThermalPolicy_def ThermalPolicy_Init_def ThermalPolicy_RegisterObserver_def
      tell_observer_def ThermalObserver_SetRegisterCallback_def init_step_def config_targets_def)

lemma InitThermalSubscriber_step:
  assumes "config_targets s \<and> sv_popup s \<and> sv_observer s \<and> sv_info s \<noteq> None \<and> callbackSet (observer (sv_world s))"
  shows "on_success (ThermalService_InitThermalSubscriber s) (init_step (sv_ready s) linked)"
  using assms
  by (auto simp: ThermalService_InitThermalSubscriber_def ThermalServiceSubscriber_Init_def init_step_def linked_defs Let_def
      split: option.split)

lemma InitModules_step:
  assumes "config_targets s"
  shows "on_success (ThermalService_InitModules E s) (init_step (sv_ready s) linked)"
  unfolding ThermalService_InitModules_def
proof (rule init_step_then [where Q = config_targets])
  show "on_success (ThermalService_InitConfigFile E s) (init_step (sv_ready s) config_targets)"
    by (rule on_success_mono [OF InitConfigFile_keeps]) (use assms in \<open>auto simp: init_step_def parse_keeps_def\<close>)
next
  fix s1 assume s1: "sv_ready s1 = sv_ready s" "config_targets s1"
  let ?s1 = "s1\<lparr>sv_popup := True\<rparr>"
  have p: "config_targets ?s1" "sv_popup ?s1" "sv_ready ?s1 = sv_ready s" using s1 by (simp_all add: config_targets_def)
  have "on_success (ThermalService_InitThermalObserver ?s1)
      (init_step (sv_ready s) (\<lambda>s. config_targets s \<and> sv_popup s \<and> sv_observer s \<and> sv_info s \<noteq> None))"
    by (rule InitThermalObserver_step [OF p(1,2), unfolded p(3)])
  then show "on_success (if_ok (ThermalService_InitThermalObserver (s1\<lparr>sv_popup := True\<rparr>)) (\<lambda>s.
     if_ok (ThermalService_InitActionManager E s) (\<lambda>s.
     if_ok (ThermalService_InitThermalPolicy s)
       ThermalService_InitThermalSubscriber))) (init_step (sv_ready s) linked)"
  proof (rule init_step_then)
    fix s2 assume s2: "sv_ready s2 = sv_ready s" "config_targets s2 \<and> sv_popup s2 \<and> sv_observer s2 \<and> sv_info s2 \<noteq> None"
    show "on_success (if_ok (ThermalService_InitActionManager E s2) (\<lambda>s.
        if_ok (ThermalService_InitThermalPolicy s) ThermalService_InitThermalSubscriber)) (init_step (sv_ready s) linked)"
    proof (rule init_step_then [OF InitActionManager_step [OF s2(2), unfolded s2(1)]])
      fix s3 assume s3: "sv_ready s3 = sv_ready s" "config_targets s3 \<and> sv_popup s3 \<and> sv_observer s3 \<and> sv_info s3 \<noteq> None"
      show "on_success (if_ok (ThermalService_InitThermalPolicy s3) ThermalService_InitThermalSubscriber) (init_step (sv_ready s) linked)"
      proof (rule init_step_then [OF InitThermalPolicy_step [OF s3(2), unfolded s3(1)]])
        fix s4 assume r: "sv_ready s4 = sv_ready s" and c: "config_targets s4 \<and> sv_popup s4 \<and> sv_observer s4 \<and> sv_info s4 \<noteq> None \<and>
          callbackSet (observer (sv_world s4))"
        show "on_success (ThermalService_InitThermalSubscriber s4) (init_step (sv_ready s) linked)"
          by (rule InitThermalSubscriber_step [OF c, unfolded r])
      qed
    qed
  qed
qed

lemma OnStart_linked:
  "on_success (ThermalService_OnStart E (s, cs)) (\<lambda>S. sv_ready (fst S) \<longrightarrow> sv_ready s \<and> fst S = s \<or> linked (fst S))"
proof (cases "sv_ready s")
  case False
  let ?s = "snd (ThermalService_CreateConfigModule s)"
  have step: "on_success (ThermalService_InitModules E ?s) (init_step False linked)"
    using InitModules_step [OF CreateConfigModule_targets(2), of E s] False by (simp only: CreateConfigModule_targets(3))
  have "linked (fst (ThermalService_RegisterHdiStatusListener E (t, cs')))" if "linked t" for t cs'
    using keeps_registration(1) [of t E cs'] that by (simp add: keeps_def)
  then have init: "on_success (ThermalService_Init E (s, cs')) (\<lambda>p. if fst p then linked (fst (snd p)) else \<not> sv_ready (fst (snd p)))" for cs'
    unfolding ThermalService_Init_def
    by (auto simp: split_def Let_def CreateConfigModule_targets init_step_def intro!: on_success_bind [OF step])
  have "linked (t\<lparr>sv_ready := True\<rparr>) = linked t" for t
    by (simp add: linked_defs)
  then show ?thesis
    unfolding ThermalService_OnStart_def using False
    by (auto simp: Let_def split_def intro!: on_success_bind [OF init] split: if_splits)
qed (simp add: ThermalService_OnStart_def)

lemma reach_linked: "service_reach S \<Longrightarrow> sv_ready (fst S) \<Longrightarrow> linked (fst S)"
proof (induction rule: service_reach.induct)
  case (event S E ev S')
  obtain s cs where S: "S = (s, cs)" by (cases S)
  show ?case
  proof (cases ev)
    case Start
    with event S show ?thesis using on_successD [OF OnStart_linked, of E s cs S'] by auto
  next
    case Stop
    have "\<not> sv_ready (fst (ThermalService_OnStop (s, cs)))"
      by (simp add: ThermalService_OnStop_def drop_interface_def Let_def)
    with event Stop S show ?thesis by auto
  qed (use event S on_successD [OF event_keeps, of ev E s cs S'] in \<open>auto simp: keeps_def\<close>)
next
  case (world s cs w')
  then show ?case by (simp add: linked_defs same_callback_def)
qed (simp add: ThermalService_new_def)

section \<open>No null pointer\<close>

lemma no_null_root_loop: "config_targets s \<Longrightarrow> no_null (root_loop P U nodes s)"
proof (induction nodes arbitrary: s)
  case (Cons node nodes)
  have "no_null (ParseRootNode P U node s)" by (rule no_null_section [OF Cons.prems])
  then show ?case
    unfolding root_loop.simps
  proof (rule no_null_bindr)
    fix p assume "ParseRootNode P U node s = Inr p"
    with on_successD [OF ParseRootNode_keeps] Cons.prems have "config_targets (snd p)" by (simp add: parse_keeps_def)
    with Cons.IH show "no_null (case p of (ok, s) \<Rightarrow> if ok then root_loop P U nodes s else Inr (False, s))"
      by (simp add: split_def)
  qed
qed simp

lemma no_null_parse_config: "config_targets s \<Longrightarrow> no_null (parse_config E path s)"
  by (auto simp: parse_config_def ThermalSrvConfigInit_def ParseXmlFile_def intro!: no_null_root_loop split: option.split)

lemma no_null_InitConfigFile:
  assumes "config_targets s"
  shows "no_null (ThermalService_InitConfigFile E s)"
proof -
  have two: "no_null (bindr (parse_config E path s) (\<lambda>(ok, s). if ok then Inr (True, s) else parse_config E path' s))" for path path'
  proof (rule no_null_bindr [OF no_null_parse_config [OF assms]])
    fix p assume "parse_config E path s = Inr p"
    with on_successD [OF parse_config_keeps] assms have "config_targets (snd p)" by (simp add: parse_keeps_def)
    then show "no_null (case p of (ok, s) \<Rightarrow> if ok then Inr (True, s) else parse_config E path' s)"
      by (simp add: split_def no_null_parse_config)
  qed
  show ?thesis
    unfolding ThermalService_InitConfigFile_def using two no_null_parse_config [OF assms]
    by (simp split: option.split list.split)
qed

lemma no_null_if_ok:
  assumes "no_null r" and "on_success r (init_step ready Q)" and "\<And>s. Q s \<Longrightarrow> no_null (f s)"
  shows "no_null (if_ok r f)"
  unfolding if_ok_def
proof (rule no_null_bindr [OF assms(1)])
  fix p assume "r = Inr p"
  with on_successD [OF assms(2)] assms(3) show "no_null (case p of (ok, s) \<Rightarrow> if ok then f s else Inr (False, s))"
    by (auto simp: init_step_def)
qed

lemma InitConfigFile_step:
  "config_targets s \<Longrightarrow> on_success (ThermalService_InitConfigFile E s) (init_step (sv_ready s) config_targets)"
  by (rule on_success_mono [OF InitConfigFile_keeps]) (auto simp: init_step_def parse_keeps_def)

lemma no_null_base_init [simp]: "no_null (ThermalConfigBaseInfo_Init b)"
  by (auto simp: ThermalConfigBaseInfo_Init_def ThermalConfigBaseInfo_SetSensorsType_def
      ThermalConfigBaseInfo_SetHistoryTempCount_def Let_def intro!: no_null_intros split: option.split)

text \<open>Reading the parameters of an action uses no pointer.\<close>

lemma params_of_class: "no_null (cls_InitParams (class_of strtof k) P params a)"
  by (cases k) (auto simp: ActionAirplane_def ActionCpuBig_def ActionCpuMed_def ActionCpuLit_def ActionGpu_def
      ActionShutdown_def ActionThermalLevel_def ActionPopup_def ActionCharger_def ActionVoltage_def ActionCpuBoost_def
      ActionCpuIsolate_def ActionCpuNonVip_def ActionApplicationProcess_def ActionSocPerf_def ActionSocPerfResource_def
      ActionNode_def
      ActionDisplay_def ActionVolume_def float_class_def uint_class_def intro!: no_null_intros)

lemma no_null_InitActionManager:
  assumes "config_targets s"
  shows "no_null (ThermalService_InitActionManager E s)"
proof -
  obtain mgr where "sv_actionMgr s = Some mgr" using assms by (auto simp: config_targets_def)
  moreover have "no_null (init_item (ev_strtof E) P item m)" for P item m
    by (auto simp: init_item_def params_of_class Let_def intro!: no_null_intros split: option.split)
  ultimately show ?thesis
    by (auto simp: ThermalService_InitActionManager_def ThermalActionManager_Init_def intro!: no_null_intros)
qed

lemma no_null_InitModules:
  assumes "config_targets s"
  shows "no_null (ThermalService_InitModules E s)"
  unfolding ThermalService_InitModules_def
proof (rule no_null_if_ok [OF no_null_InitConfigFile [OF assms] InitConfigFile_step [OF assms]])
  fix s1 assume s1: "config_targets s1"
  let ?s1 = "s1\<lparr>sv_popup := True\<rparr>"
  have p: "config_targets ?s1" "sv_popup ?s1" using s1 by (simp_all add: config_targets_def)
  then obtain b where "sv_baseInfo ?s1 = Some b" by (auto simp: config_targets_def)
  then have base: "no_null (ThermalService_InitThermalObserver ?s1)"
    by (auto simp: ThermalService_InitThermalObserver_def ThermalService_InitBaseInfo_def Let_def intro!: no_null_intros)
  show "no_null (if_ok (ThermalService_InitThermalObserver ?s1) (\<lambda>s.
     if_ok (ThermalService_InitActionManager E s) (\<lambda>s.
     if_ok (ThermalService_InitThermalPolicy s)
       ThermalService_InitThermalSubscriber)))"
  proof (rule no_null_if_ok [OF base InitThermalObserver_step [OF p]])
    fix s2 assume s2: "config_targets s2 \<and> sv_popup s2 \<and> sv_observer s2 \<and> sv_info s2 \<noteq> None"
    have mgr: "no_null (ThermalService_InitActionManager E s2)" using no_null_InitActionManager s2 by blast
    show "no_null (if_ok (ThermalService_InitActionManager E s2) (\<lambda>s.
       if_ok (ThermalService_InitThermalPolicy s) ThermalService_InitThermalSubscriber))"
    proof (rule no_null_if_ok [OF mgr InitActionManager_step [OF s2]])
      fix s3 assume s3: "config_targets s3 \<and> sv_popup s3 \<and> sv_observer s3 \<and> sv_info s3 \<noteq> None"
      then have policy: "no_null (ThermalService_InitThermalPolicy s3)"
        by (auto simp: config_targets_def ThermalService_InitThermalPolicy_def split_def Let_def)
      show "no_null (if_ok (ThermalService_InitThermalPolicy s3) ThermalService_InitThermalSubscriber)"
        by (rule no_null_if_ok [OF policy InitThermalPolicy_step [OF s3]])
          (auto simp: config_targets_def ThermalService_InitThermalSubscriber_def Let_def split_def split: option.split)
    qed
  qed
qed

lemma no_null_OnStart:
  "no_null (ThermalService_OnStart E (s, cs))"
proof -
  have "no_null (ThermalService_Init E (s, cs'))" for cs'
    using no_null_InitModules [OF CreateConfigModule_targets(2)]
    by (auto simp: ThermalService_Init_def split_def Let_def intro!: no_null_intros)
  then show ?thesis by (auto simp: ThermalService_OnStart_def Let_def intro!: no_null_intros)
qed

lemma no_null_run_policy:
  assumes "complete s" and "\<And>rates sys. no_null (step rates sys)"
  shows "no_null (run_policy step s)"
  using assms by (auto simp: complete_def config_targets_def run_policy_def split_def intro!: no_null_intros)

lemma complete_world [simp]: "complete (upd_world f s) = complete s"
  by (simp add: complete_def config_targets_def upd_world_def)

lemma no_null_OnTemperatureChanged:
  assumes "complete s"
  shows "no_null (ThermalServiceSubscriber_OnTemperatureChanged E temps s)"
proof -
  obtain sub info where s: "sv_subscriber s = Some sub" "sv_info s = Some info"
    using assms by (auto simp: complete_def)
  have "no_null (ThermalSensorInfo_NotifyObserver E t)" if t: "complete t" for t
  proof -
    obtain i where "sv_info t = Some i" "sv_observer t" using t by (auto simp: complete_def)
    then show ?thesis
      using t by (auto simp: ThermalSensorInfo_NotifyObserver_def Let_def policy_callback_def
          intro!: no_null_intros no_null_run_policy)
  qed
  moreover have "complete (s\<lparr>sv_subscriber := Some x, sv_info := Some y\<rparr>)" for x y
    using assms by (simp add: complete_def config_targets_def)
  ultimately show ?thesis
    by (auto simp: ThermalServiceSubscriber_OnTemperatureChanged_def s Let_def intro!: no_null_intros)
qed

lemma no_null_reports:
  "complete s \<Longrightarrow> no_null (ThermalService_HandleThermalCallbackEvent E event s)"
  "complete s \<Longrightarrow> no_null (ThermalService_HandleTempEmulation E temps s)"
  by (auto simp: ThermalService_HandleThermalCallbackEvent_def ThermalService_HandleTempEmulation_def
      intro!: no_null_intros no_null_OnTemperatureChanged)

lemma no_null_dump_policy: "complete s \<Longrightarrow> no_null (dump_policy_loop P args out s)"
  by (induction P args out s rule: dump_policy_loop.induct) (auto simp: complete_def config_targets_def upd_world_def)

lemma no_null_Dump: "complete s \<Longrightarrow> no_null (ThermalMgrDumper_Dump E args s)"
  by (auto simp: ThermalMgrDumper_Dump_def ThermalMgrDumper_EmulateTempReport_def ThermalMgrDumper_DumpPolicy_def
      ThermalMgrDumper_ShowThermalZoneInfo_def complete_def Let_def split_def
      intro!: no_null_intros no_null_reports(2) no_null_dump_policy split: list.split)

lemma no_null_interface: "complete s \<Longrightarrow> complete (snd (ThermalService_GetThermalInterfaceInner E s))"
  by (simp add: ThermalService_GetThermalInterfaceInner_def complete_def config_targets_def)

lemma no_null_serve: "complete s \<Longrightarrow> no_null (serve E r s)"
proof (cases r)
  case GetInfo
  assume "complete s"
  then show ?thesis
    by (auto simp: GetInfo ThermalService_GetThermalInfo_def split_def Let_def
        intro!: no_null_intros no_null_reports(1) no_null_interface)
next
  case (UpdateState tag val isImmed)
  assume s: "complete s"
  then have "sv_state s" by (simp add: complete_def config_targets_def)
  then show ?thesis
    using s by (auto simp: UpdateState ThermalService_UpdateThermalState_def if_system_def Let_def
        intro!: no_null_intros no_null_run_policy)
next
  case (ShellDump args)
  assume "complete s"
  then show ?thesis
    by (auto simp: ShellDump ThermalService_ShellDump_def split_def intro!: no_null_intros no_null_Dump)
qed (auto simp: complete_def config_targets_def if_system_def with_observer_def ThermalService_SetScene_def split_def Let_def
    ThermalService_SubscribeThermalTempCallback_def ThermalService_UnSubscribeThermalTempCallback_def
    ThermalService_SubscribeThermalActionCallback_def ThermalService_UnSubscribeThermalActionCallback_def
    ThermalService_SubscribeThermalLevelCallback_def ThermalService_UnSubscribeThermalLevelCallback_def
    ThermalService_GetThermalSrvSensorInfo_def)

lemma no_null_event:
  assumes "complete s"
  shows "no_null (run_event E ev (s, cs))"
proof (cases ev)
  case Start
  then show ?thesis using no_null_OnStart by simp
next
  case (DriverReport event)
  then show ?thesis using assms(1) by (auto simp: split_def intro!: no_null_intros no_null_reports)
next
  case (FanReport event)
  then show ?thesis
    using assms(1) by (auto simp: complete_def config_targets_def ThermalService_HandleFanCallbackEvent_def split_def
        intro!: no_null_intros)
next
  case (Request r)
  then show ?thesis using assms(1) by (auto simp: split_def intro!: no_null_intros no_null_serve)
next
  case (DumpRequest fd args)
  then show ?thesis
    using assms(1) by (auto simp: ThermalService_Dump_def split_def intro!: no_null_intros no_null_Dump)
next
  case (AbilityAdded a)
  then show ?thesis
    using assms(1) by (cases a) (auto simp: complete_def config_targets_def ThermalService_OnAddSystemAbility_def
      ThermalService_InitStateMachine_def Let_def split_def)
next
  case HdiStartTask
  then show ?thesis
    using assms(1) by (auto simp: hdi_start_task_def ThermalService_RegisterFanHdiCallback_def Let_def split_def
        ThermalService_RegisterThermalHdiCallback_def ThermalService_GetThermalInterfaceInner_def complete_def config_targets_def)
qed auto

end
