(* ===== verification/Service_Properties.thy ===== *)
theory Service_Properties
  imports Service_Safety
begin

text \<open>
  The properties of the service as a whole, over the events of theory \<open>Service_Safety\<close>.
\<close>

section \<open>Dumps of reports\<close>

lemma strtol_numeral: "int32_range i \<Longrightarrow> strtol (c_str (to_string_int i)) = (i, [], False)"
proof (cases "i < 0")
  case True
  assume "int32_range i"
  with True scan_dec_minus [OF to_dec_nonempty to_dec_digits, of "nat (- i)"] show ?thesis
    by (simp add: to_string_int_def c_str_sign_digits [OF to_dec_digits] strtol_def int32_range_def)
next
  case False
  assume "int32_range i"
  with False scan_dec_digits [OF to_dec_nonempty to_dec_digits, of "nat i"] show ?thesis
    by (simp add: to_string_int_def c_str_digits [OF to_dec_digits] strtol_def int32_range_def)
qed

lemma to_int32_range: "int32_range i \<Longrightarrow> to_int32 i = i"
  by (simp add: to_int32_def int32_range_def signed_of_int signed_take_bit_int_eq_self)

lemma atoi_numeral [simp]: "int32_range i \<Longrightarrow> atoi (to_string_int i) = i"
  by (simp add: atoi_def strtol_numeral to_int32_range)

text \<open>The arguments that emulate an event.\<close>

definition emulation_args :: "(string \<times> int) list \<Rightarrow> string list" where
  "emulation_args event = concat (map (\<lambda>(type, temp). [type, to_string_int temp]) event)"

lemma emulation_loop_event:
  "list_all (\<lambda>(type, temp). int32_range temp) event \<Longrightarrow>
     fst (emulation_loop (emulation_args event) m out) = fold (\<lambda>(type, temp). sm_insert type temp) event m"
  by (induction event arbitrary: m out) (auto simp: emulation_args_def)

lemma emulation_args_enough: "event \<noteq> [] \<Longrightarrow> 2 \<le> length (emulation_args event)"
  by (cases event) (auto simp: emulation_args_def split_def)

section \<open>The switch of the reports\<close>

text \<open>A report does not look at the switch and leaves it alone.\<close>

lemma run_policy_switch:
  "run_policy step (SetTempReportSwitch b s) = map_ok (SetTempReportSwitch b) (run_policy step s)"
  by (cases s) (simp add: run_policy_def SetTempReportSwitch_def map_ok_bindr split_def)

lemma upd_world_switch: "upd_world f (SetTempReportSwitch b s) = SetTempReportSwitch b (upd_world f s)"
  by (simp add: upd_world_def SetTempReportSwitch_def)

lemma SetTempReportSwitch_simps [simp]:
  "sv_info (SetTempReportSwitch b s) = sv_info s" "sv_observer (SetTempReportSwitch b s) = sv_observer s"
  "sv_world (SetTempReportSwitch b s) = sv_world s" "sv_subscriber (SetTempReportSwitch b s) = sv_subscriber s"
  "sv_isTempReport (SetTempReportSwitch b s) = b" "sv_thermalInterface (SetTempReportSwitch b s) = sv_thermalInterface s"
  "SetTempReportSwitch b (SetTempReportSwitch c s) = SetTempReportSwitch b s"
  "sv_isTempReport s = b \<Longrightarrow> SetTempReportSwitch b s = s"
  by (simp_all add: SetTempReportSwitch_def)

lemma platform_switch [simp]: "platform_of E (SetTempReportSwitch b s) = platform_of E s"
  by (simp add: platform_of_def)

lemma NotifyObserver_switch:
  "ThermalSensorInfo_NotifyObserver E (SetTempReportSwitch b s) =
     map_ok (SetTempReportSwitch b) (ThermalSensorInfo_NotifyObserver E s)"
proof -
  have policy: "policy_callback E i (SetTempReportSwitch b t) = map_ok (SetTempReportSwitch b) (policy_callback E i t)" for i t
    by (simp add: policy_callback_def run_policy_switch)
  have run: "bindr (if c then policy_callback E i (SetTempReportSwitch b t) else Inr (SetTempReportSwitch b t)) g =
      bindr (if c then policy_callback E i t else Inr t) (\<lambda>s. g (SetTempReportSwitch b s))" for c i t and g :: "_ \<Rightarrow> 'c result"
    by (simp add: policy bindr_map_ok)
  show ?thesis
    by (simp add: ThermalSensorInfo_NotifyObserver_def map_ok_bindr Let_def upd_world_switch run cong: if_cong)
qed

lemma OnTemperatureChanged_switch:
  "ThermalServiceSubscriber_OnTemperatureChanged E temps (SetTempReportSwitch b s) =
     map_ok (SetTempReportSwitch b) (ThermalServiceSubscriber_OnTemperatureChanged E temps s)"
proof -
  have set: "SetTempReportSwitch b s\<lparr>sv_subscriber := x, sv_info := y\<rparr> = SetTempReportSwitch b (s\<lparr>sv_subscriber := x, sv_info := y\<rparr>)"
      "SetTempReportSwitch b s\<lparr>sv_subscriber := x\<rparr> = SetTempReportSwitch b (s\<lparr>sv_subscriber := x\<rparr>)"
      "SetTempReportSwitch b s\<lparr>sv_info := y\<rparr> = SetTempReportSwitch b (s\<lparr>sv_info := y\<rparr>)" for x y s
    by (cases s; simp add: SetTempReportSwitch_def)+
  show ?thesis
    unfolding ThermalServiceSubscriber_OnTemperatureChanged_def Let_def
    by (cases "temps = []") (simp_all add: map_ok_bindr bindr_map_ok set NotifyObserver_switch)
qed

lemma emulation_eq:
  assumes "\<not> ev_userVersion E" and "event \<noteq> []" and "list_all (\<lambda>(type, temp). int32_range temp) event"
    and "\<not> sv_isTempReport s"
  shows "map_ok (\<lambda>(ok, out, s). s) (ThermalMgrDumper_Dump E (''-te'' # emulation_args event) s) =
    ThermalServiceSubscriber_OnTemperatureChanged E (event_map event) s"
proof -
  have "ThermalServiceSubscriber_OnTemperatureChanged E (fst (emulation_loop (emulation_args event) [] [])) s =
      ThermalServiceSubscriber_OnTemperatureChanged E (event_map event) s"
    using emulation_loop_event [OF assms(3)] by (simp add: event_map_def)
  with assms emulation_args_enough [OF assms(2)] show ?thesis
    by (cases "ThermalServiceSubscriber_OnTemperatureChanged E (event_map event) s")
      (auto simp: ThermalMgrDumper_Dump_def ThermalMgrDumper_EmulateTempReport_def ThermalService_HandleTempEmulation_def
        split_def Let_def)
qed

lemma switch_dump:
  "\<not> ev_userVersion E \<Longrightarrow> map_ok (\<lambda>(ok, out, s). s) (ThermalMgrDumper_Dump E [''-st'', ''0''] s) = Inr (SetTempReportSwitch False s)"
  "\<not> ev_userVersion E \<Longrightarrow> map_ok (\<lambda>(ok, out, s). s) (ThermalMgrDumper_Dump E [''-st'', ''1''] s) = Inr (SetTempReportSwitch True s)"
  by (simp_all add: ThermalMgrDumper_Dump_def ThermalMgrDumper_SwitchTempReport_def)

section \<open>Requests without permission\<close>

text \<open>The level listeners and the calls to them are all that such a request touches.\<close>

definition only_level_listeners :: "thermal_service \<Rightarrow> thermal_service \<Rightarrow> bool" where
  "only_level_listeners s s' \<longleftrightarrow> (\<exists>sync async watched es. s' = upd_world (\<lambda>w. w\<lparr>syncThermalLevelListeners := sync,
     asyncThermalLevelListeners := async, levelWatched := watched, effects := es\<rparr>) s)"

lemma only_level_listeners_refl [simp]: "only_level_listeners s s"
proof -
  have "s = upd_world (\<lambda>w. w\<lparr>syncThermalLevelListeners := syncThermalLevelListeners (sv_world s),
     asyncThermalLevelListeners := asyncThermalLevelListeners (sv_world s), levelWatched := levelWatched (sv_world s),
     effects := effects (sv_world s)\<rparr>) s"
    by (simp add: upd_world_def)
  then show ?thesis unfolding only_level_listeners_def by blast
qed

definition listeners_world :: "service_world \<Rightarrow> service_world \<Rightarrow> bool" where
  "listeners_world w w' \<longleftrightarrow> (\<exists>sync async watched es. w' = w\<lparr>syncThermalLevelListeners := sync,
     asyncThermalLevelListeners := async, levelWatched := watched, effects := es\<rparr>)"

lemma listeners_world_upd: "listeners_world (sv_world s) (f (sv_world s)) \<Longrightarrow> only_level_listeners s (upd_world f s)"
proof -
  assume "listeners_world (sv_world s) (f (sv_world s))"
  then obtain sync async watched es where "f (sv_world s) = (sv_world s)\<lparr>syncThermalLevelListeners := sync,
      asyncThermalLevelListeners := async, levelWatched := watched, effects := es\<rparr>"
    by (auto simp: listeners_world_def)
  then have "upd_world f s = upd_world (\<lambda>w. w\<lparr>syncThermalLevelListeners := sync,
      asyncThermalLevelListeners := async, levelWatched := watched, effects := es\<rparr>) s"
    by (simp add: upd_world_def)
  then show ?thesis unfolding only_level_listeners_def by blast
qed

lemma level_requests_world:
  "listeners_world w (ThermalActionManager_SubscribeThermalLevelCallback cb isSync mgr w)"
  "listeners_world w (ThermalActionManager_UnSubscribeThermalLevelCallback cb mgr w)"
  by (cases w; auto simp: listeners_world_def ThermalActionManager_SubscribeThermalLevelCallback_def
      ActionThermalLevel_SubscribeThermalLevelCallback_def ActionThermalLevel_AddThermalLevelListeners_def
      ThermalActionManager_UnSubscribeThermalLevelCallback_def ActionThermalLevel_UnSubscribeThermalLevelCallback_def
      emit_def Let_def split: option.split)+

section \<open>Actions of the system on chip\<close>

lemma reset_find:
  "sm_ok acts \<Longrightarrow>
     sm_ok (fold (\<lambda>name acts. case sm_find acts name of None \<Rightarrow> acts
        | Some (k, a) \<Rightarrow> sm_assign name (k, ResetActionValue (class_of strtof k) a) acts) names acts) \<and>
     sm_find (fold (\<lambda>name acts. case sm_find acts name of None \<Rightarrow> acts
        | Some (k, a) \<Rightarrow> sm_assign name (k, ResetActionValue (class_of strtof k) a) acts) names acts) n =
       map_option (\<lambda>(k, a). (k, if n \<in> set names then ResetActionValue (class_of strtof k) a else a)) (sm_find acts n)"
proof (induction names arbitrary: acts)
  case Nil
  then show ?case by (cases "sm_find acts n") auto
next
  case (Cons name names)
  show ?case
  proof (cases "sm_find acts name")
    case None
    with Cons show ?thesis by (cases "sm_find acts n") auto
  next
    case (Some ka)
    obtain k a where ka: "ka = (k, a)" by (cases ka)
    let ?acts = "sm_assign name (k, ResetActionValue (class_of strtof k) a) acts"
    have "sm_ok ?acts" using Cons.prems by simp
    from Cons.IH [OF this] Some Cons.prems show ?thesis
      by (auto simp: ka ResetActionValue_def)
  qed
qed

section \<open>The readings of an event\<close>

lemma event_map_ok: "sm_ok (event_map event)"
proof -
  have "sm_ok (fold (\<lambda>(type, temp). sm_insert type temp) es m)" if "sm_ok m" for es and m :: TypeTempMap
    using that by (induction es arbitrary: m) auto
  then show ?thesis by (simp add: event_map_def)
qed

lemma event_map_stored:
  "ThermalServiceSubscriber_store (event_map event) sub = sub\<lparr>sub_typeTempMap := event_map event\<rparr>"
  using fold_assign_append [of "[]" "event_map event"] event_map_ok by (simp add: ThermalServiceSubscriber_store_def)

lemma event_map_nonempty: "event \<noteq> [] \<Longrightarrow> event_map event \<noteq> []"
proof -
  have "fold (\<lambda>(type, temp). sm_insert type temp) es m \<noteq> []" if "m \<noteq> []" for es and m :: TypeTempMap
    using that
  proof (induction es arbitrary: m)
    case (Cons e es)
    show ?case by (cases e) (simp add: Cons.IH sm_insert_nonempty)
  qed simp
  then show "event \<noteq> [] \<Longrightarrow> event_map event \<noteq> []"
    by (cases event) (simp_all add: event_map_def sm_insert_nonempty split_def)
qed

section \<open>An example\<close>

definition sample_environment :: environment where
  "sample_environment = \<lparr>ev_platform = sample_platform, ev_strtof = sample_strtof,
     ev_delay = \<lparr>isCompleted = False, intDelayValue = 0, uintDelayValue = 0, floatDelayValue = 0, delayTime = 0, delayTimerId = 0\<rparr>,
     ev_uninit = sample_uninit,
     ev_source = \<lparr>xmlReadMemory = (\<lambda>_. None), xmlReadFile = (\<lambda>_. Some (Some (element ''thermal'' [] []))),
       HookMgrExecute = (\<lambda>_. (1, []))\<rparr>,
     ev_userVersion = False, ev_IsSystem = False, ev_GetOneCfgFile = None, ev_Publish = True, ev_SubscribeAirplane = True,
     ev_IServiceManager = True, ev_RegisterServiceStatus = 0, ev_IThermalInterface = True,
     ev_GetThermalZoneInfo = (0, [(''soc'', 40000)]), ev_Str16ToStr8 = (\<lambda>_. []), ev_ERR_NO_INIT = 5,
     ev_ERR_PERMISSION_DENIED = 6\<rparr>"

lemma sample_starts:
  "\<exists>S. run_event sample_environment Start (ThermalService_new sample_world, []) = Inr S \<and> sv_ready (fst S)"
proof -
  have "ThermalService_InitConfigFile sample_environment s = Inr (True, s)" for s
    by (simp add: ThermalService_InitConfigFile_def parse_config_def ThermalSrvConfigInit_def ParseXmlFile_def
        DecryptConfig_def sample_environment_def)
  then show ?thesis
    by (simp add: ThermalService_OnStart_def ThermalService_Init_def ThermalService_CreateConfigModule_def
        ThermalService_new_def ThermalService_InitModules_def if_ok_def ThermalService_InitThermalObserver_def
        ThermalService_InitBaseInfo_def BaseInfo_new_def ThermalConfigBaseInfo_Init_def
        ThermalConfigBaseInfo_SetSensorsType_def ThermalConfigBaseInfo_SetHistoryTempCount_def
        ThermalService_InitActionManager_def ThermalActionManager_Init_def ThermalService_InitThermalPolicy_def
        ThermalService_InitThermalSubscriber_def ThermalPolicy_Init_def upd_world_def ThermalServiceSubscriber_Init_def
        ThermalService_RegisterHdiStatusListener_def sample_environment_def Let_def)
qed

section \<open>Properties\<close>

text \<open>
  C10: in whatever order the system starts and stops the service, abilities and the driver come
  and go, clients call and reports arrive: a service that is ready has all its components, and
  its policy is registered with the observer.
\<close>

theorem ready_service_complete:
  assumes "service_reach S" and "sv_ready (fst S)"
  shows "sv_policy (fst S) \<noteq> None \<and> sv_actionMgr (fst S) \<noteq> None \<and> sv_subscriber (fst S) \<noteq> None \<and>
    sv_baseInfo (fst S) \<noteq> None \<and> sv_info (fst S) \<noteq> None \<and> sv_fanFaultDetect (fst S) \<noteq> None \<and>
    sv_state (fst S) \<and> sv_observer (fst S) \<and> callbackSet (observer (sv_world (fst S)))"
  using reach_linked [OF assms] by (simp add: linked_defs)

theorem ready_service_complete_witness:
  "\<exists>S. service_reach S \<and> sv_ready (fst S) \<and> sv_policy (fst S) \<noteq> None \<and> callbackSet (observer (sv_world (fst S)))"
proof -
  obtain S where S: "run_event sample_environment Start (ThermalService_new sample_world, []) = Inr S" "sv_ready (fst S)"
    using sample_starts by blast
  from event [OF initial S(1)] have "service_reach S" .
  with ready_service_complete [OF this S(2)] S(2) show ?thesis by blast
qed

text \<open>
  C9: no event is stopped by the use of a pointer that is not set: not the start, whatever the
  configuration file holds, and on a ready service no report, request, dump or notification.
\<close>

theorem service_never_null:
  assumes "service_reach S" and "sv_ready (fst S) \<or> ev = Start"
  shows "run_event E ev S \<noteq> Inl NullPointer"
proof -
  obtain s cs where S: "S = (s, cs)" by (cases S)
  have "no_null (run_event E ev (s, cs))"
  proof (cases "ev = Start")
    case True
    then show ?thesis using no_null_OnStart by simp
  next
    case False
    with assms(1,2) S have "complete s" using reach_linked [of S] by (simp add: linked_def)
    then show ?thesis by (rule no_null_event)
  qed
  then show ?thesis by (simp add: S no_null_def)
qed

theorem service_never_null_witness:
  "\<exists>S. sv_ready (fst S) \<and> run_event sample_environment (DriverReport [(''soc'', 45000)]) S \<noteq> Inl NullPointer"
proof -
  obtain S where S: "run_event sample_environment Start (ThermalService_new sample_world, []) = Inr S" "sv_ready (fst S)"
    using sample_starts by blast
  from event [OF initial S(1)] have "service_reach S" .
  from service_never_null [OF this, of "DriverReport [(''soc'', 45000)]" sample_environment] S(2) show ?thesis by auto
qed

text \<open>
  C13: stopping the driver's reports, emulating an event by its readings and starting the reports
  again leaves the service as if the driver had reported the event: the same levels, actions,
  history, rates and listeners. Readings are any 32-bit numbers, also repeated types.
\<close>

theorem emulated_report_like_driver:
  assumes "\<not> ev_userVersion E" and "sv_isTempReport s" and "event \<noteq> []"
    and "list_all (\<lambda>(type, temp). int32_range temp) event"
  shows "bindr (ThermalMgrDumper_Dump E [''-st'', ''0''] s) (\<lambda>(_, _, s).
      bindr (ThermalMgrDumper_Dump E (''-te'' # emulation_args event) s) (\<lambda>(_, _, s).
      bindr (ThermalMgrDumper_Dump E [''-st'', ''1''] s) (\<lambda>(_, _, s). Inr s))) =
    bindr (ThermalService_HandleThermalCallbackEvent E event s) (\<lambda>(_, s). Inr s)"
proof -
  let ?off = "SetTempReportSwitch False s"
  have off: "\<exists>ok out. ThermalMgrDumper_Dump E [''-st'', ''0''] s = Inr (ok, out, ?off)"
    by (simp add: ThermalMgrDumper_Dump_def ThermalMgrDumper_SwitchTempReport_def assms(1))
  have on: "bindr (ThermalMgrDumper_Dump E [''-st'', ''1''] t) (\<lambda>(_, _, s). Inr s) = Inr (SetTempReportSwitch True t)" for t
    by (simp add: ThermalMgrDumper_Dump_def ThermalMgrDumper_SwitchTempReport_def assms(1))
  have run: "map_ok (\<lambda>(ok, out, s). s) (ThermalMgrDumper_Dump E (''-te'' # emulation_args event) ?off) =
      map_ok (SetTempReportSwitch False) (ThermalServiceSubscriber_OnTemperatureChanged E (event_map event) s)"
    using emulation_eq [OF assms(1,3,4), of ?off] by (simp add: OnTemperatureChanged_switch)
  have "bindr (ThermalMgrDumper_Dump E (''-te'' # emulation_args event) ?off) (\<lambda>(_, _, s). Inr (SetTempReportSwitch True s)) =
      map_ok (SetTempReportSwitch True) (map_ok (\<lambda>(ok, out, s). s) (ThermalMgrDumper_Dump E (''-te'' # emulation_args event) ?off))"
    by (simp add: map_ok_def bindr_def split_def split: sum.split)
  also have "\<dots> = map_ok (SetTempReportSwitch True) (ThermalServiceSubscriber_OnTemperatureChanged E (event_map event) s)"
    unfolding run by (simp add: map_ok_def bindr_def split: sum.split)
  also have "\<dots> = ThermalServiceSubscriber_OnTemperatureChanged E (event_map event) s"
    using OnTemperatureChanged_switch [of E "event_map event" True s] assms(2) by simp
  finally have emulated: "bindr (ThermalMgrDumper_Dump E (''-te'' # emulation_args event) ?off)
      (\<lambda>(_, _, s). bindr (ThermalMgrDumper_Dump E [''-st'', ''1''] s) (\<lambda>(_, _, s). Inr s)) =
    ThermalServiceSubscriber_OnTemperatureChanged E (event_map event) s"
    by (simp only: on)
  obtain ok out where "ThermalMgrDumper_Dump E [''-st'', ''0''] s = Inr (ok, out, ?off)" using off by blast
  with emulated show ?thesis
    by (simp add: ThermalService_HandleThermalCallbackEvent_def assms(2) bindr_def split: sum.split)
qed

theorem emulated_report_like_driver_witness:
  "\<exists>s. sv_isTempReport s \<and>
    bindr (ThermalMgrDumper_Dump sample_environment [''-st'', ''0''] s) (\<lambda>(_, _, s).
      bindr (ThermalMgrDumper_Dump sample_environment (''-te'' # emulation_args [(''soc'', 45000), (''soc'', -1)]) s) (\<lambda>(_, _, s).
      bindr (ThermalMgrDumper_Dump sample_environment [''-st'', ''1''] s) (\<lambda>(_, _, s). Inr s))) =
    bindr (ThermalService_HandleThermalCallbackEvent sample_environment [(''soc'', 45000), (''soc'', -1)] s) (\<lambda>(_, s). Inr s)"
proof -
  have "sv_isTempReport (ThermalService_new sample_world)" by (simp add: ThermalService_new_def)
  moreover have "list_all (\<lambda>(type, temp). int32_range temp) [(''soc'', 45000), (''soc'', -1)]" by (simp add: int32_range_def)
  moreover have "\<not> ev_userVersion sample_environment" by (simp add: sample_environment_def)
  ultimately show ?thesis
    using emulated_report_like_driver [of sample_environment "ThermalService_new sample_world" "[(''soc'', 45000), (''soc'', -1)]"]
    by blast
qed



text \<open>
  When the service that controls the system on chip (re)appears, every action that acts
  through it forgets the value it applied last, so that the value it decides on next is applied
  unless it is the reset value; every other action is left alone.
\<close>

theorem soc_restart_resets:
  assumes "sv_actionMgr (fst S) = Some mgr" and "sm_ok (managedActions mgr)"
  shows "\<exists>S' mgr'. run_event E (AbilityAdded SOC_PERF_SERVICE_SA_ID) S = Inr S' \<and> sv_actionMgr (fst S') = Some mgr' \<and>
    (\<forall>name. sm_find (managedActions mgr') name =
       map_option (\<lambda>(k, a). (k, if name \<in> set (sv_socSet (fst S))
         then a\<lparr>lastValue := cls_reset (class_of (ev_strtof E) k)\<rparr> else a)) (sm_find (managedActions mgr) name))"
  using assms(1) reset_find [OF assms(2), THEN conjunct2]
  by (simp add: ThermalService_OnAddSystemAbility_def reset_soc_actions_def ResetActionValue_def cong: if_cong)

definition sample_soc_service :: thermal_service where
  "sample_soc_service = (ThermalService_new sample_world)\<lparr>sv_socSet := [''gpu''], sv_actionMgr := Some \<lparr>vActionItem = [],
     managedActions = [(''gpu'', KGpu, (new_action ActionGpu ''gpu'')\<lparr>lastValue := 7\<rparr>)]\<rparr>\<rparr>"

theorem soc_restart_resets_witness:
  "\<exists>S' mgr' a. run_event sample_environment (AbilityAdded SOC_PERF_SERVICE_SA_ID) (sample_soc_service, []) = Inr S' \<and>
    sv_actionMgr (fst S') = Some mgr' \<and> sm_find (managedActions mgr') ''gpu'' = Some (KGpu, a) \<and> lastValue a = 0"
proof -
  let ?mgr = "\<lparr>vActionItem = [], managedActions = [(''gpu'', KGpu, (new_action ActionGpu ''gpu'')\<lparr>lastValue := 7\<rparr>)]\<rparr>"
  have mgr: "sv_actionMgr (fst (sample_soc_service, [] :: service_call list)) = Some ?mgr"
    by (simp add: sample_soc_service_def)
  have soc: "sv_socSet (fst (sample_soc_service, [] :: service_call list)) = [''gpu'']" by (simp add: sample_soc_service_def)
  have ok: "sm_ok (managedActions ?mgr)" by (simp add: sm_ok_def)
  from soc_restart_resets [OF mgr ok, of sample_environment, unfolded soc] obtain S' mgr' where
    "run_event sample_environment (AbilityAdded SOC_PERF_SERVICE_SA_ID) (sample_soc_service, []) = Inr S'"
    "sv_actionMgr (fst S') = Some mgr'"
    "sm_find (managedActions mgr') ''gpu'' =
      Some (KGpu, (new_action ActionGpu ''gpu'')\<lparr>lastValue := cls_reset (class_of (ev_strtof sample_environment) KGpu)\<rparr>)"
    by force
  then show ?thesis by (auto simp: ActionGpu_def uint_class_def)
qed

lemma report_steps:
  assumes "linked s" and "sv_isTempReport s" and "event \<noteq> []"
    and "sv_subscriber s = Some sub" and "sv_policy s = Some p" and "sv_actionMgr s = Some mgr"
    and "ThermalPolicy_OnSensorInfoReported (ev_strtof E) (platform_of E s) (ev_delay E) (subscriber_rates sub) (event_map event)
      (p, mgr, tell_observer (callbackinfo_update (\<lambda>_. event_map event)) (sv_world s)) = Inr (p', mgr', w')"
    and "ThermalServiceSubscriber_SetHistoryTypeTempMap (rnd (ev_platform E)) (event_map event)
      (sub\<lparr>sub_typeTempMap := event_map event\<rparr>) = Inr sub'"
  shows "ThermalService_HandleThermalCallbackEvent E event s = Inr (ERR_OK,
    s\<lparr>sv_policy := Some p', sv_actionMgr := Some mgr', sv_world := notify_listeners w', sv_subscriber := Some sub',
      sv_info := Some (event_map event)\<rparr>)"
proof -
  have cb: "sv_info s \<noteq> None" "sv_observer s" "callbackSet (observer (sv_world s))" using assms(1) by (simp_all add: linked_defs)
  then obtain i where i: "sv_info s = Some i" by blast
  let ?m = "event_map event"
  let ?s1 = "s\<lparr>sv_subscriber := Some (sub\<lparr>sub_typeTempMap := ?m\<rparr>), sv_info := Some ?m\<rparr>"
  let ?s2 = "upd_world (tell_observer (callbackinfo_update (\<lambda>_. ?m))) ?s1"
  have "policy_callback E ?m ?s2 = Inr (?s2\<lparr>sv_policy := Some p', sv_actionMgr := Some mgr', sv_world := w'\<rparr>)"
    using assms(5-7) by (simp add: policy_callback_def run_policy_def subscriber_rates_def platform_of_def upd_world_def)
  moreover have "callbackSet (observer (sv_world ?s2))" "callbackinfo (observer (sv_world ?s2)) = ?m"
    using cb by (simp_all add: upd_world_def tell_observer_def)
  ultimately have notify: "ThermalSensorInfo_NotifyObserver E ?s1 =
      Inr (?s1\<lparr>sv_policy := Some p', sv_actionMgr := Some mgr', sv_world := notify_listeners w'\<rparr>)"
    using cb by (simp add: ThermalSensorInfo_NotifyObserver_def ThermalSensorInfo_GetTypeTempMap_def upd_world_def)
  have "ThermalServiceSubscriber_OnTemperatureChanged E ?m s =
      Inr (?s1\<lparr>sv_policy := Some p', sv_actionMgr := Some mgr', sv_world := notify_listeners w', sv_subscriber := Some sub'\<rparr>)"
    using assms(4,8) i notify event_map_nonempty [OF assms(3)]
    by (simp add: ThermalServiceSubscriber_OnTemperatureChanged_def event_map_stored ThermalSensorInfo_SetTypeTempMap_def Let_def)
  then show ?thesis
    using assms(2) by (cases s) (simp add: ThermalService_HandleThermalCallbackEvent_def)
qed

text \<open>
  C12: what one report of the driver amounts to: the policy decides on the readings with the rates
  of the reports before it, the listeners are told after the policy has run, and only then do the
  readings enter the history and the rates.
\<close>

theorem report_reaches_policy:
  assumes "linked s" and "sv_isTempReport s" and "event \<noteq> []"
    and "sv_subscriber s = Some sub" and "sv_policy s = Some p" and "sv_actionMgr s = Some mgr"
    and "ThermalPolicy_OnSensorInfoReported (ev_strtof E) (platform_of E s) (ev_delay E) (subscriber_rates sub) (event_map event)
      (p, mgr, tell_observer (callbackinfo_update (\<lambda>_. event_map event)) (sv_world s)) = Inr (p', mgr', w')"
    and "ThermalServiceSubscriber_SetHistoryTypeTempMap (rnd (ev_platform E)) (event_map event)
      (sub\<lparr>sub_typeTempMap := event_map event\<rparr>) = Inr sub'"
  shows "ThermalService_HandleThermalCallbackEvent E event s = Inr (ERR_OK,
    s\<lparr>sv_policy := Some p', sv_actionMgr := Some mgr', sv_world := notify_listeners w', sv_subscriber := Some sub',
      sv_info := Some (event_map event)\<rparr>)"
  by (rule report_steps [OF assms])

definition sample_linked :: thermal_service where
  "sample_linked = (ThermalService_new (sample_world\<lparr>observer := Observer_new\<lparr>callbackSet := True\<rparr>\<rparr>))\<lparr>sv_ready := True,
     sv_subscriber := Some Subscriber_new, sv_policy := Some Policy_new, sv_info := Some [], sv_observer := True,
     sv_actionMgr := Some \<lparr>vActionItem = [], managedActions = []\<rparr>, sv_baseInfo := Some BaseInfo_new, sv_state := True,
     sv_fanFaultDetect := Some [], sv_popup := True\<rparr>"

theorem report_reaches_policy_witness:
  "\<exists>s. ThermalService_HandleThermalCallbackEvent sample_environment [(''soc'', 45000)] sample_linked = Inr (ERR_OK, s) \<and>
     sv_info s = Some [(''soc'', 45000)]"
proof -
  let ?m = "\<lparr>vActionItem = [], managedActions = []\<rparr> :: ActionManager"
  let ?w = "tell_observer (callbackinfo_update (\<lambda>_. event_map [(''soc'', 45000)])) (sv_world sample_linked)"
  have parts: "linked sample_linked" "sv_isTempReport sample_linked" "[(''soc'', 45000 :: int)] \<noteq> []"
      "sv_subscriber sample_linked = Some Subscriber_new" "sv_policy sample_linked = Some Policy_new"
      "sv_actionMgr sample_linked = Some ?m"
    by (simp_all add: sample_linked_def linked_defs ThermalService_new_def)
  have "\<exists>p' mgr' w'. ThermalPolicy_OnSensorInfoReported (ev_strtof sample_environment) (platform_of sample_environment sample_linked)
      (ev_delay sample_environment) (subscriber_rates Subscriber_new) (event_map [(''soc'', 45000)]) (Policy_new, ?m, ?w) =
    Inr (p', mgr', w')"
    by (simp add: ThermalPolicy_OnSensorInfoReported_def ThermalPolicy_LevelDecision_def ThermalPolicy_WriteLevel_def
        ThermalPolicy_PolicyDecision_def ThermalPolicy_ActionExecution_def Policy_new_def sample_linked_def
        ThermalService_new_def tell_observer_def sample_world_def Let_def split_def)
  then obtain p' mgr' w' where report: "ThermalPolicy_OnSensorInfoReported (ev_strtof sample_environment)
      (platform_of sample_environment sample_linked) (ev_delay sample_environment) (subscriber_rates Subscriber_new)
      (event_map [(''soc'', 45000)]) (Policy_new, ?m, ?w) = Inr (p', mgr', w')"
    by blast
  have history: "ThermalServiceSubscriber_SetHistoryTypeTempMap (rnd (ev_platform sample_environment)) (event_map [(''soc'', 45000)])
      (Subscriber_new\<lparr>sub_typeTempMap := event_map [(''soc'', 45000)]\<rparr>) =
    Inr (Subscriber_new\<lparr>sub_typeTempMap := event_map [(''soc'', 45000)]\<rparr>)"
    by (simp add: ThermalServiceSubscriber_SetHistoryTypeTempMap_def Subscriber_new_def)
  from report_reaches_policy [OF parts report history] show ?thesis by (simp add: event_map_def)
qed

end
