(* ===== verification/Subscriber_Proofs.thy ===== *)
theory Subscriber_Proofs
  imports Service_Subscriber
begin

text \<open>
  What the subscriber computes: the rate of rise is the slope of the least-squares line through
  the readings, per minute; the sums stay within 32 bits for the stated sizes and not beyond;
  the histories are the latest readings, and the lists keep their lengths.
\<close>

section \<open>Least squares\<close>

text \<open>The squared error of the line \<open>a * x + b\<close> at the points.\<close>

definition sq_error :: "(rat \<times> rat) list \<Rightarrow> rat \<Rightarrow> rat \<Rightarrow> rat" where
  "sq_error pts a b = (\<Sum>(x, y) \<leftarrow> pts. (y - (a * x + b)) ^ 2)"

definition best_line :: "(rat \<times> rat) list \<Rightarrow> rat \<Rightarrow> rat \<Rightarrow> bool" where
  "best_line pts a b \<longleftrightarrow>
     (\<forall>a' b'. sq_error pts a b \<le> sq_error pts a' b' \<and> (sq_error pts a' b' = sq_error pts a b \<longrightarrow> a' = a))"

definition sx :: "(rat \<times> rat) list \<Rightarrow> rat" where "sx pts = (\<Sum>(x, y) \<leftarrow> pts. x)"
definition sy :: "(rat \<times> rat) list \<Rightarrow> rat" where "sy pts = (\<Sum>(x, y) \<leftarrow> pts. y)"
definition sxx :: "(rat \<times> rat) list \<Rightarrow> rat" where "sxx pts = (\<Sum>(x, y) \<leftarrow> pts. x * x)"
definition sxy :: "(rat \<times> rat) list \<Rightarrow> rat" where "sxy pts = (\<Sum>(x, y) \<leftarrow> pts. x * y)"
definition syy :: "(rat \<times> rat) list \<Rightarrow> rat" where "syy pts = (\<Sum>(x, y) \<leftarrow> pts. y * y)"

lemmas sums_def = sx_def sy_def sxx_def sxy_def syy_def

lemma sums_Nil [simp]: "sx [] = 0" "sy [] = 0" "sxx [] = 0" "sxy [] = 0" "syy [] = 0"
  by (simp_all add: sums_def)

lemma sums_Cons [simp]:
  "sx ((x, y) # p) = x + sx p" "sy ((x, y) # p) = y + sy p" "sxx ((x, y) # p) = x * x + sxx p"
  "sxy ((x, y) # p) = x * y + sxy p" "syy ((x, y) # p) = y * y + syy p"
  by (simp_all add: sums_def)

lemma sq_error_sums:
  "sq_error p a b =
     syy p - 2 * a * sxy p - 2 * b * sy p + a * a * sxx p + 2 * a * b * sx p + of_nat (length p) * (b * b)"
proof (induction p)
  case Nil
  then show ?case by (simp add: sq_error_def)
next
  case (Cons q p)
  obtain x y where "q = (x, y)" by (cases q)
  with Cons show ?case by (simp add: sq_error_def power2_eq_square algebra_simps)
qed

lemma best_line_normal_equations:
  assumes n: "0 < of_nat (length p) * sxx p - sx p * sx p"
    and e1: "a * sxx p + b * sx p = sxy p" and e2: "a * sx p + of_nat (length p) * b = sy p"
  shows "best_line p a b"
proof -
  let ?n = "of_nat (length p) :: rat"
  have pos: "0 < ?n"
  proof (cases "length p = 0")
    case True
    with n show ?thesis by simp
  qed simp
  have diff: "sq_error p a' b' - sq_error p a b =
      (a' - a) * (a' - a) * sxx p + 2 * (a' - a) * (b' - b) * sx p + ?n * ((b' - b) * (b' - b))" for a' b'
    unfolding sq_error_sums e1 [symmetric] e2 [symmetric] by (simp add: algebra_simps)
  have scaled: "?n * (sq_error p a' b' - sq_error p a b) =
      (?n * (b' - b) + (a' - a) * sx p) ^ 2 + (a' - a) ^ 2 * (?n * sxx p - sx p * sx p)" for a' b'
    unfolding diff by (simp add: algebra_simps power2_eq_square)
  have nonneg: "0 \<le> (a' - a) ^ 2 * (?n * sxx p - sx p * sx p)" for a' using n by simp
  have "0 \<le> ?n * (sq_error p a' b' - sq_error p a b)" for a' b'
    unfolding scaled using nonneg [of a'] by simp
  then have le: "sq_error p a b \<le> sq_error p a' b'" for a' b'
    using pos by (simp add: zero_le_mult_iff)
  moreover have "a' = a" if "sq_error p a' b' = sq_error p a b" for a' b'
  proof -
    from that scaled [of a' b'] have "(?n * (b' - b) + (a' - a) * sx p) ^ 2 + (a' - a) ^ 2 * (?n * sxx p - sx p * sx p) = 0"
      by simp
    with nonneg [of a'] have "(a' - a) ^ 2 * (?n * sxx p - sx p * sx p) = 0"
      by (simp add: add_nonneg_eq_0_iff)
    with n show ?thesis by simp
  qed
  ultimately show ?thesis by (simp add: best_line_def)
qed

section \<open>The sums\<close>

text \<open>The sums of the loop, as integers, and bounds for each pass.\<close>

definition tx :: "nat \<times> int \<Rightarrow> int" where "tx p = int (fst p) * THERMAL_UPDATE_PERIOD"

definition isum :: "(nat \<times> int \<Rightarrow> int) \<Rightarrow> (nat \<times> int) list \<Rightarrow> int" where
  "isum f es = (\<Sum>p \<leftarrow> es. f p)"

lemma isum_simps [simp]: "isum f [] = 0" "isum f (p # es) = f p + isum f es"
  by (simp_all add: isum_def)

lemma isum_bound: "(\<And>p. p \<in> set es \<Longrightarrow> \<bar>f p\<bar> \<le> K) \<Longrightarrow> \<bar>isum f es\<bar> \<le> K * int (length es)"
proof (induction es)
  case (Cons p es)
  then have "\<bar>f p\<bar> \<le> K" "\<bar>isum f es\<bar> \<le> K * int (length es)" by auto
  then show ?case by (simp add: algebra_simps)
qed simp

definition pass_ok :: "int \<Rightarrow> int \<Rightarrow> int \<Rightarrow> int \<Rightarrow> nat \<times> int \<Rightarrow> bool" where
  "pass_ok A B C D p \<longleftrightarrow> \<bar>tx p\<bar> \<le> A \<and> \<bar>snd p\<bar> \<le> B \<and> \<bar>tx p * tx p\<bar> \<le> C \<and> \<bar>tx p * snd p\<bar> \<le> D"

lemma in_range: "\<bar>i\<bar> \<le> INT_MAX \<Longrightarrow> int32_range i"
  by (auto simp: int32_range_def)

lemma step_bound:
  assumes "\<bar>a\<bar> + A + r \<le> INT_MAX" and "\<bar>t\<bar> \<le> A" and "0 \<le> r"
  shows "int32_range (a + t)" and "\<bar>a + t\<bar> + r \<le> INT_MAX" and "int32_range t"
proof -
  have "\<bar>a + t\<bar> \<le> \<bar>a\<bar> + \<bar>t\<bar>" by (rule abs_triangle_ineq)
  with assms(1,2) show *: "\<bar>a + t\<bar> + r \<le> INT_MAX" by linarith
  with assms(3) show "int32_range (a + t)" by (intro in_range) linarith
  have "\<bar>t\<bar> \<le> INT_MAX" using assms by linarith
  then show "int32_range t" by (rule in_range)
qed

lemma rate_loop:
  assumes "\<And>p. p \<in> set es \<Longrightarrow> pass_ok A B C D p"
    and "\<bar>a\<bar> + A * int (length es) \<le> INT_MAX" and "\<bar>b\<bar> + B * int (length es) \<le> INT_MAX"
    and "\<bar>c\<bar> + C * int (length es) \<le> INT_MAX" and "\<bar>d\<bar> + D * int (length es) \<le> INT_MAX"
    and "0 \<le> A" "0 \<le> B" "0 \<le> C" "0 \<le> D"
  shows "foldr_result rate_step es (a, b, c, d) =
    Inr (a + isum tx es, b + isum snd es, c + isum (\<lambda>p. tx p * tx p) es, d + isum (\<lambda>p. tx p * snd p) es)"
  using assms(1-5)
proof (induction es arbitrary: a b c d)
  case Nil
  then show ?case by simp
next
  case (Cons p es)
  obtain i y where p: "p = (i, y)" by (cases p)
  from Cons.prems(1) have ok: "pass_ok A B C D p" by simp
  let ?t = "tx p" and ?n = "int (length es)"
  have nonneg: "0 \<le> A * ?n" "0 \<le> B * ?n" "0 \<le> C * ?n" "0 \<le> D * ?n" using assms(6-9) by simp_all
  have b1: "\<bar>a\<bar> + A + A * ?n \<le> INT_MAX" "\<bar>b\<bar> + B + B * ?n \<le> INT_MAX"
      "\<bar>c\<bar> + C + C * ?n \<le> INT_MAX" "\<bar>d\<bar> + D + D * ?n \<le> INT_MAX"
    using Cons.prems(2-5) by (simp_all add: algebra_simps)
  have t: "int i * THERMAL_UPDATE_PERIOD = ?t" "snd p = y" by (simp_all add: tx_def p)
  from ok t(2) have o: "\<bar>?t\<bar> \<le> A" "\<bar>y\<bar> \<le> B" "\<bar>?t * ?t\<bar> \<le> C" "\<bar>?t * y\<bar> \<le> D" by (simp_all add: pass_ok_def)
  note ra = step_bound [OF b1(1) o(1) nonneg(1)] and rb = step_bound [OF b1(2) o(2) nonneg(2)]
    and rc = step_bound [OF b1(3) o(3) nonneg(3)] and rd = step_bound [OF b1(4) o(4) nonneg(4)]
  have IH: "foldr_result rate_step es (a + ?t, b + y, c + ?t * ?t, d + ?t * y) =
      Inr (a + ?t + isum tx es, b + y + isum snd es, c + ?t * ?t + isum (\<lambda>p. tx p * tx p) es,
           d + ?t * y + isum (\<lambda>p. tx p * snd p) es)"
    by (rule Cons.IH) (use Cons.prems(1) ra(2) rb(2) rc(2) rd(2) in simp_all)
  have "rate_step p (a, b, c, d) = Inr (a + ?t, b + y, c + ?t * ?t, d + ?t * y)"
    unfolding rate_step_def p prod.case t(1) [unfolded p] using ra [unfolded p] rb rc [unfolded p] rd [unfolded p] by simp
  then show ?case using IH by (simp add: t(2) add.assoc)
qed

section \<open>The rate of rise\<close>

text \<open>The readings over their times in seconds: the newest at 0, each older one 5 seconds before.\<close>

definition time_points :: "int list \<Rightarrow> (rat \<times> rat) list" where
  "time_points q = map (\<lambda>p. (of_int (tx p), of_int (snd p))) (enumerate 0 q)"

text \<open>Sizes and readings for which no sum leaves 32 bits.\<close>

definition rate_in_range :: "nat \<Rightarrow> int \<Rightarrow> bool" where
  "rate_in_range n T \<longleftrightarrow> 25 * int n ^ 4 \<le> INT_MAX \<and> 10 * int n ^ 3 * T \<le> INT_MAX"

lemma isum_append [simp]: "isum f (xs @ ys) = isum f xs + isum f ys"
  by (simp add: isum_def)

lemma sums_of_passes:
  "sx (map (\<lambda>p. (of_int (tx p), of_int (snd p))) es) = of_int (isum tx es)"
  "sy (map (\<lambda>p. (of_int (tx p), of_int (snd p))) es) = of_int (isum snd es)"
  "sxx (map (\<lambda>p. (of_int (tx p), of_int (snd p))) es) = of_int (isum (\<lambda>p. tx p * tx p) es)"
  "sxy (map (\<lambda>p. (of_int (tx p), of_int (snd p))) es) = of_int (isum (\<lambda>p. tx p * snd p) es)"
  by (induction es) simp_all

lemma times_sum: "2 * isum tx (enumerate 0 q) = - 5 * (int (length q) * (int (length q) - 1))"
  by (induction q rule: rev_induct) (simp_all add: enumerate_append_eq tx_def algebra_simps)

lemma times_squared_sum:
  "6 * isum (\<lambda>p. tx p * tx p) (enumerate 0 q) =
     25 * (int (length q) * (int (length q) - 1) * (2 * int (length q) - 1))"
  by (induction q rule: rev_induct) (simp_all add: enumerate_append_eq tx_def algebra_simps)

text \<open>The divisor is 0 only where there are fewer than two readings.\<close>

lemma divisor_pos:
  fixes q :: "int list"
  defines "n \<equiv> int (length q)"
  assumes "2 \<le> length q"
  shows "0 < n * isum (\<lambda>p. tx p * tx p) (enumerate 0 q) - isum tx (enumerate 0 q) * isum tx (enumerate 0 q)"
proof -
  let ?s = "isum tx (enumerate 0 q)" and ?ss = "isum (\<lambda>p. tx p * tx p) (enumerate 0 q)"
  have "12 * (n * ?ss - ?s * ?s) = 2 * n * (6 * ?ss) - 3 * ((2 * ?s) * (2 * ?s))" by (simp add: algebra_simps)
  also have "\<dots> = 25 * (n * n * ((n - 1) * (n + 1)))"
    unfolding times_sum times_squared_sum n_def [symmetric] by (simp add: algebra_simps)
  also have "\<dots> > 0" using assms(2) unfolding n_def by (intro mult_pos_pos) auto
  finally show ?thesis by simp
qed

lemma rate_bounds:
  assumes "rate_in_range n T" and "0 \<le> T" and "0 < n"
  defines "N \<equiv> int n"
  shows "5 * N * N \<le> INT_MAX" "T * N \<le> INT_MAX" "25 * (N * N) * N \<le> INT_MAX" "5 * N * T * N \<le> INT_MAX"
    and "25 * (N * N) * N * N \<le> INT_MAX" "10 * (N * N * T * N) \<le> INT_MAX"
proof -
  have N: "1 \<le> N" using assms(3) by (simp add: N_def)
  show q: "25 * (N * N) * N * N \<le> INT_MAX" and c: "10 * (N * N * T * N) \<le> INT_MAX"
    using assms(1) by (simp_all add: rate_in_range_def N_def power4_eq_xxxx power3_eq_cube ac_simps)
  have up: "x \<le> x * N" if "0 \<le> x" for x using mult_left_mono [OF N that] by simp
  have "25 * (N * N) * N \<le> 25 * (N * N) * N * N" using N by (intro up) simp
  with q show *: "25 * (N * N) * N \<le> INT_MAX" by linarith
  have "25 * (N * N) \<le> 25 * (N * N) * N" using N by (intro up) simp
  with * show "5 * N * N \<le> INT_MAX" using N zero_le_square [of N] by (simp only: mult.assoc)
  have n3: "N * T \<le> N * T * N" "N * T * N \<le> N * T * N * N" using N assms(2) by (intro up; simp)+
  have "0 \<le> N * T * N * N" using N assms(2) by simp
  with n3 c show "T * N \<le> INT_MAX" "5 * N * T * N \<le> INT_MAX" by (simp_all add: ac_simps)
qed

lemma pass_ok_enumerate:
  assumes "p \<in> set (enumerate 0 q)" and "\<And>y. y \<in> set q \<Longrightarrow> \<bar>y\<bar> \<le> T" and "0 \<le> T"
  defines "N \<equiv> int (length q)"
  shows "pass_ok (5 * N) T (25 * (N * N)) (5 * N * T) p"
proof -
  obtain i y where p: "p = (i, y)" by (cases p)
  with assms(1) have i: "int i \<le> N" and y: "y \<in> set q"
    by (auto simp: N_def in_set_enumerate_eq)
  from assms(2) [OF y] have yT: "\<bar>y\<bar> \<le> T" .
  have t: "\<bar>tx p\<bar> \<le> 5 * N" using i by (simp add: tx_def p)
  have "\<bar>tx p * tx p\<bar> \<le> 5 * N * (5 * N)" unfolding abs_mult using t by (intro mult_mono) auto
  moreover have "\<bar>tx p * y\<bar> \<le> 5 * N * T" unfolding abs_mult using t yT by (intro mult_mono) auto
  ultimately show ?thesis using t yT by (simp add: pass_ok_def p)
qed

text \<open>The sums, with their bounds, for a queue in range.\<close>

lemma rate_sums_in_range:
  assumes r: "rate_in_range (length q) T" and T: "\<And>y. y \<in> set q \<Longrightarrow> \<bar>y\<bar> \<le> T" and "0 \<le> T" and q: "q \<noteq> []"
  defines "N \<equiv> int (length q)" and "es \<equiv> enumerate 0 q"
  shows "foldr_result rate_step es (0, 0, 0, 0) =
      Inr (isum tx es, isum snd es, isum (\<lambda>p. tx p * tx p) es, isum (\<lambda>p. tx p * snd p) es)"
    and "int32_range (N * isum (\<lambda>p. tx p * tx p) es)" and "int32_range (isum tx es * isum tx es)"
    and "int32_range (N * isum (\<lambda>p. tx p * tx p) es - isum tx es * isum tx es)"
    and "int32_range (N * isum (\<lambda>p. tx p * snd p) es)" and "int32_range (isum tx es * isum snd es)"
    and "int32_range (N * isum (\<lambda>p. tx p * snd p) es - isum tx es * isum snd es)"
proof -
  have n: "0 < length q" using q by simp
  note b = rate_bounds [OF r \<open>0 \<le> T\<close> n, folded N_def]
  have len: "int (length es) = N" by (simp add: es_def N_def)
  have pass: "pass_ok (5 * N) T (25 * (N * N)) (5 * N * T) p" if "p \<in> set es" for p
    unfolding N_def by (rule pass_ok_enumerate) (use that T \<open>0 \<le> T\<close> in \<open>auto simp: es_def\<close>)
  have N: "0 \<le> N" by (simp add: N_def)
  show "foldr_result rate_step es (0, 0, 0, 0) =
      Inr (isum tx es, isum snd es, isum (\<lambda>p. tx p * tx p) es, isum (\<lambda>p. tx p * snd p) es)"
    using rate_loop [of es "5 * N" T "25 * (N * N)" "5 * N * T" 0 0 0 0] pass b N \<open>0 \<le> T\<close>
    by (simp add: len)
  have sums: "\<bar>isum tx es\<bar> \<le> 5 * N * N" "\<bar>isum snd es\<bar> \<le> T * N"
      "\<bar>isum (\<lambda>p. tx p * tx p) es\<bar> \<le> 25 * (N * N) * N" "\<bar>isum (\<lambda>p. tx p * snd p) es\<bar> \<le> 5 * N * T * N"
    unfolding len [symmetric] using pass [unfolded len [symmetric]] by (intro isum_bound; simp add: pass_ok_def)+
  let ?a = "N * isum (\<lambda>p. tx p * tx p) es" and ?b = "isum tx es * isum tx es"
    and ?c = "N * isum (\<lambda>p. tx p * snd p) es" and ?d = "isum tx es * isum snd es"
  have "0 \<le> isum (\<lambda>p. tx p * tx p) es" by (induction es) simp_all
  then have a0: "0 \<le> ?a" using N by simp
  have a: "\<bar>?a\<bar> \<le> 25 * (N * N) * N * N"
    using mult_left_mono [OF sums(3) N] N by (simp add: abs_mult ac_simps)
  have "\<bar>?b\<bar> \<le> 5 * N * N * (5 * N * N)" unfolding abs_mult using sums(1) by (intro mult_mono) auto
  then have b': "\<bar>?b\<bar> \<le> 25 * (N * N) * N * N" by (simp add: ac_simps)
  have c: "\<bar>?c\<bar> \<le> 5 * (N * N * T * N)"
    using mult_left_mono [OF sums(4) N] N by (simp add: abs_mult ac_simps)
  have "\<bar>?d\<bar> \<le> 5 * N * N * (T * N)" unfolding abs_mult using sums(1,2) N \<open>0 \<le> T\<close> by (intro mult_mono) auto
  then have d: "\<bar>?d\<bar> \<le> 5 * (N * N * T * N)" by (simp add: ac_simps)
  show "int32_range ?a" "int32_range ?b" using a b' b(5) by (intro in_range; linarith)+
  have "0 \<le> ?b" by (rule zero_le_square)
  then show "int32_range (?a - ?b)" using a b' b(5) a0 by (intro in_range) linarith
  show "int32_range ?c" "int32_range ?d" "int32_range (?c - ?d)" using c d b(6) by (intro in_range; linarith)+
qed

text \<open>The slope the code computes.\<close>

definition rise_slope :: "int list \<Rightarrow> rat" where
  "rise_slope q =
     (let p = time_points q; n = of_nat (length q)
      in (n * sxy p - sx p * sy p) / (n * sxx p - sx p * sx p))"

lemma GetThermalRiseRate_eq:
  assumes "rate_in_range (length q) T" and "\<And>y. y \<in> set q \<Longrightarrow> \<bar>y\<bar> \<le> T" and "0 \<le> T"
    and "unat hc \<le> length q" and "2 \<le> length q"
  shows "GetThermalRiseRate rd hc q = Inr (rd (rd (rise_slope q) * SEC_MIN_NUM))"
proof -
  have q: "q \<noteq> []" using assms(5) by auto
  note s = rate_sums_in_range [OF assms(1-3) q]
  note pos = divisor_pos [OF assms(5)]
  have slope: "rise_slope q =
      of_int (int (length q) * isum (\<lambda>p. tx p * snd p) (enumerate 0 q) - isum tx (enumerate 0 q) * isum snd (enumerate 0 q)) /
      of_int (int (length q) * isum (\<lambda>p. tx p * tx p) (enumerate 0 q) - isum tx (enumerate 0 q) * isum tx (enumerate 0 q))"
    by (simp add: rise_slope_def time_points_def sums_of_passes Let_def)
  show ?thesis
    using assms(4) s pos by (simp add: GetThermalRiseRate_def Let_def slope)
qed

lemma rise_slope_best:
  assumes "2 \<le> length q"
  shows "\<exists>b. best_line (time_points q) (rise_slope q) b"
proof -
  let ?p = "time_points q" and ?n = "of_nat (length q) :: rat"
  let ?D = "?n * sxx ?p - sx ?p * sx ?p" and ?a = "rise_slope q"
  let ?b = "(sy ?p - ?a * sx ?p) / ?n"
  have len: "length ?p = length q" by (simp add: time_points_def)
  have "?D = of_int (int (length q) * isum (\<lambda>p. tx p * tx p) (enumerate 0 q) - isum tx (enumerate 0 q) * isum tx (enumerate 0 q))"
    by (simp add: time_points_def sums_of_passes)
  with divisor_pos [OF assms] have D: "0 < ?D" by (simp only: of_int_0_less_iff)
  have n: "?n \<noteq> 0" using assms by auto
  have a: "?a * ?D = ?n * sxy ?p - sx ?p * sy ?p" using D by (simp add: rise_slope_def Let_def)
  have e2: "?a * sx ?p + ?n * ?b = sy ?p" using n by simp
  have "?n * (?a * sxx ?p + ?b * sx ?p) = ?a * ?D + sx ?p * (?a * sx ?p + ?n * ?b)" by (simp add: algebra_simps)
  also have "\<dots> = ?n * sxy ?p" unfolding e2 a by simp
  finally have e1: "?a * sxx ?p + ?b * sx ?p = sxy ?p" using n by simp
  show ?thesis
    using best_line_normal_equations [of ?p ?a ?b] D e1 e2 by (auto simp: len)
qed

section \<open>The histories\<close>

text \<open>A queue that takes a reading at its front, and a list that takes a rate at its end.\<close>

definition push_front :: "nat \<Rightarrow> int \<Rightarrow> int list option \<Rightarrow> int list" where
  "push_front n t q = take n (t # (case q of None \<Rightarrow> [] | Some q \<Rightarrow> q))"

definition push_end :: "nat \<Rightarrow> rat \<Rightarrow> rat list option \<Rightarrow> rat list" where
  "push_end n x r = (let r = (case r of None \<Rightarrow> [] | Some r \<Rightarrow> r) @ [x] in drop (length r - n) r)"

text \<open>The rate of a history that may still be short.\<close>

definition rate_of :: "(rat \<Rightarrow> rat) \<Rightarrow> nat \<Rightarrow> int list \<Rightarrow> rat" where
  "rate_of rd n q = (if length q < n then 0 else rd (rd (rise_slope q) * SEC_MIN_NUM))"

definition histories_ok :: "nat \<Rightarrow> int \<Rightarrow> (string, int list) smap \<Rightarrow> bool" where
  "histories_ok n T h \<longleftrightarrow> sm_ok h \<and> (\<forall>(type, q) \<in> set h. q \<noteq> [] \<and> length q \<le> n \<and> (\<forall>y \<in> set q. \<bar>y\<bar> \<le> T))"

definition rates_ok :: "nat \<Rightarrow> (string, rat list) smap \<Rightarrow> bool" where
  "rates_ok n m \<longleftrightarrow> sm_ok m \<and> (\<forall>(type, r) \<in> set m. r \<noteq> [] \<and> length r \<le> n)"

definition subscriber_ok :: "int \<Rightarrow> Subscriber \<Rightarrow> bool" where
  "subscriber_ok T s \<longleftrightarrow> 0 < unat (sub_rateCount s) \<and>
     histories_ok (unat (sub_historyCount s)) T (typeHistoryMap s) \<and>
     rates_ok (unat (sub_rateCount s)) (sub_sensorsRateMap s)"

definition readings_ok :: "int \<Rightarrow> TypeTempMap \<Rightarrow> bool" where
  "readings_ok T m \<longleftrightarrow> sm_ok m \<and> (\<forall>(type, t) \<in> set m. \<bar>t\<bar> \<le> T)"

lemma histories_ok_find: "histories_ok n T h \<Longrightarrow> sm_find h k = Some q \<Longrightarrow> q \<noteq> [] \<and> length q \<le> n \<and> (\<forall>y \<in> set q. \<bar>y\<bar> \<le> T)"
  by (auto simp: histories_ok_def dest!: map_of_SomeD)

lemma rates_ok_find: "rates_ok n m \<Longrightarrow> sm_find m k = Some r \<Longrightarrow> r \<noteq> [] \<and> length r \<le> n"
  by (auto simp: rates_ok_def dest!: map_of_SomeD)

lemma histories_okI:
  assumes "sm_ok h" and "\<And>k q. sm_find h k = Some q \<Longrightarrow> q \<noteq> [] \<and> length q \<le> n \<and> (\<forall>y \<in> set q. \<bar>y\<bar> \<le> T)"
  shows "histories_ok n T h"
proof -
  have "q \<noteq> [] \<and> length q \<le> n \<and> (\<forall>y \<in> set q. \<bar>y\<bar> \<le> T)" if "(k, q) \<in> set h" for k q
    using assms(2) map_of_is_SomeI [OF sm_ok_distinct [OF assms(1)] that] by blast
  with assms(1) show ?thesis unfolding histories_ok_def by blast
qed

lemma rates_okI:
  assumes "sm_ok m" and "\<And>k r. sm_find m k = Some r \<Longrightarrow> r \<noteq> [] \<and> length r \<le> n"
  shows "rates_ok n m"
proof -
  have "r \<noteq> [] \<and> length r \<le> n" if "(k, r) \<in> set m" for k r
    using assms(2) map_of_is_SomeI [OF sm_ok_distinct [OF assms(1)] that] by blast
  with assms(1) show ?thesis unfolding rates_ok_def by blast
qed

lemma push_history_eq:
  assumes "histories_ok (unat hc) T h" and "1 < unat hc"
  shows "push_history hc (type, t) h = sm_update type (push_front (unat hc) t) h"
proof (cases "sm_find h type")
  case None
  with assms(2) show ?thesis by (simp add: push_history_def sm_update_def push_front_def sm_insert_new)
next
  case (Some q)
  with histories_ok_find [OF assms(1)] have q: "q \<noteq> []" "length q \<le> unat hc" by blast+
  obtain n where n: "unat hc = Suc n" using assms(2) by (cases "unat hc") auto
  have "t # butlast q = take (unat hc) (t # q)" if "unat hc \<le> length q"
    using that q n by (simp add: butlast_conv_take)
  with Some q show ?thesis by (simp add: push_history_def sm_update_def push_front_def)
qed

lemma push_history_ok:
  assumes "histories_ok n T h" and "0 < n" and "\<bar>t\<bar> \<le> T"
  shows "histories_ok n T (sm_update type (push_front n t) h)"
proof (rule histories_okI)
  show "sm_ok (sm_update type (push_front n t) h)" using assms(1) by (simp add: histories_ok_def)
next
  fix k q assume "sm_find (sm_update type (push_front n t) h) k = Some q"
  then have "sm_find h k = Some q \<or> q = push_front n t (sm_find h type)"
    using assms(1) by (simp add: histories_ok_def split: if_splits)
  moreover have "\<forall>y \<in> set (push_front n t (sm_find h type)). \<bar>y\<bar> \<le> T"
    using assms(3) histories_ok_find [OF assms(1), of type]
    by (cases "sm_find h type") (auto simp: push_front_def dest!: in_set_takeD)
  ultimately show "q \<noteq> [] \<and> length q \<le> n \<and> (\<forall>y \<in> set q. \<bar>y\<bar> \<le> T)"
    using histories_ok_find [OF assms(1), of k] assms(2) by (auto simp: push_front_def)
qed

lemma fold_push_history:
  assumes "histories_ok (unat hc) T h" and "1 < unat hc" and "\<forall>(type, t) \<in> set m. \<bar>t\<bar> \<le> T"
  shows "fold (push_history hc) m h = fold (\<lambda>(type, t). sm_update type (push_front (unat hc) t)) m h"
    and "histories_ok (unat hc) T (fold (push_history hc) m h)"
  using assms
proof (induction m arbitrary: h)
  case (Cons p m)
  obtain type t where p: "p = (type, t)" by (cases p)
  { case 1
    then show ?case
      using Cons.IH(1) [of "sm_update type (push_front (unat hc) t) h"] push_history_eq [of hc T h type t]
        push_history_ok [of "unat hc" T h t type] by (simp add: p) }
  { case 2
    then show ?case
      using Cons.IH(2) [of "sm_update type (push_front (unat hc) t) h"] push_history_eq [of hc T h type t]
        push_history_ok [of "unat hc" T h t type] by (simp add: p) }
qed simp_all

section \<open>The rates\<close>

lemma GetThermalRiseRate_total:
  assumes "rate_in_range (unat hc) T" and "0 \<le> T" and "1 < unat hc"
    and "length q \<le> unat hc" and "\<forall>y \<in> set q. \<bar>y\<bar> \<le> T"
  shows "GetThermalRiseRate rd hc q = Inr (rate_of rd (unat hc) q)"
proof (cases "length q < unat hc")
  case True
  then show ?thesis by (simp add: GetThermalRiseRate_def rate_of_def)
next
  case False
  with assms have "length q = unat hc" by simp
  with assms have "GetThermalRiseRate rd hc q = Inr (rd (rd (rise_slope q) * SEC_MIN_NUM))"
    by (intro GetThermalRiseRate_eq [where T = T]) auto
  with False show ?thesis by (simp add: rate_of_def)
qed

lemma push_end_ok: "0 < n \<Longrightarrow> push_end n x r \<noteq> [] \<and> length (push_end n x r) \<le> n"
  by (auto simp: push_end_def Let_def)

lemma push_rate_eq:
  assumes "GetThermalRiseRate rd hc q = Inr x" and "rates_ok (unat rc) m" and "0 < unat rc"
  shows "push_rate rd hc rc (type, q) m = Inr (sm_update type (push_end (unat rc) x) m)"
proof (cases "sm_find m type")
  case None
  with assms show ?thesis
    by (simp add: push_rate_def sm_update_def push_end_def sm_insert_new Suc_leI)
next
  case (Some r)
  with rates_ok_find [OF assms(2)] have r: "r \<noteq> []" "length r \<le> unat rc" by blast+
  have "tl r @ [x] = drop (Suc (length r) - unat rc) (r @ [x])" if "unat rc \<le> length r"
    using that r by (cases r) simp_all
  with Some r assms(1) show ?thesis by (simp add: push_rate_def sm_update_def push_end_def Let_def)
qed

lemma push_rate_ok:
  assumes "rates_ok n m" and "0 < n"
  shows "rates_ok n (sm_update type (push_end n x) m)"
proof (rule rates_okI)
  show "sm_ok (sm_update type (push_end n x) m)" using assms(1) by (simp add: rates_ok_def)
next
  fix k r assume "sm_find (sm_update type (push_end n x) m) k = Some r"
  then have "sm_find m k = Some r \<or> r = push_end n x (sm_find m type)"
    using assms(1) by (simp add: rates_ok_def split: if_splits)
  then show "r \<noteq> [] \<and> length r \<le> n"
    using rates_ok_find [OF assms(1), of k r] push_end_ok [OF assms(2), of x "sm_find m type"] by metis
qed

lemma fold_push_rate:
  assumes "\<forall>(type, q) \<in> set h. GetThermalRiseRate rd hc q = Inr (g q)"
    and "rates_ok (unat rc) m" and "0 < unat rc"
  shows "foldr_result (push_rate rd hc rc) h m =
      Inr (fold (\<lambda>(type, q). sm_update type (push_end (unat rc) (g q))) h m) \<and>
    rates_ok (unat rc) (fold (\<lambda>(type, q). sm_update type (push_end (unat rc) (g q))) h m)"
  using assms
proof (induction h arbitrary: m)
  case (Cons p h)
  obtain type q where p: "p = (type, q)" by (cases p)
  let ?m = "sm_update type (push_end (unat rc) (g q)) m"
  have g: "GetThermalRiseRate rd hc q = Inr (g q)" "\<forall>(type, q) \<in> set h. GetThermalRiseRate rd hc q = Inr (g q)"
    using Cons.prems(1) by (simp_all add: p)
  note m = push_rate_ok [OF Cons.prems(2,3), of type "g q"]
  show ?case
    using Cons.IH [OF g(2) m Cons.prems(3)] push_rate_eq [OF g(1) Cons.prems(2,3)] by (simp add: p)
qed simp

text \<open>One report, as a whole.\<close>

definition reported :: "(rat \<Rightarrow> rat) \<Rightarrow> TypeTempMap \<Rightarrow> Subscriber \<Rightarrow> Subscriber" where
  "reported rd m s =
     (let n = unat (sub_historyCount s);
          h = fold (\<lambda>(type, t). sm_update type (push_front n t)) m (typeHistoryMap s)
      in s\<lparr>typeHistoryMap := h,
           sub_sensorsRateMap := fold (\<lambda>(type, q). sm_update type (push_end (unat (sub_rateCount s)) (rate_of rd n q))) h
             (sub_sensorsRateMap s)\<rparr>)"

lemma SetHistoryTypeTempMap_eq:
  assumes ok: "subscriber_ok T s" and r: "rate_in_range (unat (sub_historyCount s)) T" and "0 \<le> T"
    and h: "1 < unat (sub_historyCount s)" and m: "\<forall>(type, t) \<in> set m. \<bar>t\<bar> \<le> T"
  shows "ThermalServiceSubscriber_SetHistoryTypeTempMap rd m s = Inr (reported rd m s)"
    and "subscriber_ok T (reported rd m s)"
proof -
  let ?hc = "sub_historyCount s" and ?rc = "sub_rateCount s"
  let ?h = "fold (push_history ?hc) m (typeHistoryMap s)"
  have hok: "histories_ok (unat ?hc) T (typeHistoryMap s)" and rok: "rates_ok (unat ?rc) (sub_sensorsRateMap s)"
    and rc: "0 < unat ?rc" using ok by (simp_all add: subscriber_ok_def)
  note h' = fold_push_history [OF hok h m]
  have g: "\<forall>(type, q) \<in> set ?h. GetThermalRiseRate rd ?hc q = Inr (rate_of rd (unat ?hc) q)"
    using h'(2) by (auto simp: histories_ok_def intro!: GetThermalRiseRate_total [OF r \<open>0 \<le> T\<close> h])
  note f = fold_push_rate [of ?h rd ?hc "rate_of rd (unat ?hc)" ?rc, OF g rok rc, THEN conjunct1]
    fold_push_rate [of ?h rd ?hc "rate_of rd (unat ?hc)" ?rc, OF g rok rc, THEN conjunct2]
  have "\<not> ?hc \<le> 1" using h by (simp add: word_le_nat_alt)
  then show "ThermalServiceSubscriber_SetHistoryTypeTempMap rd m s = Inr (reported rd m s)"
    using f(1) by (simp add: ThermalServiceSubscriber_SetHistoryTypeTempMap_def reported_def Let_def h'(1) [symmetric])
  show "subscriber_ok T (reported rd m s)"
    using h'(2) f(2) rc by (simp add: subscriber_ok_def reported_def Let_def h'(1) [symmetric])
qed

section \<open>Sequences of reports\<close>

definition run_reports :: "(rat \<Rightarrow> rat) \<Rightarrow> TypeTempMap list \<Rightarrow> Subscriber \<Rightarrow> Subscriber result" where
  "run_reports rd = foldr_result (ThermalServiceSubscriber_SetHistoryTypeTempMap rd)"

lemma reported_counts [simp]:
  "sub_historyCount (reported rd m s) = sub_historyCount s" "sub_rateCount (reported rd m s) = sub_rateCount s"
  by (simp_all add: reported_def Let_def)

lemma fold_reported_counts [simp]:
  "sub_historyCount (fold (reported rd) ms s) = sub_historyCount s"
  "sub_rateCount (fold (reported rd) ms s) = sub_rateCount s"
  by (induction ms arbitrary: s) simp_all

lemma run_reports_eq:
  assumes "subscriber_ok T s" and "rate_in_range (unat (sub_historyCount s)) T" and "0 \<le> T"
    and "1 < unat (sub_historyCount s)" and "\<forall>m \<in> set ms. \<forall>(type, t) \<in> set m. \<bar>t\<bar> \<le> T"
  shows "run_reports rd ms s = Inr (fold (reported rd) ms s) \<and> subscriber_ok T (fold (reported rd) ms s)"
  using assms
proof (induction ms arbitrary: s)
  case Nil
  then show ?case by (simp add: run_reports_def)
next
  case (Cons m ms)
  have m: "\<forall>(type, t) \<in> set m. \<bar>t\<bar> \<le> T" using Cons.prems(5) by simp
  note step = SetHistoryTypeTempMap_eq [OF Cons.prems(1-4) m]
  with Cons.IH [of "reported rd m s"] Cons.prems(2-5) show ?case by (simp add: run_reports_def)
qed

definition last_n :: "nat \<Rightarrow> 'a list \<Rightarrow> 'a list" where
  "last_n n xs = drop (length xs - n) xs"

lemma push_front_take: "push_front n t (if q = [] then None else Some (take n q)) = take n (t # q)"
  by (cases n) (auto simp: push_front_def min_def)

lemma push_end_last_n:
  "0 < n \<Longrightarrow> push_end n x (if xs = [] then None else Some (last_n n xs)) = last_n n (xs @ [x])"
  by (cases "length xs \<le> n") (auto simp: push_end_def last_n_def Let_def Suc_diff_le)

lemma reported_find:
  assumes "sm_ok m" and "sm_find m name = Some t" and "sm_ok (typeHistoryMap s)" and "sm_ok (sub_sensorsRateMap s)"
  defines "n \<equiv> unat (sub_historyCount s)" and "r \<equiv> unat (sub_rateCount s)"
  defines "q \<equiv> push_front n t (sm_find (typeHistoryMap s) name)"
  shows "sm_find (typeHistoryMap (reported rd m s)) name = Some q"
    and "sm_find (sub_sensorsRateMap (reported rd m s)) name =
      Some (push_end r (rate_of rd n q) (sm_find (sub_sensorsRateMap s) name))"
proof -
  let ?h = "fold (\<lambda>(type, t). sm_update type (push_front n t)) m (typeHistoryMap s)"
  note h = sm_fold_update [OF assms(3) sm_ok_distinct [OF assms(1)], of "\<lambda>_. push_front n"]
  have find: "sm_find ?h name = Some q" using h(2) [of name] assms(2) by (simp add: q_def)
  then show "sm_find (typeHistoryMap (reported rd m s)) name = Some q"
    by (simp add: reported_def n_def Let_def)
  show "sm_find (sub_sensorsRateMap (reported rd m s)) name =
      Some (push_end r (rate_of rd n q) (sm_find (sub_sensorsRateMap s) name))"
    using sm_fold_update(2) [OF assms(4) sm_ok_distinct [OF h(1)], of "\<lambda>_ q. push_end r (rate_of rd n q)" name] find
    by (simp add: reported_def n_def r_def Let_def)
qed

text \<open>The rate after the first \<open>j\<close> of a list of readings.\<close>

definition rate_after :: "(rat \<Rightarrow> rat) \<Rightarrow> nat \<Rightarrow> int list \<Rightarrow> nat \<Rightarrow> rat" where
  "rate_after rd n ts j = rate_of rd n (take n (rev (take j ts)))"

lemma fold_reported_find:
  assumes "subscriber_ok T s" and "rate_in_range (unat (sub_historyCount s)) T" and "0 \<le> T"
    and "1 < unat (sub_historyCount s)" and "\<forall>m \<in> set ms. readings_ok T m \<and> sm_find m name \<noteq> None"
    and "typeHistoryMap s = []" and "sub_sensorsRateMap s = []"
  defines "n \<equiv> unat (sub_historyCount s)" and "ts \<equiv> \<lambda>ms. map (\<lambda>m. the (sm_find m name)) ms"
  shows "sm_find (typeHistoryMap (fold (reported rd) ms s)) name =
      (if ms = [] then None else Some (take n (rev (ts ms)))) \<and>
    sm_find (sub_sensorsRateMap (fold (reported rd) ms s)) name =
      (if ms = [] then None
       else Some (last_n (unat (sub_rateCount s)) (map (rate_after rd n (ts ms)) [1 ..< Suc (length ms)])))"
  using assms(5)
proof (induction ms rule: rev_induct)
  case Nil
  then show ?case using assms(6,7) by simp
next
  case (snoc m ms)
  let ?s = "fold (reported rd) ms s" and ?r = "unat (sub_rateCount s)"
  from snoc.prems obtain t where t: "sm_find m name = Some t" and ok: "sm_ok m" by (auto simp: readings_ok_def)
  have "\<forall>m \<in> set ms. \<forall>(type, t) \<in> set m. \<bar>t\<bar> \<le> T" using snoc.prems by (simp add: readings_ok_def)
  with run_reports_eq [OF assms(1-4)] have s: "subscriber_ok T ?s" by blast
  then have maps: "sm_ok (typeHistoryMap ?s)" "sm_ok (sub_sensorsRateMap ?s)" and r: "0 < ?r"
    by (simp_all add: subscriber_ok_def histories_ok_def rates_ok_def)
  have IH: "sm_find (typeHistoryMap ?s) name = (if rev (ts ms) = [] then None else Some (take n (rev (ts ms))))"
      "sm_find (sub_sensorsRateMap ?s) name =
        (if map (rate_after rd n (ts ms)) [1 ..< Suc (length ms)] = [] then None
         else Some (last_n ?r (map (rate_after rd n (ts ms)) [1 ..< Suc (length ms)])))"
    using snoc by (auto simp: ts_def Suc_le_eq)
  have len: "length (ts ms) = length ms" by (simp add: ts_def)
  have ts: "ts (ms @ [m]) = ts ms @ [t]" by (simp add: ts_def t)
  have same: "map (rate_after rd n (ts (ms @ [m]))) [1 ..< Suc (length ms)] =
      map (rate_after rd n (ts ms)) [1 ..< Suc (length ms)]"
    by (rule map_cong) (auto simp: rate_after_def ts len)
  have q: "push_front n t (sm_find (typeHistoryMap ?s) name) = take n (rev (ts (ms @ [m])))"
    unfolding IH(1) push_front_take ts by simp
  have last: "rate_of rd n (take n (rev (ts (ms @ [m])))) = rate_after rd n (ts (ms @ [m])) (Suc (length ms))"
    by (simp add: rate_after_def ts len)
  note f = reported_find [OF ok t maps, of rd, simplified, folded n_def]
  show ?case
    unfolding fold_append comp_def fold_simps id_def using f
    unfolding q last IH(2) push_end_last_n [OF r] same [symmetric]
    by (simp add: upt_Suc_append)
qed

section \<open>Properties\<close>

text \<open>
  C23: for a full history whose sums fit 32 bits the code returns the rate of rise per minute:
  60 times the slope of the one line whose squared error at the readings is least, up to the
  two roundings of \<open>double\<close>.
\<close>

theorem rise_rate_least_squares:
  assumes "rate_in_range (length q) T" and "\<forall>y \<in> set q. \<bar>y\<bar> \<le> T"
    and "unat hc \<le> length q" and "2 \<le> length q"
  shows "\<exists>a b. GetThermalRiseRate rd hc q = Inr (rd (rd a * 60)) \<and> best_line (time_points q) a b"
proof -
  from assms(4) obtain y where "y \<in> set q" by (cases q) auto
  with assms(2) have "0 \<le> T" by (metis abs_ge_zero order_trans)
  with assms have "GetThermalRiseRate rd hc q = Inr (rd (rd (rise_slope q) * 60))"
    by (intro GetThermalRiseRate_eq) auto
  with rise_slope_best [OF assms(4)] show ?thesis by blast
qed

theorem rise_rate_least_squares_witness:
  "\<exists>a b. GetThermalRiseRate id 3 [40000, 39000, 38500] = Inr (a * 60) \<and>
     best_line (time_points [40000, 39000, 38500]) a b"
  using rise_rate_least_squares [of "[40000, 39000, 38500]" 50000 3 id] by (simp add: rate_in_range_def)

text \<open>A configured history can be too long for the sums: thirty readings of 60 degrees.\<close>

theorem rise_rate_overflows:
  "GetThermalRiseRate rd 30 (replicate 30 60000) = Inl SignedOverflow"
proof -
  have "enumerate 0 (replicate 30 (60000 :: int)) = map (\<lambda>i. (i, 60000)) [0 ..< 30]"
    by (simp add: enumerate_eq_zip zip_replicate2)
  then show ?thesis
    by (simp add: GetThermalRiseRate_def rate_step_def upt_conv_Cons check32_def int32_range_def)
qed

text \<open>
  Whatever sequence of reports arrives, as long as the readings and the configured length of
  the history keep the sums within 32 bits, every report is taken in: no operation fails, no
  history is longer than the configured length, no list of rates longer than the configured
  count, and none is empty.
\<close>

theorem subscriber_keeps_up:
  assumes "subscriber_ok T s" and "rate_in_range (unat (sub_historyCount s)) T" and "0 \<le> T"
    and "1 < unat (sub_historyCount s)" and "\<forall>m \<in> set ms. \<forall>(type, t) \<in> set m. \<bar>t\<bar> \<le> T"
  shows "\<exists>s'. run_reports rd ms s = Inr s' \<and> subscriber_ok T s'"
  using run_reports_eq [OF assms] by blast

definition sample_subscriber :: Subscriber where
  "sample_subscriber = Subscriber_new\<lparr>sub_historyCount := 3, sub_rateCount := 2\<rparr>"

lemma sample_subscriber_ok: "subscriber_ok 50000 sample_subscriber" "rate_in_range 3 50000"
  by (simp_all add: subscriber_ok_def sample_subscriber_def Subscriber_new_def histories_ok_def rates_ok_def
      rate_in_range_def)

theorem subscriber_keeps_up_witness:
  "\<exists>s'. run_reports id [[(''soc'', 40000)], [(''pa'', 30000), (''soc'', 41000)]] sample_subscriber = Inr s' \<and>
     subscriber_ok 50000 s'"
  by (rule subscriber_keeps_up [OF sample_subscriber_ok(1)])
     (use sample_subscriber_ok(2) in \<open>simp_all add: sample_subscriber_def\<close>)

text \<open>
  C24: for a sensor that every report contains, a subscriber that started empty holds the
  latest readings, newest first, as many as configured, and the rates computed after the latest
  reports, oldest first, as many as configured; the rate is 0 until the history is full.
\<close>

theorem history_and_rates_recent:
  assumes "subscriber_ok T s" and "rate_in_range (unat (sub_historyCount s)) T" and "0 \<le> T"
    and "1 < unat (sub_historyCount s)" and "typeHistoryMap s = []" and "sub_sensorsRateMap s = []"
    and "\<forall>m \<in> set ms. readings_ok T m \<and> sm_find m name \<noteq> None" and "ms \<noteq> []"
  defines "n \<equiv> unat (sub_historyCount s)" and "ts \<equiv> map (\<lambda>m. the (sm_find m name)) ms"
  shows "\<exists>s'. run_reports rd ms s = Inr s' \<and>
    sm_find (typeHistoryMap s') name = Some (take n (rev ts)) \<and>
    sm_find (sub_sensorsRateMap s') name =
      Some (last_n (unat (sub_rateCount s)) (map (rate_after rd n ts) [1 ..< Suc (length ms)]))"
proof -
  have "\<forall>m \<in> set ms. \<forall>(type, t) \<in> set m. \<bar>t\<bar> \<le> T" using assms(7) by (simp add: readings_ok_def)
  with run_reports_eq [OF assms(1-4)] have "run_reports rd ms s = Inr (fold (reported rd) ms s)" by blast
  then show ?thesis
    using fold_reported_find [OF assms(1-4,7,5,6), of rd] assms(8) by (auto simp: n_def ts_def)
qed

theorem history_and_rates_recent_witness:
  "\<exists>s'. run_reports id [[(''soc'', 40000)], [(''pa'', 30000), (''soc'', 41000)]] sample_subscriber = Inr s' \<and>
     sm_find (typeHistoryMap s') ''soc'' = Some [41000, 40000] \<and>
     sm_find (sub_sensorsRateMap s') ''soc'' = Some [0, 0]"
  using history_and_rates_recent [OF sample_subscriber_ok(1), of "[[(''soc'', 40000)], [(''pa'', 30000), (''soc'', 41000)]]"
      "''soc''" id] sample_subscriber_ok(2)
  by (simp add: sample_subscriber_def Subscriber_new_def readings_ok_def sm_ok_def last_n_def rate_after_def rate_of_def)

end
