(* ===== verification/Report_Liveness.thy ===== *)
theory Report_Liveness
  imports Service_Properties Subscriber_Proofs
begin

text \<open>
  Every report of the driver is served: nothing between the callback of the driver and the end of
  the history stops on the way. The levels and the history have their own lemmas; here are those
  of the decision, whose one way to fail is a condition or a delay with a space in it
  (\<open>SplitString\<close> does not return then), and the composition over sequences of reports between
  which the world may change.
\<close>

section \<open>A decision always returns\<close>

lemma answers_bindr: "answers r \<Longrightarrow> (\<And>x. r = Inr x \<Longrightarrow> answers (f x)) \<Longrightarrow> answers (bindr r f)"
  by (cases r) simp_all

lemma answers_fold: "(\<And>x s. x \<in> set xs \<Longrightarrow> answers (f x s)) \<Longrightarrow> answers (foldr_result f xs s)"
  by (induction xs arbitrary: s) (simp_all add: answers_bindr)

definition props_spaceless :: "PolicyAction \<Rightarrow> bool" where
  "props_spaceless pa \<longleftrightarrow> list_all (\<lambda>(_, v). CHR '' '' \<notin> set v) (pa_actionPropMap pa)"

definition policies_spaceless :: "Policy \<Rightarrow> bool" where
  "policies_spaceless p \<longleftrightarrow> (\<forall>pa \<in> policy_actions p. props_spaceless pa)"

lemma answers_DecideState: "CHR '' '' \<notin> set value \<Longrightarrow> answers (IStateCollection_DecideState P w value coll)"
  by (cases coll) (simp_all add: ExtendStateCollection_DecideState_def SplitString_eq split_def Let_def)

lemma answers_StateMachineDecision:
  "list_all (\<lambda>(_, v). CHR '' '' \<notin> set v) props \<Longrightarrow> answers (ThermalPolicy_StateMachineDecision P props w)"
  by (induction props arbitrary: w)
    (auto intro!: answers_bindr answers_DecideState simp: Let_def split: option.split)

lemma answers_collect:
  "list_all props_spaceless pas \<Longrightarrow> answers (collect_actions P pas infos w)"
  by (induction pas arbitrary: infos w)
    (auto intro!: answers_bindr answers_StateMachineDecision simp: props_spaceless_def)

lemma collect_from:
  "collect_actions P pas infos w = Inr (infos', w') \<Longrightarrow> snd ` set infos' \<subseteq> snd ` set infos \<union> set pas"
proof (induction pas arbitrary: infos w)
  case (Cons pa pas)
  from Cons.prems obtain x where
    x: "(\<lambda>(ok, w). collect_actions P pas (if ok then sm_assign (pa_actionName pa) pa infos else infos) w) x = Inr (infos', w')"
    unfolding collect_actions.simps bindr_eq_Inr by blast
  obtain ok w1 where "x = (ok, w1)" by (cases x)
  with x have *: "collect_actions P pas (if ok then sm_assign (pa_actionName pa) pa infos else infos) w1 = Inr (infos', w')"
    by simp
  have "snd ` set (if ok then sm_assign (pa_actionName pa) pa infos else infos) \<subseteq> insert pa (snd ` set infos)"
    using set_sm_assign [of "pa_actionName pa" pa infos] by auto
  with Cons.IH [OF *] show ?case by auto
qed simp

lemma answers_add: "props_spaceless pa \<Longrightarrow> answers (add_policy_action strtof u (name, pa) acts)"
  by (auto simp: add_policy_action_def props_spaceless_def list_all_iff SplitString_eq Let_def
      split: option.split list.split dest!: map_of_SomeD)

lemma answers_ActionDecision:
  assumes "list_all props_spaceless pas"
  shows "answers (ThermalPolicy_ActionDecision strtof P u pas aw)"
proof -
  have "answers (foldr_result (add_policy_action strtof u) infos acts)"
    if "collect_actions P pas [] w = Inr (infos, w')" for w infos w' acts
    using collect_from [OF that] assms
    by (intro answers_fold) (force simp: list_all_iff intro: answers_add)
  then show ?thesis
    by (auto simp: ThermalPolicy_ActionDecision_def split_def intro!: answers_bindr answers_collect [OF assms])
qed

lemma answers_PolicyDecision:
  assumes "policies_spaceless p"
  shows "\<exists>mgr' w'. ThermalPolicy_PolicyDecision strtof P u (p, mgr, w) = Inr (p, mgr', w')"
proof -
  have "answers (decide_cluster strtof P u (clusterLevelMap p) x aw)" if "x \<in> set (clusterPolicyMap p)" for x aw
  proof -
    have "list_all props_spaceless (pc_policyActionList cfg)" if "policy_choice lev (snd x) = Some cfg" for lev cfg
      using policy_choice_mem [OF that] \<open>x \<in> set (clusterPolicyMap p)\<close> assms
      by (cases x) (force simp: policies_spaceless_def policy_actions_def list_all_iff)
    then show ?thesis
      by (cases x) (auto simp: decide_cluster_def answers_ActionDecision split: prod.split option.split)
  qed
  then have "answers (foldr_result (decide_cluster strtof P u (clusterLevelMap p)) (clusterPolicyMap p) (managedActions mgr, w))"
    by (rule answers_fold)
  then show ?thesis by (auto simp: answers_def ThermalPolicy_PolicyDecision_def Let_def split_def)
qed

section \<open>A report always returns\<close>

definition levels_recorded :: "Policy \<Rightarrow> bool" where
  "levels_recorded p \<longleftrightarrow> list_all (\<lambda>(name, c).
     sm_find (clusterLevelMap p) name = Some (latestLevel c) \<and> latestLevel c \<le> cluster_size c) (sensorClusterMap p)"

definition policy_serves :: "platform \<Rightarrow> Policy \<Rightarrow> bool" where
  "policy_serves P p \<longleftrightarrow> policy_ready P p \<and> policies_spaceless p \<and> sensorClusterMap p \<noteq> []"

lemma report_decided:
  assumes "policy_serves P p" and "temps_ok info"
  shows "\<exists>p' mgr' w'. ThermalPolicy_OnSensorInfoReported strtof P u rates info (p, mgr, w) = Inr (p', mgr', w') \<and>
    policy_serves P p' \<and> levels_recorded p' \<and> map fst (sensorClusterMap p') = map fst (sensorClusterMap p) \<and>
    clusterPolicyMap p' = clusterPolicyMap p"
proof -
  have "policy_ready P (p\<lparr>typeTempMap := info\<rparr>)" using assms(1) by (simp add: policy_serves_def policy_ready_def)
  from LevelDecision_ready [OF this, of rates w] assms(2) obtain p' w1 where
    p': "ThermalPolicy_LevelDecision P rates (p\<lparr>typeTempMap := info\<rparr>, w) = Inr (p', w1)" "policy_ready P p'"
      "map fst (sensorClusterMap p') = map fst (sensorClusterMap p)" "clusterPolicyMap p' = clusterPolicyMap p"
      "\<forall>name c. sm_find (sensorClusterMap p') name = Some c \<longrightarrow>
         sm_find (clusterLevelMap p') name = Some (latestLevel c) \<and> latestLevel c \<le> cluster_size c"
    by auto
  have ok: "sm_ok (sensorClusterMap p')" using p'(2) by (simp add: policy_ready_def)
  have rec: "levels_recorded p'"
    using p'(5) sm_ok_distinct [OF ok] by (auto simp: levels_recorded_def list_all_iff)
  have serves: "policy_serves P p'"
    using assms(1) p'(2-4) by (auto simp: policy_serves_def policies_spaceless_def policy_actions_def)
  have "clusterLevelMap p' \<noteq> []"
    using rec serves by (cases "sensorClusterMap p'") (auto simp: levels_recorded_def policy_serves_def)
  then obtain w2 where "ThermalPolicy_WriteLevel p' w1 = Inr w2"
    by (cases "isSimulation w1") (simp_all add: ThermalPolicy_WriteLevel_def)
  moreover obtain mgr' w' where "ThermalPolicy_PolicyDecision strtof P u (p', mgr, w2) = Inr (p', mgr', w')"
    using answers_PolicyDecision [of p' strtof P u mgr w2] serves by (auto simp: policy_serves_def)
  ultimately show ?thesis
    using p' rec serves by (intro exI [of _ p'] exI [of _ mgr'] exI [of _ w']) (simp add: ThermalPolicy_OnSensorInfoReported_def)
qed

definition subscriber_serves :: "int \<Rightarrow> Subscriber \<Rightarrow> bool" where
  "subscriber_serves T sub \<longleftrightarrow> 1 < unat (sub_historyCount sub) \<longrightarrow>
     subscriber_ok T sub \<and> rate_in_range (unat (sub_historyCount sub)) T"

lemma history_taken:
  assumes "subscriber_serves T sub" and "0 \<le> T" and "\<forall>(type, t) \<in> set m. \<bar>t\<bar> \<le> T"
  shows "\<exists>sub'. ThermalServiceSubscriber_SetHistoryTypeTempMap rd m (sub\<lparr>sub_typeTempMap := x\<rparr>) = Inr sub' \<and>
    subscriber_serves T sub'"
proof (cases "1 < unat (sub_historyCount sub)")
  case True
  let ?s = "sub\<lparr>sub_typeTempMap := x\<rparr>"
  have "subscriber_ok T ?s" "rate_in_range (unat (sub_historyCount ?s)) T"
    using True assms(1) by (simp_all add: subscriber_serves_def subscriber_ok_def)
  note step = SetHistoryTypeTempMap_eq [OF this assms(2) _ assms(3), of rd]
  with True assms(1) show ?thesis by (simp add: subscriber_serves_def)
next
  case False
  then have "sub_historyCount sub \<le> 1" by (simp add: word_le_nat_alt)
  then show ?thesis using False assms(1)
    by (simp add: ThermalServiceSubscriber_SetHistoryTypeTempMap_def subscriber_serves_def)
qed

definition serving :: "environment \<Rightarrow> int \<Rightarrow> thermal_service \<Rightarrow> bool" where
  "serving E T s \<longleftrightarrow> linked s \<and> sv_isTempReport s \<and>
     (\<exists>sub p. sv_subscriber s = Some sub \<and> subscriber_serves T sub \<and> sv_policy s = Some p \<and> policy_serves (platform_of E s) p)"

definition event_in_range :: "int \<Rightarrow> (string \<times> int) list \<Rightarrow> bool" where
  "event_in_range T event \<longleftrightarrow> list_all (\<lambda>(_, t). \<bar>t\<bar> \<le> T) event"

lemma event_map_subset: "set (event_map event) \<subseteq> set event"
proof -
  have "set (fold (\<lambda>(type, temp). sm_insert type temp) es m) \<subseteq> set es \<union> set m" for es and m :: TypeTempMap
  proof (induction es arbitrary: m)
    case (Cons e es)
    obtain k v where e: "e = (k, v)" by (cases e)
    show ?case using Cons [of "sm_insert k v m"] set_sm_insert [of k v m] by (auto simp: e)
  qed simp
  from this [of event "[]"] show ?thesis by (simp add: event_map_def)
qed

text \<open>What is known of a service that has taken in an event.\<close>

definition taken_in :: "(string \<times> int) list \<Rightarrow> thermal_service \<Rightarrow> bool" where
  "taken_in event s \<longleftrightarrow> event \<noteq> [] \<longrightarrow>
     sv_info s = Some (event_map event) \<and> (\<exists>p. sv_policy s = Some p \<and> levels_recorded p)"

lemma report_served:
  assumes "serving E T s" and "0 \<le> T" and "T \<le> 1073741823" and "event_in_range T event"
  shows "\<exists>s'. ThermalService_HandleThermalCallbackEvent E event s = Inr (ERR_OK, s') \<and> serving E T s' \<and> taken_in event s'"
proof (cases "event = []")
  case True
  then show ?thesis using assms(1)
    by (auto simp: ThermalService_HandleThermalCallbackEvent_def ThermalServiceSubscriber_OnTemperatureChanged_def
        event_map_def serving_def taken_in_def)
next
  case False
  from assms(1) obtain sub p where s: "linked s" "sv_isTempReport s" "sv_subscriber s = Some sub"
      "subscriber_serves T sub" "sv_policy s = Some p" "policy_serves (platform_of E s) p"
    by (auto simp: serving_def)
  then obtain mgr where mgr: "sv_actionMgr s = Some mgr" by (auto simp: linked_defs)
  have m: "\<forall>(type, t) \<in> set (event_map event). \<bar>t\<bar> \<le> T"
    using event_map_subset [of event] assms(4) by (auto simp: event_in_range_def list_all_iff)
  then have temps: "temps_ok (event_map event)" using assms(3) by (force simp: temps_ok_def list_all_iff)
  let ?w = "tell_observer (callbackinfo_update (\<lambda>_. event_map event)) (sv_world s)"
  obtain p' mgr' w' where decided: "ThermalPolicy_OnSensorInfoReported (ev_strtof E) (platform_of E s) (ev_delay E)
      (subscriber_rates sub) (event_map event) (p, mgr, ?w) = Inr (p', mgr', w')"
      "policy_serves (platform_of E s) p'" "levels_recorded p'"
    using report_decided [OF s(6) temps] by blast
  obtain sub' where sub': "ThermalServiceSubscriber_SetHistoryTypeTempMap (rnd (ev_platform E)) (event_map event)
      (sub\<lparr>sub_typeTempMap := event_map event\<rparr>) = Inr sub'" "subscriber_serves T sub'"
    using history_taken [OF s(4) assms(2) m] by blast
  note step = report_steps [OF s(1,2) False s(3,5) mgr decided(1) sub'(1)]
  from on_successD [OF report_keeps(1) step] s(1)
  have "linked (s\<lparr>sv_policy := Some p', sv_actionMgr := Some mgr', sv_world := notify_listeners w',
      sv_subscriber := Some sub', sv_info := Some (event_map event)\<rparr>)"
    by (simp add: keeps_def)
  with step decided(2,3) sub'(2) s(2) show ?thesis by (auto simp: serving_def taken_in_def platform_of_def)
qed

text \<open>Reports with arbitrary changes of the world between them: states, timers, listeners.\<close>

definition serve_reports :: "environment \<Rightarrow> ((service_world \<Rightarrow> service_world) \<times> (string \<times> int) list) list \<Rightarrow> thermal_service \<Rightarrow>
    thermal_service result" where
  "serve_reports E = foldr_result (\<lambda>(change, event) s.
     bindr (ThermalService_HandleThermalCallbackEvent E event (upd_world change s)) (\<lambda>(_, s). Inr s))"

lemma serving_changed: "serving E T s \<Longrightarrow> same_callback (sv_world s) (change (sv_world s)) \<Longrightarrow> serving E T (upd_world change s)"
  by (auto simp: serving_def linked_defs upd_world_def platform_of_def same_callback_def)

lemma reports_served:
  assumes "serving E T s" and "0 \<le> T" and "T \<le> 1073741823"
    and "\<forall>(change, event) \<in> set reports. event_in_range T event \<and> (\<forall>w. same_callback w (change w))"
  shows "\<exists>s'. serve_reports E reports s = Inr s' \<and> serving E T s' \<and>
    (reports \<noteq> [] \<longrightarrow> taken_in (snd (last reports)) s')"
  using assms(1,4)
proof (induction reports arbitrary: s)
  case (Cons r reports)
  obtain change event where r: "r = (change, event)" by (cases r)
  have "serving E T (upd_world change s)" using Cons.prems by (auto simp: r intro: serving_changed)
  from report_served [OF this assms(2,3), of event] Cons.prems(2) obtain s1 where
    s1: "ThermalService_HandleThermalCallbackEvent E event (upd_world change s) = Inr (ERR_OK, s1)" "serving E T s1"
      "taken_in event s1"
    by (auto simp: r)
  from Cons.IH [OF s1(2)] Cons.prems(2) obtain s' where s': "serve_reports E reports s1 = Inr s'" "serving E T s'"
      "reports \<noteq> [] \<longrightarrow> taken_in (snd (last reports)) s'"
    by auto
  have "reports = [] \<Longrightarrow> s' = s1" using s'(1) by (simp add: serve_reports_def)
  moreover have "serve_reports E (r # reports) s = Inr s'" using s1(1) s'(1) by (simp add: serve_reports_def r)
  ultimately show ?case using s' s1(3) by (auto simp: r)
qed (simp add: serve_reports_def)

section \<open>A started service serves\<close>

text \<open>The conditions of clusters and of actions in a section of the file hold no space.\<close>

definition conditions_spaceless :: "xml_node \<Rightarrow> bool" where
  "conditions_spaceless node \<longleftrightarrow>
     (\<forall>cur \<in> set (named ''sensor_cluster'' node). state_values_spaceless cur) \<and>
     (\<forall>cur \<in> set (named ''config'' node). \<forall>sub \<in> set (xml_children cur). \<forall>a v. xmlGetProp sub a = Some v \<longrightarrow> CHR '' '' \<notin> set v)"

lemma action_prop_spaceless:
  assumes "\<forall>a v. xmlGetProp sub a = Some v \<longrightarrow> CHR '' '' \<notin> set v"
  shows "action_prop_loop sub props pa = Some pa' \<Longrightarrow> props_spaceless pa \<Longrightarrow> props_spaceless pa'"
proof (induction props arbitrary: pa)
  case (Cons e props)
  then show ?case
    using assms by (cases e) (auto simp: props_spaceless_def list_all_sm_insert split: option.splits)
qed simp

lemma policy_action_spaceless:
  assumes "\<forall>sub \<in> set subs. \<forall>a v. xmlGetProp sub a = Some v \<longrightarrow> CHR '' '' \<notin> set v" and "list_all props_spaceless acts"
  shows "list_all props_spaceless (snd (policy_action_loop subs acts))"
  using assms
proof (induction subs acts rule: policy_action_loop.induct)
  case (2 sub rest acts)
  have new: "props_spaceless \<lparr>pa_actionName = n, pa_actionValue = v, pa_actionPropMap = [], pa_isProp = b\<rparr>" for n v b
    by (simp add: props_spaceless_def)
  have props: "props_spaceless pa'"
    if "action_prop_loop sub ps \<lparr>pa_actionName = n, pa_actionValue = v, pa_actionPropMap = [], pa_isProp = b\<rparr> = Some pa'"
    for ps n v b pa'
    using action_prop_spaceless [OF _ that new] "2.prems"(1) by simp
  show ?case using 2 new props by (auto simp: Let_def split: option.split)
qed simp

definition policies_listed :: "(string, PolicyConfig list) smap \<Rightarrow> bool" where
  "policies_listed = list_all (\<lambda>(_, cfgs). list_all (\<lambda>cfg. list_all props_spaceless (pc_policyActionList cfg)) cfgs)"

lemma policies_spaceless_listed: "policies_spaceless p \<longleftrightarrow> policies_listed (clusterPolicyMap p)"
  by (auto simp: policies_spaceless_def policy_actions_def policies_listed_def list_all_iff)

lemma parse_policies_listed:
  assumes "for_children ''config'' (parse_policy_config U) node [] = accepted m" and "conditions_spaceless node"
  shows "policies_listed m"
  using assms(1) unfolding for_children_eq
proof (rule for_each_invariant)
  show "policies_listed []" by (simp add: policies_listed_def)
next
  fix cur m1 m2
  assume cur: "cur \<in> set (named ''config'' node)" and m1: "policies_listed m1"
    and step: "parse_policy_config U cur m1 = accepted m2"
  let ?ok = "\<lambda>cfg. list_all props_spaceless (pc_policyActionList cfg)"
  obtain name lev where m2: "m2 = (let cfg = snd (ParsePolicyActionInfo cur \<lparr>pc_level = lev, pc_policyActionList = []\<rparr>)
      in case sm_find m1 name of None \<Rightarrow> sm_insert name [cfg] m1 | Some l \<Rightarrow> sm_assign name (l @ [cfg]) m1)"
    using step by (cases "xmlGetProp cur ''name''"; cases "xmlGetProp cur ''level''")
      (auto simp: parse_policy_config_def split_def Let_def)
  have new: "?ok (snd (ParsePolicyActionInfo cur \<lparr>pc_level = lev, pc_policyActionList = []\<rparr>))"
    using policy_action_spaceless [of "xml_children cur" "[]"] assms(2) cur
    by (simp add: ParsePolicyActionInfo_def conditions_spaceless_def split_def Let_def)
  have old: "list_all ?ok l" if "sm_find m1 name = Some l" for l
    using map_of_SomeD [OF that] m1 by (auto simp: policies_listed_def list_all_iff)
  show "policies_listed m2"
    using m1 new old unfolding m2 policies_listed_def Let_def
    by (cases "sm_find m1 name") (simp_all add: list_all_sm_insert list_all_sm_assign)
qed

definition policy_parsed :: "Policy \<Rightarrow> bool" where
  "policy_parsed p \<longleftrightarrow> clusterLevelMap p = [] \<and> (\<forall>P. clusters_ready P (sensorClusterMap p)) \<and> policies_spaceless p"

text \<open>What the start keeps until the subscriber is created.\<close>

definition booting :: "thermal_service \<Rightarrow> bool" where
  "booting s \<longleftrightarrow> sv_isTempReport s \<and> sv_subscriber s = None \<and> (\<forall>p. sv_policy s = Some p \<longrightarrow> policy_parsed p)"

lemma booting_fields: "booting s \<Longrightarrow> sv_isTempReport t = sv_isTempReport s \<Longrightarrow> sv_subscriber t = sv_subscriber s \<Longrightarrow>
    sv_policy t = sv_policy s \<Longrightarrow> booting t"
  by (simp add: booting_def)

lemma finish_boots:
  assumes "booting s" and "\<And>x. r = accepted x \<Longrightarrow> on_success (f x s) booting"
  shows "on_success (finish r f s) (\<lambda>p. booting (snd p))"
  using assms on_success_bind [OF assms(2), of _ "\<lambda>s. Inr (True, s)" "\<lambda>p. booting (snd p)"]
  by (cases r rule: parse_cases) (simp_all add: finish_def)

lemma ParseRootNode_boots:
  assumes s: "booting s" and node: "conditions_spaceless node"
  shows "on_success (ParseRootNode P U node s) (\<lambda>p. booting (snd p))"
proof -
  have keep: "booting t" if "sv_isTempReport t = sv_isTempReport s" "sv_subscriber t = sv_subscriber s" "sv_policy t = sv_policy s" for t
    using s that by (rule booting_fields)
  have "on_success (ParseLevelNode P U node s) (\<lambda>p. booting (snd p))"
    unfolding ParseLevelNode_def
  proof (rule finish_boots [OF s])
    fix m assume m: "for_children ''sensor_cluster'' (parse_cluster P U) node [] = accepted m"
    have "clusters_ready Q m" for Q
      by (rule parse_clusters_ready [OF m]) (use node in \<open>simp add: conditions_spaceless_def\<close>)
    with s show "on_success (bindr (deref (sv_policy s)) (\<lambda>p. Inr (s\<lparr>sv_policy := Some (ThermalPolicy_SetSensorClusterMap m p)\<rparr>))) booting"
      by (cases "sv_policy s")
        (auto simp: booting_def policy_parsed_def ThermalPolicy_SetSensorClusterMap_def policies_spaceless_listed)
  qed
  moreover have "on_success (ParsePolicyNode U node s) (\<lambda>p. booting (snd p))"
    unfolding ParsePolicyNode_def
  proof (rule finish_boots [OF s])
    fix m assume m: "for_children ''config'' (parse_policy_config U) node [] = accepted m"
    from parse_policies_listed [OF m node] s
    show "on_success (bindr (deref (sv_policy s)) (\<lambda>p. Inr (s\<lparr>sv_policy := Some (ThermalPolicy_SetPolicyMap m p)\<rparr>))) booting"
      by (cases "sv_policy s")
        (auto simp: booting_def policy_parsed_def ThermalPolicy_SetPolicyMap_def policies_spaceless_listed)
  qed
  moreover have "on_success (ParseStateNode node s) (\<lambda>p. booting (snd p))"
    unfolding ParseStateNode_def by (rule finish_boots [OF s]) (auto simp: upd_world_def intro!: on_success_any keep)
  moreover have "on_success (ParseActionNode P node s) (\<lambda>p. booting (snd p))"
    unfolding ParseActionNode_def by (rule finish_boots [OF s]) (auto intro!: on_success_any keep)
  moreover have "on_success (ParseIdleNode P U node s) (\<lambda>p. booting (snd p))"
    unfolding ParseIdleNode_def by (auto simp: upd_world_def intro!: on_success_any keep)
  moreover have "on_success (ParseFanNode P U node s) (\<lambda>p. booting (snd p))"
    unfolding ParseFanNode_def by (rule finish_boots [OF s]) (auto intro!: on_success_any keep)
  moreover have "on_success (ParseBaseNode node s) (\<lambda>p. booting (snd p))"
  proof -
    have set: "booting (SetSimulationXml v (s\<lparr>sv_baseInfo := Some b\<rparr>))" "booting (s\<lparr>sv_baseInfo := Some b\<rparr>)" for v b
      by (auto simp: SetSimulationXml_def upd_world_def intro!: keep)
    have "on_success (case r of None \<Rightarrow> Inr (False, s) | Some m \<Rightarrow> bindr (deref (sv_baseInfo s)) (h m))
        (\<lambda>p. booting (snd p))" if "\<And>m b. on_success (h m b) (\<lambda>p. booting (snd p))" for r h
      using that s by (cases r) (auto intro: on_success_any)
    note cases = on_success_any [OF this]
    show ?thesis
      unfolding ParseBaseNode_def Let_def by (rule cases) (simp add: set split: option.split)
  qed
  ultimately show ?thesis using s by (simp add: ParseRootNode_def)
qed

lemma root_loop_boots:
  "booting s \<Longrightarrow> list_all conditions_spaceless nodes \<Longrightarrow> on_success (root_loop P U nodes s) (\<lambda>p. booting (snd p))"
proof (induction nodes arbitrary: s)
  case (Cons node nodes)
  then have "on_success (ParseRootNode P U node s) (\<lambda>p. booting (snd p))" by (simp add: ParseRootNode_boots)
  then show ?case
    unfolding root_loop.simps by (rule on_success_bind) (use Cons in auto)
qed simp

definition files_spaceless :: "environment \<Rightarrow> bool" where
  "files_spaceless E \<longleftrightarrow>
     (\<forall>path doc. config_root (ev_source E) path = Some doc \<longrightarrow> list_all conditions_spaceless (xml_children doc))"

lemma InitConfigFile_boots:
  assumes "booting s" and "files_spaceless E"
  shows "on_success (ThermalService_InitConfigFile E s) (\<lambda>p. booting (snd p))"
proof -
  have parse: "on_success (parse_config E path t) (\<lambda>p. booting (snd p))" if "booting t" for path t
    using that assms(2) by (auto simp: parse_config_def ThermalSrvConfigInit_def ParseXmlFile_root files_spaceless_def
        root_loop_boots split: option.split)
  have "on_success (bindr (parse_config E path s) (\<lambda>(ok, s).
      if ok then Inr (True, s) else parse_config E path' s)) (\<lambda>p. booting (snd p))" for path path'
    by (rule on_success_bind [OF parse [OF assms(1)]]) (auto intro: parse)
  then show ?thesis
    using parse [OF assms(1)] assms(1)
    by (auto simp: ThermalService_InitConfigFile_def split: option.split list.split)
qed

text \<open>What holds once the subscriber is created.\<close>

definition started :: "thermal_service \<Rightarrow> bool" where
  "started s \<longleftrightarrow> sv_isTempReport s \<and> (\<forall>p. sv_policy s = Some p \<longrightarrow> policy_parsed p) \<and>
     (\<exists>sub. sv_subscriber s = Some sub \<and> typeHistoryMap sub = [] \<and> sub_sensorsRateMap sub = [] \<and> 0 < unat (sub_rateCount sub))"

lemma started_fields: "started s \<Longrightarrow> sv_isTempReport t = sv_isTempReport s \<Longrightarrow> sv_subscriber t = sv_subscriber s \<Longrightarrow>
    sv_policy t = sv_policy s \<Longrightarrow> started t"
  by (simp add: started_def)

lemma policies_listed_sorted: "policies_listed (map (\<lambda>(n, cfgs). (n, sort_key f cfgs)) m) = policies_listed m"
  by (auto simp: policies_listed_def list_all_iff)

lemma InitThermalObserver_boots: "booting s \<Longrightarrow> on_success (ThermalService_InitThermalObserver s) (\<lambda>p. booting (snd p))"
proof -
  assume s: "booting s"
  have "on_success (ThermalService_InitBaseInfo s) (\<lambda>p. booting (snd p))"
    unfolding ThermalService_InitBaseInfo_def
    by (rule on_success_any, rule on_success_any) (use s in \<open>auto simp: booting_def\<close>)
  then show ?thesis
    unfolding ThermalService_InitThermalObserver_def
    by (rule on_success_bind) (auto simp: upd_world_def Let_def booting_def)
qed

lemma InitActionManager_boots: "booting s \<Longrightarrow> on_success (ThermalService_InitActionManager E s) (\<lambda>p. booting (snd p))"
  unfolding ThermalService_InitActionManager_def
  by (rule on_success_any, rule on_success_any) (auto simp: booting_def)

lemma InitThermalPolicy_boots: "booting s \<Longrightarrow> on_success (ThermalService_InitThermalPolicy s) (\<lambda>p. booting (snd p))"
  by (cases "sv_policy s")
    (auto simp: ThermalService_InitThermalPolicy_def ThermalPolicy_Init_def ThermalPolicy_SortLevel_def booting_def
      policy_parsed_def policies_spaceless_listed policies_listed_sorted intro!: on_success_any)

lemma InitThermalSubscriber_starts: "booting s \<Longrightarrow> on_success (ThermalService_InitThermalSubscriber s) (\<lambda>p. started (snd p))"
  by (cases "sv_baseInfo s")
    (auto simp: ThermalService_InitThermalSubscriber_def ThermalServiceSubscriber_Init_def Subscriber_new_def booting_def
      started_def Let_def unat_gt_0 word_neq_0_conv)

lemma if_ok_then:
  assumes "on_success r (\<lambda>p. Q (snd p))" and "\<And>s. Q s \<Longrightarrow> on_success (f s) (\<lambda>p. fst p \<longrightarrow> R (snd p))"
  shows "on_success (if_ok r f) (\<lambda>p. fst p \<longrightarrow> R (snd p))"
  unfolding if_ok_def by (rule on_success_bind [OF assms(1)]) (use assms(2) in auto)

lemma InitModules_starts:
  assumes "booting s" and "files_spaceless E"
  shows "on_success (ThermalService_InitModules E s) (\<lambda>p. fst p \<longrightarrow> started (snd p))"
  unfolding ThermalService_InitModules_def
proof (rule if_ok_then [OF InitConfigFile_boots [OF assms]], rule if_ok_then)
  fix t assume "booting t"
  then have "booting (t\<lparr>sv_popup := True\<rparr>)" by (rule booting_fields) simp_all
  then show "on_success (ThermalService_InitThermalObserver (t\<lparr>sv_popup := True\<rparr>)) (\<lambda>p. booting (snd p))"
    by (rule InitThermalObserver_boots)
next
  fix t assume t: "booting t"
  show "on_success (if_ok (ThermalService_InitActionManager E t) (\<lambda>s. if_ok (ThermalService_InitThermalPolicy s)
      ThermalService_InitThermalSubscriber)) (\<lambda>p. fst p \<longrightarrow> started (snd p))"
    by (rule if_ok_then [OF InitActionManager_boots [OF t]], rule if_ok_then [OF InitThermalPolicy_boots])
      (auto intro: on_success_mono [OF InitThermalSubscriber_starts])
qed

lemma CreateConfigModule_boots: "booting s \<Longrightarrow> booting (snd (ThermalService_CreateConfigModule s))"
  by (auto simp: ThermalService_CreateConfigModule_def Let_def upd_world_def booting_def policy_parsed_def Policy_new_def
      clusters_ready_def policies_spaceless_def policy_actions_def)

lemma OnStart_starts:
  assumes "booting s" and "files_spaceless E" and "\<not> sv_ready s"
  shows "on_success (ThermalService_OnStart E (s, cs)) (\<lambda>S. sv_ready (fst S) \<longrightarrow> started (fst S))"
proof -
  let ?s = "snd (ThermalService_CreateConfigModule s)"
  have ready: "on_success (ThermalService_InitModules E ?s) (init_step False linked)"
    using InitModules_step [OF CreateConfigModule_targets(2), of E s] assms(3) by (simp only: CreateConfigModule_targets(3))
  have "on_success (ThermalService_InitModules E ?s) (\<lambda>p. \<not> sv_ready (snd p) \<and> (fst p \<longrightarrow> started (snd p)))"
    using ready InitModules_starts [OF CreateConfigModule_boots [OF assms(1)] assms(2)]
    by (cases "ThermalService_InitModules E ?s") (auto simp: init_step_def)
  then have init: "on_success (ThermalService_Init E (s, cs'))
      (\<lambda>p. \<not> sv_ready (fst (snd p)) \<and> (fst p \<longrightarrow> started (fst (snd p))))" for cs'
    unfolding ThermalService_Init_def
    by (auto simp: split_def Let_def CreateConfigModule_targets ThermalService_RegisterHdiStatusListener_def started_def
        intro!: on_success_bind)
  have "started (t\<lparr>sv_ready := True\<rparr>) = started t" for t by (simp add: started_def)
  then show ?thesis
    unfolding ThermalService_OnStart_def using assms(3)
    by (auto simp: Let_def split_def intro!: on_success_bind [OF init])
qed

lemma started_serving:
  assumes "started s" and "linked s" and "sv_subscriber s = Some sub" and "sv_policy s = Some p"
    and "sensorClusterMap p \<noteq> []" and "1 < unat (sub_historyCount sub) \<longrightarrow> rate_in_range (unat (sub_historyCount sub)) T"
  shows "serving E T s"
proof -
  have p: "policy_parsed p" "sv_isTempReport s" using assms(1,4) by (simp_all add: started_def)
  have "subscriber_serves T sub"
    using assms(1,3,6) by (auto simp: started_def subscriber_serves_def subscriber_ok_def histories_ok_def rates_ok_def)
  moreover have "policy_serves P p" for P
    using p(1) assms(5) by (auto simp: policy_parsed_def policy_serves_def policy_ready_def clusters_ready_def list_all_iff)
  ultimately show ?thesis using assms(2-4) p(2) by (simp add: serving_def)
qed

section \<open>Properties\<close>

text \<open>
  C11: once the service has started on a configuration whose conditions hold no space and which has
  a cluster, every report of the driver is served, however many arrive and whatever the states,
  timers and listeners do between them, while the readings stay in a range in which the sums of
  the history fit 32 bits. After each the readings are the known ones and every cluster has its
  level recorded; no operation on the way fails or does not return.
\<close>

theorem started_service_serves_reports:
  assumes "ThermalService_OnStart E (ThermalService_new w, cs) = Inr S" and "sv_ready (fst S)" and "files_spaceless E"
    and "sv_policy (fst S) = Some p" and "sensorClusterMap p \<noteq> []"
    and "sv_subscriber (fst S) = Some sub"
    and "1 < unat (sub_historyCount sub) \<longrightarrow> rate_in_range (unat (sub_historyCount sub)) T"
    and "0 \<le> T" and "T \<le> 1073741823"
    and "\<forall>(change, event) \<in> set reports. event_in_range T event \<and> (\<forall>w. same_callback w (change w))"
  shows "\<exists>s'. serve_reports E reports (fst S) = Inr s' \<and> linked s' \<and>
    (reports \<noteq> [] \<longrightarrow> snd (last reports) \<noteq> [] \<longrightarrow> sv_info s' = Some (event_map (snd (last reports))) \<and>
      (\<exists>p'. sv_policy s' = Some p' \<and> levels_recorded p'))"
proof -
  have new: "booting (ThermalService_new w)" "\<not> sv_ready (ThermalService_new w)"
    by (simp_all add: booting_def ThermalService_new_def)
  have "started (fst S)" using on_successD [OF OnStart_starts [OF new(1) assms(3) new(2)] assms(1)] assms(2) by blast
  moreover have "linked (fst S)" using on_successD [OF OnStart_linked assms(1)] assms(2) new(2) by blast
  ultimately have "serving E T (fst S)" by (rule started_serving) (use assms in blast)+
  from reports_served [OF this assms(8-10)] show ?thesis by (auto simp: serving_def taken_in_def)
qed

definition configured_environment :: environment where
  "configured_environment = sample_environment\<lparr>ev_platform := number_platform, ev_source := sample_source sample_level_node\<rparr>"

lemma configured_starts:
  "\<exists>S p sub. ThermalService_OnStart configured_environment (ThermalService_new sample_world, []) = Inr S \<and> sv_ready (fst S) \<and>
     sv_policy (fst S) = Some p \<and> sensorClusterMap p \<noteq> [] \<and>
     sv_subscriber (fst S) = Some sub \<and> sub_historyCount sub = 0"
proof -
  have "ThermalService_InitConfigFile configured_environment (snd (ThermalService_CreateConfigModule (ThermalService_new sample_world))) =
    Inr (True, (snd (ThermalService_CreateConfigModule (ThermalService_new sample_world)))\<lparr>sv_policy := Some (Policy_new\<lparr>sensorClusterMap := [(''base'', parsed_cluster)]\<rparr>)\<rparr>)"
    using parse_sample_cluster
    by (simp add: ThermalService_InitConfigFile_def parse_config_def ThermalSrvConfigInit_def ParseXmlFile_root
        sample_document configured_environment_def sample_environment_def ParseRootNode_def ParseLevelNode_def
        sample_level_node_def for_children_eq sample_cluster_node_def finish_def ThermalPolicy_SetSensorClusterMap_def
        ThermalService_CreateConfigModule_def ThermalService_new_def upd_world_def)
  then show ?thesis
    by (simp add: ThermalService_OnStart_def ThermalService_Init_def ThermalService_CreateConfigModule_def
        ThermalService_new_def ThermalService_InitModules_def if_ok_def ThermalService_InitThermalObserver_def
        ThermalService_InitBaseInfo_def BaseInfo_new_def ThermalConfigBaseInfo_Init_def
        ThermalConfigBaseInfo_SetSensorsType_def ThermalConfigBaseInfo_SetHistoryTempCount_def
        ThermalService_InitActionManager_def ThermalActionManager_Init_def ThermalService_InitThermalPolicy_def
        ThermalService_InitThermalSubscriber_def ThermalPolicy_Init_def ThermalPolicy_SortLevel_def upd_world_def
        ThermalServiceSubscriber_Init_def Subscriber_new_def
        ThermalService_RegisterHdiStatusListener_def configured_environment_def sample_environment_def Let_def)
qed

lemma configured_spaceless: "files_spaceless configured_environment"
  by (simp add: files_spaceless_def configured_environment_def sample_environment_def sample_document conditions_spaceless_def
      sample_level_node_def sample_cluster_node_def sample_item_def state_values_spaceless_def)

theorem started_service_serves_reports_witness:
  "\<exists>S s'. ThermalService_OnStart configured_environment (ThermalService_new sample_world, []) = Inr S \<and>
     serve_reports configured_environment [(id, [(''soc'', 41000)]), (id, [(''soc'', 37000)])] (fst S) = Inr s' \<and>
     sv_info s' = Some [(''soc'', 37000)]"
proof -
  obtain S p sub where S: "ThermalService_OnStart configured_environment (ThermalService_new sample_world, []) = Inr S"
      "sv_ready (fst S)" "sv_policy (fst S) = Some p" "sensorClusterMap p \<noteq> []" "sv_subscriber (fst S) = Some sub"
      "sub_historyCount sub = 0"
    using configured_starts by blast
  have range: "1 < unat (sub_historyCount sub) \<longrightarrow> rate_in_range (unat (sub_historyCount sub)) 50000" by (simp add: S(6))
  from started_service_serves_reports [OF S(1,2) configured_spaceless S(3-5) range,
      of "[(id, [(''soc'', 41000)]), (id, [(''soc'', 37000)])]"] S(1)
  show ?thesis by (auto simp: event_in_range_def event_map_def)
qed

end
