(* ===== verification/Driver_Callback.thy ===== *)
theory Driver_Callback
  imports Report_Liveness
begin

text \<open>
  The objects the driver calls, \<open>thermal_callback.cpp\<close> and \<open>fan_callback.cpp\<close>: each forwards an
  event to the handler in its static member \<open>eventCb_\<close>, which the service sets before it hands
  the object to the driver. \<open>ThermalSrvSensorInfo\<close>, the pair of a type and a temperature that is
  sent to a client, is at the end.
\<close>

section \<open>The callbacks\<close>

type_synonym 's event_handler = "(string \<times> int) list \<Rightarrow> 's \<Rightarrow> (int \<times> 's) result"

definition ThermalCallback_RegisterThermalEvent :: "'s event_handler \<Rightarrow> 's event_handler option \<Rightarrow> int \<times> 's event_handler option" where
  "ThermalCallback_RegisterThermalEvent eventCb member = (0, Some eventCb)"

definition ThermalCallback_OnThermalDataEvent :: "int \<Rightarrow> 's event_handler option \<Rightarrow> 's event_handler" where
  "ThermalCallback_OnThermalDataEvent HDF_FAILURE member event s =
     (case member of None \<Rightarrow> Inr (HDF_FAILURE, s) | Some eventCb \<Rightarrow> eventCb event s)"

definition FanCallback_RegisterFanEvent :: "'s event_handler \<Rightarrow> 's event_handler option \<Rightarrow> int \<times> 's event_handler option" where
  "FanCallback_RegisterFanEvent eventCb member = (0, Some eventCb)"

definition FanCallback_OnFanDataEvent :: "int \<Rightarrow> 's event_handler option \<Rightarrow> 's event_handler" where
  "FanCallback_OnFanDataEvent HDF_FAILURE member event s =
     (case member of None \<Rightarrow> Inr (HDF_FAILURE, s) | Some eventCb \<Rightarrow> eventCb event s)"

text \<open>The driver reports to the service it has been given the callback of.\<close>

lemma driver_report_served:
  assumes "serving E T s" and "0 \<le> T" and "T \<le> 1073741823" and "event_in_range T event"
    and "ThermalCallback_RegisterThermalEvent (ThermalService_HandleThermalCallbackEvent E) old = (ret, member)"
  shows "\<exists>s'. ThermalCallback_OnThermalDataEvent failure member event s = Inr (ERR_OK, s') \<and> serving E T s' \<and> taken_in event s'"
  using report_served [OF assms(1-4)] assms(5)
  by (auto simp: ThermalCallback_RegisterThermalEvent_def ThermalCallback_OnThermalDataEvent_def)

lemma early_event_refused:
  "ThermalCallback_OnThermalDataEvent failure None event s = Inr (failure, s)"
  "FanCallback_OnFanDataEvent failure None event s = Inr (failure, s)"
  by (simp_all add: ThermalCallback_OnThermalDataEvent_def FanCallback_OnFanDataEvent_def)

section \<open>ThermalSrvSensorInfo\<close>

text \<open>
  The parcel and the conversions between strings of 8 and 16 bits are parameters. A read always
  gives something; \<open>new\<close> may give nothing.
\<close>

record ('p, 'u) info_parcel =
  put_string16 :: "'u \<Rightarrow> 'p \<Rightarrow> 'p option"
  put_int32 :: "int \<Rightarrow> 'p \<Rightarrow> 'p option"
  get_string16 :: "'p \<Rightarrow> 'u \<times> 'p"
  get_int32 :: "'p \<Rightarrow> int \<times> 'p"
  Str8ToStr16 :: "string \<Rightarrow> 'u"
  Str16ToStr8 :: "'u \<Rightarrow> string"

record sensor_info =
  info_type :: string
  info_temp :: int

definition ThermalSrvSensorInfo_Marshalling :: "('p, 'u) info_parcel \<Rightarrow> sensor_info \<Rightarrow> 'p \<Rightarrow> 'p option" where
  "ThermalSrvSensorInfo_Marshalling M info p =
     Option.bind (put_string16 M (Str8ToStr16 M (info_type info)) p) (put_int32 M (info_temp info))"

definition ThermalSrvSensorInfo_ReadFromParcel :: "('p, 'u) info_parcel \<Rightarrow> 'p \<Rightarrow> sensor_info \<Rightarrow> bool \<times> sensor_info \<times> 'p" where
  "ThermalSrvSensorInfo_ReadFromParcel M p info =
     (let (u, p) = get_string16 M p; (t, p) = get_int32 M p
      in (True, info\<lparr>info_type := Str16ToStr8 M u, info_temp := t\<rparr>, p))"

definition ThermalSrvSensorInfo_Unmarshalling :: "('p, 'u) info_parcel \<Rightarrow> sensor_info option \<Rightarrow> 'p \<Rightarrow> sensor_info option \<times> 'p" where
  "ThermalSrvSensorInfo_Unmarshalling M new p =
     (case new of
        None \<Rightarrow> (None, p)
      | Some info \<Rightarrow>
          let (ok, info, p) = ThermalSrvSensorInfo_ReadFromParcel M p info
          in (if ok then Some info else None, p))"

text \<open>What the library promises: what is written at the end of a parcel is what is read there.\<close>

definition info_parcel_laws :: "('p, 'u) info_parcel \<Rightarrow> ('p \<Rightarrow> ('u + int) list) \<Rightarrow> bool" where
  "info_parcel_laws M contents \<longleftrightarrow>
     (\<forall>u p p'. put_string16 M u p = Some p' \<longrightarrow> contents p' = contents p @ [Inl u]) \<and>
     (\<forall>t p p'. put_int32 M t p = Some p' \<longrightarrow> contents p' = contents p @ [Inr t]) \<and>
     (\<forall>u p rest. contents p = Inl u # rest \<longrightarrow> (\<exists>p'. get_string16 M p = (u, p') \<and> contents p' = rest)) \<and>
     (\<forall>t p rest. contents p = Inr t # rest \<longrightarrow> (\<exists>p'. get_int32 M p = (t, p') \<and> contents p' = rest)) \<and>
     (\<forall>s. Str16ToStr8 M (Str8ToStr16 M s) = s)"

lemma sensor_info_read_back:
  assumes "info_parcel_laws M contents" and "ThermalSrvSensorInfo_Marshalling M info p = Some p'" and "contents p = []"
  shows "\<exists>p''. ThermalSrvSensorInfo_Unmarshalling M (Some new) p' =
    (Some (new\<lparr>info_type := info_type info, info_temp := info_temp info\<rparr>), p'') \<and> contents p'' = []"
proof -
  from assms(2) obtain p1 where p1: "put_string16 M (Str8ToStr16 M (info_type info)) p = Some p1"
      "put_int32 M (info_temp info) p1 = Some p'"
    by (auto simp: ThermalSrvSensorInfo_Marshalling_def Option.bind_eq_Some_conv)
  then have c: "contents p' = [Inl (Str8ToStr16 M (info_type info)), Inr (info_temp info)]"
    using assms(1,3) by (simp add: info_parcel_laws_def)
  then obtain q where q: "get_string16 M p' = (Str8ToStr16 M (info_type info), q)" "contents q = [Inr (info_temp info)]"
    using assms(1) unfolding info_parcel_laws_def by blast
  then obtain r where r: "get_int32 M q = (info_temp info, r)" "contents r = []"
    using assms(1) unfolding info_parcel_laws_def by blast
  have "Str16ToStr8 M (Str8ToStr16 M s) = s" for s using assms(1) by (simp add: info_parcel_laws_def)
  then show ?thesis
    using q r by (simp add: ThermalSrvSensorInfo_Unmarshalling_def ThermalSrvSensorInfo_ReadFromParcel_def)
qed

end
