(* ===== verification/Xml_Print.thy ===== *)
theory Xml_Print
  imports Xml_Node Thermal_Timer
begin

text \<open>
  What the round trips of the two configuration files share: what \<open>string_ex.h\<close> documents of its
  conversions, the printed form of numbers and elements, and maps that are filled in order.
\<close>

section \<open>Maps filled in order\<close>

lemma sm_insert_append: "\<forall>k' \<in> fst ` set m. k' < k \<Longrightarrow> sm_insert k v m = m @ [(k, v)]"
  by (induction k v m rule: sm_insert.induct) (auto dest: less_not_sym)

lemma sm_ok_append_Cons: "sm_ok (m @ (k, v) # kvs) \<Longrightarrow> \<forall>k' \<in> fst ` set m. k' < k"
  by (auto simp: sm_ok_def sorted_wrt_append)

lemma fold_insert_append: "sm_ok (m @ kvs) \<Longrightarrow> fold (\<lambda>(k, v). sm_insert k v) kvs m = m @ kvs"
proof (induction kvs arbitrary: m)
  case (Cons p kvs)
  obtain k v where p: "p = (k, v)" by (cases p)
  with Cons.prems have "sm_insert k v m = m @ [(k, v)]" by (intro sm_insert_append) (auto dest: sm_ok_append_Cons)
  with Cons.IH [of "m @ [(k, v)]"] Cons.prems show ?case by (simp add: p)
qed simp

section \<open>What the conversions read\<close>

definition reads_numbers :: "platform \<Rightarrow> bool" where
  "reads_numbers P \<longleftrightarrow> (\<forall>i. int32_range i \<longrightarrow> StrToInt P (to_string_int i) = Some i)"

definition trims_flags :: "platform \<Rightarrow> bool" where
  "trims_flags P \<longleftrightarrow> TrimStr P ''1'' = ''1'' \<and> TrimStr P ''0'' = ''0''"

lemma level_of_to_dec: "n < 2 ^ 32 \<Longrightarrow> level_of (to_dec n) d = n"
proof -
  assume n: "n < 2 ^ 32"
  then have "unat (of_nat n :: u32) = n" by (simp add: unsigned_of_nat take_bit_nat_eq_self)
  with n show ?thesis by (simp add: level_of_def StrToUint_to_dec)
qed

section \<open>Elements\<close>

lemma named_map: "(\<And>x. x \<in> set xs \<Longrightarrow> xml_name (g x) = tag) \<Longrightarrow> named tag (element n ps (map g xs)) = map g xs"
  by (simp add: named_def filter_id_conv)

definition text_element :: "string \<Rightarrow> (string \<times> string) list \<Rightarrow> string \<Rightarrow> xml_node" where
  "text_element name props content = XmlNode name (map (\<lambda>(n, v). (n, Some v)) props) (Some content) []"

lemma text_element_simps [simp]:
  "xml_name (text_element n ps c) = n" "xmlNodeGetContent (text_element n ps c) = Some c"
  "xml_properties (text_element n ps c) = map (\<lambda>(n, v). (n, Some v)) ps" "xmlGetProp (text_element n ps c) a = map_of ps a"
  using element_simps(3) [of n ps "[]" a]
  by (simp_all add: text_element_def xmlNodeGetContent_def xmlGetProp_def element_def)

section \<open>An example\<close>

text \<open>A \<open>StrToInt\<close> that computes.\<close>

definition decimal_platform :: platform where
  "decimal_platform = sample_platform\<lparr>StrToInt := (\<lambda>s. case ParseStrtollResult s of
     Some i \<Rightarrow> if int32_range i then Some i else None | None \<Rightarrow> None)\<rparr>"

lemma decimal_platform_reads: "reads_numbers decimal_platform" "trims_flags decimal_platform"
proof -
  have "ParseStrtollResult (to_string_int i) = Some i" if "int32_range i" for i
  proof (cases "i < 0")
    case True
    then show ?thesis
      using that scan_dec_minus [OF to_dec_nonempty to_dec_digits, of "nat (- i)"]
      by (simp add: ParseStrtollResult_def to_string_int_def c_str_sign_digits [OF to_dec_digits] strtol_def int32_range_def)
  next
    case False
    then show ?thesis
      using that scan_dec_digits [OF to_dec_nonempty to_dec_digits, of "nat i"]
      by (simp add: ParseStrtollResult_def to_string_int_def c_str_digits [OF to_dec_digits] strtol_def int32_range_def)
  qed
  then show "reads_numbers decimal_platform" by (simp add: reads_numbers_def decimal_platform_def)
  show "trims_flags decimal_platform" by (simp add: trims_flags_def decimal_platform_def sample_platform_def)
qed

end
