(* ===== verification/Config_Roundtrip.thy ===== *)
theory Config_Roundtrip
  imports Config_Proofs Xml_Print
begin

text \<open>
  Writing a configuration in the parser's format and parsing it gives the configuration back:
  the clusters of sensors with their states, thresholds and levels, the states, the actions and
  the policies. And the two ways in which text that is not in the format is not rejected: a
  number that cannot be read, and a space in a list.

  The printers are the specification of the format; \<open>string_ex.h\<close>'s conversions enter through
  what they document: \<open>StrToInt\<close> reads a decimal numeral, \<open>TrimStr\<close> returns a string without
  white space as it is.
\<close>

section \<open>What the conversions read\<close>

definition list_name :: "string \<Rightarrow> bool" where
  "list_name s \<longleftrightarrow> s \<noteq> [] \<and> CHR '','' \<notin> set s \<and> CHR '' '' \<notin> set s"

lemma numeral_chars: "c \<in> set (to_string_int i) \<Longrightarrow> is_digit c \<or> c = CHR ''-''"
  using to_dec_digits by (auto simp: to_string_int_def split: if_splits)

lemma list_name_int: "list_name (to_string_int i)"
proof -
  have "to_string_int i \<noteq> []" by (simp add: to_string_int_def)
  moreover have "\<not> is_digit CHR '',''" "\<not> is_digit CHR '' ''" by (simp_all add: is_digit_def)
  ultimately show ?thesis using numeral_chars [of "CHR '',''" i] numeral_chars [of "CHR '' ''" i]
    by (auto simp: list_name_def)
qed

lemma split_joined:
  assumes "list_all list_name xs"
  shows "SplitString (join_with CHR '','' xs) [] '','' = Inr xs"
proof -
  have "CHR '' '' \<notin> set (join_with CHR '','' xs)"
    using set_join_with [of "CHR '',''" xs] assms by (auto simp: list_all_iff list_name_def)
  moreover have "nonempty_fields CHR '','' (join_with CHR '','' xs) = xs"
    using assms by (intro nonempty_fields_join_with) (auto simp: list_all_iff list_name_def)
  ultimately show ?thesis by (simp add: SplitString_eq)
qed

section \<open>Clusters\<close>

text \<open>The item of the level \<open>k + 1\<close>: the thresholds of all sensors.\<close>

definition print_level_item :: "(string \<times> LevelItem list) list \<Rightarrow> nat \<Rightarrow> xml_node" where
  "print_level_item sensors k =
     element ''item''
       [(''level'', to_dec (Suc k)),
        (''threshold'', join_with CHR '','' (map (\<lambda>(_, items). to_string_int (threshold (items ! k))) sensors)),
        (''threshold_clr'', join_with CHR '','' (map (\<lambda>(_, items). to_string_int (thresholdClr (items ! k))) sensors))] []"

definition print_cluster :: "string \<Rightarrow> SensorCluster \<Rightarrow> xml_node" where
  "print_cluster name c =
     element ''sensor_cluster''
       ([(''name'', name), (''sensor'', join_with CHR '','' (map fst (sensorInfolist c)))] @
        (if descFlag c then [(''desc'', ''1'')] else []))
       (element ''state'' (stateMap c) [] # map (print_level_item (sensorInfolist c)) [0 ..< cluster_size c])"

text \<open>A cluster without extra conditions, as the format can name it.\<close>

definition printable_cluster :: "SensorCluster \<Rightarrow> bool" where
  "printable_cluster c \<longleftrightarrow> CheckStandard c \<and> 0 < cluster_size c \<and> cluster_size c < 2 ^ 32 - 1 \<and>
     sm_ok (sensorInfolist c) \<and> sm_ok (stateMap c) \<and>
     list_all (\<lambda>(s, items). list_name s \<and>
       list_all (\<lambda>i. int32_range (threshold i) \<and> int32_range (thresholdClr i) \<and> tempRiseRate i = NO_RISE_RATE) items)
       (sensorInfolist c) \<and>
     \<not> auxFlag c \<and> \<not> rateFlag c \<and> \<not> tempDiffFlag c \<and> latestLevel c = 0 \<and> auxSensorInfolist c = [] \<and>
     tempDiffInfoList c = []"

lemma printed_names [simp]:
  "xml_name (print_level_item sensors k) = ''item''" "xml_name (print_cluster name c) = ''sensor_cluster''"
  by (simp_all add: print_level_item_def print_cluster_def)

lemma named_cluster [simp]:
  "named ''state'' (print_cluster name c) = [element ''state'' (stateMap c) []]"
  "named ''item'' (print_cluster name c) = map (print_level_item (sensorInfolist c)) [0 ..< cluster_size c]"
  by (simp_all add: named_def print_cluster_def filter_empty_conv filter_id_conv)

text \<open>The loop over the attributes of a state.\<close>

lemma states_loop:
  assumes "\<And>n v. (n, v) \<in> set ps \<Longrightarrow> xmlGetProp sub n = Some v"
  shows "for_each (\<lambda>(propName, _) sc. case xmlGetProp sub propName of
      None \<Rightarrow> rejected | Some v \<Rightarrow> accepted (AddState propName v sc)) (map (\<lambda>(n, v). (n, Some v)) ps) sc =
    accepted (sc\<lparr>stateMap := fold (\<lambda>(k, v). sm_insert k v) ps (stateMap sc)\<rparr>)"
  using assms
proof (induction ps arbitrary: sc)
  case (Cons p ps)
  obtain n v where p: "p = (n, v)" by (cases p)
  have v: "xmlGetProp sub n = Some v" by (rule Cons.prems) (simp add: p)
  have IH: "for_each (\<lambda>(propName, _) sc. case xmlGetProp sub propName of
      None \<Rightarrow> rejected | Some v \<Rightarrow> accepted (AddState propName v sc)) (map (\<lambda>(n, v). (n, Some v)) ps) sc =
    accepted (sc\<lparr>stateMap := fold (\<lambda>(k, v). sm_insert k v) ps (stateMap sc)\<rparr>)" for sc
    by (rule Cons.IH) (rule Cons.prems, simp)
  show ?case by (simp add: p v IH AddState_def)
qed simp

lemma parse_printed_states:
  assumes "sm_ok (stateMap c)"
  shows "ParseLevelState (print_cluster name c) SensorCluster_new = accepted (SensorCluster_new\<lparr>stateMap := stateMap c\<rparr>)"
proof -
  have props: "xml_properties (element ''state'' (stateMap c) []) = map (\<lambda>(n, v). (n, Some v)) (stateMap c)"
    by (simp add: element_def)
  have "xmlGetProp (element ''state'' (stateMap c) []) n = Some v" if "(n, v) \<in> set (stateMap c)" for n v
    using that assms sm_find_mem by fastforce
  from states_loop [of "stateMap c", OF this] fold_insert_append [of "[]" "stateMap c"] assms
  show ?thesis by (simp add: ParseLevelState_def for_children_eq props SensorCluster_new_def)
qed

lemma threshold_of_printed:
  assumes c: "printable_cluster c" and P: "reads_numbers P"
    and i: "i < length (sensorInfolist c)" and k: "k < cluster_size c"
  shows "ParseLevelThreshold P (print_level_item (sensorInfolist c) k) (map fst (sensorInfolist c)) i
    (u\<lparr>tempRiseRate := NO_RISE_RATE\<rparr>) = accepted (snd (sensorInfolist c ! i) ! k)"
proof -
  obtain s items where e: "sensorInfolist c ! i = (s, items)" by (cases "sensorInfolist c ! i")
  with i have mem: "(s, items) \<in> set (sensorInfolist c)" by (metis nth_mem)
  have std: "config_ok c" using c by (simp add: config_ok_def printable_cluster_def)
  note len = config_ok_sensor(1) [OF std mem] and lev = levels_in_order_nth [OF config_ok_sensor(2) [OF std mem], of k]
  have item: "level (items ! k) = Suc k" "tempRiseRate (items ! k) = NO_RISE_RATE"
      "int32_range (threshold (items ! k))" "int32_range (thresholdClr (items ! k))"
    using lev k len c mem by (auto simp: printable_cluster_def list_all_iff)
  have k32: "Suc k < 2 ^ 32" using k c by (simp add: printable_cluster_def)
  have lists: "list_all list_name (map (\<lambda>(_, items). to_string_int (f (items ! k))) (sensorInfolist c))"
    for f :: "LevelItem \<Rightarrow> int" by (auto simp: list_all_iff list_name_int)
  have eq: "(u\<lparr>tempRiseRate := NO_RISE_RATE, level := Suc k, threshold := threshold (items ! k),
      thresholdClr := thresholdClr (items ! k)\<rparr>) = items ! k"
    using item by simp
  show ?thesis
    using item P i eq
    by (simp add: ParseLevelThreshold_def print_level_item_def split_joined [OF lists] level_of_to_dec [OF k32] e
        reads_numbers_def)
qed

text \<open>A loop that collects one item per pass, next to a cluster it leaves alone.\<close>

lemma for_each_items:
  assumes "\<And>x items. x \<in> set xs \<Longrightarrow> f (h x) (items, sc) = accepted (items @ [g x], sc)"
  shows "for_each f (map h xs) (items, sc) = accepted (items @ map g xs, sc)"
  using assms by (induction xs arbitrary: items) simp_all

lemma levels_of_printed:
  assumes "printable_cluster c" and "reads_numbers P" and "i < length (sensorInfolist c)"
  shows "ParseSensorLevelInfo P U (print_cluster name c) (map fst (sensorInfolist c)) i ([], sc) =
    accepted (snd (sensorInfolist c ! i), sc)"
proof -
  obtain s items where e: "sensorInfolist c ! i = (s, items)" by (cases "sensorInfolist c ! i")
  with assms(3) have mem: "(s, items) \<in> set (sensorInfolist c)" by (metis nth_mem)
  have std: "config_ok c" using assms(1) by (simp add: config_ok_def printable_cluster_def)
  have all: "map ((!) items) [0 ..< cluster_size c] = items"
    using config_ok_sensor(1) [OF std mem] map_nth by metis
  have rate: "xmlGetProp (print_level_item sensors k) ''temp_rise_rate'' = None" for sensors k
    by (simp add: print_level_item_def)
  show ?thesis
    unfolding ParseSensorLevelInfo_def for_children_eq named_cluster
    by (subst for_each_items [where g = "(!) items"])
      (simp_all add: threshold_of_printed [OF assms] rate e all)
qed

text \<open>The loop over the sensors fills the map in order.\<close>

lemma sensors_loop:
  assumes "\<And>i. i < length l \<Longrightarrow> f (n + i, fst (l ! i)) = (\<lambda>(infos, sc). accepted (sm_insert (fst (l ! i)) (snd (l ! i)) infos, sc))"
  shows "for_each f (enumerate n (map fst l)) (infos, sc) = accepted (fold (\<lambda>(k, v). sm_insert k v) l infos, sc)"
  using assms
proof (induction l arbitrary: n infos)
  case (Cons p l)
  from Cons.prems [of 0] have "f (n, fst p) (infos, sc) = accepted (sm_insert (fst p) (snd p) infos, sc)" by simp
  moreover have "f (Suc n + i, fst (l ! i)) = (\<lambda>(infos, sc). accepted (sm_insert (fst (l ! i)) (snd (l ! i)) infos, sc))"
    if "i < length l" for i
    using Cons.prems [of "Suc i"] that by simp
  ultimately show ?case using Cons.IH [of "Suc n"] by (simp add: split_def)
qed simp

lemma parse_printed_sensors:
  assumes c: "printable_cluster c" and P: "reads_numbers P"
  shows "ParseSensorInfo P U (print_cluster name c) sc = accepted (sc\<lparr>sensorInfolist := sensorInfolist c\<rparr>)"
proof -
  let ?l = "sensorInfolist c"
  have std: "config_ok c" using c by (simp add: config_ok_def printable_cluster_def)
  have names: "list_all list_name (map fst ?l)" using c by (auto simp: printable_cluster_def list_all_iff)
  have nonempty: "?l \<noteq> []" using c by (auto simp: printable_cluster_def cluster_size_def)
  have items: "snd (?l ! i) \<noteq> []" if "i < length ?l" for i
  proof -
    obtain s its where "?l ! i = (s, its)" by (cases "?l ! i")
    with that config_ok_sensor(1) [OF std, of s its] c show ?thesis by (metis list.size(3) nth_mem not_less_zero snd_conv printable_cluster_def)
  qed
  have sens: "xmlGetProp (print_cluster name c) ''sensor'' = Some (join_with CHR '','' (map fst ?l))"
    by (simp add: print_cluster_def)
  have "for_each (\<lambda>(i, sensorType) (sensorLevelInfo, sc).
      bindp (ParseSensorLevelInfo P U (print_cluster name c) (map fst ?l) i ([], sc)) (\<lambda>(levelItems, sc).
        if levelItems = [] then rejected else accepted (sm_insert sensorType levelItems sensorLevelInfo, sc)))
      (enumerate 0 (map fst ?l)) ([], sc) = accepted (fold (\<lambda>(k, v). sm_insert k v) ?l [], sc)"
    by (rule sensors_loop) (use levels_of_printed [OF c P] items in \<open>auto simp: fun_eq_iff\<close>)
  also have "fold (\<lambda>(k, v). sm_insert k v) ?l [] = ?l"
    using fold_insert_append [of "[]" ?l] c by (simp add: printable_cluster_def)
  finally show ?thesis
    using nonempty by (simp add: ParseSensorInfo_def sens split_joined [OF names] SetSensorLevelInfo_def)
qed

lemma parse_printed_cluster:
  assumes c: "printable_cluster c" and P: "reads_numbers P" "trims_flags P"
  shows "parse_cluster P U (print_cluster name c) msc = accepted (sm_insert name c msc)"
proof -
  have props: "xmlGetProp (print_cluster name c) ''name'' = Some name"
      "xmlGetProp (print_cluster name c) ''aux_sensor'' = None" "xmlGetProp (print_cluster name c) ''temp_diff'' = None"
      "xmlGetProp (print_cluster name c) ''desc'' = (if descFlag c then Some ''1'' else None)"
    by (simp_all add: print_cluster_def)
  have states: "sm_ok (stateMap c)" using c by (simp add: printable_cluster_def)
  let ?sc = "SensorCluster_new\<lparr>stateMap := stateMap c, sensorInfolist := sensorInfolist c\<rparr>"
  have eq: "(if descFlag c then SetDescFlag True ?sc else ?sc) = c"
    using c by (simp add: printable_cluster_def SetDescFlag_def SensorCluster_new_def)
  have std: "CheckStandard c" using c by (simp add: printable_cluster_def)
  show ?thesis
    using eq std P(2)
    by (simp add: parse_cluster_def props parse_printed_states [OF states] ParseAuxSensorInfo_def ParseTempDiffInfo_def
        parse_printed_sensors [OF c P(1)] trims_flags_def Let_def split: if_splits)
qed

lemma for_each_map_fold:
  assumes "\<And>x s. x \<in> set xs \<Longrightarrow> f (h x) s = accepted (g x s)"
  shows "for_each f (map h xs) s = accepted (fold g xs s)"
  using assms by (induction xs arbitrary: s) simp_all

definition print_levels :: "(string, SensorCluster) smap \<Rightarrow> xml_node" where
  "print_levels m = element ''level'' [] (map (\<lambda>(name, c). print_cluster name c) m)"

definition printable_clusters :: "(string, SensorCluster) smap \<Rightarrow> bool" where
  "printable_clusters m \<longleftrightarrow> sm_ok m \<and> list_all (\<lambda>(_, c). printable_cluster c) m"

lemma parse_printed_levels:
  assumes m: "printable_clusters m" and P: "reads_numbers P" "trims_flags P" and s: "sv_policy s = Some p"
  shows "ParseLevelNode P U (print_levels m) s = Inr (True, s\<lparr>sv_policy := Some (p\<lparr>sensorClusterMap := m\<rparr>)\<rparr>)"
proof -
  have named: "named ''sensor_cluster'' (print_levels m) = map (\<lambda>(name, c). print_cluster name c) m"
    unfolding print_levels_def by (rule named_map) auto
  have "for_each (parse_cluster P U) (map (\<lambda>(name, c). print_cluster name c) m) [] =
      accepted (fold (\<lambda>(k, v). sm_insert k v) m [])"
    by (rule for_each_map_fold)
      (use m parse_printed_cluster [OF _ P] in \<open>auto simp: printable_clusters_def list_all_iff split_def\<close>)
  with fold_insert_append [of "[]" m] m s show ?thesis
    by (simp add: ParseLevelNode_def for_children_eq named finish_def printable_clusters_def
        ThermalPolicy_SetSensorClusterMap_def)
qed

section \<open>States, actions and the idle condition\<close>

definition print_state_item :: "StateItem \<Rightarrow> xml_node" where
  "print_state_item si =
     element ''item'' ((''name'', si_name si) # (if si_isExistParam si then [(''param'', si_params si)] else [])) []"

definition print_action_item :: "ActionItem \<Rightarrow> xml_node" where
  "print_action_item ai =
     element ''item'' [(''name'', ai_name ai), (''param'', ai_params ai), (''uid'', ai_uid ai), (''protocol'', ai_protocol ai),
       (''strict'', flag (ai_strict ai)), (''event'', flag (ai_enableEvent ai))] []"

text \<open>An element that holds a text.\<close>

definition print_idle :: "IdleState \<Rightarrow> xml_node" where
  "print_idle i =
     element ''idle'' []
       [text_element ''thermallevel'' [] (to_string_int (idle_level i)), text_element ''soc'' [] (to_string_int (idle_soc i)),
        text_element ''charging'' [] (to_string_int (idle_charging i)), text_element ''current'' [] (to_string_int (idle_current i))]"

lemma for_each_map_append:
  assumes "\<And>x. x \<in> set xs \<Longrightarrow> g (h x) = accepted x"
  shows "for_each (\<lambda>n items. bindp (g n) (\<lambda>i. accepted (items @ [i]))) (map h xs) s = accepted (s @ xs)"
  using assms by (induction xs arbitrary: s) simp_all

lemma parse_printed_state_item:
  "\<not> si_isExistParam si \<longrightarrow> si_params si = [] \<Longrightarrow> parse_state_item (print_state_item si) = accepted si"
  by (auto simp: parse_state_item_def print_state_item_def Let_def)

lemma parse_printed_action_item:
  "trims_flags P \<Longrightarrow> parse_action_item P (print_action_item ai) = accepted ai"
  by (simp add: parse_action_item_def print_action_item_def ParseActionInfo_def ActionItem_new_def Let_def trims_flags_def
      flag_def)

lemma parse_printed_states_section:
  assumes "list_all (\<lambda>si. \<not> si_isExistParam si \<longrightarrow> si_params si = []) items" and "sv_state s"
  shows "ParseStateNode (element ''state'' [] (map print_state_item items)) s = Inr (True, upd_world (\<lambda>w. w\<lparr>vState := items\<rparr>) s)"
proof -
  have "named ''item'' (element ''state'' [] (map print_state_item items)) = map print_state_item items"
    by (rule named_map) (simp add: print_state_item_def)
  then show ?thesis
    using assms for_each_map_append [of items parse_state_item print_state_item "[]"] parse_printed_state_item
    by (simp add: ParseStateNode_def for_children_eq finish_def StateMachine_SetStateItem_def [abs_def] list_all_iff)
qed

lemma parse_printed_actions_section:
  assumes "trims_flags P" and "sv_actionMgr s = Some mgr"
  shows "ParseActionNode P (element ''action'' [] (map print_action_item items)) s =
    Inr (True, s\<lparr>sv_actionMgr := Some (mgr\<lparr>vActionItem := items\<rparr>)\<rparr>)"
proof -
  have "named ''item'' (element ''action'' [] (map print_action_item items)) = map print_action_item items"
    by (rule named_map) (simp add: print_action_item_def)
  then show ?thesis
    using assms for_each_map_append [of items "parse_action_item P" print_action_item "[]"] parse_printed_action_item
    by (simp add: ParseActionNode_def for_children_eq finish_def ThermalActionManager_SetActionItem_def)
qed

definition idle_in_range :: "IdleState \<Rightarrow> bool" where
  "idle_in_range i \<longleftrightarrow> int32_range (idle_level i) \<and> int32_range (idle_soc i) \<and> int32_range (idle_charging i) \<and>
     int32_range (idle_current i)"

lemma parse_printed_idle:
  assumes "reads_numbers P" and "idle_in_range i" and "sv_state s"
  shows "ParseIdleNode P U (print_idle i) s = Inr (True, upd_world (\<lambda>w. w\<lparr>idleStateConfig := i\<rparr>) s)"
  using assms
  by (cases i; cases "un_IdleState U")
    (simp add: ParseIdleNode_def print_idle_def parse_idle_item_def text_element_def xmlNodeGetContent_def Let_def
      reads_numbers_def idle_in_range_def StateMachine_SetIdleStateConfig_def [abs_def])

section \<open>Policies\<close>

definition print_policy_action :: "PolicyAction \<Rightarrow> xml_node" where
  "print_policy_action pa = text_element (pa_actionName pa) (pa_actionPropMap pa) (pa_actionValue pa)"

definition print_policy :: "string \<times> PolicyConfig \<Rightarrow> xml_node" where
  "print_policy = (\<lambda>(name, cfg).
     element ''config'' [(''name'', name), (''level'', to_dec (pc_level cfg))] (map print_policy_action (pc_policyActionList cfg)))"

definition printable_policy_action :: "PolicyAction \<Rightarrow> bool" where
  "printable_policy_action pa \<longleftrightarrow> pa_actionName pa \<noteq> ''comment'' \<and> sm_ok (pa_actionPropMap pa) \<and>
     pa_isProp pa = (pa_actionPropMap pa \<noteq> [])"

definition printable_policies :: "(string, PolicyConfig list) smap \<Rightarrow> bool" where
  "printable_policies m \<longleftrightarrow> sm_ok m \<and>
     list_all (\<lambda>(_, cfgs). cfgs \<noteq> [] \<and>
       list_all (\<lambda>cfg. pc_level cfg < 2 ^ 32 \<and> list_all printable_policy_action (pc_policyActionList cfg)) cfgs) m"

definition print_policies :: "(string, PolicyConfig list) smap \<Rightarrow> xml_node" where
  "print_policies m = element ''policy'' [] (map print_policy (concat (map (\<lambda>(name, cfgs). map (Pair name) cfgs) m)))"

lemma action_props_loop:
  assumes "\<And>n v. (n, v) \<in> set ps \<Longrightarrow> xmlGetProp sub n = Some v"
  shows "action_prop_loop sub (map (\<lambda>(n, v). (n, Some v)) ps) pa =
    Some (pa\<lparr>pa_actionPropMap := fold (\<lambda>(k, v). sm_insert k v) ps (pa_actionPropMap pa),
             pa_isProp := (pa_isProp pa \<or> ps \<noteq> [])\<rparr>)"
  using assms
proof (induction ps arbitrary: pa)
  case (Cons p ps)
  obtain n v where p: "p = (n, v)" by (cases p)
  have v: "xmlGetProp sub n = Some v" by (rule Cons.prems) (simp add: p)
  have IH: "action_prop_loop sub (map (\<lambda>(n, v). (n, Some v)) ps) pa =
    Some (pa\<lparr>pa_actionPropMap := fold (\<lambda>(k, v). sm_insert k v) ps (pa_actionPropMap pa),
             pa_isProp := (pa_isProp pa \<or> ps \<noteq> [])\<rparr>)" for pa
    by (rule Cons.IH) (rule Cons.prems, simp)
  show ?case by (simp add: p v IH)
qed simp

lemma policy_actions_loop:
  "list_all printable_policy_action pas \<Longrightarrow> policy_action_loop (map print_policy_action pas) actions = (True, actions @ pas)"
proof (induction pas arbitrary: actions)
  case (Cons pa pas)
  from Cons.prems have pa: "printable_policy_action pa" by simp
  have "xmlGetProp (print_policy_action pa) n = Some v" if "(n, v) \<in> set (pa_actionPropMap pa)" for n v
    using that pa sm_find_mem by (fastforce simp: print_policy_action_def printable_policy_action_def)
  from action_props_loop [of "pa_actionPropMap pa", OF this]
    fold_insert_append [of "[]" "pa_actionPropMap pa"] pa
  show ?case
    using Cons by (cases "pa_actionPropMap pa = []")
      (simp_all add: print_policy_action_def printable_policy_action_def Let_def)
qed simp

lemma parse_printed_policy:
  assumes "pc_level cfg < 2 ^ 32" and "list_all printable_policy_action (pc_policyActionList cfg)"
  shows "parse_policy_config U (print_policy (name, cfg)) m =
    accepted (case sm_find m name of None \<Rightarrow> sm_insert name [cfg] m | Some l \<Rightarrow> sm_assign name (l @ [cfg]) m)"
  using policy_actions_loop [OF assms(2), of "[]"] assms(1)
  by (cases cfg)
    (simp add: parse_policy_config_def print_policy_def level_of_to_dec ParsePolicyActionInfo_def Let_def split: option.split)

definition add_policy :: "string \<times> PolicyConfig \<Rightarrow> (string, PolicyConfig list) smap \<Rightarrow> (string, PolicyConfig list) smap" where
  "add_policy = (\<lambda>(name, cfg) m.
     case sm_find m name of None \<Rightarrow> sm_insert name [cfg] m | Some l \<Rightarrow> sm_assign name (l @ [cfg]) m)"

lemma sm_assign_last: "\<forall>k' \<in> fst ` set m. k' < k \<Longrightarrow> sm_assign k v (m @ [(k, u)]) = m @ [(k, v)]"
  by (induction k v m rule: sm_assign.induct) (auto dest: less_not_sym)

lemma add_policies_of_name:
  assumes "\<forall>k' \<in> fst ` set m. k' < name"
  shows "fold add_policy (map (Pair name) cfgs) (m @ [(name, l)]) = m @ [(name, l @ cfgs)]"
proof (induction cfgs arbitrary: l)
  case (Cons cfg cfgs)
  have "sm_find m name = None" using assms by (force simp: map_of_eq_None_iff)
  then show ?case using Cons.IH [of "l @ [cfg]"] by (simp add: add_policy_def sm_assign_last [OF assms] map_add_def)
qed simp

lemma add_policies_in_order:
  "sm_ok (m @ pcm) \<Longrightarrow> list_all (\<lambda>(_, cfgs). cfgs \<noteq> []) pcm \<Longrightarrow>
     fold add_policy (concat (map (\<lambda>(name, cfgs). map (Pair name) cfgs) pcm)) m = m @ pcm"
proof (induction pcm arbitrary: m)
  case (Cons e pcm)
  obtain name cfgs where e: "e = (name, cfgs)" by (cases e)
  with Cons.prems(2) obtain cfg rest where cfgs: "cfgs = cfg # rest" by (cases cfgs) auto
  from Cons.prems(1) e have less: "\<forall>k' \<in> fst ` set m. k' < name" by (auto dest: sm_ok_append_Cons)
  then have new: "sm_find m name = None" by (force simp: map_of_eq_None_iff)
  have "fold add_policy (map (Pair name) cfgs) m = m @ [(name, cfgs)]"
    using add_policies_of_name [OF less, of rest "[cfg]"]
    by (simp add: cfgs add_policy_def new sm_insert_append [OF less])
  with Cons.IH [of "m @ [(name, cfgs)]"] Cons.prems show ?case by (simp add: e)
qed simp

lemma parse_printed_policies:
  assumes m: "printable_policies m" and s: "sv_policy s = Some p"
  shows "ParsePolicyNode U (print_policies m) s = Inr (True, s\<lparr>sv_policy := Some (p\<lparr>clusterPolicyMap := m\<rparr>)\<rparr>)"
proof -
  let ?l = "concat (map (\<lambda>(name, cfgs). map (Pair name) cfgs) m)"
  have named: "named ''config'' (print_policies m) = map print_policy ?l"
    unfolding print_policies_def by (rule named_map) (auto simp: print_policy_def)
  have "for_each (parse_policy_config U) (map print_policy ?l) [] = accepted (fold add_policy ?l [])"
  proof (rule for_each_map_fold)
    fix x and pcm :: "(string, PolicyConfig list) smap"
    assume "x \<in> set ?l"
    then obtain name cfgs cfg where "(name, cfgs) \<in> set m" "cfg \<in> set cfgs" "x = (name, cfg)" by auto
    with m have x: "x = (name, cfg)" "pc_level cfg < 2 ^ 32" "list_all printable_policy_action (pc_policyActionList cfg)"
      by (auto simp: printable_policies_def list_all_iff)
    show "parse_policy_config U (print_policy x) pcm = accepted (add_policy x pcm)"
      unfolding x(1) parse_printed_policy [OF x(2,3)] by (simp add: add_policy_def)
  qed
  also have "fold add_policy ?l [] = m"
    using add_policies_in_order [of "[]" m] m by (simp add: printable_policies_def list_all_iff split_def)
  finally show ?thesis
    using s by (simp add: ParsePolicyNode_def for_children_eq named finish_def ThermalPolicy_SetPolicyMap_def)
qed

section \<open>Base information and fan faults\<close>

definition print_base :: "(string, string) smap \<Rightarrow> xml_node" where
  "print_base m = element ''base'' [] (map (\<lambda>(tag, v). element ''item'' [(''tag'', tag), (''value'', v)] []) m)"

definition printable_base :: "(string, string) smap \<Rightarrow> bool" where
  "printable_base m \<longleftrightarrow> sm_ok m \<and> sm_find m ''sim_tz'' \<in> {None, Some [], Some ''0'', Some ''1''}"

lemma parse_flags: "ParseStrtollResult ''0'' = Some 0" "ParseStrtollResult ''1'' = Some 1"
proof -
  have "strtol (to_dec n) = (int n, [], False)" if "n < 10" for n
    using scan_dec_digits [OF to_dec_nonempty to_dec_digits, of n] that by (simp add: strtol_def)
  then have "ParseStrtollResult (to_dec n) = Some (int n)" if "n < 10" for n
    using that by (simp add: ParseStrtollResult_def c_str_digits [OF to_dec_digits])
  from this [of 0] this [of 1] show "ParseStrtollResult ''0'' = Some 0" "ParseStrtollResult ''1'' = Some 1"
    by (simp_all add: to_dec_eval)
qed

lemma parse_printed_base:
  assumes m: "printable_base m" and s: "sv_baseInfo s = Some b"
  shows "ParseBaseNode (print_base m) s =
    Inr (True, SetSimulationXml (sm_find m ''sim_tz'' = Some ''1'') (s\<lparr>sv_baseInfo := Some (b\<lparr>baseItems := m\<rparr>)\<rparr>))"
proof -
  let ?print = "\<lambda>(tag, v). element ''item'' [(''tag'', tag), (''value'', v)] []"
  have named: "named ''item'' (print_base m) = map ?print m"
    unfolding print_base_def by (rule named_map) auto
  have "for_each (\<lambda>cur baseInfoMap.
      case xmlGetProp cur ''tag'' of None \<Rightarrow> rejected | Some tag \<Rightarrow>
      case xmlGetProp cur ''value'' of None \<Rightarrow> rejected | Some v \<Rightarrow> accepted (sm_insert tag v baseInfoMap))
      (map ?print m) [] = accepted (fold (\<lambda>(k, v). sm_insert k v) m [])"
    by (rule for_each_map_fold) (auto simp: split_def)
  with fold_insert_append [of "[]" m] m s show ?thesis
    by (auto simp: ParseBaseNode_def for_children_eq named printable_base_def Let_def parse_flags
        ThermalConfigBaseInfo_SetBaseInfo_def)
qed

definition print_fan_fault :: "int \<times> FanSensorInfo \<Rightarrow> xml_node" where
  "print_fan_fault = (\<lambda>(fault, config).
     element ''sensor_cluster'' [(''sensor'', join_with CHR '','' (map fst config))]
       [element ''item'' [(''fault'', to_string_int fault),
          (''threshold'', join_with CHR '','' (map (\<lambda>(_, t). to_string_int t) config))] []])"

definition print_fan :: "FanFaultInfoMap \<Rightarrow> xml_node" where
  "print_fan m = element ''fan'' [] (map print_fan_fault m)"

definition printable_fan :: "FanFaultInfoMap \<Rightarrow> bool" where
  "printable_fan m \<longleftrightarrow> sm_ok m \<and>
     list_all (\<lambda>(fault, config). int32_range fault \<and> sm_ok config \<and>
       list_all (\<lambda>(sensor, t). list_name sensor \<and> int32_range t) config) m"

lemma fan_thresholds_fold:
  assumes "reads_numbers P" and "list_all (\<lambda>(sensor, t). int32_range t) config"
  shows "fold (\<lambda>(sensor, t). sm_insert sensor (or_keep (StrToInt P t) u))
      (zip (map fst config) (map (\<lambda>(_, t). to_string_int t) config)) m = fold (\<lambda>(k, v). sm_insert k v) config m"
  using assms by (induction config arbitrary: m) (auto simp: reads_numbers_def)

lemma parse_printed_fan:
  assumes m: "printable_fan m" and P: "reads_numbers P" and s: "sv_fanFaultDetect s = Some old"
  shows "ParseFanNode P U (print_fan m) s = Inr (True, s\<lparr>sv_fanFaultDetect := Some m\<rparr>)"
proof -
  let ?f = "\<lambda>cur faults. case xmlGetProp cur ''sensor'' of None \<Rightarrow> rejected
      | Some str \<Rightarrow> bindr (SplitString str [] '','') (\<lambda>sensors. ParseFanFaultInfo P U cur sensors faults)"
  have named: "named ''sensor_cluster'' (print_fan m) = map print_fan_fault m"
    unfolding print_fan_def by (rule named_map) (auto simp: print_fan_fault_def)
  have "for_each ?f (map print_fan_fault m) [] = accepted (fold (\<lambda>(k, v). sm_insert k v) m [])"
  proof (rule for_each_map_fold)
    fix x and faults :: FanFaultInfoMap
    assume x: "x \<in> set m"
    obtain fault config where e: "x = (fault, config)" by (cases x)
    with x m have c: "int32_range fault" "sm_ok config" "list_all (\<lambda>(s, t). list_name s \<and> int32_range t) config"
      by (auto simp: printable_fan_def list_all_iff)
    have n: "list_all list_name (map fst config)" "list_all (\<lambda>(s, t). int32_range t) config"
        "list_all list_name (map (\<lambda>(_, t). to_string_int t) config)"
      using c(3) by (auto simp: list_all_iff list_name_int)
    show "?f (print_fan_fault x) faults = accepted ((\<lambda>(k, v). sm_insert k v) x faults)"
      using fan_thresholds_fold [OF P n(2), of _ "[]"] fold_insert_append [of "[]" config] c P
      by (simp add: print_fan_fault_def e split_joined [OF n(1)] split_joined [OF n(3)] ParseFanFaultInfo_def for_children_eq
          parse_fan_item_def reads_numbers_def Let_def)
  qed
  with fold_insert_append [of "[]" m] m s show ?thesis
    by (simp add: ParseFanNode_def for_children_eq named finish_def FanFaultDetect_SetFaultInfoMap_def printable_fan_def)
qed

section \<open>A whole configuration\<close>

record config =
  cfg_base :: "(string, string) smap"
  cfg_clusters :: "(string, SensorCluster) smap"
  cfg_states :: "StateItem list"
  cfg_actions :: "ActionItem list"
  cfg_policies :: "(string, PolicyConfig list) smap"
  cfg_idle :: IdleState
  cfg_faults :: FanFaultInfoMap

definition print_config :: "config \<Rightarrow> xml_node" where
  "print_config cfg = element ''thermal'' []
     [print_base (cfg_base cfg), print_levels (cfg_clusters cfg),
      element ''state'' [] (map print_state_item (cfg_states cfg)),
      element ''action'' [] (map print_action_item (cfg_actions cfg)),
      print_policies (cfg_policies cfg), print_idle (cfg_idle cfg), print_fan (cfg_faults cfg)]"

definition printable_config :: "config \<Rightarrow> bool" where
  "printable_config cfg \<longleftrightarrow> printable_base (cfg_base cfg) \<and> printable_clusters (cfg_clusters cfg) \<and>
     list_all (\<lambda>si. \<not> si_isExistParam si \<longrightarrow> si_params si = []) (cfg_states cfg) \<and>
     printable_policies (cfg_policies cfg) \<and> idle_in_range (cfg_idle cfg) \<and> printable_fan (cfg_faults cfg)"

definition holds_config :: "config \<Rightarrow> thermal_service \<Rightarrow> bool" where
  "holds_config cfg s \<longleftrightarrow>
     map_option baseItems (sv_baseInfo s) = Some (cfg_base cfg) \<and>
     map_option sensorClusterMap (sv_policy s) = Some (cfg_clusters cfg) \<and>
     map_option clusterPolicyMap (sv_policy s) = Some (cfg_policies cfg) \<and>
     map_option vActionItem (sv_actionMgr s) = Some (cfg_actions cfg) \<and>
     vState (sv_world s) = cfg_states cfg \<and> idleStateConfig (sv_world s) = cfg_idle cfg \<and>
     sv_fanFaultDetect s = Some (cfg_faults cfg) \<and>
     isSimulation (sv_world s) = (sm_find (cfg_base cfg) ''sim_tz'' = Some ''1'')"

lemma section_names [simp]:
  "xml_name (print_base m) = ''base''" "xml_name (print_levels l) = ''level''" "xml_name (print_policies q) = ''policy''"
  "xml_name (print_idle i) = ''idle''" "xml_name (print_fan f) = ''fan''"
  by (simp_all add: print_base_def print_levels_def print_policies_def print_idle_def print_fan_def)

section \<open>An example\<close>

definition sample_source_of :: "xml_node \<Rightarrow> config_source" where
  "sample_source_of rootNode = (sample_source rootNode)\<lparr>xmlReadFile := (\<lambda>_. Some (Some rootNode))\<rparr>"

definition sample_config :: config where
  "sample_config = \<lparr>
     cfg_base = [(''history_temp_count'', ''60''), (''sim_tz'', ''1'')],
     cfg_clusters = [(''base'', SensorCluster_new\<lparr>descFlag := True, stateMap := [(''screen'', ''1'')], sensorInfolist :=
       [(''battery'', [\<lparr>threshold = -10000, thresholdClr = -8000, tempRiseRate = NO_RISE_RATE, level = 1\<rparr>]),
        (''soc'', [\<lparr>threshold = -5000, thresholdClr = -4000, tempRiseRate = NO_RISE_RATE, level = 1\<rparr>])]\<rparr>)],
     cfg_states = [\<lparr>si_name = ''screen'', si_params = [], si_isExistParam = False\<rparr>],
     cfg_actions = [\<lparr>ai_name = ''thermallevel'', ai_params = [], ai_uid = [], ai_protocol = [], ai_strict = True,
       ai_enableEvent = False\<rparr>],
     cfg_policies = [(''base'', [\<lparr>pc_level = 1, pc_policyActionList =
       [\<lparr>pa_actionName = ''thermallevel'', pa_actionValue = ''2'', pa_actionPropMap = [], pa_isProp = False\<rparr>]\<rparr>])],
     cfg_idle = \<lparr>idle_level = 1, idle_soc = 50, idle_charging = 0, idle_current = 1000\<rparr>,
     cfg_faults = [(1, [(''fan1'', 3000)])]\<rparr>"

lemma printable_sample: "printable_config sample_config"
  by (simp add: printable_config_def sample_config_def printable_base_def printable_clusters_def printable_cluster_def
      printable_policies_def printable_policy_action_def idle_in_range_def printable_fan_def list_name_def int32_range_def
      sm_ok_def CheckStandard_def levels_in_order_def cluster_size_def SensorCluster_new_def SetDescFlag_def)

lemma sample_config_document: "config_root (sample_source_of n) path = Some n"
  by (simp add: config_root_def sample_source_of_def sample_source_def DecryptConfig_def)

section \<open>Properties\<close>



text \<open>
  The parser does not look at the result of reading a threshold: a cluster whose threshold
  is no number is accepted, and the level it guards has whatever the memory of the item held.
\<close>

theorem unreadable_threshold_accepted:
  assumes "StrToInt P t = None" and "list_name t" and "StrToInt P ''38'' = Some 38"
  shows "parse_cluster P U
      (element ''sensor_cluster'' [(''name'', ''base''), (''sensor'', ''soc'')]
        [element ''item'' [(''level'', ''1''), (''threshold'', t), (''threshold_clr'', ''38'')] []]) [] =
    accepted [(''base'', SensorCluster_new\<lparr>sensorInfolist :=
      [(''soc'', [\<lparr>threshold = threshold (un_LevelItem U), thresholdClr = 38, tempRiseRate = NO_RISE_RATE, level = 1\<rparr>])]\<rparr>)]"
proof -
  have "SplitString t [] '','' = Inr [t]" using assms(2) by (simp add: SplitString_spaceless list_name_def)
  then show ?thesis
    using assms(1,3)
    by (simp add: parse_cluster_def ParseLevelState_def for_children_eq ParseAuxSensorInfo_def
      ParseSensorInfo_def ParseSensorLevelInfo_def ParseLevelThreshold_def ParseTempDiffInfo_def
      SplitString_spaceless sample_level SetSensorLevelInfo_def CheckStandard_def levels_in_order_def
      SensorCluster_new_def)
qed

theorem unreadable_threshold_accepted_witness:
  "\<exists>c. parse_cluster number_platform sample_uninit
      (element ''sensor_cluster'' [(''name'', ''base''), (''sensor'', ''soc'')]
        [element ''item'' [(''level'', ''1''), (''threshold'', ''4O''), (''threshold_clr'', ''38'')] []]) [] =
    accepted [(''base'', c)]"
  using unreadable_threshold_accepted [of number_platform "''4O''" sample_uninit]
  by (simp add: number_platform_def list_name_def)

text \<open>A space in the list of sensors of a cluster: the parser never comes back.\<close>

theorem spaced_sensor_list_hangs:
  assumes "xmlGetProp cur ''sensor'' = Some v" and "CHR '' '' \<in> set v"
  shows "ParseSensorInfo P U cur sc = Inl NoReturn"
  using assms by (simp add: ParseSensorInfo_def SplitString_eq)

end
