(* ===== verification/Float_Actions.thy ===== *)
theory Float_Actions
  imports Action_Proofs
begin

text \<open>
  What the two actions with \<open>float\<close> values do: how far what they applied last can be from what
  they decided, and which streams a request for a volume reaches.
\<close>

section \<open>Following the decision\<close>

definition float_kind :: "action_kind \<Rightarrow> bool" where
  "float_kind k \<longleftrightarrow> k = KDisplay \<or> k = KVolume"

text \<open>The effect of a value, by the kind of the action and whether the configuration is simulated.\<close>

definition float_request :: "action_kind \<Rightarrow> bool \<Rightarrow> int \<Rightarrow> effect" where
  "float_request k simulated v =
     (if simulated then WriteFile (config_dir @ (if k = KDisplay then ''lcd'' else ''volume'')) (to_string_float v @ NEWLINE)
      else if k = KDisplay then DiscountBrightness v else VolumeRequest v)"

lemma float_class_of:
  assumes "float_kind k"
  shows "cls_parse (class_of strtof k) = (\<lambda>s. Some (strtof (c_str s)))" and "cls_result (class_of strtof k) = id"
    and "cls_fallback (class_of strtof k) a = FLOAT_ONE" and "cls_differs (class_of strtof k) = float_differs"
    and "cls_print (class_of strtof k) = to_string_float"
    and "cls_apply (class_of strtof k) P v a w = WriteActionTriggeredHiSysEventWithRatio (enableEvent a) (actionName a) v
      (emit (float_request k (isSimulation w) v) w)"
  using assms
  by (auto simp: float_kind_def float_request_def ActionDisplay_def ActionVolume_def float_class_def
      ActionDisplay_RequestDisplay_def ActionDisplay_ExecuteMock_def ActionVolume_VolumeExecution_def)

text \<open>The factor that a list of values decides on: full brightness or volume if there is none.\<close>

definition decided_factor :: "(string \<Rightarrow> int) \<Rightarrow> bool \<Rightarrow> string list \<Rightarrow> int" where
  "decided_factor strtof strict vals =
     (let fs = map (\<lambda>s. strtof (c_str s)) (filter (\<lambda>s. s \<noteq> []) vals)
      in if fs = [] then FLOAT_ONE else if strict then Min (set fs) else Max (set fs))"

lemma parsed_floats:
  "float_kind k \<Longrightarrow> parsed (class_of strtof k) vals = map (\<lambda>s. strtof (c_str s)) (filter (\<lambda>s. s \<noteq> []) vals)"
  by (induction vals) (simp_all add: parsed_def float_class_of(1))

lemma float_round:
  fixes strtof vals
  assumes "float_kind k" and "idle_action a"
  defines "v \<equiv> decided_factor strtof (isStrict a) vals"
  shows "action_round (class_of strtof k) P vals (a, w) =
    (a\<lparr>lastValue := if float_differs v (lastValue a) then v else lastValue a\<rparr>,
     if float_differs v (lastValue a)
     then tell_observer (ThermalObserver_SetDecisionValue (actionName a) (to_string_float v))
            (WriteActionTriggeredHiSysEventWithRatio (enableEvent a) (actionName a) v
              (emit (float_request k (isSimulation w) v) w))
     else w)"
proof -
  let ?cls = "class_of strtof k"
  have decided: "GetActionValue ?cls (push_completed ?cls (a\<lparr>valueList := parsed ?cls vals\<rparr>)) = v"
    using assms(2) by (auto simp: GetActionValue_def push_completed_def idle_action_def parsed_floats [OF assms(1)]
        float_class_of [OF assms(1)] v_def decided_factor_def Let_def)
  show ?thesis
    unfolding action_impl.action_round_eq [OF class_of_impl assms(2)] decided
    by (simp add: float_class_of [OF assms(1)])
qed

section \<open>Volume\<close>

text \<open>The streams of the users that the configuration names, in the order of the audio framework.\<close>

definition own_streams :: "int list \<Rightarrow> (int \<times> int) list \<Rightarrow> int list" where
  "own_streams uids infos = map snd (filter (\<lambda>(uid, stream). uid \<in> set uids) infos)"

lemma volume_loop_eq:
  "volume_loop A (map to_string_int uids) v infos =
     (let ok = (\<lambda>stream. 0 \<le> SetLowPowerVolume A stream v); own = own_streams uids infos
      in (case dropWhile ok own of [] \<Rightarrow> 0 | stream # _ \<Rightarrow> SetLowPowerVolume A stream v,
          map (\<lambda>stream. (stream, v)) (takeWhile ok own @ take 1 (dropWhile ok own))))"
proof (induction infos)
  case (Cons info infos)
  obtain uid stream where i: "info = (uid, stream)" by (cases info)
  have "to_string_int uid \<in> to_string_int ` set uids \<longleftrightarrow> uid \<in> set uids" by (simp add: image_iff)
  with Cons.IH show ?case by (simp add: i own_streams_def Let_def)
qed (simp add: own_streams_def)

section \<open>Properties\<close>



text \<open>
  C28: a request for a volume reaches exactly the streams of the users that the configuration
  names for the action, in the order in which the audio framework lists them, up to the first that
  refuses, whose answer is the result.
\<close>

theorem volume_request_reaches_own_streams:
  assumes "find (\<lambda>info. ai_name info = ''volume'') (vActionItem mgr) = Some item"
    and "ai_uid item = join_with CHR '','' (map to_string_int uids)"
    and "StreamManager_GetInstance A" and "GetCurrentRendererChangeInfos A = (ret, infos)" and "0 \<le> ret"
  shows "ActionVolume_VolumeRequest (Some A) v mgr = Inr
    (let ok = (\<lambda>stream. 0 \<le> SetLowPowerVolume A stream v); own = own_streams uids infos
     in (case dropWhile ok own of [] \<Rightarrow> 0 | stream # _ \<Rightarrow> SetLowPowerVolume A stream v,
         map (\<lambda>stream. (stream, v)) (takeWhile ok own @ take 1 (dropWhile ok own))))"
proof -
  have "CHR '','' \<notin> set (to_dec n) \<and> CHR '' '' \<notin> set (to_dec n)" for n
    using to_dec_digits [of n] by (auto simp: is_digit_def)
  then have "CHR '','' \<notin> set (to_string_int i) \<and> CHR '' '' \<notin> set (to_string_int i) \<and> to_string_int i \<noteq> []" for i
    by (simp add: to_string_int_def)
  then have "SplitString (join_with CHR '','' (map to_string_int uids)) [] '','' = Inr (map to_string_int uids)"
    by (intro SplitString_join_roundtrip) auto
  then show ?thesis
    using assms volume_loop_eq [of A uids v infos]
    by (auto simp: ActionVolume_VolumeRequest_def own_streams_def)
qed

definition sample_audio :: audio where
  "sample_audio = \<lparr>StreamManager_GetInstance = True,
     GetCurrentRendererChangeInfos = (0, [(20010, 7), (1000, 8), (20020, 9), (20010, 10)]),
     SetLowPowerVolume = (\<lambda>stream v. if stream = 9 then - 3 else 0)\<rparr>"

definition sample_volume :: ActionManager where
  "sample_volume = \<lparr>vActionItem = [\<lparr>ai_name = ''volume'', ai_params = [],
     ai_uid = join_with CHR '','' (map to_string_int [20010, 20020]), ai_protocol = [], ai_strict = False,
     ai_enableEvent = False\<rparr>], managedActions = []\<rparr>"

theorem volume_request_reaches_own_streams_witness:
  "ActionVolume_VolumeRequest (Some sample_audio) FLOAT_ONE sample_volume = Inr (- 3, [(7, FLOAT_ONE), (9, FLOAT_ONE)])"
proof -
  obtain item where item: "find (\<lambda>info. ai_name info = ''volume'') (vActionItem sample_volume) = Some item"
    "ai_uid item = join_with CHR '','' (map to_string_int [20010, 20020])"
    by (simp add: sample_volume_def)
  have audio: "StreamManager_GetInstance sample_audio"
    "GetCurrentRendererChangeInfos sample_audio = (0, [(20010, 7), (1000, 8), (20020, 9), (20010, 10)])"
    by (simp_all add: sample_audio_def)
  from volume_request_reaches_own_streams [OF item audio, of FLOAT_ONE]
  show ?thesis by (simp add: own_streams_def sample_audio_def Let_def)
qed

end
