(* ===== verification/Action_System.thy ===== *)
theory Action_System
  imports Action_Proofs
begin

text \<open>
  What the actions do behind the shared libraries they load: \<open>app_manager_utils.cpp\<close>, which ends
  processes, the loading of it in \<open>action_application_process.cpp\<close>, the dialog of
  \<open>action_popup.cpp\<close> and the delayed shutdown of \<open>action_shutdown.cpp\<close>.

  The loader, the application manager and \<open>kill\<close> are parameters, an \<open>app_platform\<close>; each call to
  them is recorded, in order. A request of the action, the effect \<open>ProcessAppActionRequest\<close> of
  theory \<open>Thermal_Action\<close>, is carried out by \<open>run_app_requests\<close>.
\<close>

section \<open>Processes\<close>

datatype app_state = APP_STATE_FOREGROUND | APP_STATE_BACKGROUND | OtherAppState int

record process =
  processName :: string
  process_pid :: int
  process_state :: app_state

datatype app_call =
    DlOpen string
  | DlClose
  | GetAllRunningProcesses
  | Kill int                  \<comment> \<open>with the signal 9\<close>
  | KillApplication string
  | PowerStartAbility string string

record app_platform =
  dlopen_ok :: "string \<Rightarrow> bool"
  dlsym_ok :: "string \<Rightarrow> bool"
  running_processes :: "nat \<Rightarrow> process list \<Rightarrow> int \<times> process list"
    \<comment> \<open>the result of the n-th call of all, and what it makes of its argument\<close>
  kill_result :: "int \<Rightarrow> int"
  KillApplication_result :: "string \<Rightarrow> int"

record app_manager =
  allAppProcessInfos :: "process list"
  bgAppProcessInfos :: "process list"
  fgAppProcessInfos :: "process list"
  appCalls :: "app_call list"    \<comment> \<open>oldest first\<close>

definition app_call :: "app_call \<Rightarrow> app_manager \<Rightarrow> app_manager" where
  "app_call c m = m\<lparr>appCalls := appCalls m @ [c]\<rparr>"

section \<open>AppManagerUtils\<close>

definition AppManagerUtils_KillApplicationAction :: "app_platform \<Rightarrow> string \<Rightarrow> app_manager \<Rightarrow> int \<times> app_manager" where
  "AppManagerUtils_KillApplicationAction A bundleName m =
     (KillApplication_result A bundleName, app_call (KillApplication bundleName) m)"

definition AppManagerUtils_GetRunningProcessInfo :: "app_platform \<Rightarrow> process list \<Rightarrow> app_manager \<Rightarrow>
    int \<times> process list \<times> app_manager" where
  "AppManagerUtils_GetRunningProcessInfo A info m =
     (let (result, info) = running_processes A (length (appCalls m)) info
      in (result, info, app_call GetAllRunningProcesses m))"

definition AppManagerUtils_KillProcess :: "app_platform \<Rightarrow> int \<Rightarrow> app_manager \<Rightarrow> int \<times> app_manager" where
  "AppManagerUtils_KillProcess A pid m =
     (if 0 < pid then (kill_result A pid, app_call (Kill pid) m) else (- 1, m))"

text \<open>The list is not cleared before it is filled again.\<close>

definition AppManagerUtils_GetAppProcessInfoByName :: "app_platform \<Rightarrow> string \<Rightarrow> process \<Rightarrow> app_manager \<Rightarrow>
    process \<times> app_manager" where
  "AppManagerUtils_GetAppProcessInfoByName A name new m =
     (let appProcessInfo = new\<lparr>process_pid := 0\<rparr>;
          (result, info, m) = AppManagerUtils_GetRunningProcessInfo A (allAppProcessInfos m) m;
          m = m\<lparr>allAppProcessInfos := info\<rparr>
      in (if result = 0
          then case find (\<lambda>p. name = processName p) info of Some p \<Rightarrow> p | None \<Rightarrow> appProcessInfo
          else appProcessInfo, m))"

definition sort_process :: "process \<Rightarrow> app_manager \<Rightarrow> app_manager" where
  "sort_process p m =
     (if process_state p = APP_STATE_BACKGROUND then m\<lparr>bgAppProcessInfos := bgAppProcessInfos m @ [p]\<rparr>
      else if process_state p = APP_STATE_FOREGROUND then m\<lparr>fgAppProcessInfos := fgAppProcessInfos m @ [p]\<rparr>
      else m)"

definition AppManagerUtils_GetAllRunnningAppProcess :: "app_platform \<Rightarrow> app_manager \<Rightarrow> app_manager" where
  "AppManagerUtils_GetAllRunnningAppProcess A m =
     (let m = m\<lparr>allAppProcessInfos := [], bgAppProcessInfos := [], fgAppProcessInfos := []\<rparr>;
          (result, info, m) = AppManagerUtils_GetRunningProcessInfo A (allAppProcessInfos m) m;
          m = m\<lparr>allAppProcessInfos := info\<rparr>
      in if result = 0 then fold sort_process info m else m)"

text \<open>The three loops; a failure is only logged.\<close>

definition kill_each :: "app_platform \<Rightarrow> process list \<Rightarrow> app_manager \<Rightarrow> app_manager" where
  "kill_each A ps m = fold (\<lambda>p m. snd (AppManagerUtils_KillProcess A (process_pid p) m)) ps m"

definition AppManagerUtils_KillBgAppProcess :: "app_platform \<Rightarrow> app_manager \<Rightarrow> app_manager" where
  "AppManagerUtils_KillBgAppProcess A m = kill_each A (bgAppProcessInfos m) m"

definition AppManagerUtils_KillFgAppProcess :: "app_platform \<Rightarrow> app_manager \<Rightarrow> app_manager" where
  "AppManagerUtils_KillFgAppProcess A m = kill_each A (fgAppProcessInfos m) m"

definition AppManagerUtils_KillAllAppProcess :: "app_platform \<Rightarrow> app_manager \<Rightarrow> app_manager" where
  "AppManagerUtils_KillAllAppProcess A m = kill_each A (allAppProcessInfos m) m"

abbreviation (input) KILL_FG_PROCESS_APP :: int where "KILL_FG_PROCESS_APP \<equiv> 1"
abbreviation (input) KILL_BG_PROCESS_APP :: int where "KILL_BG_PROCESS_APP \<equiv> 2"
abbreviation (input) KILL_ALL_PROCESS_APP :: int where "KILL_ALL_PROCESS_APP \<equiv> 3"

definition AppManagerUtils_ProcessAppActionRequest :: "app_platform \<Rightarrow> int \<Rightarrow> app_manager \<Rightarrow> app_manager" where
  "AppManagerUtils_ProcessAppActionRequest A value m =
     (let m = AppManagerUtils_GetAllRunnningAppProcess A m
      in if value = KILL_FG_PROCESS_APP then AppManagerUtils_KillFgAppProcess A m
         else if value = KILL_BG_PROCESS_APP then AppManagerUtils_KillBgAppProcess A m
         else if value = KILL_ALL_PROCESS_APP then AppManagerUtils_KillAllAppProcess A m
         else m)"

section \<open>The loading of the libraries\<close>

abbreviation (input) THERMAL_ABILITY :: string where "THERMAL_ABILITY \<equiv> ''libthermal_ability.z.so''"
abbreviation (input) POWER_ABILITY :: string where "POWER_ABILITY \<equiv> ''libpower_ability.z.so''"

definition ActionApplicationProcess_KillApplicationAction :: "app_platform \<Rightarrow> string \<Rightarrow> app_manager \<Rightarrow> int \<times> app_manager" where
  "ActionApplicationProcess_KillApplicationAction A bundleName m =
     (let m = app_call (DlOpen THERMAL_ABILITY) m
      in if \<not> dlopen_ok A THERMAL_ABILITY then (- 1, m)
         else if \<not> dlsym_ok A ''KillApplicationAction'' then (- 1, app_call DlClose m)
         else let (ret, m) = AppManagerUtils_KillApplicationAction A bundleName m in (ret, app_call DlClose m))"

definition ActionApplicationProcess_ProcessAppActionRequest :: "app_platform \<Rightarrow> int \<Rightarrow> app_manager \<Rightarrow> app_manager" where
  "ActionApplicationProcess_ProcessAppActionRequest A value m =
     (let m = app_call (DlOpen THERMAL_ABILITY) m
      in if \<not> dlopen_ok A THERMAL_ABILITY then m
         else if \<not> dlsym_ok A ''ProcessAppActionRequest'' then app_call DlClose m
         else app_call DlClose (AppManagerUtils_ProcessAppActionRequest A value m))"

definition ActionPopup_ShowThermalDialog :: "app_platform \<Rightarrow> bool \<Rightarrow> app_manager \<Rightarrow> bool \<times> app_manager" where
  "ActionPopup_ShowThermalDialog A higher m =
     (let m = app_call (DlOpen POWER_ABILITY) m
      in if \<not> dlopen_ok A POWER_ABILITY then (False, m)
         else if \<not> dlsym_ok A ''PowerStartAbility'' then (False, app_call DlClose m)
         else let ability = (if higher then ''ThermalServiceExtAbility_high'' else ''ThermalServiceExtAbility_low'')
              in (True, app_call DlClose (app_call (PowerStartAbility ''com.ohos.powerdialog'' ability) m)))"

text \<open>The effects of the actions that these operations carry out.\<close>

fun run_app_request :: "app_platform \<Rightarrow> effect \<Rightarrow> app_manager \<Rightarrow> app_manager" where
  "run_app_request A (ProcessAppActionRequest value) m = ActionApplicationProcess_ProcessAppActionRequest A value m"
| "run_app_request A (ShowThermalDialog higher) m = snd (ActionPopup_ShowThermalDialog A higher m)"
| "run_app_request A e m = m"

definition run_app_requests :: "app_platform \<Rightarrow> effect list \<Rightarrow> app_manager \<Rightarrow> app_manager" where
  "run_app_requests A = fold (run_app_request A)"

section \<open>The delayed shutdown\<close>

datatype shutdown_call = CancelTask | SubmitDelayTask nat

text \<open>
  The file's static handle, whether it is one, and the calls of \<open>FFRTUtils\<close>. The task holds a
  reference to the parameter \<open>isShutdown\<close>, which is gone when it runs; \<open>stale\<close> is what it reads.
\<close>

record shutdown_queue =
  g_shutdownTaskHandle :: bool
  shutdownCalls :: "shutdown_call list"

definition ActionShutdown_DelayShutdown :: "bool \<Rightarrow> int \<Rightarrow> int \<Rightarrow> shutdown_queue \<Rightarrow> int \<times> shutdown_queue" where
  "ActionShutdown_DelayShutdown newHandle temp clearThreshold q =
     (if g_shutdownTaskHandle q \<and> temp < clearThreshold
      then (0, q\<lparr>shutdownCalls := shutdownCalls q @ [CancelTask]\<rparr>)
      else (0, q\<lparr>g_shutdownTaskHandle := newHandle, shutdownCalls := shutdownCalls q @ [SubmitDelayTask 50000]\<rparr>))"

definition delayed_shutdown_task :: "bool \<Rightarrow> service_world \<Rightarrow> service_world" where
  "delayed_shutdown_task stale w = ActionShutdown_ShutdownRequest stale w"

section \<open>Which processes a request ends\<close>

text \<open>
  The processes a request asks to end, from the answer of the application manager: those in front
  or in the background only if it succeeded, all of them even if it did not.
\<close>

definition requested_processes :: "int \<Rightarrow> int \<times> process list \<Rightarrow> process list" where
  "requested_processes value answer =
     (if value = KILL_ALL_PROCESS_APP then snd answer
      else if fst answer \<noteq> 0 then []
      else if value = KILL_FG_PROCESS_APP then filter (\<lambda>p. process_state p = APP_STATE_FOREGROUND) (snd answer)
      else if value = KILL_BG_PROCESS_APP then filter (\<lambda>p. process_state p = APP_STATE_BACKGROUND) (snd answer)
      else [])"

definition signals :: "process list \<Rightarrow> app_call list" where
  "signals ps = map Kill (filter (\<lambda>pid. 0 < pid) (map process_pid ps))"

definition library_loads :: "app_platform \<Rightarrow> bool" where
  "library_loads A \<longleftrightarrow> dlopen_ok A THERMAL_ABILITY \<and> dlsym_ok A ''ProcessAppActionRequest''"

lemma signals_simps [simp]:
  "signals [] = []" "signals (p # ps) = (if 0 < process_pid p then Kill (process_pid p) # signals ps else signals ps)"
  by (simp_all add: signals_def)

lemma kill_each_calls: "kill_each A ps m = m\<lparr>appCalls := appCalls m @ signals ps\<rparr>"
  by (induction ps arbitrary: m) (simp_all add: kill_each_def AppManagerUtils_KillProcess_def app_call_def)

lemma sort_processes:
  "fold sort_process ps m =
     m\<lparr>bgAppProcessInfos := bgAppProcessInfos m @ filter (\<lambda>p. process_state p = APP_STATE_BACKGROUND) ps,
       fgAppProcessInfos := fgAppProcessInfos m @ filter (\<lambda>p. process_state p = APP_STATE_FOREGROUND) ps\<rparr>"
  by (induction ps arbitrary: m) (simp_all add: sort_process_def)

lemma running_processes_sorted:
  fixes A m
  defines "answer \<equiv> running_processes A (length (appCalls m)) []"
  defines "found \<equiv> \<lambda>st. if fst answer = 0 then filter (\<lambda>p. process_state p = st) (snd answer) else []"
  shows "AppManagerUtils_GetAllRunnningAppProcess A m =
    \<lparr>allAppProcessInfos = snd answer, bgAppProcessInfos = found APP_STATE_BACKGROUND,
     fgAppProcessInfos = found APP_STATE_FOREGROUND, appCalls = appCalls m @ [GetAllRunningProcesses]\<rparr>"
  by (cases m) (simp add: AppManagerUtils_GetAllRunnningAppProcess_def AppManagerUtils_GetRunningProcessInfo_def split_def
      Let_def app_call_def sort_processes answer_def found_def)

lemma app_request_calls:
  "appCalls (AppManagerUtils_ProcessAppActionRequest A value m) = appCalls m @ GetAllRunningProcesses #
     signals (requested_processes value (running_processes A (length (appCalls m)) []))"
  by (simp add: AppManagerUtils_ProcessAppActionRequest_def running_processes_sorted kill_each_calls
      AppManagerUtils_KillFgAppProcess_def AppManagerUtils_KillBgAppProcess_def AppManagerUtils_KillAllAppProcess_def
      requested_processes_def Let_def)

lemma process_request_calls:
  "appCalls (ActionApplicationProcess_ProcessAppActionRequest A value m) = appCalls m @ DlOpen THERMAL_ABILITY #
     (if library_loads A
      then GetAllRunningProcesses #
        signals (requested_processes value (running_processes A (Suc (length (appCalls m))) [])) @ [DlClose]
      else if dlopen_ok A THERMAL_ABILITY then [DlClose] else [])"
  by (simp add: ActionApplicationProcess_ProcessAppActionRequest_def library_loads_def app_request_calls Let_def app_call_def)

fun killed_pids :: "app_call list \<Rightarrow> int list" where
  "killed_pids [] = []"
| "killed_pids (Kill pid # cs) = pid # killed_pids cs"
| "killed_pids (c # cs) = killed_pids cs"

lemma killed_pids_append [simp]: "killed_pids (cs @ ds) = killed_pids cs @ killed_pids ds"
  by (induction cs rule: killed_pids.induct) simp_all

lemma killed_signals [simp]: "killed_pids (signals ps) = filter (\<lambda>pid. 0 < pid) (map process_pid ps)"
  by (induction ps) simp_all

section \<open>Properties\<close>

text \<open>
  C29: the action on applications, given decimal values and not simulated, ends exactly the processes
  that its decided value asks for (1 those in front, 2 those in the background, 3 all), each of
  them once and in the order of the application manager, if the value is a new one; a process
  without a valid id is passed over. It depends neither on what was found running before nor on
  which signals succeed.
\<close>

theorem processes_ended_by_action:
  assumes "idle_action a" and "ns \<noteq> []" and "\<forall>n \<in> set ns. n < 2 ^ 32" and "\<not> isSimulation w" and "library_loads A"
  defines "v \<equiv> int (if isStrict a then Min (set ns) else Max (set ns))"
  shows "\<exists>w' es. action_round (class_of strtof KProcess) P (map to_dec ns) (a, w) = (a\<lparr>lastValue := v\<rparr>, w') \<and>
    effects w' = effects w @ es \<and>
    killed_pids (appCalls (run_app_requests A es m)) = killed_pids (appCalls m) @
      (if v = lastValue a then []
       else filter (\<lambda>pid. 0 < pid) (map process_pid
         (requested_processes v (running_processes A (Suc (length (appCalls m))) []))))"
proof -
  let ?es = "if v = lastValue a then []
    else ProcessAppActionRequest v # (if enableEvent a then [HiSysEvent (actionName a) (to_int32 v)] else [])"
  let ?w = "snd (action_round (class_of strtof KProcess) P (map to_dec ns) (a, w))"
  have kind: "strtol_kind KProcess" by (simp add: strtol_kind_def)
  note round = strictest_round [OF kind assms(1-3), folded v_def]
  have "effects ?w = effects w @ ?es"
    unfolding round using assms(4)
    by (simp add: ActionApplicationProcess_def uint_class_def report_value_def WriteActionTriggeredHiSysEvent_def emit_def
        tell_observer_def)
  moreover have "killed_pids (appCalls (run_app_requests A ?es m)) = killed_pids (appCalls m) @
      (if v = lastValue a then []
       else filter (\<lambda>pid. 0 < pid) (map process_pid
         (requested_processes v (running_processes A (Suc (length (appCalls m))) []))))"
    using assms(5) by (simp add: run_app_requests_def process_request_calls)
  ultimately show ?thesis by (intro exI [of _ ?w] exI [of _ ?es]) (simp only: round fst_conv snd_conv simp_thms)
qed

definition sample_processes :: "process list" where
  "sample_processes = [\<lparr>processName = ''game'', process_pid = 31, process_state = APP_STATE_FOREGROUND\<rparr>,
     \<lparr>processName = ''sync'', process_pid = 32, process_state = APP_STATE_BACKGROUND\<rparr>]"

definition sample_app_platform :: app_platform where
  "sample_app_platform = \<lparr>dlopen_ok = (\<lambda>_. True), dlsym_ok = (\<lambda>_. True), running_processes = (\<lambda>_ ps. (0, ps @ sample_processes)),
     kill_result = (\<lambda>_. 0), KillApplication_result = (\<lambda>_. 0)\<rparr>"

definition idle_app_manager :: app_manager where
  "idle_app_manager = \<lparr>allAppProcessInfos = [], bgAppProcessInfos = [], fgAppProcessInfos = [], appCalls = []\<rparr>"

theorem processes_ended_by_action_witness:
  "\<exists>a' w' es. action_round ActionApplicationProcess sample_platform (map to_dec [2, 1])
      (new_action ActionApplicationProcess ''process_ctrl'', sample_world) = (a', w') \<and> effects w' = effects sample_world @ es \<and>
    killed_pids (appCalls (run_app_requests sample_app_platform es idle_app_manager)) = [31]"
proof -
  let ?a = "new_action ActionApplicationProcess ''process_ctrl''"
  have a: "idle_action ?a" "isStrict ?a" "lastValue ?a = 0"
    by (simp_all add: idle_action_def new_action_def ActionApplicationProcess_def uint_class_def)
  have w: "\<not> isSimulation sample_world" by (simp add: sample_world_def)
  have lib: "library_loads sample_app_platform" by (simp add: library_loads_def sample_app_platform_def)
  have ended: "filter (\<lambda>pid. 0 < pid) (map process_pid
      (requested_processes 1 (running_processes sample_app_platform n []))) = [31]" for n
    by (simp add: requested_processes_def sample_app_platform_def sample_processes_def)
  from processes_ended_by_action [OF a(1) _ _ w lib, of "[2, 1]" sample_strtof sample_platform idle_app_manager]
  obtain w' es where
    "action_round (class_of sample_strtof KProcess) sample_platform (map to_dec [2, 1]) (?a, sample_world) = (?a\<lparr>lastValue := 1\<rparr>, w')"
    "effects w' = effects sample_world @ es"
    "killed_pids (appCalls (run_app_requests sample_app_platform es idle_app_manager)) = [31]"
    by (auto simp: a(2,3) ended idle_app_manager_def simp del: list.map)
  then show ?thesis by (simp del: list.map)
qed

text \<open>
  A failed answer of the application manager that still names processes ends them if all are
  asked for, and none if only those in front are.
\<close>

lemma failed_answer_ends_all:
  assumes "running_processes A (length (appCalls m)) [] = (res, ps)" and "res \<noteq> 0"
  shows "appCalls (AppManagerUtils_ProcessAppActionRequest A KILL_ALL_PROCESS_APP m) = appCalls m @ GetAllRunningProcesses # signals ps"
    and "appCalls (AppManagerUtils_ProcessAppActionRequest A KILL_FG_PROCESS_APP m) = appCalls m @ [GetAllRunningProcesses]"
  using assms by (simp_all add: app_request_calls requested_processes_def)

end
