(* ===== verification/File_Operation.thy ===== *)
theory File_Operation
  imports Action_Proofs
begin

text \<open>
  \<open>utils/native/src/file_operation.cpp\<close>: the nodes that the actions write and that a simulated
  configuration is observed through.

  A \<open>node_store\<close> is what the paths name: directories and regular files. \<open>posix\<close> says which calls
  of the C library succeed and how many bytes a file can take; a failing call changes nothing but
  what it has already written. A buffer is a list as long as the memory it has; to leave it is an
  error. The effects \<open>WriteFile\<close> and \<open>CreateNodeFile\<close> of the actions are carried out by
  \<open>run_file_effects\<close>.
\<close>

section \<open>The store\<close>

datatype node = Directory | Regular string

type_synonym node_store = "(string, node) smap"

record posix =
  mkdir_result :: "string \<Rightarrow> int"
  create_result :: "string \<Rightarrow> int"        \<comment> \<open>of \<open>open\<close> with \<open>O_CREAT\<close>: a descriptor or negative\<close>
  fopen_ok :: "string \<Rightarrow> bool"
  disk_takes :: "string \<Rightarrow> nat"
  fseek_result :: "string \<Rightarrow> int"
  fclose_result :: "string \<Rightarrow> int"
  open_result :: "string \<Rightarrow> int"          \<comment> \<open>for reading\<close>
  read_fails :: "string \<Rightarrow> bool"
  ERR_INVALID :: int                      \<comment> \<open>\<open>ERR_INVALID_VALUE\<close> of \<open>errors.h\<close>\<close>

section \<open>The operations\<close>

definition FileOperation_CreateNodeDir :: "posix \<Rightarrow> string \<Rightarrow> node_store \<Rightarrow> int \<times> node_store" where
  "FileOperation_CreateNodeDir X dir st =
     (if sm_find st (c_str dir) = None
      then let flag = mkdir_result X (c_str dir)
           in if flag = 0 then (0, sm_assign (c_str dir) Directory st) else (flag, st)
      else (0, st))"

definition FileOperation_CreateNodeFile :: "posix \<Rightarrow> string \<Rightarrow> node_store \<Rightarrow> int \<times> node_store" where
  "FileOperation_CreateNodeFile X filePath st =
     (if sm_find st (c_str filePath) = None
      then let fd = create_result X (c_str filePath)
           in if fd < 0 then (fd, st) else (0, sm_assign (c_str filePath) (Regular []) st)
      else (0, st))"

text \<open>The parameter \<open>size\<close> is not used, and a short write only logged.\<close>

definition FileOperation_WriteFile :: "posix \<Rightarrow> string \<Rightarrow> string \<Rightarrow> node_store \<Rightarrow> int \<times> node_store" where
  "FileOperation_WriteFile X path buf st =
     (let p = c_str path
      in if \<not> fopen_ok X p \<or> sm_find st p = Some Directory then (ERR_INVALID X, st)
         else let st = sm_assign p (Regular (take (disk_takes X p) (c_str buf))) st;
                  state = fseek_result X p
              in if state \<noteq> 0 then (state, st)
                 else let state = fclose_result X p in (if state \<noteq> 0 then state else 0, st))"

text \<open>Only the bytes that are read are replaced, and the last one of the buffer.\<close>

definition FileOperation_ReadFile :: "posix \<Rightarrow> string \<Rightarrow> string \<Rightarrow> nat \<Rightarrow> node_store \<Rightarrow> (int \<times> string) result" where
  "FileOperation_ReadFile X path buf sz st =
     (let p = c_str path
      in case sm_find st p of
           None \<Rightarrow> Inr (- 1, buf)
         | Some nd \<Rightarrow>
             if open_result X p < 0 then Inr (open_result X p, buf)
             else case nd of
                 Directory \<Rightarrow> Inr (- 1, buf)
               | Regular content \<Rightarrow>
                   if read_fails X p then Inr (- 1, buf)
                   else let got = take sz content
                        in if length buf < length got then Inl UndefinedIndex
                           else let buf = got @ drop (length got) buf;
                                    i = (if 0 < sz then sz - 1 else 0)
                                in if i < length buf then Inr (0, buf[i := CHR 0x00]) else Inl UndefinedIndex)"

definition FileOperation_ConvertInt :: "posix \<Rightarrow> string \<Rightarrow> int" where
  "FileOperation_ConvertInt X value =
     (case ParseStrtollResult value of None \<Rightarrow> ERR_INVALID X | Some r \<Rightarrow> to_int32 r)"

fun run_file_effect :: "posix \<Rightarrow> effect \<Rightarrow> node_store \<Rightarrow> node_store" where
  "run_file_effect X (WriteFile path s) st = snd (FileOperation_WriteFile X path s st)"
| "run_file_effect X (CreateNodeFile path) st = snd (FileOperation_CreateNodeFile X path st)"
| "run_file_effect X e st = st"

definition run_file_effects :: "posix \<Rightarrow> effect list \<Rightarrow> node_store \<Rightarrow> node_store" where
  "run_file_effects X = fold (run_file_effect X)"

section \<open>What the effects leave\<close>

fun writes_to :: "string \<Rightarrow> effect \<Rightarrow> bool" where
  "writes_to p (WriteFile path s) \<longleftrightarrow> c_str path = p"
| "writes_to p e \<longleftrightarrow> False"

lemma run_file_effect_ok: "sm_ok st \<Longrightarrow> sm_ok (run_file_effect X e st)"
  by (cases e) (simp_all add: FileOperation_WriteFile_def FileOperation_CreateNodeFile_def Let_def)

lemma run_file_effects_ok: "sm_ok st \<Longrightarrow> sm_ok (run_file_effects X es st)"
  unfolding run_file_effects_def by (induction es arbitrary: st) (simp_all add: run_file_effect_ok)

lemma other_effects_keep:
  "sm_ok st \<Longrightarrow> sm_find st p = Some nd \<Longrightarrow> \<not> writes_to p e \<Longrightarrow> sm_find (run_file_effect X e st) p = Some nd"
  by (cases e) (auto simp: FileOperation_WriteFile_def FileOperation_CreateNodeFile_def Let_def)

lemma later_effects_keep:
  "sm_ok st \<Longrightarrow> sm_find st p = Some nd \<Longrightarrow> \<forall>e \<in> set es. \<not> writes_to p e \<Longrightarrow>
     sm_find (run_file_effects X es st) p = Some nd"
  unfolding run_file_effects_def
proof (induction es arbitrary: st)
  case (Cons e es)
  from Cons.prems have "sm_find (run_file_effect X e st) p = Some nd" by (simp add: other_effects_keep)
  with Cons show ?case by (simp add: run_file_effect_ok)
qed simp

text \<open>No effect makes a directory of a path.\<close>

lemma run_file_effects_directory:
  "sm_ok st \<Longrightarrow> sm_find st p \<noteq> Some Directory \<Longrightarrow> sm_find (run_file_effects X es st) p \<noteq> Some Directory"
proof -
  have step: "sm_find (run_file_effect X e st) p \<noteq> Some Directory" if "sm_ok st" "sm_find st p \<noteq> Some Directory" for e st
    using that by (cases e) (auto simp: FileOperation_WriteFile_def FileOperation_CreateNodeFile_def Let_def)
  show "sm_ok st \<Longrightarrow> sm_find st p \<noteq> Some Directory \<Longrightarrow> sm_find (run_file_effects X es st) p \<noteq> Some Directory"
    unfolding run_file_effects_def by (induction es arbitrary: st) (simp_all add: step run_file_effect_ok)
qed

section \<open>Numerals in files\<close>

lemma takeWhile_run: "\<forall>c \<in> set ds. is_digit c \<Longrightarrow> \<not> is_digit x \<Longrightarrow> takeWhile is_digit (ds @ x # xs) = ds"
  by (induction ds) auto

lemma dropWhile_run: "\<forall>c \<in> set ds. is_digit c \<Longrightarrow> \<not> is_digit x \<Longrightarrow> dropWhile is_digit (ds @ x # xs) = x # xs"
  by (induction ds) auto

lemma scan_numeral_line:
  "scan_dec (to_string_int i @ NEWLINE @ s) = Some (i < 0, nat \<bar>i\<bar>, NEWLINE @ s)"
proof -
  have nl: "\<not> is_digit (CHR 0x0A)" by (simp add: is_digit_def)
  have run: "takeWhile is_digit (to_dec n @ CHR 0x0A # s) = to_dec n" "dropWhile is_digit (to_dec n @ CHR 0x0A # s) = CHR 0x0A # s" for n
    using takeWhile_run [OF to_dec_digits nl] dropWhile_run [OF to_dec_digits nl] by simp_all
  show ?thesis
  proof (cases "i < 0")
    case True
    then show ?thesis
      using run to_dec_nonempty by (simp add: scan_dec_def scan_sign_def to_string_int_def is_space_def Let_def)
  next
    case False
    obtain c cs where ds: "to_dec (nat i) = c # cs" "is_digit c"
      using to_dec_nonempty [of "nat i"] to_dec_digits [of "nat i"] by (cases "to_dec (nat i)") auto
    then have "dropWhile is_space (to_dec (nat i) @ CHR 0x0A # s) = to_dec (nat i) @ CHR 0x0A # s"
      "scan_sign (to_dec (nat i) @ CHR 0x0A # s) = (False, to_dec (nat i) @ CHR 0x0A # s)"
      by (auto simp: is_digit_not_space scan_sign_def dest: is_digit_not_sign)
    with False show ?thesis using run to_dec_nonempty by (simp add: scan_dec_def to_string_int_def Let_def)
  qed
qed

lemma numeral_line_c_str: "c_str (to_string_int i @ NEWLINE @ s) = to_string_int i @ NEWLINE @ c_str s"
proof -
  have "\<forall>c \<in> set (to_string_int i). c \<noteq> CHR 0x00"
    using to_dec_digits by (auto simp: to_string_int_def dest!: bspec dest: is_digit_not_sign)
  then show ?thesis by (simp add: c_str_def takeWhile_append2)
qed

lemma parse_numeral_line:
  assumes "LONG_MIN \<le> i" and "i \<le> LONG_MAX"
  shows "ParseStrtollResult (to_string_int i @ NEWLINE @ s) = Some i"
proof -
  have "strtol (to_string_int i @ NEWLINE @ c_str s) = (i, NEWLINE @ c_str s, False)"
    using assms scan_numeral_line [of i "c_str s"] by (simp add: strtol_def Let_def)
  moreover have "to_string_int i \<noteq> []" using to_dec_nonempty by (simp add: to_string_int_def)
  ultimately show ?thesis using numeral_line_c_str [of i s] by (simp add: ParseStrtollResult_def Let_def)
qed

lemma to_dec_length: "n < 10 ^ Suc k \<Longrightarrow> length (to_dec n) \<le> Suc k"
proof (induction k arbitrary: n)
  case (Suc k)
  then have "length (to_dec (n div 10)) \<le> Suc k" by (simp add: less_mult_imp_div_less)
  then show ?case by (subst to_dec.simps) simp
qed (simp add: to_dec.simps)

section \<open>Reading back\<close>

definition file_usable :: "posix \<Rightarrow> string \<Rightarrow> nat \<Rightarrow> bool" where
  "file_usable X p n \<longleftrightarrow> fopen_ok X p \<and> n \<le> disk_takes X p \<and> 0 \<le> open_result X p \<and> \<not> read_fails X p"

lemma last_write_kept:
  assumes "sm_ok st" and "sm_find st p \<noteq> Some Directory" and "file_usable X p (length (c_str s))"
    and "p = c_str path" and "\<forall>e \<in> set es'. \<not> writes_to p e"
  shows "sm_find (run_file_effects X (es @ WriteFile path s # es') st) p = Some (Regular (c_str s))"
proof -
  let ?st = "run_file_effects X es st"
  have ok: "sm_ok ?st" and "sm_find ?st p \<noteq> Some Directory"
    using assms(1,2) by (simp_all add: run_file_effects_ok run_file_effects_directory)
  then have "sm_find (run_file_effect X (WriteFile path s) ?st) p = Some (Regular (c_str s))"
    using assms(3,4) by (simp add: FileOperation_WriteFile_def file_usable_def Let_def)
  from later_effects_keep [OF run_file_effect_ok [OF ok] this assms(5)]
  show ?thesis by (simp add: run_file_effects_def)
qed

lemma read_numeral_line:
  fixes i
  defines "line \<equiv> to_string_int i @ NEWLINE"
  assumes "sm_find st (c_str path) = Some (Regular line)" and "file_usable X (c_str path) n"
    and "length line < length buf" and "LONG_MIN \<le> i" and "i \<le> LONG_MAX"
  shows "\<exists>buf'. FileOperation_ReadFile X path buf (length buf) st = Inr (0, buf') \<and> FileOperation_ConvertInt X buf' = to_int32 i"
proof -
  let ?rest = "(drop (length line) buf)[length buf - 1 - length line := CHR 0x00]"
  have "\<not> length buf - 1 < length line" using assms(4) by linarith
  then have "line @ ?rest = (line @ drop (length line) buf)[length buf - 1 := CHR 0x00]"
    by (simp only: list_update_append if_False)
  moreover have "0 < length buf" "take (length buf) line = line" using assms(4) by auto
  ultimately have "FileOperation_ReadFile X path buf (length buf) st = Inr (0, line @ ?rest)"
    using assms(2-4) by (simp add: FileOperation_ReadFile_def file_usable_def Let_def)
  then show ?thesis
    using parse_numeral_line [OF assms(5,6), of ?rest] by (simp add: FileOperation_ConvertInt_def line_def)
qed

text \<open>The nodes in which a simulated configuration shows the actions on applications and shutdown.\<close>

definition mock_node :: "action_kind \<Rightarrow> (string \<times> (int \<Rightarrow> int)) option" where
  "mock_node k =
     (if k = KProcess then Some (config_dir @ ''process_ctrl'', id)
      else if k = KShutdown then Some (config_dir @ ''shut_down'', \<lambda>v. if v \<noteq> 0 then 1 else 0)
      else None)"

lemma mock_node_written:
  assumes "mock_node k = Some (path, shown)" and "isSimulation w"
  shows "\<exists>es. effects (cls_apply (class_of strtof k) P v a w) = effects w @ WriteFile path (to_string_int (shown v) @ NEWLINE) # es \<and>
    (\<forall>e \<in> set es. \<not> writes_to p e)"
  using assms
  by (auto simp: mock_node_def ActionApplicationProcess_def ActionShutdown_def uint_class_def report_value_def
      WriteActionTriggeredHiSysEvent_def emit_def ActionApplicationProcess_ProcessAppActionExecution_def
      ActionShutdown_ShutdownExecution_def write_value_def split: if_splits)

section \<open>Properties\<close>


definition sample_posix :: posix where
  "sample_posix = \<lparr>mkdir_result = (\<lambda>_. 0), create_result = (\<lambda>_. 3), fopen_ok = (\<lambda>_. True), disk_takes = (\<lambda>_. 4096),
     fseek_result = (\<lambda>_. 0), fclose_result = (\<lambda>_. 0), open_result = (\<lambda>_. 3), read_fails = (\<lambda>_. False), ERR_INVALID = 22\<rparr>"


text \<open>A shorter content leaves the rest of the buffer: what is read back is no longer the content.\<close>

lemma stale_buffer_read:
  assumes "sm_find st (c_str path) = Some (Regular content)" and "file_usable X (c_str path) n" and "length content < sz"
    and "length buf = sz"
  shows "FileOperation_ReadFile X path buf sz st = Inr (0, (content @ drop (length content) buf)[sz - 1 := CHR 0x00])"
  using assms by (auto simp: FileOperation_ReadFile_def file_usable_def Let_def)

text \<open>A read of no bytes still writes one.\<close>

lemma empty_read_overruns:
  assumes "sm_find st (c_str path) = Some (Regular content)" and "file_usable X (c_str path) n"
  shows "FileOperation_ReadFile X path [] 0 st = Inl UndefinedIndex"
  using assms by (simp add: FileOperation_ReadFile_def file_usable_def Let_def)

end
