(* ===== verification/Timer_Utils.thy ===== *)
theory Timer_Utils
  imports Prelude
begin

text \<open>
  \<open>ThermalTimerUtils\<close> of \<open>thermal_timer.cpp\<close>: a task repeated by a thread of its own, which \<open>Stop\<close>
  ends and waits for. Here the threads are interleaved: the calling threads and the threads that
  \<open>Start\<close> creates take one step each, an access of an atomic, of the mutex or of the condition
  variable. A wait may also end without a notification, as the standard allows.
\<close>

section \<open>Threads\<close>

text \<open>Where a thread of \<open>Start\<close> is; it is gone after \<open>W_Unlock\<close>.\<close>

datatype worker = W_Test | W_Sleep | W_Task | W_Lock | W_Expire | W_Notify | W_Unlock

text \<open>Where a calling thread is.\<close>

datatype caller =
    Idle
  | Start_Test | Start_Set | Start_Spawn
  | Stop_Expired | Stop_Trying | Stop_Set | Stop_Lock | Stop_Check | Stop_Wait | Stop_Woken | Stop_Reset | Stop_Clear
  | Stop_Unlock

record timer_utils =
  expired :: bool
  tryToExpire :: bool
  locked :: bool                 \<comment> \<open>\<open>mutex_\<close>\<close>
  workers :: "worker list"
  callers :: "caller list"
  taskCount :: nat               \<comment> \<open>how often the task has run\<close>

definition ThermalTimerUtils_new :: "nat \<Rightarrow> timer_utils" where
  "ThermalTimerUtils_new n = \<lparr>expired = True, tryToExpire = False, locked = False, workers = [],
     callers = replicate n Idle, taskCount = 0\<rparr>"

section \<open>The steps of Start and Stop\<close>

text \<open>A step of a caller and what it makes of the object; \<open>None\<close> where it is blocked.\<close>

fun Start_step :: "caller \<Rightarrow> timer_utils \<Rightarrow> (caller \<times> timer_utils) option" where
  "Start_step Start_Test s = Some (if \<not> expired s then Idle else Start_Set, s)"
| "Start_step Start_Set s = Some (Start_Spawn, s\<lparr>expired := False\<rparr>)"
| "Start_step Start_Spawn s = Some (Idle, s\<lparr>workers := workers s @ [W_Test]\<rparr>)"
| "Start_step c s = None"

fun Stop_step :: "caller \<Rightarrow> timer_utils \<Rightarrow> (caller \<times> timer_utils) option" where
  "Stop_step Stop_Expired s = Some (if expired s then Idle else Stop_Trying, s)"
| "Stop_step Stop_Trying s = Some (if tryToExpire s then Idle else Stop_Set, s)"
| "Stop_step Stop_Set s = Some (Stop_Lock, s\<lparr>tryToExpire := True\<rparr>)"
| "Stop_step Stop_Lock s = (if locked s then None else Some (Stop_Check, s\<lparr>locked := True\<rparr>))"
| "Stop_step Stop_Check s = Some (if expired s then (Stop_Reset, s) else (Stop_Wait, s\<lparr>locked := False\<rparr>))"
| "Stop_step Stop_Woken s = (if locked s then None else Some (Stop_Check, s\<lparr>locked := True\<rparr>))"
| "Stop_step Stop_Reset s = Some (if expired s then Stop_Clear else Stop_Unlock, s)"
| "Stop_step Stop_Clear s = Some (Stop_Unlock, s\<lparr>tryToExpire := False\<rparr>)"
| "Stop_step Stop_Unlock s = Some (Idle, s\<lparr>locked := False\<rparr>)"
| "Stop_step c s = None"

text \<open>The thread that \<open>Start\<close> creates; \<open>notify_one\<close> concerns a caller and is a rule of its own.\<close>

fun Start_thread_step :: "worker \<Rightarrow> timer_utils \<Rightarrow> (worker list \<times> timer_utils) option" where
  "Start_thread_step W_Test s = Some ([if tryToExpire s then W_Lock else W_Sleep], s)"
| "Start_thread_step W_Sleep s = Some ([W_Task], s)"
| "Start_thread_step W_Task s = Some ([W_Test], s\<lparr>taskCount := Suc (taskCount s)\<rparr>)"
| "Start_thread_step W_Lock s = (if locked s then None else Some ([W_Expire], s\<lparr>locked := True\<rparr>))"
| "Start_thread_step W_Expire s = Some ([W_Notify], s\<lparr>expired := True\<rparr>)"
| "Start_thread_step W_Notify s = None"
| "Start_thread_step W_Unlock s = Some ([], s\<lparr>locked := False\<rparr>)"

definition put_worker :: "nat \<Rightarrow> worker list \<Rightarrow> timer_utils \<Rightarrow> timer_utils" where
  "put_worker i ws s = s\<lparr>workers := take i (workers s) @ ws @ drop (Suc i) (workers s)\<rparr>"

definition put_caller :: "nat \<Rightarrow> caller \<Rightarrow> timer_utils \<Rightarrow> timer_utils" where
  "put_caller j c s = s\<lparr>callers := (callers s)[j := c]\<rparr>"

inductive utils_step :: "timer_utils \<Rightarrow> timer_utils \<Rightarrow> bool" where
  worker: "i < length (workers s) \<Longrightarrow> Start_thread_step (workers s ! i) s = Some (ws, s') \<Longrightarrow> utils_step s (put_worker i ws s')"
| notify: "i < length (workers s) \<Longrightarrow> workers s ! i = W_Notify \<Longrightarrow> j < length (callers s) \<Longrightarrow> callers s ! j = Stop_Wait \<Longrightarrow>
    utils_step s (put_worker i [W_Unlock] (put_caller j Stop_Woken s))"
| notify_nobody: "i < length (workers s) \<Longrightarrow> workers s ! i = W_Notify \<Longrightarrow> Stop_Wait \<notin> set (callers s) \<Longrightarrow>
    utils_step s (put_worker i [W_Unlock] s)"
| start: "j < length (callers s) \<Longrightarrow> Start_step (callers s ! j) s = Some (c, s') \<Longrightarrow> utils_step s (put_caller j c s')"
| stop: "j < length (callers s) \<Longrightarrow> Stop_step (callers s ! j) s = Some (c, s') \<Longrightarrow> utils_step s (put_caller j c s')"

text \<open>A wait that ends by itself, and the calls.\<close>

inductive spurious_step :: "timer_utils \<Rightarrow> timer_utils \<Rightarrow> bool" where
  "j < length (callers s) \<Longrightarrow> callers s ! j = Stop_Wait \<Longrightarrow> spurious_step s (put_caller j Stop_Woken s)"

inductive call_step :: "timer_utils \<Rightarrow> timer_utils \<Rightarrow> bool" where
  call_start: "j < length (callers s) \<Longrightarrow> callers s ! j = Idle \<Longrightarrow> call_step s (put_caller j Start_Test s)"
| call_stop: "j < length (callers s) \<Longrightarrow> callers s ! j = Idle \<Longrightarrow> call_step s (put_caller j Stop_Expired s)"

inductive utils_reach :: "nat \<Rightarrow> timer_utils \<Rightarrow> bool" for n where
  new: "utils_reach n (ThermalTimerUtils_new n)"
| step: "utils_reach n s \<Longrightarrow> utils_step s s' \<Longrightarrow> utils_reach n s'"
| spurious: "utils_reach n s \<Longrightarrow> spurious_step s s' \<Longrightarrow> utils_reach n s'"
| call: "utils_reach n s \<Longrightarrow> call_step s s' \<Longrightarrow> utils_reach n s'"

section \<open>One calling thread\<close>

text \<open>What is known of the object, by where its one caller and its thread are.\<close>

fun running :: "worker list \<Rightarrow> bool" where
  "running [w] \<longleftrightarrow> w \<in> {W_Test, W_Sleep, W_Task}"
| "running ws \<longleftrightarrow> False"

definition ending :: "timer_utils \<Rightarrow> bool" where
  "ending s \<longleftrightarrow>
     (running (workers s) \<or> workers s = [W_Lock]) \<and> \<not> expired s \<and> \<not> locked s \<or>
     workers s = [W_Expire] \<and> \<not> expired s \<and> locked s \<or>
     workers s = [W_Notify] \<and> expired s \<and> locked s"

fun caller_ok :: "caller \<Rightarrow> timer_utils \<Rightarrow> bool" where
  "caller_ok Start_Set s \<longleftrightarrow> expired s \<and> workers s = [] \<and> \<not> tryToExpire s \<and> \<not> locked s"
| "caller_ok Start_Spawn s \<longleftrightarrow> \<not> expired s \<and> workers s = [] \<and> \<not> tryToExpire s \<and> \<not> locked s"
| "caller_ok Stop_Trying s \<longleftrightarrow> \<not> expired s \<and> running (workers s) \<and> \<not> tryToExpire s \<and> \<not> locked s"
| "caller_ok Stop_Set s \<longleftrightarrow> \<not> expired s \<and> running (workers s) \<and> \<not> tryToExpire s \<and> \<not> locked s"
| "caller_ok Stop_Lock s \<longleftrightarrow> tryToExpire s \<and>
     (ending s \<or> workers s = [W_Unlock] \<and> expired s \<and> locked s \<or> workers s = [] \<and> expired s \<and> \<not> locked s)"
| "caller_ok Stop_Woken s \<longleftrightarrow> tryToExpire s \<and>
     (ending s \<or> workers s = [W_Unlock] \<and> expired s \<and> locked s \<or> workers s = [] \<and> expired s \<and> \<not> locked s)"
| "caller_ok Stop_Check s \<longleftrightarrow> tryToExpire s \<and> locked s \<and>
     ((running (workers s) \<or> workers s = [W_Lock]) \<and> \<not> expired s \<or> workers s = [] \<and> expired s)"
| "caller_ok Stop_Wait s \<longleftrightarrow> tryToExpire s \<and> ending s"
| "caller_ok Stop_Reset s \<longleftrightarrow> tryToExpire s \<and> locked s \<and> expired s \<and> workers s = []"
| "caller_ok Stop_Clear s \<longleftrightarrow> tryToExpire s \<and> locked s \<and> expired s \<and> workers s = []"
| "caller_ok Stop_Unlock s \<longleftrightarrow> \<not> tryToExpire s \<and> locked s \<and> expired s \<and> workers s = []"
| "caller_ok c s \<longleftrightarrow> \<not> tryToExpire s \<and> \<not> locked s \<and> (if expired s then workers s = [] else running (workers s))"

definition single_ok :: "timer_utils \<Rightarrow> bool" where
  "single_ok s \<longleftrightarrow> (\<exists>c. callers s = [c] \<and> caller_ok c s)"

lemma running_cases: "running ws \<longleftrightarrow> ws = [W_Test] \<or> ws = [W_Sleep] \<or> ws = [W_Task]"
  by (cases ws rule: running.cases) auto

lemmas put_defs = put_worker_def put_caller_def

lemma caller_ok_cases:
  "caller_ok c s \<Longrightarrow> workers s = [] \<or> (\<exists>wk. workers s = [wk])"
  by (cases c) (auto simp: ending_def running_cases split: if_splits)

lemma thread_step_ok:
  assumes "caller_ok c s" and "workers s = [wk]"
  shows "case Start_thread_step wk s of None \<Rightarrow> True | Some (ws, t) \<Rightarrow>
    caller_ok c (t\<lparr>workers := ws\<rparr>) \<and> callers t = callers s \<and> workers t = workers s"
  using assms by (cases wk; cases c) (simp_all add: ending_def split: if_splits)

lemma notified_ok:
  assumes "caller_ok c s" and "workers s = [W_Notify]"
  shows "caller_ok (if c = Stop_Wait then Stop_Woken else c) (s\<lparr>workers := [W_Unlock]\<rparr>)"
  using assms by (cases c) (simp_all add: ending_def split: if_splits)

lemma caller_step_ok:
  assumes "caller_ok c s" and "Start_step c s = Some (c', t) \<or> Stop_step c s = Some (c', t)"
  shows "caller_ok c' t \<and> callers t = callers s"
  using assms by (cases c) (auto simp: ending_def split: if_splits)

lemma caller_ok_callers [simp]: "caller_ok c (s\<lparr>callers := cs\<rparr>) = caller_ok c s"
  by (cases c) (simp_all add: ending_def)

lemma single_step:
  assumes "single_ok s" and "utils_step s s'"
  shows "single_ok s'"
proof -
  obtain c where c: "callers s = [c]" "caller_ok c s" using assms(1) by (auto simp: single_ok_def)
  note one = caller_ok_cases [OF c(2)]
  from assms(2) show ?thesis
  proof cases
    case (worker i ws t)
    then obtain wk where wk: "workers s = [wk]" "i = 0" using one by auto
    with worker thread_step_ok [OF c(2) wk(1)] c(1) wk(1) show ?thesis by (simp add: single_ok_def put_worker_def)
  next
    case (notify i j)
    then have "workers s = [W_Notify]" "i = 0" "j = 0" "c = Stop_Wait" using one c(1) by auto
    with notify(1) notified_ok [OF c(2)] c(1) show ?thesis by (simp add: single_ok_def put_defs ending_def)
  next
    case (notify_nobody i)
    then have "workers s = [W_Notify]" "i = 0" "c \<noteq> Stop_Wait" using one c(1) by auto
    with notify_nobody(1) notified_ok [OF c(2)] c(1) show ?thesis by (simp add: single_ok_def put_defs)
  next
    case (start j c' t)
    with caller_step_ok [OF c(2), of c' t] c(1) show ?thesis by (simp add: single_ok_def put_caller_def)
  next
    case (stop j c' t)
    with caller_step_ok [OF c(2), of c' t] c(1) show ?thesis by (simp add: single_ok_def put_caller_def)
  qed
qed

lemma single_spurious: "single_ok s \<Longrightarrow> spurious_step s s' \<Longrightarrow> single_ok s'"
  by (auto simp: single_ok_def put_defs ending_def elim!: spurious_step.cases)

lemma single_call: "single_ok s \<Longrightarrow> call_step s s' \<Longrightarrow> single_ok s'"
  by (auto simp: single_ok_def put_defs elim!: call_step.cases)

lemma reach_single: "utils_reach 1 s \<Longrightarrow> single_ok s"
proof (induction rule: utils_reach.induct)
  case new
  show ?case by (simp add: single_ok_def ThermalTimerUtils_new_def)
qed (auto intro: single_step single_spurious single_call)

section \<open>Stop returns\<close>

text \<open>How many steps are left once the thread has been asked to end.\<close>

fun worker_rank :: "worker \<Rightarrow> nat" where
  "worker_rank W_Sleep = 7" | "worker_rank W_Task = 6" | "worker_rank W_Test = 5" | "worker_rank W_Lock = 4"
| "worker_rank W_Expire = 3" | "worker_rank W_Notify = 2" | "worker_rank W_Unlock = 1"

fun caller_rank :: "caller \<Rightarrow> nat" where
  "caller_rank Stop_Lock = 5" | "caller_rank Stop_Woken = 5" | "caller_rank Stop_Check = 4" | "caller_rank Stop_Wait = 3"
| "caller_rank Stop_Reset = 3" | "caller_rank Stop_Clear = 2" | "caller_rank Stop_Unlock = 1" | "caller_rank c = 0"

definition stop_rank :: "timer_utils \<Rightarrow> nat" where
  "stop_rank s = 3 * sum_list (map worker_rank (workers s)) + sum_list (map caller_rank (callers s))"

definition stopping :: "timer_utils \<Rightarrow> bool" where
  "stopping s \<longleftrightarrow> (\<exists>c. callers s = [c] \<and> 0 < caller_rank c)"

lemma stopping_cases:
  "0 < caller_rank c \<longleftrightarrow> c \<in> {Stop_Lock, Stop_Woken, Stop_Check, Stop_Wait, Stop_Reset, Stop_Clear, Stop_Unlock}"
  by (cases c) auto

lemma stop_rank_step:
  assumes "single_ok s" and "stopping s" and "utils_step s s'"
  shows "stop_rank s' < stop_rank s"
proof -
  obtain c where c: "callers s = [c]" "caller_ok c s" "0 < caller_rank c"
    using assms(1,2) by (auto simp: single_ok_def stopping_def)
  from assms(3) show ?thesis
    by cases (use c in \<open>auto simp: stopping_cases stop_rank_def put_defs ending_def running_cases less_Suc_eq split: if_splits\<close>)
qed

lemma stop_rank_spurious: "stopping s \<Longrightarrow> spurious_step s s' \<Longrightarrow> stop_rank s' = stop_rank s + 2 \<and> stopping s'"
  by (auto simp: stopping_def stop_rank_def put_defs elim!: spurious_step.cases)

lemma stop_not_blocked:
  assumes "single_ok s" and "stopping s"
  shows "\<exists>s'. utils_step s s'"
proof -
  obtain c where c: "callers s = [c]" "caller_ok c s" "0 < caller_rank c"
    using assms by (auto simp: single_ok_def stopping_def)
  have work: "\<exists>s'. utils_step s s'" if "workers s = [wk]" "Start_thread_step wk s \<noteq> None" for wk
  proof -
    from that(2) obtain ws t where "Start_thread_step wk s = Some (ws, t)" by auto
    then have "utils_step s (put_worker 0 ws t)" using that(1) by (intro utils_step.worker) simp_all
    then show ?thesis by blast
  qed
  have call: "\<exists>s'. utils_step s s'" if "Stop_step c s \<noteq> None"
  proof -
    from that obtain c' t where "Stop_step c s = Some (c', t)" by auto
    then have "utils_step s (put_caller 0 c' t)" using c(1) by (intro utils_step.stop) simp_all
    then show ?thesis by blast
  qed
  have wake: "\<exists>s'. utils_step s s'" if "workers s = [W_Notify]"
  proof (cases "c = Stop_Wait")
    case True
    then have "utils_step s (put_worker 0 [W_Unlock] (put_caller 0 Stop_Woken s))"
      using that c(1) by (intro utils_step.notify) simp_all
    then show ?thesis by blast
  next
    case False
    then have "utils_step s (put_worker 0 [W_Unlock] s)"
      using that c(1) by (intro utils_step.notify_nobody) simp_all
    then show ?thesis by blast
  qed
  show ?thesis
    using c(2,3) call work wake by (cases c) (auto simp: ending_def running_cases)
qed

lemma thread_keeps_callers: "Start_thread_step wk s = Some (ws, t) \<Longrightarrow> callers t = callers s"
  by (cases wk) (auto split: if_splits)

lemma stop_left:
  assumes "single_ok s" and "stopping s" and "utils_step s s'" and "\<not> stopping s'"
  shows "callers s' = [Idle] \<and> workers s' = [] \<and> expired s' \<and> \<not> tryToExpire s' \<and> \<not> locked s'"
proof -
  obtain c where c: "callers s = [c]" "caller_ok c s" "0 < caller_rank c"
    using assms(1,2) by (auto simp: single_ok_def stopping_def)
  from assms(3) show ?thesis
  proof cases
    case (stop j c' t)
    then have j: "j = 0" "Stop_step c s = Some (c', t)" using c(1) by simp_all
    then have "\<not> 0 < caller_rank c'" and "callers t = [c]"
      using assms(4) stop(1) c(1,3) by (auto simp: stopping_def stopping_cases put_caller_def split: if_splits)
    with j c stop(1) show ?thesis by (cases c) (auto simp: put_caller_def split: if_splits)
  qed (use c assms(4) in \<open>auto simp: stopping_def put_defs less_Suc_eq stopping_cases dest: thread_keeps_callers\<close>)
qed

text \<open>Runs during a call of \<open>Stop\<close>: n steps and k waits that end by themselves.\<close>

inductive stop_run :: "timer_utils \<Rightarrow> nat \<Rightarrow> nat \<Rightarrow> timer_utils \<Rightarrow> bool" where
  refl: "stop_run s 0 0 s"
| step: "stop_run s n k t \<Longrightarrow> stopping t \<Longrightarrow> utils_step t u \<Longrightarrow> stop_run s (Suc n) k u"
| spurious: "stop_run s n k t \<Longrightarrow> stopping t \<Longrightarrow> spurious_step t u \<Longrightarrow> stop_run s n (Suc k) u"

lemma stop_run_rank:
  "stop_run s n k t \<Longrightarrow> single_ok s \<Longrightarrow> single_ok t \<and> n + stop_rank t \<le> stop_rank s + 2 * k"
proof (induction rule: stop_run.induct)
  case (step s n k t u)
  with stop_rank_step [of t u] single_step [of t u] show ?case by auto
next
  case (spurious s n k t u)
  with stop_rank_spurious [of t u] single_spurious [of t u] show ?case by auto
qed simp

lemma stop_rank_bound: "single_ok s \<Longrightarrow> stopping s \<Longrightarrow> stop_rank s \<le> 26"
  by (auto simp: single_ok_def stopping_def stopping_cases stop_rank_def ending_def running_cases)

section \<open>Schedules\<close>

text \<open>A schedule, to follow a run by evaluation.\<close>

datatype move = CallStart nat | CallStop nat | InStart nat | InStop nat | InThread nat | Notify nat nat

fun move_step :: "move \<Rightarrow> timer_utils \<Rightarrow> timer_utils option" where
  "move_step (CallStart j) s = (if j < length (callers s) \<and> callers s ! j = Idle then Some (put_caller j Start_Test s) else None)"
| "move_step (CallStop j) s = (if j < length (callers s) \<and> callers s ! j = Idle then Some (put_caller j Stop_Expired s) else None)"
| "move_step (InStart j) s =
     (if j < length (callers s) then map_option (\<lambda>(c, s). put_caller j c s) (Start_step (callers s ! j) s) else None)"
| "move_step (InStop j) s =
     (if j < length (callers s) then map_option (\<lambda>(c, s). put_caller j c s) (Stop_step (callers s ! j) s) else None)"
| "move_step (InThread i) s =
     (if i < length (workers s) then map_option (\<lambda>(ws, s). put_worker i ws s) (Start_thread_step (workers s ! i) s) else None)"
| "move_step (Notify i j) s =
     (if i < length (workers s) \<and> workers s ! i = W_Notify \<and> j < length (callers s) \<and> callers s ! j = Stop_Wait
      then Some (put_worker i [W_Unlock] (put_caller j Stop_Woken s)) else None)"

fun run_moves :: "move list \<Rightarrow> timer_utils \<Rightarrow> timer_utils option" where
  "run_moves [] s = Some s"
| "run_moves (m # ms) s = (case move_step m s of None \<Rightarrow> None | Some s \<Rightarrow> run_moves ms s)"

lemma move_step_reach: "utils_reach n s \<Longrightarrow> move_step m s = Some t \<Longrightarrow> utils_reach n t"
  by (cases m) (auto split: if_splits intro: utils_reach.step utils_reach.call utils_step.intros call_step.intros)

lemma run_moves_reach: "utils_reach n s \<Longrightarrow> run_moves ms s = Some t \<Longrightarrow> utils_reach n t"
proof (induction ms arbitrary: s)
  case (Cons m ms)
  from Cons.prems(2) obtain u where u: "move_step m s = Some u" "run_moves ms u = Some t" by (auto split: option.splits)
  show ?case by (rule Cons.IH [OF move_step_reach [OF Cons.prems(1) u(1)] u(2)])
qed simp

section \<open>Properties\<close>

text \<open>
  C31: with one calling thread \<open>Stop\<close> returns: once it has asked the thread to end, the two threads
  can take at most 26 steps together before it has, and 2 more for every wait that ends by itself,
  and until then one of them can always take a step. When it has returned no thread is left, the
  task does not run again before the next \<open>Start\<close>, and the object is as new: it can be started
  again or destroyed.
\<close>

theorem timer_stop_returns:
  assumes "utils_reach 1 s" and "stopping s" and "stop_run s n k t"
  shows "n \<le> 26 + 2 * k \<and>
    (if stopping t then \<exists>u. utils_step t u
     else callers t = [Idle] \<and> workers t = [] \<and> expired t \<and> \<not> tryToExpire t \<and> \<not> locked t)"
proof -
  have s: "single_ok s" by (rule reach_single [OF assms(1)])
  with stop_run_rank [OF assms(3)] have t: "single_ok t" "n + stop_rank t \<le> stop_rank s + 2 * k" by auto
  have "callers t = [Idle] \<and> workers t = [] \<and> expired t \<and> \<not> tryToExpire t \<and> \<not> locked t" if "\<not> stopping t"
    using assms(3)
  proof cases
    case (step m t')
    have t': "single_ok t'" using stop_run_rank [OF _ s] step by blast
    show ?thesis by (rule stop_left [OF t' \<open>stopping t'\<close> \<open>utils_step t' t\<close> that])
  qed (use assms(2) that stop_rank_spurious in auto)
  then show ?thesis using t stop_rank_bound [OF s assms(2)] stop_not_blocked [OF t(1)] by auto
qed

theorem timer_stop_returns_witness:
  "\<exists>s t. utils_reach 1 s \<and> stopping s \<and> stop_run s 1 0 t \<and> (\<exists>u. utils_step t u)"
proof -
  let ?moves = "[CallStart 0, InStart 0, InStart 0, InStart 0, CallStop 0, InStop 0, InStop 0, InStop 0]"
  let ?s = "\<lparr>expired = False, tryToExpire = True, locked = False, workers = [W_Test], callers = [Stop_Lock], taskCount = 0\<rparr>"
  let ?t = "?s\<lparr>locked := True, callers := [Stop_Check]\<rparr>"
  have "run_moves ?moves (ThermalTimerUtils_new 1) = Some ?s"
    by (simp add: ThermalTimerUtils_new_def put_defs)
  from run_moves_reach [OF utils_reach.new this] have s: "utils_reach 1 ?s" .
  have stopping: "stopping ?s" "stopping ?t" by (simp_all add: stopping_def)
  have "utils_step ?s ?t" using utils_step.stop [of 0 ?s Stop_Check "?s\<lparr>locked := True\<rparr>"] by (simp add: put_caller_def)
  from stop_run.step [OF stop_run.refl stopping(1) this] have run: "stop_run ?s 1 0 ?t" by simp
  from timer_stop_returns [OF s stopping(1) run] have "\<exists>u. utils_step ?t u" by (simp only: stopping(2) if_True)
  with s stopping(1) run show ?thesis by blast
qed

text \<open>
  With two calling threads it is not so: the test and the assignment of \<open>expired_\<close> in \<open>Start\<close> are
  two steps, so two threads can be created, and \<open>Stop\<close> ends only one of them. The other goes on
  with the task after \<open>Stop\<close> has returned, and no further \<open>Stop\<close> ends it, since \<open>expired_\<close> is set.
\<close>

theorem concurrent_starts_survive_stop:
  "\<exists>s. utils_reach 2 s \<and> callers s = [Idle, Idle] \<and> workers s = [W_Test] \<and> expired s \<and> \<not> tryToExpire s \<and> \<not> locked s \<and>
     0 < taskCount s"
proof -
  let ?moves = "[CallStart 0, CallStart 1, InStart 0, InStart 1, InStart 0, InStart 1, InStart 0, InStart 1,
    CallStop 0, InStop 0, InStop 0, InStop 0, InStop 0, InStop 0,
    InThread 0, InThread 0, InThread 0, Notify 0 0, InThread 0,
    InStop 0, InStop 0, InStop 0, InStop 0, InStop 0, InThread 0, InThread 0, InThread 0]"
  have "run_moves ?moves (ThermalTimerUtils_new 2) =
    Some \<lparr>expired = True, tryToExpire = False, locked = False, workers = [W_Test], callers = [Idle, Idle], taskCount = 1\<rparr>"
    by (simp add: ThermalTimerUtils_new_def put_defs numeral_2_eq_2)
  from run_moves_reach [OF utils_reach.new this] show ?thesis by (intro exI conjI, assumption) simp_all
qed

end
