(* ===== verification/Callback_Ipc.thy ===== *)
theory Callback_Ipc
  imports Std_Map
begin

text \<open>
  How a listener in another process is told: the proxies and stubs of the three callbacks
  (\<open>services/zidl/src\<close>) and the callback of \<open>ThermalMgrListener\<close> (\<open>frameworks/native\<close>).

  The \<open>MessageParcel\<close> of the IPC library is a parameter, a record of the operations used
  here: a write may fail, a read may find nothing. What the library promises of them is
  \<open>parcel_laws\<close>, over the entries a parcel still has to be read. The connection to the other
  process is a \<open>remote\<close>; \<open>connected\<close> says that it delivers each request once to a stub and
  hands back its answer. The state of the process of the listener is of any type.
\<close>

section \<open>Parcels and connections\<close>

datatype thermal_error =
    E_WRITE_PARCEL_ERROR_THERMAL | E_READ_PARCEL_ERROR_THERMAL | E_GET_SYSTEM_ABILITY_MANAGER_FAILED_THERMAL
  | E_GET_THERMAL_SERVICE_FAILED | E_ADD_DEATH_RECIPIENT_FAILED_THERMAL | E_INNER_ERR_THERMAL | E_EXCEED_PARAM_LIMIT

text \<open>\<open>NoError\<close> is \<open>ERR_OK\<close>, the next two are \<open>ERR_NO_MEMORY\<close> and \<open>ERR_INVALID_VALUE\<close>.\<close>

datatype ErrCode = NoError | NoMemory | InvalidValue | ThermalError thermal_error | OtherError int

record 'p parcel_ops =
  empty_parcel :: 'p
  WriteInterfaceToken :: "string \<Rightarrow> 'p \<Rightarrow> 'p option"
  WriteUint32 :: "u32 \<Rightarrow> 'p \<Rightarrow> 'p option"
  WriteInt32 :: "int \<Rightarrow> 'p \<Rightarrow> 'p option"
  WriteString :: "string \<Rightarrow> 'p \<Rightarrow> 'p option"
  ReadInterfaceToken :: "'p \<Rightarrow> string \<times> 'p"
  ReadUint32 :: "'p \<Rightarrow> (u32 \<times> 'p) option"
  ReadInt32 :: "'p \<Rightarrow> (int \<times> 'p) option"
  ReadString :: "'p \<Rightarrow> (string \<times> 'p) option"

text \<open>\<open>SendRequest\<close>: the code, the data and whether the call is \<open>TF_ASYNC\<close>.\<close>

type_synonym ('p, 's) remote = "u32 \<Rightarrow> 'p \<Rightarrow> bool \<Rightarrow> 's \<Rightarrow> ErrCode \<times> 's"

text \<open>\<open>OnRemoteRequest\<close>; \<open>IPCObjectStub::OnRemoteRequest\<close>, which answers other codes, is one too.\<close>

type_synonym ('p, 's) stub = "u32 \<Rightarrow> 'p \<Rightarrow> 's \<Rightarrow> ErrCode \<times> 's"

abbreviation (input) temp_descriptor :: string where "temp_descriptor \<equiv> ''ohos.powermgr.IThermalTempCallback''"
abbreviation (input) action_descriptor :: string where "action_descriptor \<equiv> ''ohos.powermgr.IThermalActionCallback''"
abbreviation (input) level_descriptor :: string where "level_descriptor \<equiv> ''ohos.powermgr.IThermalLevelCallback''"

section \<open>Maps\<close>

text \<open>The loop of a proxy over a map, with the write of a value, and the loop of a stub.\<close>

fun write_entries :: "'p parcel_ops \<Rightarrow> ('v \<Rightarrow> 'p \<Rightarrow> 'p option) \<Rightarrow> (string, 'v) smap \<Rightarrow> 'p \<Rightarrow> 'p option" where
  "write_entries M wr [] p = Some p"
| "write_entries M wr ((k, v) # m) p =
     Option.bind (WriteString M k p) (\<lambda>p. Option.bind (wr v p) (write_entries M wr m))"

fun read_entries :: "'p parcel_ops \<Rightarrow> ('p \<Rightarrow> ('v \<times> 'p) option) \<Rightarrow> nat \<Rightarrow> (string, 'v) smap \<Rightarrow> 'p \<Rightarrow>
    (string, 'v) smap option" where
  "read_entries M rd 0 m p = Some m"
| "read_entries M rd (Suc n) m p =
     Option.bind (ReadString M p) (\<lambda>(k, p). Option.bind (rd p) (\<lambda>(v, p). read_entries M rd n (sm_assign k v m) p))"

definition map_parcel :: "'p parcel_ops \<Rightarrow> string \<Rightarrow> ('v \<Rightarrow> 'p \<Rightarrow> 'p option) \<Rightarrow> (string, 'v) smap \<Rightarrow> 'p option" where
  "map_parcel M descriptor wr m =
     Option.bind (WriteInterfaceToken M descriptor (empty_parcel M)) (\<lambda>p.
       Option.bind (WriteUint32 M (of_nat (length m)) p) (write_entries M wr m))"

definition send_parcel :: "('p, 's) remote option \<Rightarrow> 'p option \<Rightarrow> u32 \<Rightarrow> bool \<Rightarrow> 's \<Rightarrow> bool \<times> 's" where
  "send_parcel remote data code async s =
     (case remote of
        None \<Rightarrow> (False, s)
      | Some send \<Rightarrow>
          (case data of
             None \<Rightarrow> (False, s)
           | Some p \<Rightarrow> let (ret, s) = send code p async s in (ret = NoError, s)))"

abbreviation (input) MAX_MAP_NUM :: u32 where "MAX_MAP_NUM \<equiv> 2000"

definition read_map :: "'p parcel_ops \<Rightarrow> ('p \<Rightarrow> ('v \<times> 'p) option) \<Rightarrow> ((string, 'v) smap \<Rightarrow> 's \<Rightarrow> 's) \<Rightarrow>
    'p \<Rightarrow> 's \<Rightarrow> ErrCode \<times> 's" where
  "read_map M rd listener p s =
     (case ReadUint32 M p of
        None \<Rightarrow> (ThermalError E_READ_PARCEL_ERROR_THERMAL, s)
      | Some (n, p) \<Rightarrow>
          if n \<le> 0 \<or> MAX_MAP_NUM < n then (ThermalError E_EXCEED_PARAM_LIMIT, s)
          else (case read_entries M rd (unat n) [] p of
                  None \<Rightarrow> (ThermalError E_READ_PARCEL_ERROR_THERMAL, s)
                | Some m \<Rightarrow> (NoError, listener m s)))"

section \<open>Temperatures\<close>

abbreviation (input) THERMAL_TEMPERATURE_CHANGED :: u32 where "THERMAL_TEMPERATURE_CHANGED \<equiv> 0"

definition ThermalTempCallbackProxy_OnThermalTempChanged ::
    "'p parcel_ops \<Rightarrow> ('p, 's) remote option \<Rightarrow> (string, int) smap \<Rightarrow> 's \<Rightarrow> bool \<times> 's" where
  "ThermalTempCallbackProxy_OnThermalTempChanged M remote m s =
     send_parcel remote (map_parcel M temp_descriptor (WriteInt32 M) m) THERMAL_TEMPERATURE_CHANGED False s"

definition OnThermalTempChangedStub ::
    "'p parcel_ops \<Rightarrow> ((string, int) smap \<Rightarrow> 's \<Rightarrow> 's) \<Rightarrow> 'p \<Rightarrow> 's \<Rightarrow> ErrCode \<times> 's" where
  "OnThermalTempChangedStub M = read_map M (ReadInt32 M)"

definition ThermalTempCallbackStub_OnRemoteRequest ::
    "'p parcel_ops \<Rightarrow> ('p, 's) stub \<Rightarrow> ((string, int) smap \<Rightarrow> 's \<Rightarrow> 's) \<Rightarrow> ('p, 's) stub" where
  "ThermalTempCallbackStub_OnRemoteRequest M base listener code p s =
     (let (token, p) = ReadInterfaceToken M p
      in if token \<noteq> temp_descriptor then (ThermalError E_GET_THERMAL_SERVICE_FAILED, s)
         else if code = THERMAL_TEMPERATURE_CHANGED then OnThermalTempChangedStub M listener p s
         else base code p s)"

section \<open>Actions\<close>

abbreviation (input) THERMAL_ACTION_CHANGED :: u32 where "THERMAL_ACTION_CHANGED \<equiv> 0"

definition ThermalActionCallbackProxy_OnThermalActionChanged ::
    "'p parcel_ops \<Rightarrow> ('p, 's) remote option \<Rightarrow> (string, string) smap \<Rightarrow> 's \<Rightarrow> bool \<times> 's" where
  "ThermalActionCallbackProxy_OnThermalActionChanged M remote m s =
     send_parcel remote (map_parcel M action_descriptor (WriteString M) m) THERMAL_ACTION_CHANGED False s"

definition OnThermalActionChangedStub ::
    "'p parcel_ops \<Rightarrow> ((string, string) smap \<Rightarrow> 's \<Rightarrow> 's) \<Rightarrow> 'p \<Rightarrow> 's \<Rightarrow> ErrCode \<times> 's" where
  "OnThermalActionChangedStub M = read_map M (ReadString M)"

definition ThermalActionCallbackStub_OnRemoteRequest ::
    "'p parcel_ops \<Rightarrow> ('p, 's) stub \<Rightarrow> ((string, string) smap \<Rightarrow> 's \<Rightarrow> 's) \<Rightarrow> ('p, 's) stub" where
  "ThermalActionCallbackStub_OnRemoteRequest M base listener code p s =
     (let (token, p) = ReadInterfaceToken M p
      in if token \<noteq> action_descriptor then (ThermalError E_GET_THERMAL_SERVICE_FAILED, s)
         else if code = THERMAL_ACTION_CHANGED then OnThermalActionChangedStub M listener p s
         else base code p s)"

section \<open>Levels\<close>

abbreviation (input) THERMAL_LEVEL_CHANGED :: u32 where "THERMAL_LEVEL_CHANGED \<equiv> 0"
abbreviation (input) ASYNC_THERMAL_LEVEL_CHANGED :: u32 where "ASYNC_THERMAL_LEVEL_CHANGED \<equiv> 1"

text \<open>A \<open>ThermalLevel\<close> is its number; the casts to and from \<open>int32_t\<close> keep it.\<close>

definition level_parcel :: "'p parcel_ops \<Rightarrow> int \<Rightarrow> 'p option" where
  "level_parcel M level =
     Option.bind (WriteInterfaceToken M level_descriptor (empty_parcel M)) (WriteInt32 M level)"

definition ThermalLevelCallbackProxy_OnThermalLevelChanged ::
    "'p parcel_ops \<Rightarrow> ('p, 's) remote option \<Rightarrow> int \<Rightarrow> 's \<Rightarrow> bool \<times> 's" where
  "ThermalLevelCallbackProxy_OnThermalLevelChanged M remote level s =
     send_parcel remote (level_parcel M level) THERMAL_LEVEL_CHANGED False s"

definition ThermalLevelCallbackProxy_OnAsyncThermalLevelChanged ::
    "'p parcel_ops \<Rightarrow> ('p, 's) remote option \<Rightarrow> int \<Rightarrow> 's \<Rightarrow> bool \<times> 's" where
  "ThermalLevelCallbackProxy_OnAsyncThermalLevelChanged M remote level s =
     send_parcel remote (level_parcel M level) ASYNC_THERMAL_LEVEL_CHANGED True s"

definition OnThermalLevelChangedStub :: "'p parcel_ops \<Rightarrow> (int \<Rightarrow> 's \<Rightarrow> 's) \<Rightarrow> 'p \<Rightarrow> 's \<Rightarrow> ErrCode \<times> 's" where
  "OnThermalLevelChangedStub M listener p s =
     (case ReadInt32 M p of
        None \<Rightarrow> (ThermalError E_READ_PARCEL_ERROR_THERMAL, s)
      | Some (level, p) \<Rightarrow> (NoError, listener level s))"

definition OnAsyncThermalLevelChangedStub :: "'p parcel_ops \<Rightarrow> (int \<Rightarrow> 's \<Rightarrow> 's) \<Rightarrow> 'p \<Rightarrow> 's \<Rightarrow> ErrCode \<times> 's" where
  "OnAsyncThermalLevelChangedStub M listener p s =
     (case ReadInt32 M p of
        None \<Rightarrow> (ThermalError E_READ_PARCEL_ERROR_THERMAL, s)
      | Some (level, p) \<Rightarrow> (NoError, listener level s))"

definition ThermalLevelCallbackStub_OnRemoteRequest ::
    "'p parcel_ops \<Rightarrow> ('p, 's) stub \<Rightarrow> (int \<Rightarrow> 's \<Rightarrow> 's) \<Rightarrow> (int \<Rightarrow> 's \<Rightarrow> 's) \<Rightarrow> ('p, 's) stub" where
  "ThermalLevelCallbackStub_OnRemoteRequest M base listener async_listener code p s =
     (let (token, p) = ReadInterfaceToken M p
      in if token \<noteq> level_descriptor then (ThermalError E_GET_THERMAL_SERVICE_FAILED, s)
         else if code = THERMAL_LEVEL_CHANGED then OnThermalLevelChangedStub M listener p s
         else if code = ASYNC_THERMAL_LEVEL_CHANGED then OnAsyncThermalLevelChangedStub M async_listener p s
         else base code p s)"

section \<open>What the library promises\<close>

datatype parcel_item = Token string | Uint32 u32 | Int32 int | Text string

definition write_law :: "('p \<Rightarrow> parcel_item list) \<Rightarrow> ('a \<Rightarrow> parcel_item) \<Rightarrow> ('a \<Rightarrow> 'p \<Rightarrow> 'p option) \<Rightarrow> bool" where
  "write_law contents item wr \<longleftrightarrow> (\<forall>x p p'. wr x p = Some p' \<longrightarrow> contents p' = contents p @ [item x])"

text \<open>An entry is read back as it was written; at the end there is nothing to read.\<close>

definition read_law :: "('p \<Rightarrow> parcel_item list) \<Rightarrow> ('a \<Rightarrow> parcel_item) \<Rightarrow> ('p \<Rightarrow> ('a \<times> 'p) option) \<Rightarrow> bool" where
  "read_law contents item rd \<longleftrightarrow>
     (\<forall>x p rest. contents p = item x # rest \<longrightarrow> (\<exists>p'. rd p = Some (x, p') \<and> contents p' = rest)) \<and>
     (\<forall>p. contents p = [] \<longrightarrow> rd p = None)"

definition parcel_laws :: "'p parcel_ops \<Rightarrow> ('p \<Rightarrow> parcel_item list) \<Rightarrow> bool" where
  "parcel_laws M contents \<longleftrightarrow>
     contents (empty_parcel M) = [] \<and>
     write_law contents Token (WriteInterfaceToken M) \<and> write_law contents Uint32 (WriteUint32 M) \<and>
     write_law contents Int32 (WriteInt32 M) \<and> write_law contents Text (WriteString M) \<and>
     (\<forall>t p rest. contents p = Token t # rest \<longrightarrow> (\<exists>p'. ReadInterfaceToken M p = (t, p') \<and> contents p' = rest)) \<and>
     read_law contents Uint32 (ReadUint32 M) \<and> read_law contents Int32 (ReadInt32 M) \<and>
     read_law contents Text (ReadString M)"

definition connected :: "('p, 's) remote \<Rightarrow> ('p, 's) stub \<Rightarrow> bool" where
  "connected send stub \<longleftrightarrow>
     (\<forall>code p s. send code p False s = stub code p s \<and> send code p True s = (NoError, snd (stub code p s)))"

lemma write_lawD: "write_law contents item wr \<Longrightarrow> wr x p = Some p' \<Longrightarrow> contents p' = contents p @ [item x]"
  by (auto simp: write_law_def)

lemma read_lawD:
  "read_law contents item rd \<Longrightarrow> contents p = item x # rest \<Longrightarrow> \<exists>p'. rd p = Some (x, p') \<and> contents p' = rest"
  by (auto simp: read_law_def)

lemma read_law_end: "read_law contents item rd \<Longrightarrow> contents p = [] \<Longrightarrow> rd p = None"
  by (auto simp: read_law_def)

lemma token_read:
  "parcel_laws M contents \<Longrightarrow> contents p = Token t # rest \<Longrightarrow>
   \<exists>p'. ReadInterfaceToken M p = (t, p') \<and> contents p' = rest"
  by (auto simp: parcel_laws_def)

section \<open>Round trips\<close>

definition entry_items :: "('v \<Rightarrow> parcel_item) \<Rightarrow> (string, 'v) smap \<Rightarrow> parcel_item list" where
  "entry_items item m = concat (map (\<lambda>(k, v). [Text k, item v]) m)"

lemma write_entries_contents:
  assumes "parcel_laws M contents" and "write_law contents item wr" and "write_entries M wr m p = Some p'"
  shows "contents p' = contents p @ entry_items item m"
  using assms(3)
proof (induction m arbitrary: p)
  case (Cons e m)
  obtain k v where e: "e = (k, v)" by (cases e)
  with Cons.prems obtain p1 p2 where p: "WriteString M k p = Some p1" "wr v p1 = Some p2" "write_entries M wr m p2 = Some p'"
    by (auto simp: bind_eq_Some_conv)
  have "write_law contents Text (WriteString M)" using assms(1) by (simp add: parcel_laws_def)
  from write_lawD [OF this p(1)] write_lawD [OF assms(2) p(2)] Cons.IH [OF p(3)]
  show ?case by (simp add: e entry_items_def)
qed (simp add: entry_items_def)

lemma read_entries_back:
  assumes "parcel_laws M contents" and "read_law contents item rd" and "contents p = entry_items item kvs"
  shows "read_entries M rd (length kvs) m p = Some (fold (\<lambda>(k, v). sm_assign k v) kvs m)"
  using assms(3)
proof (induction kvs arbitrary: m p)
  case (Cons e kvs)
  obtain k v where e: "e = (k, v)" by (cases e)
  have strings: "read_law contents Text (ReadString M)" using assms(1) by (simp add: parcel_laws_def)
  from Cons.prems have "contents p = Text k # item v # entry_items item kvs" by (simp add: e entry_items_def)
  from read_lawD [where item = Text, OF strings this] obtain p1 where p1: "ReadString M p = Some (k, p1)"
    "contents p1 = item v # entry_items item kvs" by blast
  from read_lawD [where item = item, OF assms(2) p1(2)] obtain p2 where p2: "rd p1 = Some (v, p2)" "contents p2 = entry_items item kvs" by blast
  from Cons.IH [OF p2(2)] show ?case by (simp add: e p1(1) p2(1))
qed simp

lemma map_parcel_contents:
  assumes "parcel_laws M contents" and "write_law contents item wr" and "map_parcel M d wr m = Some p"
  shows "contents p = Token d # Uint32 (of_nat (length m)) # entry_items item m"
proof -
  from assms(3) obtain p1 p2 where p: "WriteInterfaceToken M d (empty_parcel M) = Some p1"
    "WriteUint32 M (of_nat (length m)) p1 = Some p2" "write_entries M wr m p2 = Some p"
    by (auto simp: map_parcel_def bind_eq_Some_conv)
  have laws: "contents (empty_parcel M) = []" "write_law contents Token (WriteInterfaceToken M)"
    "write_law contents Uint32 (WriteUint32 M)" using assms(1) by (simp_all add: parcel_laws_def)
  from laws(1) write_lawD [OF laws(2) p(1)] write_lawD [OF laws(3) p(2)] write_entries_contents [OF assms(1, 2) p(3)]
  show ?thesis by simp
qed

text \<open>What a stub makes of the parcel a proxy wrote.\<close>

lemma map_read_back:
  assumes "parcel_laws M contents" and "write_law contents item wr" and "read_law contents item rd"
    and "sm_ok m" and "length m < 2 ^ 32" and "map_parcel M d wr m = Some p"
  shows "\<exists>p'. ReadInterfaceToken M p = (d, p') \<and> read_map M rd listener p' s =
    (if m \<noteq> [] \<and> length m \<le> 2000 then (NoError, listener m s) else (ThermalError E_EXCEED_PARAM_LIMIT, s))"
proof -
  from token_read [OF assms(1) map_parcel_contents [OF assms(1, 2, 6)]]
  obtain p1 where p1: "ReadInterfaceToken M p = (d, p1)" "contents p1 = Uint32 (of_nat (length m)) # entry_items item m"
    by blast
  have "read_law contents Uint32 (ReadUint32 M)" using assms(1) by (simp add: parcel_laws_def)
  from read_lawD [where item = Uint32, OF this p1(2)] obtain p2 where p2: "ReadUint32 M p1 = Some (of_nat (length m), p2)"
    "contents p2 = entry_items item m" by blast
  have n: "unat (of_nat (length m) :: u32) = length m" using assms(5) by (simp add: unat_of_nat take_bit_nat_eq_self)
  have "(of_nat (length m) :: u32) \<le> 0 \<longleftrightarrow> m = []" using n by (simp add: word_le_nat_alt)
  moreover have "MAX_MAP_NUM < (of_nat (length m) :: u32) \<longleftrightarrow> 2000 < length m" using n by (simp add: word_less_nat_alt)
  moreover have "read_entries M rd (length m) [] p2 = Some m"
    using read_entries_back [OF assms(1, 3) p2(2), of "[]"] fold_assign_append [of "[]" m] assms(4) by simp
  ultimately have "read_map M rd listener p1 s =
      (if m \<noteq> [] \<and> length m \<le> 2000 then (NoError, listener m s) else (ThermalError E_EXCEED_PARAM_LIMIT, s))"
    by (simp add: read_map_def p2(1) n)
  with p1(1) show ?thesis by (intro exI [of _ p1] conjI)
qed

lemma level_read_back:
  assumes "parcel_laws M contents" and "level_parcel M level = Some p"
  obtains p' p'' where "ReadInterfaceToken M p = (level_descriptor, p')" and "ReadInt32 M p' = Some (level, p'')"
proof -
  from assms(2) obtain p1 where p: "WriteInterfaceToken M level_descriptor (empty_parcel M) = Some p1"
    "WriteInt32 M level p1 = Some p" by (auto simp: level_parcel_def bind_eq_Some_conv)
  have laws: "contents (empty_parcel M) = []" "write_law contents Token (WriteInterfaceToken M)"
    "write_law contents Int32 (WriteInt32 M)" "read_law contents Int32 (ReadInt32 M)"
    using assms(1) by (simp_all add: parcel_laws_def)
  have "contents p = [Token level_descriptor, Int32 level]"
    using laws(1) write_lawD [OF laws(2), where x = level_descriptor, OF p(1)] write_lawD [OF laws(3), where x = level, OF p(2)]
    by simp
  with token_read [OF assms(1)] obtain p2 where p2: "ReadInterfaceToken M p = (level_descriptor, p2)"
    "contents p2 = [Int32 level]" by blast
  with read_lawD [OF laws(4)] obtain p3 where "ReadInt32 M p2 = Some (level, p3)" by blast
  with that [OF p2(1)] show thesis by simp
qed

text \<open>The callbacks of a listener in another process.\<close>

lemma temps_delivered:
  assumes "parcel_laws M contents" and "connected send (ThermalTempCallbackStub_OnRemoteRequest M base listener)"
    and "sm_ok m" and "length m < 2 ^ 32"
  shows "ThermalTempCallbackProxy_OnThermalTempChanged M (Some send) m s =
    (if map_parcel M temp_descriptor (WriteInt32 M) m \<noteq> None \<and> m \<noteq> [] \<and> length m \<le> 2000
     then (True, listener m s) else (False, s))"
proof (cases "map_parcel M temp_descriptor (WriteInt32 M) m")
  case (Some p)
  have "write_law contents Int32 (WriteInt32 M)" "read_law contents Int32 (ReadInt32 M)"
    using assms(1) by (simp_all add: parcel_laws_def)
  from map_read_back [where listener = listener and s = s, OF assms(1) this assms(3, 4) Some] obtain p' where p':
    "ReadInterfaceToken M p = (temp_descriptor, p')"
    "read_map M (ReadInt32 M) listener p' s =
      (if m \<noteq> [] \<and> length m \<le> 2000 then (NoError, listener m s) else (ThermalError E_EXCEED_PARAM_LIMIT, s))"
    by (elim exE conjE)
  show ?thesis
    using assms(2) by (simp add: Some p' ThermalTempCallbackProxy_OnThermalTempChanged_def send_parcel_def connected_def
        ThermalTempCallbackStub_OnRemoteRequest_def OnThermalTempChangedStub_def)
qed (simp add: ThermalTempCallbackProxy_OnThermalTempChanged_def send_parcel_def)

lemma actions_delivered:
  assumes "parcel_laws M contents" and "connected send (ThermalActionCallbackStub_OnRemoteRequest M base listener)"
    and "sm_ok m" and "length m < 2 ^ 32"
  shows "ThermalActionCallbackProxy_OnThermalActionChanged M (Some send) m s =
    (if map_parcel M action_descriptor (WriteString M) m \<noteq> None \<and> m \<noteq> [] \<and> length m \<le> 2000
     then (True, listener m s) else (False, s))"
proof (cases "map_parcel M action_descriptor (WriteString M) m")
  case (Some p)
  have "write_law contents Text (WriteString M)" "read_law contents Text (ReadString M)"
    using assms(1) by (simp_all add: parcel_laws_def)
  from map_read_back [where listener = listener and s = s, OF assms(1) this assms(3, 4) Some] obtain p' where p':
    "ReadInterfaceToken M p = (action_descriptor, p')"
    "read_map M (ReadString M) listener p' s =
      (if m \<noteq> [] \<and> length m \<le> 2000 then (NoError, listener m s) else (ThermalError E_EXCEED_PARAM_LIMIT, s))"
    by (elim exE conjE)
  show ?thesis
    using assms(2) by (simp add: Some p' ThermalActionCallbackProxy_OnThermalActionChanged_def send_parcel_def connected_def
        ThermalActionCallbackStub_OnRemoteRequest_def OnThermalActionChangedStub_def)
qed (simp add: ThermalActionCallbackProxy_OnThermalActionChanged_def send_parcel_def)

lemma level_delivered:
  assumes "parcel_laws M contents"
    and "connected send (ThermalLevelCallbackStub_OnRemoteRequest M base listener async_listener)"
    and "level_parcel M level \<noteq> None"
  shows "ThermalLevelCallbackProxy_OnThermalLevelChanged M (Some send) level s = (True, listener level s)"
    and "ThermalLevelCallbackProxy_OnAsyncThermalLevelChanged M (Some send) level s = (True, async_listener level s)"
proof -
  from assms(3) obtain p where p: "level_parcel M level = Some p" by blast
  from level_read_back [OF assms(1) p] obtain p' p'' where "ReadInterfaceToken M p = (level_descriptor, p')"
    "ReadInt32 M p' = Some (level, p'')" by blast
  note defs = send_parcel_def ThermalLevelCallbackStub_OnRemoteRequest_def OnThermalLevelChangedStub_def
    OnAsyncThermalLevelChangedStub_def and read = this
  show "ThermalLevelCallbackProxy_OnThermalLevelChanged M (Some send) level s = (True, listener level s)"
    using assms(2) by (simp add: ThermalLevelCallbackProxy_OnThermalLevelChanged_def connected_def defs p read)
  show "ThermalLevelCallbackProxy_OnAsyncThermalLevelChanged M (Some send) level s = (True, async_listener level s)"
    using assms(2) by (simp add: ThermalLevelCallbackProxy_OnAsyncThermalLevelChanged_def connected_def defs p read)
qed

end
