(* ===== verification/Thermal_Client.thy ===== *)
theory Thermal_Client
  imports Service_Safety Callback_Ipc
begin

text \<open>
  The client library of other processes (\<open>frameworks/native\<close>): \<open>ThermalMgrClient\<close>, which finds the
  service, watches it and forwards requests to it, and \<open>ThermalMgrListener\<close>, which subscribes to
  thermal levels through it.

  A remote object is a number. The system ability manager and the IPC library are a
  \<open>system_env\<close>; it also holds the death notices that other threads handle between the connection
  and the use of the pointer, which is not under the lock. The proxy that the IDL compiler
  generates is a parameter, \<open>client_proxy\<close>; \<open>forwards\<close> says that it reaches the service's model.
\<close>

section \<open>The connection\<close>

datatype weak_remote = NullRemote | Expired | Alive nat      \<comment> \<open>\<open>wptr<IRemoteObject>\<close> and what it promotes to\<close>

record system_env =
  GetSystemAbilityManager :: bool                \<comment> \<open>whether it finds the manager\<close>
  CheckSystemAbility :: "nat option"
  new_recipient :: bool                          \<comment> \<open>whether the allocation succeeds\<close>
  IsProxyObject :: bool
  AddDeathRecipient :: bool
  iface_cast :: bool                             \<comment> \<open>whether the object is an \<open>IThermalSrv\<close>\<close>
  notices :: "weak_remote list"

record ThermalMgrClient =
  thermalSrv :: "nat option"
  deathRecipient :: "nat option"
  recipients :: nat                              \<comment> \<open>the recipients allocated so far, which number them\<close>
  remote_watched :: "(nat \<times> nat) list"           \<comment> \<open>remote objects with the recipients they hold\<close>

definition ThermalMgrClient_new :: ThermalMgrClient where
  "ThermalMgrClient_new = \<lparr>thermalSrv = None, deathRecipient = None, recipients = 0, remote_watched = []\<rparr>"

definition RemoveDeathRecipient :: "nat \<Rightarrow> nat option \<Rightarrow> (nat \<times> nat) list \<Rightarrow> (nat \<times> nat) list" where
  "RemoveDeathRecipient r d ws = (case d of None \<Rightarrow> ws | Some d \<Rightarrow> removeAll (r, d) ws)"

definition ThermalMgrClient_destroy :: "ThermalMgrClient \<Rightarrow> ThermalMgrClient" where
  "ThermalMgrClient_destroy c =
     (case thermalSrv c of
        None \<Rightarrow> c
      | Some r \<Rightarrow> c\<lparr>remote_watched := RemoveDeathRecipient r (deathRecipient c) (remote_watched c)\<rparr>)"

definition ThermalMgrClient_Connect :: "system_env \<Rightarrow> ThermalMgrClient \<Rightarrow> ErrCode \<times> ThermalMgrClient" where
  "ThermalMgrClient_Connect S c =
     (if thermalSrv c \<noteq> None then (NoError, c)
      else if \<not> GetSystemAbilityManager S then (ThermalError E_GET_SYSTEM_ABILITY_MANAGER_FAILED_THERMAL, c)
      else (case CheckSystemAbility S of
        None \<Rightarrow> (ThermalError E_GET_THERMAL_SERVICE_FAILED, c)
      | Some r \<Rightarrow>
          if \<not> new_recipient S then (NoMemory, c)
          else
            let drt = recipients c; c = c\<lparr>recipients := Suc drt\<rparr>
            in if IsProxyObject S \<and> \<not> AddDeathRecipient S
               then (ThermalError E_ADD_DEATH_RECIPIENT_FAILED_THERMAL, c)
               else (NoError, c\<lparr>thermalSrv := (if iface_cast S then Some r else None), deathRecipient := Some drt,
                      remote_watched := remote_watched c @ (if IsProxyObject S then [(r, drt)] else [])\<rparr>)))"

definition ThermalMgrClient_ResetProxy :: "weak_remote \<Rightarrow> ThermalMgrClient \<Rightarrow> ThermalMgrClient" where
  "ThermalMgrClient_ResetProxy remote c =
     (if remote = NullRemote then c
      else case thermalSrv c of
        None \<Rightarrow> c
      | Some r \<Rightarrow>
          if remote = Alive r
          then c\<lparr>remote_watched := RemoveDeathRecipient r (deathRecipient c) (remote_watched c), thermalSrv := None\<rparr>
          else c)"

definition ThermalMgrDeathRecipient_OnRemoteDied :: "weak_remote \<Rightarrow> ThermalMgrClient \<Rightarrow> ThermalMgrClient" where
  "ThermalMgrDeathRecipient_OnRemoteDied remote c = ThermalMgrClient_ResetProxy remote c"

section \<open>Requests\<close>

text \<open>
  The generated proxy over the state \<open>'s\<close> behind the connection: a request without a reply,
  the sensor's information with \<open>sensorInfoRet\<close>, the level and the output of a dump, which take
  what the caller's variable held.
\<close>

record 's client_proxy =
  px_call :: "request \<Rightarrow> 's \<Rightarrow> (int \<times> 's) result"
  px_sensor :: "nat \<Rightarrow> string \<times> int \<Rightarrow> bool \<Rightarrow> 's \<Rightarrow> ((bool \<times> string \<times> int) \<times> 's) result"
  px_level :: "int \<Rightarrow> 's \<Rightarrow> (int \<times> 's) result"
  px_dump :: "string list \<Rightarrow> nat \<Rightarrow> string \<Rightarrow> 's \<Rightarrow> (string \<times> 's) result"

text \<open>\<open>Connect\<close>, what other threads do then, and the use of \<open>thermalSrv_\<close>.\<close>

definition with_service :: "system_env \<Rightarrow> 'r \<Rightarrow> ('s \<Rightarrow> ('r \<times> 's) result) \<Rightarrow> ThermalMgrClient \<times> 's \<Rightarrow>
    ('r \<times> ThermalMgrClient \<times> 's) result" where
  "with_service S failed f = (\<lambda>(c, s).
     let (ret, c) = ThermalMgrClient_Connect S c
     in if ret \<noteq> NoError then Inr (failed, c, s)
        else let c = fold ThermalMgrDeathRecipient_OnRemoteDied (notices S) c
             in bindr (deref (thermalSrv c)) (\<lambda>_. bindr (f s) (\<lambda>(r, s). Inr (r, c, s))))"

text \<open>A request whose answer is dropped, and one that reports whether it was accepted.\<close>

definition submit :: "'s client_proxy \<Rightarrow> request \<Rightarrow> 's \<Rightarrow> (bool \<times> 's) result" where
  "submit X r s = bindr (px_call X r s) (\<lambda>(_, s). Inr (True, s))"

definition ask :: "'s client_proxy \<Rightarrow> request \<Rightarrow> 's \<Rightarrow> (bool \<times> 's) result" where
  "ask X r s = bindr (px_call X r s) (\<lambda>(ret, s). Inr (ret = ERR_OK, s))"

definition ThermalMgrClient_SubscribeThermalTempCallback :: "'s client_proxy \<Rightarrow> system_env \<Rightarrow> string list \<Rightarrow>
    listener option \<Rightarrow> ThermalMgrClient \<times> 's \<Rightarrow> (bool \<times> ThermalMgrClient \<times> 's) result" where
  "ThermalMgrClient_SubscribeThermalTempCallback X S typeList callback C =
     (if callback = None then Inr (False, C)
      else with_service S False (submit X (SubscribeTemp typeList callback)) C)"

definition ThermalMgrClient_UnSubscribeThermalTempCallback :: "'s client_proxy \<Rightarrow> system_env \<Rightarrow>
    listener option \<Rightarrow> ThermalMgrClient \<times> 's \<Rightarrow> (bool \<times> ThermalMgrClient \<times> 's) result" where
  "ThermalMgrClient_UnSubscribeThermalTempCallback X S callback C =
     (if callback = None then Inr (False, C)
      else with_service S False (submit X (UnSubscribeTemp callback)) C)"

definition ThermalMgrClient_SubscribeThermalLevelCallback :: "'s client_proxy \<Rightarrow> system_env \<Rightarrow>
    nat option \<Rightarrow> bool \<Rightarrow> ThermalMgrClient \<times> 's \<Rightarrow> (bool \<times> ThermalMgrClient \<times> 's) result" where
  "ThermalMgrClient_SubscribeThermalLevelCallback X S callback isSync C =
     (if callback = None then Inr (False, C)
      else with_service S False (submit X (SubscribeLevel callback isSync)) C)"

definition ThermalMgrClient_UnSubscribeThermalLevelCallback :: "'s client_proxy \<Rightarrow> system_env \<Rightarrow>
    nat option \<Rightarrow> ThermalMgrClient \<times> 's \<Rightarrow> (bool \<times> ThermalMgrClient \<times> 's) result" where
  "ThermalMgrClient_UnSubscribeThermalLevelCallback X S callback C =
     (if callback = None then Inr (False, C)
      else with_service S False (submit X (UnSubscribeLevel callback)) C)"

text \<open>The description that the code passes along is not used by the service.\<close>

definition ThermalMgrClient_SubscribeThermalActionCallback :: "'s client_proxy \<Rightarrow> system_env \<Rightarrow> string list \<Rightarrow>
    listener option \<Rightarrow> ThermalMgrClient \<times> 's \<Rightarrow> (bool \<times> ThermalMgrClient \<times> 's) result" where
  "ThermalMgrClient_SubscribeThermalActionCallback X S actionList callback C =
     (if callback = None then Inr (False, C)
      else with_service S False (submit X (SubscribeAction actionList callback)) C)"

definition ThermalMgrClient_UnSubscribeThermalActionCallback :: "'s client_proxy \<Rightarrow> system_env \<Rightarrow>
    listener option \<Rightarrow> ThermalMgrClient \<times> 's \<Rightarrow> (bool \<times> ThermalMgrClient \<times> 's) result" where
  "ThermalMgrClient_UnSubscribeThermalActionCallback X S callback C =
     (if callback = None then Inr (False, C)
      else with_service S False (submit X (UnSubscribeAction callback)) C)"

text \<open>The one request that looks at the pointer again before it uses it.\<close>

definition ThermalMgrClient_GetThermalSrvSensorInfo :: "'s client_proxy \<Rightarrow> system_env \<Rightarrow> nat \<Rightarrow> string \<times> int \<Rightarrow>
    ThermalMgrClient \<times> 's \<Rightarrow> ((bool \<times> string \<times> int) \<times> ThermalMgrClient \<times> 's) result" where
  "ThermalMgrClient_GetThermalSrvSensorInfo X S type sensorInfo = (\<lambda>(c, s).
     let (ret, c) = ThermalMgrClient_Connect S c
     in if ret \<noteq> NoError then Inr ((False, sensorInfo), c, s)
        else let c = fold ThermalMgrDeathRecipient_OnRemoteDied (notices S) c
             in if thermalSrv c = None then Inr ((False, sensorInfo), c, s)
                else bindr (px_sensor X type sensorInfo False s) (\<lambda>(r, s). Inr (r, c, s)))"

text \<open>The temperature of a new \<open>ThermalSrvSensorInfo\<close> is indeterminate.\<close>

definition ThermalMgrClient_GetThermalSensorTemp :: "'s client_proxy \<Rightarrow> system_env \<Rightarrow> int \<Rightarrow> nat \<Rightarrow>
    ThermalMgrClient \<times> 's \<Rightarrow> (int \<times> ThermalMgrClient \<times> 's) result" where
  "ThermalMgrClient_GetThermalSensorTemp X S indeterminate type C =
     bindr (ThermalMgrClient_GetThermalSrvSensorInfo X S type ([], indeterminate) C) (\<lambda>((ret, info), C). Inr (snd info, C))"

definition ThermalMgrClient_GetLevel :: "'s client_proxy \<Rightarrow> system_env \<Rightarrow> int \<Rightarrow>
    ThermalMgrClient \<times> 's \<Rightarrow> (int \<times> ThermalMgrClient \<times> 's) result" where
  "ThermalMgrClient_GetLevel X S lev = with_service S lev (px_level X lev)"

abbreviation (input) COOL :: int where "COOL \<equiv> 0"

definition ThermalMgrClient_GetThermalLevel :: "'s client_proxy \<Rightarrow> system_env \<Rightarrow>
    ThermalMgrClient \<times> 's \<Rightarrow> (int \<times> ThermalMgrClient \<times> 's) result" where
  "ThermalMgrClient_GetThermalLevel X S = ThermalMgrClient_GetLevel X S COOL"

definition ThermalMgrClient_SetScene :: "'s client_proxy \<Rightarrow> system_env \<Rightarrow> string \<Rightarrow>
    ThermalMgrClient \<times> 's \<Rightarrow> (bool \<times> ThermalMgrClient \<times> 's) result" where
  "ThermalMgrClient_SetScene X S newScene = with_service S False (ask X (SetSceneTo newScene))"

definition ThermalMgrClient_UpdateThermalState :: "'s client_proxy \<Rightarrow> system_env \<Rightarrow> string \<Rightarrow> string \<Rightarrow> bool \<Rightarrow>
    ThermalMgrClient \<times> 's \<Rightarrow> (bool \<times> ThermalMgrClient \<times> 's) result" where
  "ThermalMgrClient_UpdateThermalState X S tag val isImmed = with_service S False (ask X (UpdateState tag val isImmed))"

definition ThermalMgrClient_UpdateThermalPolicy :: "'s client_proxy \<Rightarrow> system_env \<Rightarrow>
    ThermalMgrClient \<times> 's \<Rightarrow> (bool \<times> ThermalMgrClient \<times> 's) result" where
  "ThermalMgrClient_UpdateThermalPolicy X S = with_service S False (ask X GetInfo)"

abbreviation (input) PARAM_MAX_NUM :: nat where "PARAM_MAX_NUM \<equiv> 10"

definition ThermalMgrClient_Dump :: "'s client_proxy \<Rightarrow> system_env \<Rightarrow> string list \<Rightarrow>
    ThermalMgrClient \<times> 's \<Rightarrow> (string \<times> ThermalMgrClient \<times> 's) result" where
  "ThermalMgrClient_Dump X S args = (\<lambda>(c, s).
     let (ret, c) = ThermalMgrClient_Connect S c
     in if ret \<noteq> NoError then Inr (''can'' @ [CHR 0x27] @ ''t connect service'', c, s)
        else if PARAM_MAX_NUM \<le> length args then Inr (''remote error'', c, s)
        else let c = fold ThermalMgrDeathRecipient_OnRemoteDied (notices S) c
             in bindr (deref (thermalSrv c)) (\<lambda>_.
                  bindr (px_dump X args (length args) ''remote error'' s) (\<lambda>(out, s). Inr (out, c, s))))"

section \<open>The listener of levels\<close>

record ThermalMgrListener =
  callback_object :: "nat option"     \<comment> \<open>the remote object of \<open>callback_\<close>\<close>
  levelEvent :: "nat option"          \<comment> \<open>the application's object\<close>

text \<open>What the events of the application were called with, oldest first.\<close>

type_synonym level_events = "(nat \<times> int) list"

text \<open>\<open>None\<close> is a listener that is gone, whose \<open>weak_ptr\<close> locks to nothing.\<close>

definition ThermalLevelCallback_OnThermalLevelChanged ::
    "ThermalMgrListener option \<Rightarrow> int \<Rightarrow> level_events \<Rightarrow> (bool \<times> level_events) result" where
  "ThermalLevelCallback_OnThermalLevelChanged listener lev evs =
     (case listener of
        None \<Rightarrow> Inr (False, evs)
      | Some L \<Rightarrow> bindr (deref (levelEvent L)) (\<lambda>e. Inr (True, evs @ [(e, lev)])))"

definition ThermalLevelCallback_OnAsyncThermalLevelChanged ::
    "ThermalMgrListener option \<Rightarrow> int \<Rightarrow> level_events \<Rightarrow> (bool \<times> level_events) result" where
  "ThermalLevelCallback_OnAsyncThermalLevelChanged listener lev evs =
     (case listener of
        None \<Rightarrow> Inr (False, evs)
      | Some L \<Rightarrow> bindr (deref (levelEvent L)) (\<lambda>e. Inr (True, evs @ [(e, lev)])))"

text \<open>The new callback object is an argument.\<close>

definition ThermalMgrListener_RegisterServiceEvent :: "'s client_proxy \<Rightarrow> system_env \<Rightarrow> nat \<Rightarrow> bool \<Rightarrow>
    ThermalMgrListener \<Rightarrow> ThermalMgrClient \<times> 's \<Rightarrow> (ThermalMgrListener \<times> ThermalMgrClient \<times> 's) result" where
  "ThermalMgrListener_RegisterServiceEvent X S obj isSync L C =
     (let L = L\<lparr>callback_object := Some obj\<rparr>
      in bindr (ThermalMgrClient_SubscribeThermalLevelCallback X S (callback_object L) isSync C) (\<lambda>(ret, C). Inr (L, C)))"

definition ThermalMgrListener_UnRegisterServiceEvent :: "'s client_proxy \<Rightarrow> system_env \<Rightarrow>
    ThermalMgrListener \<Rightarrow> ThermalMgrClient \<times> 's \<Rightarrow> (ThermalMgrListener \<times> ThermalMgrClient \<times> 's) result" where
  "ThermalMgrListener_UnRegisterServiceEvent X S L C =
     bindr (ThermalMgrClient_UnSubscribeThermalLevelCallback X S (callback_object L) C) (\<lambda>(ret, C). Inr (L, C))"

definition ThermalMgrListener_SubscribeLevelEvent :: "'s client_proxy \<Rightarrow> system_env \<Rightarrow> nat \<Rightarrow> nat option \<Rightarrow> bool \<Rightarrow>
    ThermalMgrListener \<Rightarrow> ThermalMgrClient \<times> 's \<Rightarrow> (ErrCode \<times> ThermalMgrListener \<times> ThermalMgrClient \<times> 's) result" where
  "ThermalMgrListener_SubscribeLevelEvent X S obj event isSync L C =
     (if event = None then Inr (InvalidValue, L, C)
      else bindr (ThermalMgrListener_RegisterServiceEvent X S obj isSync (L\<lparr>levelEvent := event\<rparr>) C) (\<lambda>(L, C).
             Inr (NoError, L, C)))"

definition ThermalMgrListener_UnSubscribeLevelEvent :: "'s client_proxy \<Rightarrow> system_env \<Rightarrow>
    ThermalMgrListener \<Rightarrow> ThermalMgrClient \<times> 's \<Rightarrow> (ErrCode \<times> ThermalMgrListener \<times> ThermalMgrClient \<times> 's) result" where
  "ThermalMgrListener_UnSubscribeLevelEvent X S L C =
     (if callback_object L = None then Inr (InvalidValue, L, C)
      else bindr (ThermalMgrListener_UnRegisterServiceEvent X S L C) (\<lambda>(L, C). Inr (NoError, L, C)))"

definition ThermalMgrListener_GetThermalLevel :: "'s client_proxy \<Rightarrow> system_env \<Rightarrow>
    ThermalMgrClient \<times> 's \<Rightarrow> (int \<times> ThermalMgrClient \<times> 's) result" where
  "ThermalMgrListener_GetThermalLevel X S = ThermalMgrClient_GetThermalLevel X S"

end
