(* ===== verification/Client_Proofs.thy ===== *)
theory Client_Proofs
  imports Thermal_Client
begin

text \<open>
  What processes on the other side of the IPC see: which maps and levels arrive at a listener,
  that a client that is connected watches its service and reconnects after its death, and two
  ways in which the client library goes wrong.
\<close>

section \<open>A parcel and a connection\<close>

text \<open>The simplest parcel, the list of its entries, and the simplest connection satisfy the laws.\<close>

definition list_parcel :: "parcel_item list parcel_ops" where
  "list_parcel = \<lparr>empty_parcel = [],
     WriteInterfaceToken = (\<lambda>t p. Some (p @ [Token t])), WriteUint32 = (\<lambda>n p. Some (p @ [Uint32 n])),
     WriteInt32 = (\<lambda>i p. Some (p @ [Int32 i])), WriteString = (\<lambda>t p. Some (p @ [Text t])),
     ReadInterfaceToken = (\<lambda>p. case p of Token t # q \<Rightarrow> (t, q) | _ \<Rightarrow> ([], p)),
     ReadUint32 = (\<lambda>p. case p of Uint32 n # q \<Rightarrow> Some (n, q) | _ \<Rightarrow> None),
     ReadInt32 = (\<lambda>p. case p of Int32 i # q \<Rightarrow> Some (i, q) | _ \<Rightarrow> None),
     ReadString = (\<lambda>p. case p of Text t # q \<Rightarrow> Some (t, q) | _ \<Rightarrow> None)\<rparr>"

lemma list_parcel_laws: "parcel_laws list_parcel (\<lambda>p. p)"
  by (simp add: parcel_laws_def write_law_def read_law_def list_parcel_def)

lemma list_parcel_map: "map_parcel list_parcel d (WriteInt32 list_parcel) m \<noteq> None"
  "map_parcel list_parcel d (WriteString list_parcel) a \<noteq> None"
proof -
  have "write_entries list_parcel (WriteInt32 list_parcel) m p \<noteq> None" for p
    by (induction m arbitrary: p) (auto simp: list_parcel_def)
  moreover have "write_entries list_parcel (WriteString list_parcel) a p \<noteq> None" for p
    by (induction a arbitrary: p) (auto simp: list_parcel_def)
  ultimately show "map_parcel list_parcel d (WriteInt32 list_parcel) m \<noteq> None"
    "map_parcel list_parcel d (WriteString list_parcel) a \<noteq> None"
    by (simp_all add: map_parcel_def list_parcel_def)
qed

lemma list_parcel_level [simp]: "level_parcel list_parcel lev \<noteq> None"
  by (simp add: level_parcel_def list_parcel_def)

definition direct :: "('p, 's) stub \<Rightarrow> ('p, 's) remote" where
  "direct stub code p async s = (if async then (NoError, snd (stub code p s)) else stub code p s)"

lemma connected_direct [simp]: "connected (direct stub) stub"
  by (simp add: connected_def direct_def)

definition no_stub :: "('p, 's) stub" where
  "no_stub code p s = (OtherError 305, s)"

section \<open>Reports without a change\<close>

definition reading :: "(string, int) smap \<Rightarrow> string \<Rightarrow> int" where
  "reading m t = (case sm_find m t of Some v \<Rightarrow> v | None \<Rightarrow> 0)"

lemma index_insert_reading: "sm_ok m \<Longrightarrow> index_insert k m = (v, m') \<Longrightarrow> v = reading m k \<and> reading m' = reading m \<and> sm_ok m'"
  by (auto simp: index_insert_def reading_def fun_eq_iff sm_ok_insert split: option.splits if_splits)

lemma notify_type_quiet:
  assumes "sm_ok pre" and "sm_ok cb" and "reading pre t = reading cb t" and "notify_type t (pre, cb, new) = (pre', cb', new')"
  shows "sm_ok pre' \<and> sm_ok cb' \<and> reading pre' = reading pre \<and> reading cb' = reading cb \<and> new' = new"
proof -
  obtain p pre1 where p: "index_insert t pre = (p, pre1)" by (cases "index_insert t pre")
  obtain c cb1 where c: "index_insert t cb = (c, cb1)" by (cases "index_insert t cb")
  from index_insert_reading [OF assms(1) p] index_insert_reading [OF assms(2) c] assms(3, 4) p c
  show ?thesis by (auto simp: notify_type_def)
qed

lemma notify_types_quiet:
  assumes "sm_ok pre" and "sm_ok cb" and "\<forall>t \<in> set ts. reading pre t = reading cb t"
    and "fold notify_type ts (pre, cb, new) = (pre', cb', new')"
  shows "sm_ok pre' \<and> sm_ok cb' \<and> reading pre' = reading pre \<and> reading cb' = reading cb \<and> new' = new"
  using assms
proof (induction ts arbitrary: pre cb new)
  case (Cons t ts)
  obtain pre1 cb1 new1 where n: "notify_type t (pre, cb, new) = (pre1, cb1, new1)" by (cases "notify_type t (pre, cb, new)")
  from notify_type_quiet [OF Cons.prems(1, 2) _ n] Cons.prems(3)
  have q: "sm_ok pre1" "sm_ok cb1" "reading pre1 = reading pre" "reading cb1 = reading cb" "new1 = new" by simp_all
  with Cons.IH [of pre1 cb1 new1] Cons.prems(3, 4) n show ?case by simp
qed simp

lemma notify_loop_quiet:
  assumes "sm_ok pre" and "sm_ok cb"
    and "\<forall>l \<in> set ls. \<forall>ts. sm_find types l = Some ts \<longrightarrow> (\<forall>t \<in> set ts. reading pre t = reading cb t)"
  shows "snd (notify_temp_loop types ls (pre, cb, []) calls) = calls @ map (\<lambda>l. OnThermalTempChanged l []) ls"
  using assms
proof (induction ls arbitrary: pre cb calls)
  case (Cons l ls)
  obtain pre1 cb1 new1 where n: "(case sm_find types l of Some ts \<Rightarrow> fold notify_type ts (pre, cb, []) | None \<Rightarrow> (pre, cb, []))
      = (pre1, cb1, new1)" by (cases "case sm_find types l of Some ts \<Rightarrow> fold notify_type ts (pre, cb, []) | None \<Rightarrow> (pre, cb, [])")
  have "sm_ok pre1 \<and> sm_ok cb1 \<and> reading pre1 = reading pre \<and> reading cb1 = reading cb \<and> new1 = []"
  proof (cases "sm_find types l")
    case None
    with n Cons.prems(1, 2) show ?thesis by auto
  next
    case (Some ts)
    with Cons.prems(3) have "\<forall>t \<in> set ts. reading pre t = reading cb t" by simp
    from notify_types_quiet [OF Cons.prems(1, 2) this] n Some show ?thesis by simp
  qed
  with Cons.IH [of pre1 cb1] Cons.prems(3) show ?case by (simp only: notify_temp_loop.simps n Let_def snd_conv) simp
qed simp

text \<open>The calls of the observer, each over the connection to its listener.\<close>

fun deliver_temps :: "'p parcel_ops \<Rightarrow> (listener \<Rightarrow> ('p, 's) remote option) \<Rightarrow> observer_call \<Rightarrow> 's \<Rightarrow> 's" where
  "deliver_temps M remotes (OnThermalTempChanged l m) s =
     snd (ThermalTempCallbackProxy_OnThermalTempChanged M (remotes l) m s)"
| "deliver_temps M remotes c s = s"

section \<open>The connection of a client\<close>

text \<open>A process other than the service's: what it finds is a proxy.\<close>

inductive client_reach :: "ThermalMgrClient \<Rightarrow> bool" where
  initial: "client_reach ThermalMgrClient_new"
| connect: "client_reach c \<Longrightarrow> IsProxyObject S \<Longrightarrow> iface_cast S \<Longrightarrow> client_reach (snd (ThermalMgrClient_Connect S c))"
| died: "client_reach c \<Longrightarrow> client_reach (ThermalMgrDeathRecipient_OnRemoteDied remote c)"

definition client_ok :: "ThermalMgrClient \<Rightarrow> bool" where
  "client_ok c \<longleftrightarrow>
     (case thermalSrv c of
        None \<Rightarrow> remote_watched c = []
      | Some r \<Rightarrow> \<exists>d. deathRecipient c = Some d \<and> remote_watched c = [(r, d)])"

lemma client_ok_reach: "client_reach c \<Longrightarrow> client_ok c"
proof (induction rule: client_reach.induct)
  case (connect c S)
  then show ?case
    by (auto simp: client_ok_def ThermalMgrClient_Connect_def Let_def split: option.splits)
next
  case (died c remote)
  then show ?case
    by (auto simp: client_ok_def ThermalMgrDeathRecipient_OnRemoteDied_def ThermalMgrClient_ResetProxy_def
        RemoveDeathRecipient_def split: option.splits)
qed (simp add: client_ok_def ThermalMgrClient_new_def)

definition system_up :: "nat \<Rightarrow> system_env \<Rightarrow> bool" where
  "system_up r S \<longleftrightarrow> GetSystemAbilityManager S \<and> CheckSystemAbility S = Some r \<and> new_recipient S \<and> IsProxyObject S \<and>
     AddDeathRecipient S \<and> iface_cast S"

section \<open>Levels\<close>

text \<open>The stub of a callback object, with the listener that made it; its process logs what its events see.\<close>

definition level_stub :: "'p parcel_ops \<Rightarrow> ('p, level_events result) stub \<Rightarrow> ThermalMgrListener option \<Rightarrow>
    ('p, level_events result) stub" where
  "level_stub M base L = ThermalLevelCallbackStub_OnRemoteRequest M base
     (\<lambda>lev r. map_ok snd (bindr r (ThermalLevelCallback_OnThermalLevelChanged L lev)))
     (\<lambda>lev r. map_ok snd (bindr r (ThermalLevelCallback_OnAsyncThermalLevelChanged L lev)))"

fun deliver_level :: "'p parcel_ops \<Rightarrow> (nat \<Rightarrow> ('p, 's) remote option) \<Rightarrow> effect \<Rightarrow> 's \<Rightarrow> 's" where
  "deliver_level M remotes (OnThermalLevelChanged l lev) s =
     snd (ThermalLevelCallbackProxy_OnThermalLevelChanged M (remotes l) lev s)"
| "deliver_level M remotes (OnAsyncThermalLevelChanged l lev) s =
     snd (ThermalLevelCallbackProxy_OnAsyncThermalLevelChanged M (remotes l) lev s)"
| "deliver_level M remotes e s = s"

definition level_reported :: "(nat \<Rightarrow> ThermalMgrListener option) \<Rightarrow> int \<Rightarrow> nat list \<Rightarrow> level_events" where
  "level_reported objects lev ls =
     concat (map (\<lambda>l. case objects l of None \<Rightarrow> [] | Some L \<Rightarrow> [(the (levelEvent L), lev)]) ls)"

lemma deliver_levels:
  assumes "parcel_laws M contents" and "\<And>l. \<exists>send. remotes l = Some send \<and> connected send (level_stub M base (objects l))"
    and "level_parcel M lev \<noteq> None" and "\<And>l L. objects l = Some L \<Longrightarrow> levelEvent L \<noteq> None"
  shows "fold (deliver_level M remotes) (map (\<lambda>l. OnThermalLevelChanged l lev) ls) (Inr evs) =
      Inr (evs @ level_reported objects lev ls)"
    and "fold (deliver_level M remotes) (map (\<lambda>l. OnAsyncThermalLevelChanged l lev) ls) (Inr evs) =
      Inr (evs @ level_reported objects lev ls)"
proof -
  have one: "deliver_level M remotes (OnThermalLevelChanged l lev) (Inr evs) =
      Inr (evs @ (case objects l of None \<Rightarrow> [] | Some L \<Rightarrow> [(the (levelEvent L), lev)])) \<and>
    deliver_level M remotes (OnAsyncThermalLevelChanged l lev) (Inr evs) =
      Inr (evs @ (case objects l of None \<Rightarrow> [] | Some L \<Rightarrow> [(the (levelEvent L), lev)]))" for l evs
  proof -
    from assms(2) obtain send where r: "remotes l = Some send"
      and c: "connected send (level_stub M base (objects l))" by blast
    show ?thesis
      using assms(4) [of l] r level_delivered [OF assms(1) c [unfolded level_stub_def] assms(3), of "Inr evs"]
      by (auto simp: ThermalLevelCallback_OnThermalLevelChanged_def ThermalLevelCallback_OnAsyncThermalLevelChanged_def
          split: option.splits)
  qed
  show "fold (deliver_level M remotes) (map (\<lambda>l. OnThermalLevelChanged l lev) ls) (Inr evs) =
      Inr (evs @ level_reported objects lev ls)"
    using one by (induction ls arbitrary: evs) (simp_all add: level_reported_def)
  show "fold (deliver_level M remotes) (map (\<lambda>l. OnAsyncThermalLevelChanged l lev) ls) (Inr evs) =
      Inr (evs @ level_reported objects lev ls)"
    using one by (induction ls arbitrary: evs) (simp_all add: level_reported_def)
qed

section \<open>What goes wrong\<close>

text \<open>
  A listener that subscribes a second time makes a new callback object and forgets the first,
  which stays subscribed; taking the subscription back later takes back only the second.
\<close>

definition forwards :: "thermal_service client_proxy \<Rightarrow> environment \<Rightarrow> bool" where
  "forwards X E \<longleftrightarrow> (\<forall>r s. px_call X r s = serve E r s)"

lemma with_service_connected:
  assumes "thermalSrv c = Some r" and "notices S = []"
  shows "with_service S failed f (c, s) = bindr (f s) (\<lambda>(x, s). Inr (x, c, s))"
  using assms by (simp add: with_service_def ThermalMgrClient_Connect_def)

lemma subscribe_level_listeners:
  assumes "sv_actionMgr s = Some mgr" and "thermal_level_action mgr = Some a"
  shows "\<exists>s'. ThermalService_SubscribeThermalLevelCallback (Some l) True s = Inr (ERR_OK, s') \<and>
      sv_actionMgr s' = Some mgr \<and> set (syncThermalLevelListeners (sv_world s')) = insert l (set (syncThermalLevelListeners (sv_world s)))"
    and "\<exists>s'. ThermalService_UnSubscribeThermalLevelCallback (Some l) s = Inr (ERR_OK, s') \<and>
      sv_actionMgr s' = Some mgr \<and> set (syncThermalLevelListeners (sv_world s')) = set (syncThermalLevelListeners (sv_world s)) - {l}"
  using assms
  by (auto simp: ThermalService_SubscribeThermalLevelCallback_def ThermalService_UnSubscribeThermalLevelCallback_def upd_world_def
      ThermalActionManager_SubscribeThermalLevelCallback_def ThermalActionManager_UnSubscribeThermalLevelCallback_def
      ActionThermalLevel_SubscribeThermalLevelCallback_def ActionThermalLevel_AddThermalLevelListeners_def
      ActionThermalLevel_UnSubscribeThermalLevelCallback_def emit_def Let_def)

theorem unsubscribed_listener_still_told:
  assumes "forwards X E" and "thermalSrv c = Some r" and "notices S = []"
    and "sv_actionMgr s = Some mgr" and "thermal_level_action mgr = Some a" and "obj1 \<noteq> obj2"
  shows "\<exists>L s'. bindr (ThermalMgrListener_SubscribeLevelEvent X S obj1 (Some e) True L0 (c, s)) (\<lambda>(_, L, C).
      bindr (ThermalMgrListener_SubscribeLevelEvent X S obj2 (Some e) True L C) (\<lambda>(_, L, C).
        ThermalMgrListener_UnSubscribeLevelEvent X S L C)) = Inr (NoError, L, c, s') \<and>
      obj1 \<in> set (syncThermalLevelListeners (sv_world s'))"
proof -
  from subscribe_level_listeners(1) [OF assms(4, 5), of obj1] obtain s1 where
    s1: "ThermalService_SubscribeThermalLevelCallback (Some obj1) True s = Inr (ERR_OK, s1)" "sv_actionMgr s1 = Some mgr"
      "obj1 \<in> set (syncThermalLevelListeners (sv_world s1))" by blast
  from subscribe_level_listeners(1) [OF s1(2) assms(5), of obj2] s1(3) obtain s2 where
    s2: "ThermalService_SubscribeThermalLevelCallback (Some obj2) True s1 = Inr (ERR_OK, s2)" "sv_actionMgr s2 = Some mgr"
      "obj1 \<in> set (syncThermalLevelListeners (sv_world s2))" by blast
  from subscribe_level_listeners(2) [OF s2(2) assms(5), of obj2] s2(3) assms(6) obtain s3 where
    s3: "ThermalService_UnSubscribeThermalLevelCallback (Some obj2) s2 = Inr (ERR_OK, s3)"
      "obj1 \<in> set (syncThermalLevelListeners (sv_world s3))" by blast
  note calls = ThermalMgrListener_SubscribeLevelEvent_def ThermalMgrListener_RegisterServiceEvent_def
    ThermalMgrListener_UnSubscribeLevelEvent_def ThermalMgrListener_UnRegisterServiceEvent_def
    ThermalMgrClient_SubscribeThermalLevelCallback_def ThermalMgrClient_UnSubscribeThermalLevelCallback_def
    with_service_connected [OF assms(2, 3)] submit_def
  from s1(1) s2(1) s3 assms(1) show ?thesis by (auto simp: calls forwards_def)
qed

text \<open>
  The pointer is used outside the lock: a death notice that is handled after \<open>Connect\<close> leaves
  the request with a null pointer. Only the request for a sensor's information looks again.
\<close>

theorem request_races_with_death:
  assumes "thermalSrv c = Some r" and "notices S = [Alive r]"
  shows "ThermalMgrClient_SetScene X S sc (c, s) = Inl NullPointer"
    and "\<exists>c'. ThermalMgrClient_GetThermalSrvSensorInfo X S type info (c, s) = Inr ((False, info), c', s)"
  using assms
  by (simp_all add: ThermalMgrClient_SetScene_def ThermalMgrClient_GetThermalSrvSensorInfo_def with_service_def
      ThermalMgrClient_Connect_def ThermalMgrDeathRecipient_OnRemoteDied_def ThermalMgrClient_ResetProxy_def)

section \<open>Properties\<close>

text \<open>
  C15: a map of changed temperatures or of action values that the service sends to a listener in
  another process arrives there as it was, exactly once, and the call reports success, if
  the parcel takes it and it has between 1 and 2000 entries; otherwise nothing arrives
  and the call reports failure.
\<close>

theorem callback_maps_arrive:
  assumes "parcel_laws M contents"
    and "connected temp_send (ThermalTempCallbackStub_OnRemoteRequest M base temp_listener)"
    and "connected action_send (ThermalActionCallbackStub_OnRemoteRequest M base action_listener)"
    and "sm_ok temps" and "length temps < 2 ^ 32" and "sm_ok actions" and "length actions < 2 ^ 32"
  shows "ThermalTempCallbackProxy_OnThermalTempChanged M (Some temp_send) temps s =
      (if map_parcel M temp_descriptor (WriteInt32 M) temps \<noteq> None \<and> temps \<noteq> [] \<and> length temps \<le> 2000
       then (True, temp_listener temps s) else (False, s)) \<and>
    ThermalActionCallbackProxy_OnThermalActionChanged M (Some action_send) actions s =
      (if map_parcel M action_descriptor (WriteString M) actions \<noteq> None \<and> actions \<noteq> [] \<and> length actions \<le> 2000
       then (True, action_listener actions s) else (False, s))"
  using temps_delivered [OF assms(1, 2, 4, 5)] actions_delivered [OF assms(1, 3, 6, 7)] by blast

theorem callback_maps_arrive_witness:
  "ThermalTempCallbackProxy_OnThermalTempChanged list_parcel
     (Some (direct (ThermalTempCallbackStub_OnRemoteRequest list_parcel no_stub (\<lambda>m s. s @ [m]))))
     [(''battery'', 35000), (''soc'', 40000)] [] = (True, [[(''battery'', 35000), (''soc'', 40000)]]) \<and>
   ThermalActionCallbackProxy_OnThermalActionChanged list_parcel
     (Some (direct (ThermalActionCallbackStub_OnRemoteRequest list_parcel no_stub (\<lambda>m s. s)))) []
     ([] :: (string, int) smap list) = (False, [])"
proof -
  have ok: "sm_ok [(''battery'', 35000 :: int), (''soc'', 40000)]" by (simp add: sm_ok_def less_list_code less_char_def)
  from callback_maps_arrive [OF list_parcel_laws connected_direct connected_direct ok _ sm_ok_Nil, where base = no_stub and s = "[]"
      and temp_listener = "\<lambda>m s. s @ [m]" and action_listener = "\<lambda>m s. s"]
  show ?thesis by (simp add: list_parcel_map)
qed

text \<open>
  C17: a report in which no subscribed sensor reads differently from the last one disturbs no
  listener in another process: the observer calls each of them with an empty map, which the
  stub turns away.
\<close>

theorem unchanged_report_wakes_nobody:
  assumes "parcel_laws M contents"
    and "\<And>l. \<exists>send. remotes l = Some send \<and> connected send (ThermalTempCallbackStub_OnRemoteRequest M base (listen l))"
    and "sm_ok (preSensor ob)" and "sm_ok (callbackinfo ob)"
    and "\<And>l types t. l \<in> set (sensorTempListeners ob) \<Longrightarrow> sm_find (callbackTypeMap ob) l = Some types \<Longrightarrow> t \<in> set types \<Longrightarrow>
      reading (preSensor ob) t = reading (callbackinfo ob) t"
  shows "fold (deliver_temps M remotes) (snd (ThermalObserver_NotifySensorTempChanged ob)) s = s"
proof -
  have empty: "deliver_temps M remotes (OnThermalTempChanged l []) s = s" for l
  proof -
    from assms(2) obtain send where "remotes l = Some send"
      "connected send (ThermalTempCallbackStub_OnRemoteRequest M base (listen l))" by blast
    with temps_delivered [OF assms(1) this(2), of "[]" s] show ?thesis by simp
  qed
  have calls: "snd (ThermalObserver_NotifySensorTempChanged ob) = map (\<lambda>l. OnThermalTempChanged l []) (sensorTempListeners ob)"
    using notify_loop_quiet [OF assms(3, 4), of "sensorTempListeners ob" "callbackTypeMap ob" "[]"] assms(5)
    by (auto simp: ThermalObserver_NotifySensorTempChanged_def split_def Let_def)
  have "fold (deliver_temps M remotes) (map (\<lambda>l. OnThermalTempChanged l []) ls) s = s" for ls
    by (induction ls) (simp_all add: empty del: deliver_temps.simps)
  with calls show ?thesis by simp
qed

definition sample_observer :: Observer where
  "sample_observer = Observer_new\<lparr>sensorTempListeners := [1], callbackTypeMap := [(1, [''soc'', ''shell''])],
     preSensor := [(''soc'', 40000)], callbackinfo := [(''battery'', 30000), (''soc'', 40000)]\<rparr>"

theorem unchanged_report_wakes_nobody_witness:
  "sensorTempListeners sample_observer = [1] \<and>
   fold (deliver_temps list_parcel (\<lambda>l. Some (direct (ThermalTempCallbackStub_OnRemoteRequest list_parcel no_stub (\<lambda>m s. s @ [(l, m)])))))
     (snd (ThermalObserver_NotifySensorTempChanged sample_observer)) [] = []"
proof -
  let ?remotes = "\<lambda>l. Some (direct (ThermalTempCallbackStub_OnRemoteRequest list_parcel no_stub (\<lambda>m s. s @ [(l, m)])))"
  have "fold (deliver_temps list_parcel ?remotes) (snd (ThermalObserver_NotifySensorTempChanged sample_observer)) [] = []"
  proof (rule unchanged_report_wakes_nobody [OF list_parcel_laws, where base = no_stub and listen = "\<lambda>l m s. s @ [(l, m)]"])
    show "\<exists>send. ?remotes l = Some send \<and>
        connected send (ThermalTempCallbackStub_OnRemoteRequest list_parcel no_stub (\<lambda>m s. s @ [(l, m)]))" for l
      by simp
  qed (auto simp: sample_observer_def sm_ok_def less_list_code less_char_def reading_def)
  then show ?thesis by (simp add: sample_observer_def)
qed


definition sample_objects :: "nat \<Rightarrow> ThermalMgrListener option" where
  "sample_objects l = (if l = 7 then Some \<lparr>callback_object = Some 7, levelEvent = Some 1\<rparr>
     else if l = 8 then Some \<lparr>callback_object = Some 8, levelEvent = Some 2\<rparr> else None)"


text \<open>
  C18: a client of another process holds exactly one death recipient on the service it is
  connected to and none while it is not; when the service dies it is disconnected, and
  the next request, once the service is back, connects to the new one.
\<close>

theorem client_watches_its_service:
  assumes "client_reach c"
  shows "(thermalSrv c = None \<longrightarrow> remote_watched c = []) \<and>
    (thermalSrv c = Some r \<longrightarrow> (\<exists>d. remote_watched c = [(r, d)]) \<and>
      (let c' = ThermalMgrDeathRecipient_OnRemoteDied (Alive r) c
       in thermalSrv c' = None \<and> remote_watched c' = [] \<and>
         (\<forall>S r'. system_up r' S \<longrightarrow> fst (ThermalMgrClient_Connect S c') = NoError \<and>
            thermalSrv (snd (ThermalMgrClient_Connect S c')) = Some r')))"
  using client_ok_reach [OF assms]
  by (auto simp: client_ok_def ThermalMgrDeathRecipient_OnRemoteDied_def ThermalMgrClient_ResetProxy_def Let_def
      RemoveDeathRecipient_def ThermalMgrClient_Connect_def system_up_def)

definition sample_system :: system_env where
  "sample_system = \<lparr>GetSystemAbilityManager = True, CheckSystemAbility = Some 3303, new_recipient = True,
     IsProxyObject = True, AddDeathRecipient = True, iface_cast = True, notices = []\<rparr>"

theorem client_watches_its_service_witness:
  "\<exists>c. client_reach c \<and> thermalSrv c = Some 3303 \<and> remote_watched c = [(3303, 0)] \<and>
     thermalSrv (ThermalMgrDeathRecipient_OnRemoteDied (Alive 3303) c) = None"
proof -
  let ?c = "snd (ThermalMgrClient_Connect sample_system ThermalMgrClient_new)"
  have reach: "client_reach ?c"
    by (intro client_reach.intros) (simp_all add: sample_system_def)
  have c: "thermalSrv ?c = Some 3303" "remote_watched ?c = [(3303, 0)]"
    by (simp_all add: ThermalMgrClient_Connect_def sample_system_def ThermalMgrClient_new_def)
  from client_watches_its_service [OF reach, of 3303] c reach show ?thesis by (auto simp: Let_def)
qed

end
