(* ===== verification/Protector_Zone.thy ===== *)
theory Protector_Zone
  imports Hysteresis
begin

text \<open>
  \<open>ProtectorThermalZoneInfo\<close> of the protector
  (\<open>application/protector/src/policy/protector_thermal_zone_info.cpp\<close>): one thermal zone with
  its levels, and the search of its level for a temperature. It refines the same abstract
  hysteresis as the sensor clusters of the service. The protector does not check its
  configuration, so the levels 1, 2, ... in order are a hypothesis here.
\<close>

section \<open>State\<close>

record ThermalZoneInfoItem =
  tz_level :: nat
  tz_threshold :: int
  tz_thresholdClr :: int

record ZoneInfo =
  tz_desc :: bool
  tz_path :: string
  tz_latestLevel :: nat
  tz_interval :: int
  tz_multiple :: int
  tzItemList :: "ThermalZoneInfoItem list"

definition SetThermalZoneItem :: "ThermalZoneInfoItem list \<Rightarrow> ZoneInfo \<Rightarrow> ZoneInfo" where
  "SetThermalZoneItem items z = z\<lparr>tzItemList := items\<rparr>"

definition SetDesc :: "bool \<Rightarrow> ZoneInfo \<Rightarrow> ZoneInfo" where
  "SetDesc desc z = z\<lparr>tz_desc := desc\<rparr>"

definition SetInterval :: "int \<Rightarrow> ZoneInfo \<Rightarrow> ZoneInfo" where
  "SetInterval interval z = z\<lparr>tz_interval := interval\<rparr>"

definition SetMultiple :: "int \<Rightarrow> ZoneInfo \<Rightarrow> ZoneInfo" where
  "SetMultiple multiple z = z\<lparr>tz_multiple := multiple\<rparr>"

definition SetPath :: "string \<Rightarrow> ZoneInfo \<Rightarrow> ZoneInfo" where
  "SetPath path z = z\<lparr>tz_path := path\<rparr>"

section \<open>The searches\<close>

text \<open>The loops of the handlers: up from the level to the end, or down to 1, with \<open>break\<close>.\<close>

fun zone_up :: "(ThermalZoneInfoItem \<Rightarrow> bool) \<Rightarrow> ThermalZoneInfoItem list \<Rightarrow> nat \<Rightarrow> nat" where
  "zone_up pass [] lev = lev"
| "zone_up pass (item # items) lev = (if pass item then zone_up pass items (tz_level item) else lev)"

fun zone_down :: "(ThermalZoneInfoItem \<Rightarrow> bool) \<Rightarrow> ThermalZoneInfoItem list \<Rightarrow> nat \<Rightarrow> nat \<Rightarrow> nat result" where
  "zone_down pass items 0 lev = Inr lev"
| "zone_down pass items (Suc i) lev =
     bindr (vec_at items i) (\<lambda>item.
       if pass item then zone_down pass items i (if 0 < tz_level item then tz_level item - 1 else 0) else Inr lev)"

definition HandleAscNextUpTemp :: "ZoneInfo \<Rightarrow> nat \<Rightarrow> int \<Rightarrow> nat result" where
  "HandleAscNextUpTemp z lev curTemp = Inr (zone_up (\<lambda>item. tz_threshold item \<le> curTemp) (drop lev (tzItemList z)) lev)"

definition HandleAscCurDownTemp :: "ZoneInfo \<Rightarrow> nat \<Rightarrow> int \<Rightarrow> nat result" where
  "HandleAscCurDownTemp z lev curTemp = zone_down (\<lambda>item. curTemp < tz_thresholdClr item) (tzItemList z) lev lev"

definition HandleAscMaxSizeTemp :: "ZoneInfo \<Rightarrow> nat \<Rightarrow> int \<Rightarrow> nat result" where
  "HandleAscMaxSizeTemp z lev curTemp =
     bindr (vec_at (tzItemList z) (pred_u32 lev)) (\<lambda>cur.
       if curTemp < tz_thresholdClr cur
       then zone_down (\<lambda>item. curTemp < tz_thresholdClr item) (tzItemList z) lev lev
       else Inr lev)"

definition HandleAscMinSizeTemp :: "ZoneInfo \<Rightarrow> nat \<Rightarrow> int \<Rightarrow> nat result" where
  "HandleAscMinSizeTemp z lev curTemp =
     bindr (vec_at (tzItemList z) lev) (\<lambda>next.
       if tz_threshold next \<le> curTemp
       then Inr (zone_up (\<lambda>item. tz_threshold item \<le> curTemp) (drop lev (tzItemList z)) lev)
       else Inr 0)"

definition HandleDescNextUpTemp :: "ZoneInfo \<Rightarrow> nat \<Rightarrow> int \<Rightarrow> nat result" where
  "HandleDescNextUpTemp z lev curTemp = Inr (zone_up (\<lambda>item. curTemp \<le> tz_threshold item) (drop lev (tzItemList z)) lev)"

definition HandleDescCurDownTemp :: "ZoneInfo \<Rightarrow> nat \<Rightarrow> int \<Rightarrow> nat result" where
  "HandleDescCurDownTemp z lev curTemp = zone_down (\<lambda>item. tz_thresholdClr item < curTemp) (tzItemList z) lev lev"

definition HandleDescMaxSizeTemp :: "ZoneInfo \<Rightarrow> nat \<Rightarrow> int \<Rightarrow> nat result" where
  "HandleDescMaxSizeTemp z lev curTemp =
     bindr (vec_at (tzItemList z) (pred_u32 lev)) (\<lambda>cur.
       if tz_thresholdClr cur < curTemp
       then zone_down (\<lambda>item. tz_thresholdClr item < curTemp) (tzItemList z) lev lev
       else Inr lev)"

definition HandleDescMinSizeTemp :: "ZoneInfo \<Rightarrow> nat \<Rightarrow> int \<Rightarrow> nat result" where
  "HandleDescMinSizeTemp z lev curTemp =
     bindr (vec_at (tzItemList z) lev) (\<lambda>next.
       if curTemp \<le> tz_threshold next
       then Inr (zone_up (\<lambda>item. curTemp \<le> tz_threshold item) (drop lev (tzItemList z)) lev)
       else Inr 0)"

definition Zone_AscJudgment :: "ZoneInfo \<Rightarrow> int \<Rightarrow> nat result" where
  "Zone_AscJudgment z curTemp =
     (let lev = tz_latestLevel z in
      if 0 < lev \<and> lev < length (tzItemList z)
      then bindr (vec_at (tzItemList z) (lev - 1)) (\<lambda>cur.
             bindr (vec_at (tzItemList z) lev) (\<lambda>next.
               if tz_threshold next \<le> curTemp then HandleAscNextUpTemp z lev curTemp
               else if curTemp < tz_thresholdClr cur then HandleAscCurDownTemp z lev curTemp
               else Inr (tz_level cur)))
      else if lev = length (tzItemList z) then HandleAscMaxSizeTemp z lev curTemp
      else if lev = 0 then HandleAscMinSizeTemp z lev curTemp
      else Inr lev)"

definition Zone_DescJudgment :: "ZoneInfo \<Rightarrow> int \<Rightarrow> nat result" where
  "Zone_DescJudgment z curTemp =
     (let lev = tz_latestLevel z in
      if 0 < lev \<and> lev < length (tzItemList z)
      then bindr (vec_at (tzItemList z) (lev - 1)) (\<lambda>cur.
             bindr (vec_at (tzItemList z) lev) (\<lambda>next.
               if curTemp \<le> tz_threshold next then HandleDescNextUpTemp z lev curTemp
               else if tz_thresholdClr cur < curTemp then HandleDescCurDownTemp z lev curTemp
               else Inr (tz_level cur)))
      else if lev = length (tzItemList z) then HandleDescMaxSizeTemp z lev curTemp
      else if lev = 0 then HandleDescMinSizeTemp z lev curTemp
      else Inr lev)"

definition Zone_UpdateThermalLevel :: "int \<Rightarrow> ZoneInfo \<Rightarrow> ZoneInfo result" where
  "Zone_UpdateThermalLevel curTemp z =
     bindr (if tz_desc z then Zone_DescJudgment z curTemp else Zone_AscJudgment z curTemp) (\<lambda>lev.
       Inr (z\<lparr>tz_latestLevel := lev\<rparr>))"

section \<open>The searches settle\<close>

type_synonym zone_ctx = "ZoneInfo \<times> int"

text \<open>Levels 1, 2, ... in order, as a standard configuration has them.\<close>

definition zone_levels :: "ZoneInfo \<Rightarrow> bool" where
  "zone_levels z \<longleftrightarrow> tzItemList z \<noteq> [] \<and> map tz_level (tzItemList z) = [1 ..< Suc (length (tzItemList z))]"

fun zone_size :: "zone_ctx \<Rightarrow> nat" where
  "zone_size (z, t) = length (tzItemList z)"

fun zone_enter :: "zone_ctx \<Rightarrow> nat \<Rightarrow> bool" where
  "zone_enter (z, t) k \<longleftrightarrow> reaches (tz_desc z) t (tz_threshold (tzItemList z ! (k - 1)))"

fun zone_hold :: "zone_ctx \<Rightarrow> nat \<Rightarrow> bool" where
  "zone_hold (z, t) k \<longleftrightarrow> reaches (tz_desc z) t (tz_thresholdClr (tzItemList z ! (k - 1)))"

text \<open>The clear threshold is on the safe side of the threshold, and the thresholds are in order.\<close>

fun zone_safe :: "zone_ctx \<Rightarrow> bool" where
  "zone_safe (z, t) \<longleftrightarrow> list_all (\<lambda>item. reaches (tz_desc z) (tz_threshold item) (tz_thresholdClr item)) (tzItemList z)"

fun zone_sorted :: "zone_ctx \<Rightarrow> bool" where
  "zone_sorted (z, t) \<longleftrightarrow> sorted_wrt (\<lambda>x y. reaches (tz_desc z) (tz_threshold y) (tz_threshold x)) (tzItemList z)"

fun zone_hotter :: "zone_ctx \<Rightarrow> zone_ctx \<Rightarrow> bool" where
  "zone_hotter (z, t) (z', t') \<longleftrightarrow> tz_desc z' = tz_desc z \<and> tzItemList z' = tzItemList z \<and> reaches (tz_desc z) t' t"

interpretation zone: sorted_hysteresis zone_safe zone_size zone_enter zone_enter zone_hold zone_sorted zone_hotter
proof
  fix x :: zone_ctx and k :: nat
  obtain z t where x: "x = (z, t)" by (cases x)
  show "zone_hold x k" if "zone_safe x" "0 < k" "k \<le> zone_size x" "zone_enter x k"
    using that by (auto simp: x list_all_length intro: reaches_trans)
  show "zone_enter x k" if "zone_sorted x" "0 < k" "Suc k \<le> zone_size x" "zone_enter x (Suc k)"
  proof -
    have "reaches (tz_desc z) (tz_threshold (tzItemList z ! k)) (tz_threshold (tzItemList z ! (k - 1)))"
      using that(1-3) by (auto simp: x sorted_wrt_iff_nth_less)
    with that show ?thesis by (auto simp: x intro: reaches_trans)
  qed
next
  fix x x' :: zone_ctx and k :: nat
  assume hot: "zone_hotter x x'"
  obtain z t z' t' where x: "x = (z, t)" "x' = (z', t')" by (cases x; cases x')
  show "zone_size x' = zone_size x" using hot by (simp add: x)
  show "zone_enter x' k" if "zone_enter x k" using hot that by (auto simp: x intro: reaches_trans)
  show "zone_hold x' k" if "zone_hold x k" using hot that by (auto simp: x intro: reaches_trans)
qed simp_all

abbreviation zone_level :: "ZoneInfo \<Rightarrow> int \<Rightarrow> nat \<Rightarrow> nat" where
  "zone_level z t \<equiv> settle (zone_size (z, t)) (zone_enter (z, t)) (zone_enter (z, t)) (zone_hold (z, t))"

lemma zone_level_nth: "zone_levels z \<Longrightarrow> i < length (tzItemList z) \<Longrightarrow> tz_level (tzItemList z ! i) = Suc i"
  unfolding zone_levels_def by (drule conjunct2, drule arg_cong [of _ _ "\<lambda>l. l ! i"]) (simp del: upt_Suc)

lemma zone_up_climb:
  assumes "zone_levels z" and "lev \<le> length (tzItemList z)" and "\<And>i. i < length (tzItemList z) \<Longrightarrow> pass (tzItemList z ! i) = enter (Suc i)"
  shows "zone_up pass (drop lev (tzItemList z)) lev = climb enter (length (tzItemList z) - lev) lev"
  using assms(2)
proof (induction "length (tzItemList z) - lev" arbitrary: lev)
  case (Suc d)
  then have lt: "lev < length (tzItemList z)" by simp
  then have "drop lev (tzItemList z) = tzItemList z ! lev # drop (Suc lev) (tzItemList z)" by (simp add: Cons_nth_drop_Suc)
  moreover have "length (tzItemList z) - lev = Suc (length (tzItemList z) - Suc lev)" using lt by simp
  ultimately show ?case using Suc.hyps(1) [of "Suc lev"] Suc.hyps(2) lt
    by (simp add: assms(3) zone_level_nth [OF assms(1)])
qed simp

lemma zone_down_sink:
  assumes "zone_levels z" and "lev \<le> length (tzItemList z)" and "\<And>i. i < length (tzItemList z) \<Longrightarrow> pass (tzItemList z ! i) = (\<not> hold (Suc i))"
  shows "zone_down pass (tzItemList z) lev lev = Inr (sink hold lev)"
  using assms(2) by (induction lev) (auto simp: assms(3) zone_level_nth [OF assms(1)])

lemmas zone_handlers = HandleAscNextUpTemp_def HandleAscCurDownTemp_def HandleAscMaxSizeTemp_def HandleAscMinSizeTemp_def
  HandleDescNextUpTemp_def HandleDescCurDownTemp_def HandleDescMaxSizeTemp_def HandleDescMinSizeTemp_def

lemma zone_tests:
  "tz_desc z = False \<Longrightarrow> (tz_threshold (tzItemList z ! i) \<le> t) = zone_enter (z, t) (Suc i)"
  "tz_desc z = False \<Longrightarrow> (t < tz_thresholdClr (tzItemList z ! i)) = (\<not> zone_hold (z, t) (Suc i))"
  "tz_desc z = True \<Longrightarrow> (t \<le> tz_threshold (tzItemList z ! i)) = zone_enter (z, t) (Suc i)"
  "tz_desc z = True \<Longrightarrow> (tz_thresholdClr (tzItemList z ! i) < t) = (\<not> zone_hold (z, t) (Suc i))"
  by (auto simp: reaches_def)

lemma Zone_UpdateThermalLevel_eq:
  assumes "zone_levels z" and "tz_latestLevel z \<le> length (tzItemList z)"
  shows "Zone_UpdateThermalLevel t z = Inr (z\<lparr>tz_latestLevel := zone_level z t (tz_latestLevel z)\<rparr>)"
proof -
  let ?l = "tz_latestLevel z" and ?n = "length (tzItemList z)"
  have n: "0 < ?n" using assms(1) by (simp add: zone_levels_def)
  have up: "zone_up pass (drop ?l (tzItemList z)) ?l = climb (zone_enter (z, t)) (?n - ?l) ?l"
    if "\<And>i. pass (tzItemList z ! i) = zone_enter (z, t) (Suc i)" for pass
    using assms that by (intro zone_up_climb) simp_all
  have down: "zone_down pass (tzItemList z) ?l ?l = Inr (sink (zone_hold (z, t)) ?l)"
    if "\<And>i. pass (tzItemList z ! i) = (\<not> zone_hold (z, t) (Suc i))" for pass
    using assms that by (intro zone_down_sink) simp_all
  have last: "pred_u32 ?n = ?n - 1" "?n - 1 < ?n" using n by (simp_all add: pred_u32_def)
  have here: "tz_level (tzItemList z ! (?l - 1)) = ?l" "Suc (?l - 1) = ?l" if "0 < ?l"
    using zone_level_nth [OF assms(1), of "?l - 1"] assms(2) that by simp_all
  have stay: "sink (zone_hold (z, t)) ?l = ?l" if "zone_hold (z, t) ?l" by (rule sink_fix) (rule that)
  note tests = zone_tests [of z]
  show ?thesis
  proof (cases "tz_desc z")
    case True
    show ?thesis
      using assms(2) n True here stay last up [of "\<lambda>item. t \<le> tz_threshold item"] down [of "\<lambda>item. tz_thresholdClr item < t"]
      by (auto simp: Zone_UpdateThermalLevel_def Zone_DescJudgment_def zone_handlers tests settle_def Let_def simp del: zone_enter.simps zone_hold.simps)
  next
    case False
    show ?thesis
      using assms(2) n False here stay last up [of "\<lambda>item. tz_threshold item \<le> t"] down [of "\<lambda>item. t < tz_thresholdClr item"]
      by (auto simp: Zone_UpdateThermalLevel_def Zone_AscJudgment_def zone_handlers tests settle_def Let_def simp del: zone_enter.simps zone_hold.simps)
  qed
qed

section \<open>Properties\<close>

text \<open>
  C36: with levels 1, 2, ... in order no access is out of range, and the update moves the zone
  up while the next level's threshold is reached, or else down to the highest level whose
  clear threshold still holds; the level stays within the configured ones.
\<close>

theorem zone_update_refines:
  "zone_levels z \<Longrightarrow> tz_latestLevel z \<le> length (tzItemList z) \<Longrightarrow>
     Zone_UpdateThermalLevel t z = Inr (z\<lparr>tz_latestLevel := zone_level z t (tz_latestLevel z)\<rparr>) \<and>
     zone_level z t (tz_latestLevel z) \<le> length (tzItemList z)"
  using Zone_UpdateThermalLevel_eq settle_le by simp

definition sample_zone :: ZoneInfo where
  "sample_zone = \<lparr>tz_desc = False, tz_path = ''/sys/class/thermal/thermal_zone0/temp'', tz_latestLevel = 0,
     tz_interval = 5000, tz_multiple = 1,
     tzItemList = [\<lparr>tz_level = 1, tz_threshold = 40000, tz_thresholdClr = 38000\<rparr>,
                   \<lparr>tz_level = 2, tz_threshold = 45000, tz_thresholdClr = 43000\<rparr>]\<rparr>"

lemma sample_zone_ok:
  "zone_levels sample_zone" "tz_latestLevel sample_zone \<le> length (tzItemList sample_zone)"
  "zone_safe (sample_zone, t)" "zone_sorted (sample_zone, t)"
  by (simp_all add: sample_zone_def zone_levels_def reaches_def upt_rec)

theorem zone_update_refines_witness:
  "Zone_UpdateThermalLevel 46000 sample_zone = Inr (sample_zone\<lparr>tz_latestLevel := 2\<rparr>)"
  using zone_update_refines [OF sample_zone_ok(1,2), of 46000]
  by (simp add: sample_zone_def settle_def reaches_def numeral_eq_Suc)

text \<open>
  No flapping in the protector: where the clear thresholds are on the safe side of the
  thresholds, a second update with the same temperature keeps the level.
\<close>

theorem zone_no_flapping:
  assumes "zone_levels z" and "tz_latestLevel z \<le> length (tzItemList z)" and "zone_safe (z, t)"
    and "Zone_UpdateThermalLevel t z = Inr z'"
  shows "Zone_UpdateThermalLevel t z' = Inr z'"
proof -
  let ?l = "zone_level z t (tz_latestLevel z)"
  have z': "z' = z\<lparr>tz_latestLevel := ?l\<rparr>" using Zone_UpdateThermalLevel_eq [OF assms(1,2)] assms(4) by simp
  have "zone_levels z'" "tz_latestLevel z' \<le> length (tzItemList z')"
    using assms(1) settle_le [of "tz_latestLevel z" "length (tzItemList z)"] assms(2) by (simp_all add: z' zone_levels_def)
  from Zone_UpdateThermalLevel_eq [OF this, of t]
  have "Zone_UpdateThermalLevel t z' = Inr (z'\<lparr>tz_latestLevel := zone_level z' t ?l\<rparr>)" by (simp add: z')
  moreover have "zone_enter (z', t) = zone_enter (z, t)" "zone_hold (z', t) = zone_hold (z, t)"
    by (simp_all add: z' fun_eq_iff)
  moreover have "zone_size (z', t) = zone_size (z, t)" by (simp add: z')
  moreover have "zone_level z t ?l = ?l" using zone.settled_stable [OF assms(3), of "tz_latestLevel z"] assms(2) by simp
  ultimately show ?thesis by (simp add: z')
qed

theorem zone_no_flapping_witness:
  "\<exists>z'. Zone_UpdateThermalLevel 41000 sample_zone = Inr z' \<and> Zone_UpdateThermalLevel 41000 z' = Inr z'"
  using zone_no_flapping [OF sample_zone_ok(1-3)] Zone_UpdateThermalLevel_eq [OF sample_zone_ok(1,2), of 41000]
  by blast

end
