(* ===== verification/Kernel_Policy.thy ===== *)
theory Kernel_Policy
  imports Protector_Zone Std_Map String_Operation
begin

text \<open>
  The protector under \<open>application/protector\<close>: the policy over its thermal zones
  (\<open>thermal_kernel_policy.cpp\<close>), the reading of the zones (\<open>thermal_sensor_provision.cpp\<close>),
  the count of timer ticks (\<open>thermal_protector_timer.cpp\<close>) and the cooling actions
  (\<open>thermal_device_control.cpp\<close>, \<open>device_control_factory.cpp\<close>, \<open>cpu_action.cpp\<close>,
  \<open>current_action.cpp\<close>, \<open>voltage_action.cpp\<close>).

  \<open>Protector\<close> holds the members of these objects and the \<open>static\<close> variable of each
  \<open>Execute\<close>. What a file holds when it is read is an argument; what is written to the cooling
  devices is recorded. \<open>latestvalue_\<close> is not initialised by the code, so the value of a new
  action is an argument; an action is only executed after a value was added. The epoll loop,
  the file descriptors and the walk over the directory of zones are in theory \<open>Kernel_Service\<close>.
\<close>

section \<open>State\<close>

datatype cooling_kind = CpuAction | CurrentAction | VoltageAction

record CoolingAction =
  ca_kind :: cooling_kind
  ca_latestvalue :: nat

record KernelActionItem =
  ka_name :: string
  ka_value :: nat

record LevelAction =
  la_name :: string
  la_level :: nat
  la_vAction :: "KernelActionItem list"

record Protector =
  tzInfoMap :: "(string, ZoneInfo) smap"
  kernelTypeTempMap :: "(string, int) smap"      \<comment> \<open>\<open>ThermalKernelPolicy::typeTempMap_\<close>\<close>
  levelMap :: "(string, nat) smap"
  levelAction :: "LevelAction list"
  executeActionList :: "string list"
  maxCd :: int
  thermalActionMap :: "(string, CoolingAction option) smap"  \<comment> \<open>\<open>None\<close> is a null pointer\<close>
  staticValue :: "cooling_kind \<Rightarrow> nat"
  deviceWrites :: "(string \<times> string) list"       \<comment> \<open>path and content, oldest first\<close>
  sensorData :: "(string, int) smap"             \<comment> \<open>\<open>ThermalSensorProvision::typeTempMap_\<close>\<close>
  multipleList :: "int list"
  reportTime :: int

section \<open>Cooling actions\<close>

fun cooling_path :: "cooling_kind \<Rightarrow> string" where
  "cooling_path CpuAction = ''/data/service/el0/thermal/cooling/cpu/freq''"
| "cooling_path CurrentAction = ''/data/service/el0/thermal/cooling/battery/current''"
| "cooling_path VoltageAction = ''/data/service/el0/thermal/cooling/battery/voltage''"

definition DeviceControlFactory_Create :: "nat \<Rightarrow> string \<Rightarrow> CoolingAction option" where
  "DeviceControlFactory_Create uninit name =
     (if name = ''cpu'' then Some \<lparr>ca_kind = CpuAction, ca_latestvalue = uninit\<rparr>
      else if name = ''current'' then Some \<lparr>ca_kind = CurrentAction, ca_latestvalue = uninit\<rparr>
      else if name = ''voltage'' then Some \<lparr>ca_kind = VoltageAction, ca_latestvalue = uninit\<rparr>
      else None)"

definition ThermalDeviceControl_Init :: "nat \<Rightarrow> Protector \<Rightarrow> bool \<times> Protector" where
  "ThermalDeviceControl_Init uninit p =
     (if levelAction p = [] then (False, p)
      else let actionNameSet = fold (\<lambda>lev s. fold (\<lambda>item. ss_insert (ka_name item)) (la_vAction lev) s) (levelAction p) []
           in (True, p\<lparr>thermalActionMap :=
                 fold (\<lambda>name. sm_insert name (DeviceControlFactory_Create uninit name)) actionNameSet (thermalActionMap p)\<rparr>))"

definition CoolingAction_AddActionValue :: "nat \<Rightarrow> CoolingAction \<Rightarrow> CoolingAction" where
  "CoolingAction_AddActionValue value a = a\<lparr>ca_latestvalue := value\<rparr>"

definition CoolingAction_Request :: "cooling_kind \<Rightarrow> nat \<Rightarrow> Protector \<Rightarrow> Protector" where
  "CoolingAction_Request k value p = p\<lparr>deviceWrites := deviceWrites p @ [(cooling_path k, to_dec value)]\<rparr>"

definition CoolingAction_Execute :: "CoolingAction \<times> Protector \<Rightarrow> CoolingAction \<times> Protector" where
  "CoolingAction_Execute = (\<lambda>(a, p).
     if staticValue p (ca_kind a) \<noteq> ca_latestvalue a
     then let p = CoolingAction_Request (ca_kind a) (ca_latestvalue a) p
          in (a, p\<lparr>staticValue := (staticValue p)(ca_kind a := ca_latestvalue a)\<rparr>)
     else (a\<lparr>ca_latestvalue := 0\<rparr>, p))"

section \<open>Decisions\<close>

fun zone_level_loop :: "(string, int) smap \<Rightarrow> (string, ZoneInfo) smap \<Rightarrow> (string, nat) smap \<Rightarrow>
    ((string, ZoneInfo) smap \<times> (string, nat) smap) result" where
  "zone_level_loop temps [] levels = Inr ([], levels)"
| "zone_level_loop temps ((type, z) # rest) levels =
     (case sm_find temps type of
        None \<Rightarrow> bindr (zone_level_loop temps rest levels) (\<lambda>(rest, levels). Inr ((type, z) # rest, levels))
      | Some t \<Rightarrow>
          bindr (Zone_UpdateThermalLevel t z) (\<lambda>z.
            bindr (zone_level_loop temps rest (sm_insert type (tz_latestLevel z) levels)) (\<lambda>(rest, levels).
              Inr ((type, z) # rest, levels))))"

definition ThermalKernelPolicy_LevelDecision :: "Protector \<Rightarrow> Protector result" where
  "ThermalKernelPolicy_LevelDecision p =
     bindr (zone_level_loop (kernelTypeTempMap p) (tzInfoMap p) (levelMap p)) (\<lambda>(zones, levels).
       Inr (p\<lparr>tzInfoMap := zones, levelMap := levels\<rparr>))"

definition ThermalKernelPolicy_ActionDecision :: "KernelActionItem list \<Rightarrow> Protector \<Rightarrow> Protector" where
  "ThermalKernelPolicy_ActionDecision vAction p =
     fold (\<lambda>item p.
       case sm_find (thermalActionMap p) (ka_name item) of
         Some (Some a) \<Rightarrow>
           p\<lparr>thermalActionMap := sm_assign (ka_name item) (Some (CoolingAction_AddActionValue (ka_value item) a))
               (thermalActionMap p),
             executeActionList := executeActionList p @ [ka_name item]\<rparr>
       | _ \<Rightarrow> p) vAction p"

definition ThermalKernelPolicy_ActionExecution :: "Protector \<Rightarrow> Protector" where
  "ThermalKernelPolicy_ActionExecution p =
     fold (\<lambda>name p.
       case sm_find (thermalActionMap p) name of
         Some (Some a) \<Rightarrow>
           let (a, p) = CoolingAction_Execute (a, p)
           in p\<lparr>thermalActionMap := sm_assign name (Some a) (thermalActionMap p)\<rparr>
       | _ \<Rightarrow> p) (executeActionList p) p"

definition ThermalKernelPolicy_PolicyDecision :: "Protector \<Rightarrow> Protector" where
  "ThermalKernelPolicy_PolicyDecision p =
     ThermalKernelPolicy_ActionExecution
       (fold (\<lambda>policy p.
          if sm_find (levelMap p) (la_name policy) = Some (la_level policy)
          then ThermalKernelPolicy_ActionDecision (la_vAction policy) p else p) (levelAction p) p)"

definition ThermalKernelPolicy_OnReceivedSensorsInfo :: "(string, int) smap \<Rightarrow> Protector \<Rightarrow> Protector result" where
  "ThermalKernelPolicy_OnReceivedSensorsInfo temps p =
     bindr (ThermalKernelPolicy_LevelDecision (p\<lparr>kernelTypeTempMap := temps\<rparr>)) (\<lambda>p.
       Inr (ThermalKernelPolicy_PolicyDecision p))"

section \<open>Intervals\<close>

text \<open>\<open>INT_MIN % -1\<close> is undefined in C++.\<close>

function GetMaxCommonDivisor :: "int \<Rightarrow> int \<Rightarrow> int result" where
  "GetMaxCommonDivisor a b =
     (if b = 0 then Inr 0
      else if a = INT_MIN \<and> b = - 1 then Inl SignedOverflow
      else if c_mod a b = 0 then Inr b
      else GetMaxCommonDivisor b (c_mod a b))"
  by auto

lemma c_mod_less: "b \<noteq> 0 \<Longrightarrow> \<bar>c_mod a b\<bar> < \<bar>b\<bar>"
  by (simp add: c_mod_def abs_mult abs_sgn_eq)

termination GetMaxCommonDivisor
  by (relation "measure (\<lambda>(a, b). nat \<bar>b\<bar>)") (use c_mod_less in auto)

declare GetMaxCommonDivisor.simps [simp del]

definition GetIntervalCommonDivisor :: "int list \<Rightarrow> int result" where
  "GetIntervalCommonDivisor intervalList =
     (case intervalList of
        [] \<Rightarrow> Inr 0
      | first # rest \<Rightarrow> foldr_result (\<lambda>i d. GetMaxCommonDivisor d i) rest first)"

definition CalculateMaxCd :: "Protector \<Rightarrow> Protector result" where
  "CalculateMaxCd p =
     bindr (GetIntervalCommonDivisor (map (\<lambda>(type, z). tz_interval z) (tzInfoMap p))) (\<lambda>d. Inr (p\<lparr>maxCd := d\<rparr>))"

text \<open>The quotient overflows for \<open>INT_MIN / -1\<close>.\<close>

fun multiple_loop :: "int \<Rightarrow> (string, ZoneInfo) smap \<Rightarrow> (string, ZoneInfo) smap result" where
  "multiple_loop d [] = Inr []"
| "multiple_loop d ((type, z) # rest) =
     bindr (check32 (c_div (tz_interval z) d)) (\<lambda>m.
       bindr (multiple_loop d rest) (\<lambda>rest. Inr ((type, SetMultiple m z) # rest)))"

definition SetMultiples :: "Protector \<Rightarrow> Protector result" where
  "SetMultiples p =
     bindr (CalculateMaxCd p) (\<lambda>p.
       if maxCd p = 0 then Inr p
       else bindr (multiple_loop (maxCd p) (tzInfoMap p)) (\<lambda>zones. Inr (p\<lparr>tzInfoMap := zones\<rparr>)))"

text \<open>\<open>Init\<close>; the callback it registers is the call of \<open>OnReceivedSensorsInfo\<close> below.\<close>

definition ThermalKernelPolicy_Init :: "Protector \<Rightarrow> Protector result" where
  "ThermalKernelPolicy_Init p = SetMultiples p"

section \<open>Reading the zones\<close>

text \<open>
  \<open>sysfs\<close> is what \<open>InitThermalZoneSysfs\<close> found, \<open>None\<close> if it failed: for each zone the type read
  from its file, \<open>None\<close> if the read failed, and the path of its temperature. The result is the
  returned code; a failed scan returns \<open>false\<close>, which is the code of success.
\<close>

fun zone_paths :: "(string option \<times> string) list \<Rightarrow> (string, string) smap \<Rightarrow> (string, string) smap option" where
  "zone_paths [] m = Some m"
| "zone_paths ((None, path) # rest) m = None"
| "zone_paths ((Some type, path) # rest) m = zone_paths rest (sm_insert type path m)"

definition ParseThermalZoneInfo :: "int \<Rightarrow> int \<Rightarrow> (string option \<times> string) list option \<Rightarrow> Protector \<Rightarrow> int \<times> Protector" where
  "ParseThermalZoneInfo ERR_INVALID_OPERATION ERR_INVALID_VALUE sysfs p =
     (case sysfs of
        None \<Rightarrow> (0, p)
      | Some entries \<Rightarrow>
          (case zone_paths entries [] of
             None \<Rightarrow> (ERR_INVALID_OPERATION, p)
           | Some tzPathMap \<Rightarrow>
               if tzInfoMap p = [] then (ERR_INVALID_VALUE, p)
               else (0, p\<lparr>tzInfoMap := map (\<lambda>(type, z).
                       (type, case sm_find tzPathMap type of Some path \<Rightarrow> SetPath path z | None \<Rightarrow> z)) (tzInfoMap p)\<rparr>)))"

definition InitProvision :: "int \<Rightarrow> int \<Rightarrow> (string option \<times> string) list option \<Rightarrow> Protector \<Rightarrow> bool \<times> Protector" where
  "InitProvision ERR_INVALID_OPERATION ERR_INVALID_VALUE sysfs p =
     (let (ret, p) = ParseThermalZoneInfo ERR_INVALID_OPERATION ERR_INVALID_VALUE sysfs p in (ret = 0, p))"

text \<open>\<open>std::stoi\<close>: a numeral, and a value in range, or an exception.\<close>

definition stoi :: "string \<Rightarrow> int result" where
  "stoi s =
     (case scan_dec (c_str s) of
        None \<Rightarrow> Inl StdException
      | Some (neg, m, rest) \<Rightarrow>
          let v = (if neg then - int m else int m) in if int32_range v then Inr v else Inl StdException)"

text \<open>\<open>files\<close> is what \<open>ReadThermalSysfsToBuff\<close> reads from a path, \<open>None\<close> if it fails.\<close>

fun report_loop :: "(string \<Rightarrow> string option) \<Rightarrow> int \<Rightarrow> (string, ZoneInfo) smap \<Rightarrow> (string, int) smap \<Rightarrow> int list \<Rightarrow>
    ((string, int) smap \<times> int list) result" where
  "report_loop files time [] temps multiples = Inr (temps, multiples)"
| "report_loop files time ((type, z) # rest) temps multiples =
     (if tz_multiple z = 0 then report_loop files time rest temps multiples
      else let multiples = multiples @ [tz_multiple z] in
        if c_mod time (tz_multiple z) = 0 \<and> tz_path z \<noteq> []
        then (case files (tz_path z) of
                None \<Rightarrow> report_loop files time rest temps multiples
              | Some content \<Rightarrow>
                  bindr (stoi content) (\<lambda>temp. report_loop files time rest (sm_insert type temp temps) multiples))
        else report_loop files time rest temps multiples)"

definition ReportThermalZoneData :: "(string \<Rightarrow> string option) \<Rightarrow> Protector \<Rightarrow> Protector result" where
  "ReportThermalZoneData files p =
     bindr (report_loop files (reportTime p) (tzInfoMap p) [] []) (\<lambda>(temps, multiples).
       Inr (p\<lparr>sensorData := temps, multipleList := multiples\<rparr>))"

section \<open>The timer\<close>

definition NotifyPolicy :: "(string \<Rightarrow> string option) \<Rightarrow> Protector \<Rightarrow> Protector result" where
  "NotifyPolicy files p =
     bindr (ReportThermalZoneData files p) (\<lambda>p. ThermalKernelPolicy_OnReceivedSensorsInfo (sensorData p) p)"

definition ResetCount :: "Protector \<Rightarrow> Protector" where
  "ResetCount p =
     (if multipleList p = [] then p
      else if reportTime p = Max (set (multipleList p)) then p\<lparr>reportTime := 0\<rparr> else p)"

definition TimerProvisionCallback :: "(string \<Rightarrow> string option) \<Rightarrow> Protector \<Rightarrow> Protector result" where
  "TimerProvisionCallback files p =
     bindr (check32 (reportTime p + 1)) (\<lambda>t.
       bindr (NotifyPolicy files (p\<lparr>reportTime := t\<rparr>)) (\<lambda>p. Inr (ResetCount p)))"

end
