(* ===== verification/Kernel_Config.thy ===== *)
theory Kernel_Config
  imports Xml_Node Kernel_Policy Thermal_Timer
begin

text \<open>
  \<open>application/protector/src/policy/thermal_kernel_config_file.cpp\<close>: the configuration file of
  the protector, which names the thermal zones with their intervals and levels, and the values
  each level gives to the cooling actions.

  The parser does not look at the results of its conversions and does not reject anything; an
  item starts with what its memory held (\<open>kernel_uninit\<close>). \<open>g_levelActionList\<close> is a variable of the
  file, so it lives in \<open>KernelConfig\<close> and grows with every section. \<open>xmlReadFile\<close> gives the tree of
  a file: \<open>None\<close> if it cannot be read, \<open>Some None\<close> if it has no root. \<open>make_shared\<close> of a zone
  initialises its numbers to 0. \<open>service.GetPolicy()\<close> is set before a file is read.
\<close>

record BaseItem =
  kb_tag :: string
  kb_value :: string

record kernel_uninit =
  ku_item :: ThermalZoneInfoItem
  ku_level :: nat                 \<comment> \<open>\<open>LevelAction::level\<close>\<close>
  ku_value :: nat                 \<comment> \<open>\<open>ActionItem::value\<close>\<close>
  ku_latestvalue :: nat           \<comment> \<open>\<open>latestvalue_\<close> of a cooling action\<close>

record KernelConfig =
  kc_baseInfo :: "BaseItem list option"
  g_levelActionList :: "LevelAction list"

definition ZoneInfo_new :: ZoneInfo where
  "ZoneInfo_new = \<lparr>tz_desc = False, tz_path = [], tz_latestLevel = 0, tz_interval = 0, tz_multiple = 0, tzItemList = []\<rparr>"

definition ThermalKernelPolicy_SetThermalZoneMap :: "(string, ZoneInfo) smap \<Rightarrow> Protector \<Rightarrow> Protector" where
  "ThermalKernelPolicy_SetThermalZoneMap zones p = p\<lparr>tzInfoMap := zones\<rparr>"

definition ThermalKernelPolicy_SetLevelAction :: "LevelAction list \<Rightarrow> Protector \<Rightarrow> Protector" where
  "ThermalKernelPolicy_SetLevelAction levels p = p\<lparr>levelAction := levels\<rparr>"

section \<open>Base information\<close>

definition parse_base_item :: "xml_node \<Rightarrow> BaseItem" where
  "parse_base_item cur =
     \<lparr>kb_tag = or_keep (xmlGetProp cur ''tag'') [], kb_value = or_keep (xmlGetProp cur ''value'') []\<rparr>"

definition ParserBaseNode :: "xml_node \<Rightarrow> KernelConfig \<Rightarrow> KernelConfig result" where
  "ParserBaseNode node c =
     bindr (deref (kc_baseInfo c)) (\<lambda>_. Inr (c\<lparr>kc_baseInfo := Some (map parse_base_item (xml_children node))\<rparr>))"

section \<open>Zones\<close>

text \<open>The innermost loop: every child of an item is a value for the action of its name.\<close>

definition parse_kernel_action :: "kernel_uninit \<Rightarrow> xml_node \<Rightarrow> KernelActionItem" where
  "parse_kernel_action U node =
     \<lparr>ka_name = xml_name node,
      ka_value = (case xmlNodeGetContent node of None \<Rightarrow> ku_value U | Some v \<Rightarrow> level_of v (ku_value U))\<rparr>"

text \<open>One item. The level of \<open>levelAction\<close> is kept from the item before if this one has none.\<close>

definition parse_zone_item :: "platform \<Rightarrow> kernel_uninit \<Rightarrow> xml_node \<Rightarrow> LevelAction \<Rightarrow> ThermalZoneInfoItem \<times> LevelAction" where
  "parse_zone_item P U subNode la =
     (let item = ku_item U;
          item = (case xmlGetProp subNode ''threshold'' of
                    None \<Rightarrow> item | Some v \<Rightarrow> item\<lparr>tz_threshold := or_keep (StrToInt P v) (tz_threshold item)\<rparr>);
          item = (case xmlGetProp subNode ''threshold_clr'' of
                    None \<Rightarrow> item | Some v \<Rightarrow> item\<lparr>tz_thresholdClr := or_keep (StrToInt P v) (tz_thresholdClr item)\<rparr>);
          (item, la) = (case xmlGetProp subNode ''level'' of
                    None \<Rightarrow> (item, la)
                  | Some v \<Rightarrow> let item = item\<lparr>tz_level := level_of v (tz_level item)\<rparr>
                              in (item, la\<lparr>la_level := tz_level item\<rparr>))
      in (item, la\<lparr>la_vAction := la_vAction la @ map (parse_kernel_action U) (xml_children subNode)\<rparr>))"

definition ParseSubNode :: "platform \<Rightarrow> kernel_uninit \<Rightarrow> xml_node \<Rightarrow> string \<Rightarrow> LevelAction list \<Rightarrow>
    ThermalZoneInfoItem list \<times> LevelAction list" where
  "ParseSubNode P U cur type levels =
     (let (items, _, levels) =
        fold (\<lambda>subNode (items, la, levels).
            let (item, la) = parse_zone_item P U subNode la in (items @ [item], la, levels @ [la]))
          (named ''item'' cur) ([], \<lparr>la_name = type, la_level = ku_level U, la_vAction = []\<rparr>, levels)
      in (items, levels))"

text \<open>One child of the section, whatever its name.\<close>

definition parse_zone :: "platform \<Rightarrow> kernel_uninit \<Rightarrow> xml_node \<Rightarrow> (string, ZoneInfo) smap \<times> LevelAction list \<Rightarrow>
    (string, ZoneInfo) smap \<times> LevelAction list" where
  "parse_zone P U cur = (\<lambda>(zones, levels).
     let type = or_keep (xmlGetProp cur ''type'') [];
         z = ZoneInfo_new;
         z = (case xmlGetProp cur ''interval'' of
                None \<Rightarrow> z | Some v \<Rightarrow> SetInterval (or_keep (StrToInt P v) 0) z);
         z = (case xmlGetProp cur ''desc'' of
                None \<Rightarrow> z | Some v \<Rightarrow> if TrimStr P v = ''1'' then SetDesc True z else z);
         (items, levels) = ParseSubNode P U cur type levels
     in (sm_insert type (SetThermalZoneItem items z) zones, levels))"

definition ParseControlNode :: "platform \<Rightarrow> kernel_uninit \<Rightarrow> xml_node \<Rightarrow> KernelConfig \<times> Protector \<Rightarrow> KernelConfig \<times> Protector" where
  "ParseControlNode P U node = (\<lambda>(c, p).
     let (zones, levels) = fold (parse_zone P U) (xml_children node) ([], g_levelActionList c)
     in (c\<lparr>g_levelActionList := levels\<rparr>,
         ThermalKernelPolicy_SetLevelAction levels (ThermalKernelPolicy_SetThermalZoneMap zones p)))"

section \<open>The file\<close>

definition kernel_section :: "platform \<Rightarrow> kernel_uninit \<Rightarrow> xml_node \<Rightarrow> KernelConfig \<times> Protector \<Rightarrow>
    (KernelConfig \<times> Protector) result" where
  "kernel_section P U node = (\<lambda>(c, p).
     if xml_name node = ''base'' then bindr (ParserBaseNode node c) (\<lambda>c. Inr (c, p))
     else if xml_name node = ''control'' then Inr (ParseControlNode P U node (c, p))
     else Inr (c, p))"

definition ParseThermalKernelXML :: "(string \<Rightarrow> xml_node option option) \<Rightarrow> platform \<Rightarrow> kernel_uninit \<Rightarrow> string \<Rightarrow>
    KernelConfig \<times> Protector \<Rightarrow> (bool \<times> KernelConfig \<times> Protector) result" where
  "ParseThermalKernelXML readFile P U path cp =
     (case readFile path of
        Some (Some doc) \<Rightarrow> bindr (foldr_result (kernel_section P U) (xml_children doc) cp) (\<lambda>cp. Inr (True, cp))
      | _ \<Rightarrow> Inr (False, cp))"

definition ThermalKernelConfigFile_Init :: "(string \<Rightarrow> xml_node option option) \<Rightarrow> platform \<Rightarrow> kernel_uninit \<Rightarrow> string \<Rightarrow>
    KernelConfig \<times> Protector \<Rightarrow> (bool \<times> KernelConfig \<times> Protector) result" where
  "ThermalKernelConfigFile_Init readFile P U path = (\<lambda>(c, p).
     let c = (if kc_baseInfo c = None then c\<lparr>kc_baseInfo := Some []\<rparr> else c)
     in ParseThermalKernelXML readFile P U path (c, p))"

end
