(* ===== verification/Kernel_Service.thy ===== *)
theory Kernel_Service
  imports Kernel_Config
begin

text \<open>
  The protector as a program: \<open>thermal_kernel_service.cpp\<close>, the rest of
  \<open>thermal_sensor_provision.cpp\<close> (the walk over the directory of zones and the reading of their
  files) and of \<open>thermal_protector_timer.cpp\<close> (the timer and its loop). \<open>main\<close> calls \<open>OnStart\<close>
  and ends with it.

  What the kernel gives is in \<open>kernel_env\<close> and in the outcomes of the waits: the directory, the
  content of the files, the descriptors. Names in the directory are shorter than \<open>PATH_MAX\<close>, and
  so are the paths made of them; the number in a zone's name is only stored. \<open>Run\<close> starts a
  thread and joins it, so it is the loop itself. What is written to the timer and watched is
  recorded in \<open>ProtectorTimer\<close>. The loop takes the outcomes of its waits as a list; when the list
  ends it still waits.
\<close>

section \<open>Files of the kernel\<close>

abbreviation (input) MAX_BUFF_SIZE :: nat where "MAX_BUFF_SIZE \<equiv> 128"
abbreviation (input) MAX_SYSFS_SIZE :: nat where "MAX_SYSFS_SIZE \<equiv> 128"

text \<open>The content of a file, \<open>None\<close> if it cannot be opened or read.\<close>

type_synonym files = "string \<Rightarrow> string option"

definition ThermalSensorProvision_Trim :: "string \<Rightarrow> string" where
  "ThermalSensorProvision_Trim s = takeWhile (\<lambda>c. c \<noteq> CHR 0x0A) s"

definition ReadSysfsFile :: "files \<Rightarrow> nat \<Rightarrow> string \<Rightarrow> string option" where
  "ReadSysfsFile files bufSize path =
     map_option (\<lambda>content. ThermalSensorProvision_Trim (c_str (take (bufSize - 1) content))) (files path)"

definition ReadThermalSysfsToBuff :: "files \<Rightarrow> string \<Rightarrow> string option" where
  "ReadThermalSysfsToBuff files path = ReadSysfsFile files MAX_BUFF_SIZE path"

record ThermalZoneSysfsPathInfo =
  tzp_tempPath :: string
  tzp_typePath :: string

definition FormatThermalSysfsPaths :: "string \<Rightarrow> ThermalZoneSysfsPathInfo list \<Rightarrow> ThermalZoneSysfsPathInfo list" where
  "FormatThermalSysfsPaths name paths =
     paths @ [\<lparr>tzp_tempPath = ''/sys/class/thermal/'' @ name @ ''/temp'',
               tzp_typePath = ''/sys/class/thermal/'' @ name @ ''/type''\<rparr>]"

text \<open>
  Whether \<open>sscanf_s(name, ''thermal_zone%d'')\<close> is negative: the name ends before anything is
  converted or found not to match.
\<close>

definition scan_ends :: "string \<Rightarrow> bool" where
  "scan_ends name \<longleftrightarrow>
     (let pattern = ''thermal_zone'' in
      if take (length pattern) name = pattern then dropWhile is_space (drop (length pattern) name) = []
      else take (length name) pattern = name)"

text \<open>The entries of the directory: the name, and whether it is a directory or a link.\<close>

fun zone_dir_loop :: "(string \<times> bool) list \<Rightarrow> nat \<Rightarrow> ThermalZoneSysfsPathInfo list \<Rightarrow>
    bool \<times> ThermalZoneSysfsPathInfo list" where
  "zone_dir_loop [] index paths = (True, paths)"
| "zone_dir_loop ((name, isDir) # rest) index paths =
     (if name = ''.'' \<or> name = ''..'' \<or> take 14 name = ''cooling_device'' \<or> \<not> isDir
      then zone_dir_loop rest index paths
      else if scan_ends name then (False, paths)
      else if MAX_SYSFS_SIZE < index then (True, paths)
      else zone_dir_loop rest (Suc index) (FormatThermalSysfsPaths name paths))"

definition InitThermalZoneSysfs :: "(string \<times> bool) list option \<Rightarrow> ThermalZoneSysfsPathInfo list \<Rightarrow>
    bool \<times> ThermalZoneSysfsPathInfo list" where
  "InitThermalZoneSysfs dir paths = (case dir of None \<Rightarrow> (False, paths) | Some entries \<Rightarrow> zone_dir_loop entries 0 paths)"

text \<open>What \<open>ParseThermalZoneInfo\<close> sees of the directory and the files, and the paths it keeps.\<close>

definition zone_files :: "files \<Rightarrow> (string \<times> bool) list option \<Rightarrow> ThermalZoneSysfsPathInfo list \<Rightarrow>
    (string option \<times> string) list option \<times> ThermalZoneSysfsPathInfo list" where
  "zone_files files dir paths =
     (let (ok, paths) = InitThermalZoneSysfs dir paths
      in (if ok then Some (map (\<lambda>path. (ReadThermalSysfsToBuff files (tzp_typePath path), tzp_tempPath path)) paths)
          else None, paths))"

section \<open>The timer\<close>

record ProtectorTimer =
  pt_timeCount :: int
  pt_epFd :: int
  pt_timerFd :: int
  pt_timerInterval :: int
  pt_handlers :: "int list"            \<comment> \<open>the descriptors of \<open>callbackHandler_\<close>\<close>
  pt_settime :: "int list"             \<comment> \<open>the seconds of each \<open>timerfd_settime\<close>\<close>
  pt_watched :: "(int \<times> int) list"     \<comment> \<open>each \<open>epoll_ctl\<close>\<close>

definition ProtectorTimer_new :: ProtectorTimer where
  "ProtectorTimer_new = \<lparr>pt_timeCount = 0, pt_epFd = - 1, pt_timerFd = - 1, pt_timerInterval = - 1,
     pt_handlers = [], pt_settime = [], pt_watched = []\<rparr>"

record kernel_env =
  ke_platform :: platform
  ke_uninit :: kernel_uninit
  ke_xmlReadFile :: "string \<Rightarrow> xml_node option option"
  ke_GetOneCfgFile :: "string option"
  ke_dir :: "(string \<times> bool) list option"   \<comment> \<open>\<open>None\<close> if it cannot be opened\<close>
  ke_files :: files                          \<comment> \<open>at the start\<close>
  ke_epoll_create1 :: int
  ke_timerfd_create :: int
  ke_ERR_INVALID_VALUE :: int
  ke_ERR_INVALID_OPERATION :: int

abbreviation (input) ERR_INVALID_FD :: int where "ERR_INVALID_FD \<equiv> - 1"
abbreviation (input) MS_PER_SECOND :: int where "MS_PER_SECOND \<equiv> 1000"
abbreviation (input) END_TIME :: int where "END_TIME \<equiv> 2"

definition ThermalProtectorTimer_SetTimerInterval :: "int \<Rightarrow> int \<Rightarrow> ProtectorTimer \<Rightarrow> ProtectorTimer" where
  "ThermalProtectorTimer_SetTimerInterval interval timerfd t =
     (if timerfd = ERR_INVALID_FD then t
      else t\<lparr>pt_timerInterval := interval,
             pt_settime := pt_settime t @ [c_div (if interval < 0 then 0 else interval) MS_PER_SECOND]\<rparr>)"

definition ThermalProtectorTimer_RegisterCallback :: "int \<Rightarrow> int \<Rightarrow> ProtectorTimer \<Rightarrow> ProtectorTimer" where
  "ThermalProtectorTimer_RegisterCallback fd epfd t = t\<lparr>pt_watched := pt_watched t @ [(epfd, fd)]\<rparr>"

definition ThermalProtectorTimer_CreateProvisionFd :: "kernel_env \<Rightarrow> int \<Rightarrow> ProtectorTimer \<Rightarrow> bool \<times> ProtectorTimer" where
  "ThermalProtectorTimer_CreateProvisionFd E interval t =
     (let t = t\<lparr>pt_timerFd := ke_timerfd_create E\<rparr>
      in if pt_timerFd t = ERR_INVALID_FD then (False, t)
         else let t = ThermalProtectorTimer_SetTimerInterval interval (pt_timerFd t) t;
                  t = t\<lparr>pt_handlers := List.insert (pt_timerFd t) (pt_handlers t)\<rparr>
              in (True, ThermalProtectorTimer_RegisterCallback (pt_timerFd t) (pt_epFd t) t))"

definition ThermalProtectorTimer_InitProvisionTimer :: "kernel_env \<Rightarrow> int \<Rightarrow> ProtectorTimer \<Rightarrow> bool \<times> ProtectorTimer" where
  "ThermalProtectorTimer_InitProvisionTimer E interval t =
     ThermalProtectorTimer_CreateProvisionFd E interval (t\<lparr>pt_epFd := ke_epoll_create1 E\<rparr>)"

text \<open>
  A wait fails, or gives the events of the timer: whether the expirations can be read, and the
  files at that time.
\<close>

datatype wait = WaitFails | Events "(bool \<times> files) list"

definition timer_event :: "bool \<times> files \<Rightarrow> Protector \<Rightarrow> Protector result" where
  "timer_event = (\<lambda>(readable, files) p.
     if \<not> readable then Inr p else TimerProvisionCallback (ReadThermalSysfsToBuff files) p)"

text \<open>Whether the loop has ended, and the state.\<close>

fun LoopingThreadEntry :: "wait list \<Rightarrow> ProtectorTimer \<times> Protector \<Rightarrow> (bool \<times> ProtectorTimer \<times> Protector) result" where
  "LoopingThreadEntry [] (t, p) = Inr (pt_timeCount t = END_TIME, t, p)"
| "LoopingThreadEntry (WaitFails # waits) (t, p) =
     (if pt_timeCount t = END_TIME then Inr (True, t, p) else LoopingThreadEntry waits (t, p))"
| "LoopingThreadEntry (Events events # waits) (t, p) =
     (if pt_timeCount t = END_TIME then Inr (True, t, p)
      else bindr (foldr_result timer_event events p) (\<lambda>p.
             bindr (check32 (pt_timeCount t + 1)) (\<lambda>n. LoopingThreadEntry waits (t\<lparr>pt_timeCount := n\<rparr>, p))))"

definition ThermalProtectorTimer_StartThread :: "kernel_env \<Rightarrow> wait list \<Rightarrow> ProtectorTimer \<times> Protector \<Rightarrow>
    (bool \<times> ProtectorTimer \<times> Protector) result" where
  "ThermalProtectorTimer_StartThread E waits = (\<lambda>(t, p).
     let (ok, t) = ThermalProtectorTimer_InitProvisionTimer E (maxCd p) t
     in if \<not> ok then Inr (True, t, p) else LoopingThreadEntry waits (t, p))"

definition ThermalProtectorTimer_Init :: "kernel_env \<Rightarrow> wait list \<Rightarrow> ProtectorTimer \<times> Protector \<Rightarrow>
    (bool \<times> ProtectorTimer \<times> Protector) result" where
  "ThermalProtectorTimer_Init E waits = ThermalProtectorTimer_StartThread E waits"

section \<open>The service\<close>

record KernelService =
  ks_objects :: "(Protector \<times> ProtectorTimer) option"   \<comment> \<open>policy, control, provision and timer\<close>
  ks_config :: KernelConfig
  ks_zonePaths :: "ThermalZoneSysfsPathInfo list"        \<comment> \<open>\<open>lTzSysPathInfo_\<close>\<close>

definition Protector_new :: Protector where
  "Protector_new = \<lparr>tzInfoMap = [], kernelTypeTempMap = [], levelMap = [], levelAction = [], executeActionList = [],
     maxCd = 0, thermalActionMap = [], staticValue = (\<lambda>_. 0), deviceWrites = [], sensorData = [], multipleList = [],
     reportTime = 0\<rparr>"

definition KernelService_new :: KernelService where
  "KernelService_new = \<lparr>ks_objects = None, ks_config = \<lparr>kc_baseInfo = None, g_levelActionList = []\<rparr>, ks_zonePaths = []\<rparr>"

text \<open>Reading one configuration file.\<close>

definition kernel_config :: "kernel_env \<Rightarrow> string \<Rightarrow> KernelConfig \<times> Protector \<Rightarrow> (bool \<times> KernelConfig \<times> Protector) result" where
  "kernel_config E = ThermalKernelConfigFile_Init (ke_xmlReadFile E) (ke_platform E) (ke_uninit E)"

definition kernel_config_files :: "kernel_env \<Rightarrow> KernelConfig \<times> Protector \<Rightarrow> (bool \<times> KernelConfig \<times> Protector) result" where
  "kernel_config_files E cp =
     (case ke_GetOneCfgFile E of
        Some (c # path) \<Rightarrow> kernel_config E (c # path) cp
      | _ \<Rightarrow>
          bindr (kernel_config E ''/vendor/etc/thermal_config/thermal_kernel_config.xml'' cp) (\<lambda>(ok, cp).
            if ok then Inr (True, cp)
            else kernel_config E ''/system/etc/thermal_config/thermal_kernel_config.xml'' cp))"

text \<open>The value \<open>Init\<close> returns, \<open>None\<close> while the timer's loop goes on.\<close>

definition ThermalKernelService_Init :: "kernel_env \<Rightarrow> wait list \<Rightarrow> KernelService \<Rightarrow> (bool option \<times> KernelService) result" where
  "ThermalKernelService_Init E waits s =
     (let (p, t) = (case ks_objects s of None \<Rightarrow> (Protector_new, ProtectorTimer_new) | Some objects \<Rightarrow> objects);
          done = (\<lambda>ret c p t paths. (ret, \<lparr>ks_objects = Some (p, t), ks_config = c, ks_zonePaths = paths\<rparr>))
      in bindr (kernel_config_files E (ks_config s, p)) (\<lambda>(ok, c, p).
           if \<not> ok then Inr (done (Some False) c p t (ks_zonePaths s))
           else bindr (ThermalKernelPolicy_Init p) (\<lambda>p.
             let (ok, p) = ThermalDeviceControl_Init (ku_latestvalue (ke_uninit E)) p
             in if \<not> ok then Inr (done (Some False) c p t (ks_zonePaths s))
                else
                  let (sysfs, paths) = zone_files (ke_files E) (ke_dir E) (ks_zonePaths s);
                      (_, p) = InitProvision (ke_ERR_INVALID_OPERATION E) (ke_ERR_INVALID_VALUE E) sysfs p
                  in bindr (ThermalProtectorTimer_Init E waits (t, p)) (\<lambda>(ended, t, p).
                       Inr (done (if ended then Some True else None) c p t paths)))))"

text \<open>\<open>OnStart\<close>, and with it the program: whether it has ended, and the service.\<close>

definition ThermalKernelService_OnStart :: "kernel_env \<Rightarrow> wait list \<Rightarrow> KernelService \<Rightarrow> (bool \<times> KernelService) result" where
  "ThermalKernelService_OnStart E waits s =
     bindr (ThermalKernelService_Init E waits s) (\<lambda>(ret, s). Inr (ret \<noteq> None, s))"

end
