(* ===== verification/Kernel_Config_Proofs.thy ===== *)
theory Kernel_Config_Proofs
  imports Kernel_Config Xml_Print
begin

text \<open>
  What the protector's parser makes of a file in its format. The zones are read back as written.
  The values of the actions are not: one \<open>LevelAction\<close> serves all items of a zone and only ever
  grows, so the policy of a level also holds the values of the levels below it, before its own.
\<close>

section \<open>The format\<close>

record zone_level =
  zl_threshold :: int
  zl_thresholdClr :: int
  zl_actions :: "(string \<times> nat) list"

record zone_config =
  zc_interval :: int
  zc_desc :: bool
  zc_levels :: "zone_level list"

definition print_zone_item :: "nat \<times> zone_level \<Rightarrow> xml_node" where
  "print_zone_item = (\<lambda>(k, l).
     element ''item'' [(''level'', to_dec k), (''threshold'', to_string_int (zl_threshold l)),
         (''threshold_clr'', to_string_int (zl_thresholdClr l))]
       (map (\<lambda>(name, value). text_element name [] (to_dec value)) (zl_actions l)))"

definition print_zone :: "string \<times> zone_config \<Rightarrow> xml_node" where
  "print_zone = (\<lambda>(type, z).
     element ''thermal_zone''
       ([(''type'', type), (''interval'', to_string_int (zc_interval z))] @ (if zc_desc z then [(''desc'', ''1'')] else []))
       (map print_zone_item (enumerate 1 (zc_levels z))))"

definition print_protector :: "(string, zone_config) smap \<Rightarrow> xml_node" where
  "print_protector cfg =
     element ''thermal'' []
       [element ''base'' [] [element ''item'' [(''tag'', ''sim_tz''), (''value'', ''1'')] []],
        element ''control'' [] (map print_zone cfg)]"

definition printable_level :: "zone_level \<Rightarrow> bool" where
  "printable_level l \<longleftrightarrow> int32_range (zl_threshold l) \<and> int32_range (zl_thresholdClr l) \<and>
     list_all (\<lambda>(name, value). value < 2 ^ 32) (zl_actions l)"

definition printable_protector :: "(string, zone_config) smap \<Rightarrow> bool" where
  "printable_protector cfg \<longleftrightarrow> sm_ok cfg \<and>
     list_all (\<lambda>(type, z). int32_range (zc_interval z) \<and> length (zc_levels z) < 2 ^ 32 - 1 \<and>
       list_all printable_level (zc_levels z)) cfg"

section \<open>What the parser makes of it\<close>

definition level_actions :: "zone_level \<Rightarrow> KernelActionItem list" where
  "level_actions l = map (\<lambda>(name, value). \<lparr>ka_name = name, ka_value = value\<rparr>) (zl_actions l)"

definition zone_item :: "nat \<times> zone_level \<Rightarrow> ThermalZoneInfoItem" where
  "zone_item = (\<lambda>(k, l). \<lparr>tz_level = k, tz_threshold = zl_threshold l, tz_thresholdClr = zl_thresholdClr l\<rparr>)"

definition configured_zone :: "zone_config \<Rightarrow> ZoneInfo" where
  "configured_zone z = ZoneInfo_new\<lparr>tz_interval := zc_interval z, tz_desc := zc_desc z,
     tzItemList := map zone_item (enumerate 1 (zc_levels z))\<rparr>"

text \<open>The policies of a zone: those of a level hold the values of all levels up to it.\<close>

definition configured_actions :: "string \<Rightarrow> zone_config \<Rightarrow> LevelAction list" where
  "configured_actions type z =
     map (\<lambda>k. \<lparr>la_name = type, la_level = Suc k, la_vAction = concat (map level_actions (take (Suc k) (zc_levels z)))\<rparr>)
       [0 ..< length (zc_levels z)]"

lemma parse_printed_item:
  assumes "printable_level l" and "k < 2 ^ 32" and "reads_numbers P"
  shows "parse_zone_item P U (print_zone_item (k, l)) la =
    (zone_item (k, l), la\<lparr>la_level := k, la_vAction := la_vAction la @ level_actions l\<rparr>)"
proof -
  have "map (parse_kernel_action U) (xml_children (print_zone_item (k, l))) = level_actions l"
    using assms(1) by (auto simp: print_zone_item_def level_actions_def parse_kernel_action_def printable_level_def
        list_all_iff level_of_to_dec)
  moreover have "map_of [(''level'', to_dec k), (''threshold'', s), (''threshold_clr'', t)] a =
      (if a = ''level'' then Some (to_dec k) else if a = ''threshold'' then Some s else if a = ''threshold_clr'' then Some t else None)"
    for a s t by simp
  ultimately show ?thesis
    using assms by (simp add: parse_zone_item_def Let_def)
      (simp add: print_zone_item_def zone_item_def printable_level_def reads_numbers_def level_of_to_dec)
qed

text \<open>The loop over the items, after \<open>i\<close> of them.\<close>

lemma parse_printed_items:
  assumes "list_all printable_level ls" and "i + length ls < 2 ^ 32 - 1" and "reads_numbers P"
  shows "\<exists>la'. fold (\<lambda>subNode (items, la, levels).
        let (item, la) = parse_zone_item P U subNode la in (items @ [item], la, levels @ [la]))
      (map print_zone_item (enumerate (Suc i) ls)) (items, la, levels) =
    (items @ map zone_item (enumerate (Suc i) ls), la',
     levels @ map (\<lambda>k. la\<lparr>la_level := Suc (i + k), la_vAction := la_vAction la @ concat (map level_actions (take (Suc k) ls))\<rparr>)
       [0 ..< length ls])"
  using assms(1,2)
proof (induction ls arbitrary: i items la levels)
  case (Cons l ls)
  have "Suc i < 2 ^ 32" using Cons.prems(2) by simp
  with Cons.prems(1) assms(3) have item: "parse_zone_item P U (print_zone_item (Suc i, l)) la =
      (zone_item (Suc i, l), la\<lparr>la_level := Suc i, la_vAction := la_vAction la @ level_actions l\<rparr>)"
    by (intro parse_printed_item) simp_all
  let ?la = "la\<lparr>la_level := Suc i, la_vAction := la_vAction la @ level_actions l\<rparr>"
  from Cons.IH [of "Suc i" "items @ [zone_item (Suc i, l)]" ?la "levels @ [?la]"] Cons.prems
  obtain la' where "fold (\<lambda>subNode (items, la, levels).
        let (item, la) = parse_zone_item P U subNode la in (items @ [item], la, levels @ [la]))
      (map print_zone_item (enumerate (Suc (Suc i)) ls)) (items @ [zone_item (Suc i, l)], ?la, levels @ [?la]) =
    (items @ [zone_item (Suc i, l)] @ map zone_item (enumerate (Suc (Suc i)) ls), la',
     levels @ [?la] @ map (\<lambda>k. ?la\<lparr>la_level := Suc (Suc i + k),
         la_vAction := la_vAction ?la @ concat (map level_actions (take (Suc k) ls))\<rparr>) [0 ..< length ls])"
    by auto
  then show ?case
    by (simp add: item upt_conv_Cons map_Suc_upt [symmetric] o_def del: upt_Suc)
qed simp

lemma named_item: "named ''item'' (print_zone (type, z)) = map print_zone_item (enumerate 1 (zc_levels z))"
  unfolding print_zone_def prod.case by (rule named_map) (auto simp: print_zone_item_def)

lemma parse_printed_zone:
  assumes "int32_range (zc_interval z)" and "length (zc_levels z) < 2 ^ 32 - 1" and "list_all printable_level (zc_levels z)"
    and "reads_numbers P" and "trims_flags P"
  shows "parse_zone P U (print_zone (type, z)) (zones, levels) =
    (sm_insert type (configured_zone z) zones, levels @ configured_actions type z)"
proof -
  let ?la = "\<lparr>la_name = type, la_level = ku_level U, la_vAction = []\<rparr>"
  from parse_printed_items [of "zc_levels z" 0 P U "[]" ?la levels] assms obtain la' where
    "fold (\<lambda>subNode (items, la, levels).
        let (item, la) = parse_zone_item P U subNode la in (items @ [item], la, levels @ [la]))
      (map print_zone_item (enumerate 1 (zc_levels z))) ([], ?la, levels) =
    (map zone_item (enumerate 1 (zc_levels z)), la', levels @ configured_actions type z)"
    by (auto simp: configured_actions_def)
  then have sub: "ParseSubNode P U (print_zone (type, z)) type levels =
      (map zone_item (enumerate 1 (zc_levels z)), levels @ configured_actions type z)"
    by (simp add: ParseSubNode_def named_item)
  have props: "xmlGetProp (print_zone (type, z)) ''type'' = Some type"
      "xmlGetProp (print_zone (type, z)) ''interval'' = Some (to_string_int (zc_interval z))"
      "xmlGetProp (print_zone (type, z)) ''desc'' = (if zc_desc z then Some ''1'' else None)"
    by (simp_all add: print_zone_def)
  show ?thesis
    using assms(1,4,5)
    by (simp add: parse_zone_def sub props reads_numbers_def trims_flags_def configured_zone_def ZoneInfo_new_def
        SetInterval_def SetDesc_def SetThermalZoneItem_def)
qed

lemma parse_printed_zones:
  assumes "list_all (\<lambda>(type, z). int32_range (zc_interval z) \<and> length (zc_levels z) < 2 ^ 32 - 1 \<and>
       list_all printable_level (zc_levels z)) cfg" and "reads_numbers P" and "trims_flags P"
  shows "fold (parse_zone P U) (map print_zone cfg) (zones, levels) =
    (fold (\<lambda>(type, z). sm_insert type (configured_zone z)) cfg zones,
     levels @ concat (map (\<lambda>(type, z). configured_actions type z) cfg))"
  using assms(1)
  by (induction cfg arbitrary: zones levels) (auto simp: parse_printed_zone [OF _ _ _ assms(2,3)])

section \<open>The file\<close>

definition zones_of :: "(string, zone_config) smap \<Rightarrow> (string, ZoneInfo) smap" where
  "zones_of cfg = map (\<lambda>(type, z). (type, configured_zone z)) cfg"

definition actions_of :: "(string, zone_config) smap \<Rightarrow> LevelAction list" where
  "actions_of cfg = concat (map (\<lambda>(type, z). configured_actions type z) cfg)"

lemma sm_ok_zones_of: "sm_ok cfg \<Longrightarrow> sm_ok (zones_of cfg)"
  by (simp add: sm_ok_def zones_of_def sorted_wrt_map split_def)

lemma insert_zones: "sm_ok cfg \<Longrightarrow> fold (\<lambda>(type, z). sm_insert type (configured_zone z)) cfg [] = zones_of cfg"
proof -
  assume "sm_ok cfg"
  have "fold (\<lambda>(type, z). sm_insert type (configured_zone z)) cfg [] = fold (\<lambda>(k, v). sm_insert k v) (zones_of cfg) []"
    by (simp add: zones_of_def fold_map o_def split_def)
  also have "\<dots> = zones_of cfg" using fold_insert_append [of "[]" "zones_of cfg"] sm_ok_zones_of [OF \<open>sm_ok cfg\<close>] by simp
  finally show ?thesis .
qed

lemma parse_printed_protector:
  assumes "printable_protector cfg" and "reads_numbers P" and "trims_flags P"
    and "readFile path = Some (Some (print_protector cfg))"
  shows "ThermalKernelConfigFile_Init readFile P U path (c, p) =
    Inr (True, \<lparr>kc_baseInfo = Some [\<lparr>kb_tag = ''sim_tz'', kb_value = ''1''\<rparr>],
               g_levelActionList = g_levelActionList c @ actions_of cfg\<rparr>,
         p\<lparr>tzInfoMap := zones_of cfg, levelAction := g_levelActionList c @ actions_of cfg\<rparr>)"
  using assms
  by (cases c) (auto simp: ThermalKernelConfigFile_Init_def ParseThermalKernelXML_def print_protector_def kernel_section_def
      ParserBaseNode_def parse_base_item_def ParseControlNode_def printable_protector_def parse_printed_zones insert_zones
      ThermalKernelPolicy_SetThermalZoneMap_def ThermalKernelPolicy_SetLevelAction_def actions_of_def)

end
