(* ===== verification/Kernel_Proofs.thy ===== *)
theory Kernel_Proofs
  imports Kernel_Policy
begin

text \<open>
  What the protector guarantees: the common divisor of the intervals and the multiples derived
  from it, which ticks read which zone, and what its decisions do over a sequence of reports.
\<close>

section \<open>Intervals\<close>

lemma GetMaxCommonDivisor_gcd:
  "0 < a \<Longrightarrow> 0 < b \<Longrightarrow> GetMaxCommonDivisor a b = Inr (gcd a b)"
proof (induction a b rule: GetMaxCommonDivisor.induct)
  case (1 a b)
  have m: "c_mod a b = a mod b" using 1(2,3) by (simp add: c_mod_pos)
  show ?case
  proof (cases "a mod b = 0")
    case True
    then have "gcd a b = b" using 1(3) by (simp add: gcd_proj2_iff mod_eq_0_iff_dvd)
    with 1(2,3) m True show ?thesis by (subst GetMaxCommonDivisor.simps) simp
  next
    case False
    then have "0 < a mod b" using pos_mod_sign [OF 1(3), of a] by linarith
    with 1 m False show ?thesis by (subst GetMaxCommonDivisor.simps) (simp add: gcd_red_int [of a b, symmetric])
  qed
qed

lemma fold_gcd:
  "0 < d \<Longrightarrow> \<forall>i \<in> set is. 0 < i \<Longrightarrow> foldr_result (\<lambda>i d. GetMaxCommonDivisor d i) is d = Inr (Gcd (insert d (set is)))"
proof (induction "is" arbitrary: d)
  case (Cons i "is")
  then have "foldr_result (\<lambda>i d. GetMaxCommonDivisor d i) is (gcd d i) = Inr (Gcd (insert (gcd d i) (set is)))"
    using gcd_pos_int [of d i] by simp
  with Cons.prems show ?case by (simp add: GetMaxCommonDivisor_gcd gcd.assoc)
qed simp

lemma GetIntervalCommonDivisor_Gcd:
  "is \<noteq> [] \<Longrightarrow> \<forall>i \<in> set is. 0 < i \<Longrightarrow> GetIntervalCommonDivisor is = Inr (Gcd (set is))"
  by (cases "is") (simp_all add: GetIntervalCommonDivisor_def fold_gcd)

lemma multiple_loop_eq:
  "0 < d \<Longrightarrow> \<forall>(type, z) \<in> set zones. 0 < tz_interval z \<and> tz_interval z \<le> INT_MAX \<Longrightarrow>
     multiple_loop d zones = Inr (map (\<lambda>(type, z). (type, SetMultiple (tz_interval z div d) z)) zones)"
proof (induction zones)
  case (Cons e zones)
  obtain type z where e: "e = (type, z)" by (cases e)
  have "tz_interval z div d \<le> tz_interval z" "0 \<le> tz_interval z div d"
    using Cons.prems by (auto simp: e pos_imp_zdiv_nonneg_iff intro: int_div_le_self)
  with Cons show ?case
    by (auto simp: e c_div_pos check32_def int32_range_def)
qed simp

lemma SetMultiples_eq:
  assumes "tzInfoMap p \<noteq> []"
    and "\<forall>(type, z) \<in> set (tzInfoMap p). 0 < tz_interval z \<and> tz_interval z \<le> INT_MAX"
  defines "d \<equiv> Gcd (tz_interval ` snd ` set (tzInfoMap p))"
  shows "SetMultiples p = Inr (p\<lparr>maxCd := d,
      tzInfoMap := map (\<lambda>(type, z). (type, SetMultiple (tz_interval z div d) z)) (tzInfoMap p)\<rparr>)"
    and "0 < d" and "(type, z) \<in> set (tzInfoMap p) \<Longrightarrow> d dvd tz_interval z"
proof -
  let ?is = "map (\<lambda>(type, z). tz_interval z) (tzInfoMap p)"
  have set_is: "set ?is = tz_interval ` snd ` set (tzInfoMap p)" by force
  have "GetIntervalCommonDivisor ?is = Inr (Gcd (set ?is))"
    using assms(1,2) by (intro GetIntervalCommonDivisor_Gcd) (auto simp: split_def)
  then have cd: "GetIntervalCommonDivisor ?is = Inr d" unfolding set_is d_def .
  show div: "d dvd tz_interval z" if "(type, z) \<in> set (tzInfoMap p)" for type z
    using that unfolding d_def by (force intro: Gcd_dvd)
  obtain type z where z: "(type, z) \<in> set (tzInfoMap p)" using assms(1) by (cases "tzInfoMap p") auto
  with div have "d dvd tz_interval z" "0 < tz_interval z" using assms(2) by auto
  then show d: "0 < d" unfolding d_def by (metis Gcd_int_greater_eq_0 dvd_0_left_iff less_le)
  show "SetMultiples p = Inr (p\<lparr>maxCd := d,
      tzInfoMap := map (\<lambda>(type, z). (type, SetMultiple (tz_interval z div d) z)) (tzInfoMap p)\<rparr>)"
    using cd d multiple_loop_eq [OF _ assms(2), of d] by (simp add: SetMultiples_def CalculateMaxCd_def)
qed

text \<open>
  With positive intervals the protector's tick is the greatest common divisor of the
  intervals, and every zone's multiple of the tick is exactly its interval.
\<close>

theorem SetMultiples_exact:
  assumes "tzInfoMap p \<noteq> []"
    and "\<forall>(type, z) \<in> set (tzInfoMap p). 0 < tz_interval z \<and> tz_interval z \<le> INT_MAX"
  shows "\<exists>p'. SetMultiples p = Inr p' \<and> maxCd p' = Gcd (tz_interval ` snd ` set (tzInfoMap p)) \<and>
    map fst (tzInfoMap p') = map fst (tzInfoMap p) \<and>
    (\<forall>(type, z) \<in> set (tzInfoMap p'). 0 < tz_multiple z \<and> tz_multiple z * maxCd p' = tz_interval z)"
proof -
  define d where "d = Gcd (tz_interval ` snd ` set (tzInfoMap p))"
  note eq = SetMultiples_eq [OF assms, folded d_def]
  have "0 < tz_interval z div d \<and> tz_interval z div d * d = tz_interval z" if "(type, z) \<in> set (tzInfoMap p)" for type z
    using eq(2) eq(3) [OF that] assms(2) that by (auto simp: pos_imp_zdiv_pos_iff dest: zdvd_imp_le)
  with eq(1) show ?thesis unfolding d_def [symmetric] by (auto simp: SetMultiple_def split_def)
qed

section \<open>Which tick reads which zone\<close>

lemma report_loop_multiples:
  "report_loop files t zones temps ms = Inr (temps', ms') \<Longrightarrow>
     ms' = ms @ filter (\<lambda>m. m \<noteq> 0) (map (\<lambda>(type, z). tz_multiple z) zones)"
  by (induction files t zones temps ms rule: report_loop.induct)
     (auto simp: Let_def bindr_eq_Inr split: if_splits option.splits)

definition keys :: "('k, 'v) smap \<Rightarrow> 'k set" where
  "keys m = fst ` set m"

lemma keys_sm_insert [simp]: "keys (sm_insert k v m) = insert k (keys m)"
  by (simp add: keys_def fst_set_sm_insert)

lemma report_loop_reads:
  "report_loop files t zones temps ms = Inr (temps', ms') \<Longrightarrow>
     type \<in> keys temps' \<longleftrightarrow> type \<in> keys temps \<or> (\<exists>z. (type, z) \<in> set zones \<and> tz_multiple z \<noteq> 0 \<and>
       c_mod t (tz_multiple z) = 0 \<and> tz_path z \<noteq> [] \<and> files (tz_path z) \<noteq> None)"
proof (induction zones arbitrary: temps ms)
  case (Cons e zones)
  obtain type' z where e: "e = (type', z)" by (cases e)
  show ?case
  proof (cases "tz_multiple z \<noteq> 0 \<and> c_mod t (tz_multiple z) = 0 \<and> tz_path z \<noteq> [] \<and> files (tz_path z) \<noteq> None")
    case True
    then obtain content where "files (tz_path z) = Some content" by auto
    with True Cons.prems obtain v where
      "report_loop files t zones (sm_insert type' v temps) (ms @ [tz_multiple z]) = Inr (temps', ms')"
      by (auto simp: e Let_def bindr_eq_Inr)
    from Cons.IH [OF this] True show ?thesis by (auto simp: e)
  next
    case False
    then obtain ms1 where "report_loop files t zones temps ms1 = Inr (temps', ms')"
      using Cons.prems by (auto simp: e Let_def split: if_splits option.splits)
    from Cons.IH [OF this] False show ?thesis by (auto simp: e)
  qed
qed simp

text \<open>What a decision leaves alone: the names, paths and multiples of the zones, the data read, the count.\<close>

definition zone_plan :: "Protector \<Rightarrow> (string \<times> int \<times> string) list" where
  "zone_plan p = map (\<lambda>(type, z). (type, tz_multiple z, tz_path z)) (tzInfoMap p)"

lemma in_zone_plan:
  "(type, m, path) \<in> set (zone_plan p) \<longleftrightarrow> (\<exists>z. (type, z) \<in> set (tzInfoMap p) \<and> m = tz_multiple z \<and> path = tz_path z)"
  by (auto simp: zone_plan_def)

definition same_plan :: "Protector \<Rightarrow> Protector \<Rightarrow> bool" where
  "same_plan p p' \<longleftrightarrow> zone_plan p' = zone_plan p \<and> sensorData p' = sensorData p \<and> multipleList p' = multipleList p \<and>
     reportTime p' = reportTime p"

lemma same_plan_refl [simp]: "same_plan p p" by (simp add: same_plan_def)

lemma same_plan_trans: "same_plan p p' \<Longrightarrow> same_plan p' p'' \<Longrightarrow> same_plan p p''"
  by (simp add: same_plan_def)

lemma same_plan_fold: "(\<And>x p. same_plan p (f x p)) \<Longrightarrow> same_plan p (fold f xs p)"
  by (induction xs arbitrary: p) (auto intro: same_plan_trans)

lemma zone_level_loop_plan:
  "zone_level_loop temps zones levels = Inr (zones', levels') \<Longrightarrow>
     map (\<lambda>(type, z). (type, tz_multiple z, tz_path z)) zones' = map (\<lambda>(type, z). (type, tz_multiple z, tz_path z)) zones"
  by (induction temps zones levels arbitrary: zones' levels' rule: zone_level_loop.induct)
     (auto simp: bindr_eq_Inr Zone_UpdateThermalLevel_def split: option.splits)

lemma execution_plan: "same_plan p (ThermalKernelPolicy_ActionExecution p)"
  unfolding ThermalKernelPolicy_ActionExecution_def
  by (rule same_plan_fold) (auto simp: same_plan_def zone_plan_def CoolingAction_Execute_def CoolingAction_Request_def Let_def
      split: option.split prod.split)

lemma action_decision_plan: "same_plan p (ThermalKernelPolicy_ActionDecision vs p)"
  unfolding ThermalKernelPolicy_ActionDecision_def
  by (rule same_plan_fold) (auto simp: same_plan_def zone_plan_def split: option.split)

lemma policy_decision_plan: "same_plan p (ThermalKernelPolicy_PolicyDecision p)"
  unfolding ThermalKernelPolicy_PolicyDecision_def
  by (rule same_plan_trans [OF same_plan_fold execution_plan]) (auto simp: action_decision_plan)

lemma received_plan:
  assumes "ThermalKernelPolicy_OnReceivedSensorsInfo temps p = Inr p'"
  shows "same_plan p p'"
proof -
  obtain zones levels where l: "zone_level_loop temps (tzInfoMap p) (levelMap p) = Inr (zones, levels)"
    and p': "p' = ThermalKernelPolicy_PolicyDecision (p\<lparr>kernelTypeTempMap := temps, tzInfoMap := zones, levelMap := levels\<rparr>)"
    using assms by (auto simp: ThermalKernelPolicy_OnReceivedSensorsInfo_def ThermalKernelPolicy_LevelDecision_def bindr_eq_Inr)
  have "same_plan p (p\<lparr>kernelTypeTempMap := temps, tzInfoMap := zones, levelMap := levels\<rparr>)"
    using zone_level_loop_plan [OF l] by (simp add: same_plan_def zone_plan_def)
  then show ?thesis unfolding p' by (rule same_plan_trans) (rule policy_decision_plan)
qed

lemma callback_plan: "TimerProvisionCallback files p = Inr p' \<Longrightarrow> zone_plan p' = zone_plan p"
  by (auto simp: TimerProvisionCallback_def NotifyPolicy_def ReportThermalZoneData_def bindr_eq_Inr ResetCount_def
      same_plan_def zone_plan_def dest!: received_plan)

definition plan_multiples :: "Protector \<Rightarrow> int list" where
  "plan_multiples p = map (fst \<circ> snd) (zone_plan p)"

lemma callback_tick:
  assumes "TimerProvisionCallback files p = Inr p'" and "\<forall>m \<in> set (plan_multiples p). 0 < m" and "plan_multiples p \<noteq> []"
  shows "zone_plan p' = zone_plan p"
    and "reportTime p' = (if reportTime p + 1 = Max (set (plan_multiples p)) then 0 else reportTime p + 1)"
    and "type \<in> keys (sensorData p') \<longleftrightarrow> (\<exists>m path. (type, m, path) \<in> set (zone_plan p) \<and>
       c_mod (reportTime p + 1) m = 0 \<and> path \<noteq> [] \<and> files path \<noteq> None)"
proof -
  let ?p = "p\<lparr>reportTime := reportTime p + 1\<rparr>"
  obtain temps ms p1 where r: "report_loop files (reportTime p + 1) (tzInfoMap p) [] [] = Inr (temps, ms)"
    and p1: "ThermalKernelPolicy_OnReceivedSensorsInfo temps (?p\<lparr>sensorData := temps, multipleList := ms\<rparr>) = Inr p1"
    and p': "p' = ResetCount p1"
    using assms(1) by (auto simp: TimerProvisionCallback_def NotifyPolicy_def ReportThermalZoneData_def bindr_eq_Inr check32_Inr)
  have pm: "plan_multiples p = map (\<lambda>(type, z). tz_multiple z) (tzInfoMap p)"
    by (simp add: plan_multiples_def zone_plan_def split_def)
  have ms: "ms = plan_multiples p"
    using report_loop_multiples [OF r] assms(2) unfolding pm by (auto simp: filter_id_conv)
  have plan: "zone_plan p1 = zone_plan p" "sensorData p1 = temps" "multipleList p1 = ms" "reportTime p1 = reportTime p + 1"
    using received_plan [OF p1] by (simp_all add: same_plan_def zone_plan_def)
  show "zone_plan p' = zone_plan p" using plan by (simp add: p' ResetCount_def zone_plan_def)
  show "reportTime p' = (if reportTime p + 1 = Max (set (plan_multiples p)) then 0 else reportTime p + 1)"
    using plan assms(3) by (simp add: p' ResetCount_def ms)
  have "sensorData p' = temps" using plan by (simp add: p' ResetCount_def)
  moreover have "tz_multiple z \<noteq> 0" if "(type, z) \<in> set (tzInfoMap p)" for type z
    using assms(2) that unfolding pm by force
  ultimately show "type \<in> keys (sensorData p') \<longleftrightarrow> (\<exists>m path. (type, m, path) \<in> set (zone_plan p) \<and>
       c_mod (reportTime p + 1) m = 0 \<and> path \<noteq> [] \<and> files path \<noteq> None)"
    using report_loop_reads [OF r, of type] by (auto simp: in_zone_plan keys_def)
qed

lemma next_report_time:
  "(if int (n mod M) + 1 = int M then 0 else int (n mod M) + 1) = int (Suc n mod M)" if "0 < M"
  using that by (simp add: mod_Suc)

lemma ticks_count:
  assumes "foldr_result TimerProvisionCallback fs p0 = Inr p" and "reportTime p0 = int (n mod M)"
    and "\<forall>m \<in> set (plan_multiples p0). 0 < m" and "plan_multiples p0 \<noteq> []" and "int M = Max (set (plan_multiples p0))"
  shows "zone_plan p = zone_plan p0 \<and> reportTime p = int ((n + length fs) mod M)"
  using assms
proof (induction fs arbitrary: p0 n)
  case (Cons f fs)
  have "0 < M"
    using Cons.prems(3-5) Max_in [of "set (plan_multiples p0)"] by (metis List.finite_set of_nat_0_less_iff set_empty)
  obtain p1 where p1: "TimerProvisionCallback f p0 = Inr p1" "foldr_result TimerProvisionCallback fs p1 = Inr p"
    using Cons.prems(1) by (auto simp: bindr_eq_Inr)
  note tick = callback_tick [OF p1(1) Cons.prems(3,4)]
  have pm: "plan_multiples p1 = plan_multiples p0" by (simp add: plan_multiples_def tick(1))
  have "reportTime p1 = int (Suc n mod M)"
    using tick(2) next_report_time [OF \<open>0 < M\<close>, of n] Cons.prems(2,5) by (simp split: if_splits)
  from Cons.IH [OF p1(2) this] Cons.prems(3-5) tick(1) show ?case by (simp add: pm)
qed simp

lemma dvd_mod_cycle: "m dvd M \<Longrightarrow> m dvd Suc (n mod M) \<longleftrightarrow> m dvd Suc n" for m M :: nat
  by (metis dvd_eq_mod_eq_0 mod_Suc_eq mod_mod_cancel)

text \<open>
  C39: the ticks of the timer. With \<open>M\<close> the greatest multiple, the tick that comes after \<open>n\<close>
  others reads a zone exactly if the zone's multiple divides \<open>n mod M + 1\<close>. So a zone whose
  multiple \<open>m\<close> divides \<open>M\<close> is read every \<open>m\<close> ticks, as its interval asks; but the count
  restarts at \<open>M\<close>, so any other zone is not read at its interval.
\<close>

theorem zone_read_schedule:
  assumes "foldr_result TimerProvisionCallback (fs @ [files]) p0 = Inr p" and "reportTime p0 = 0"
    and "\<forall>(type, z) \<in> set (tzInfoMap p0). 0 < tz_multiple z" and "sm_ok (tzInfoMap p0)"
    and "sm_find (tzInfoMap p0) name = Some z" and "tz_path z \<noteq> []" and "files (tz_path z) \<noteq> None"
    and "int M = Max (tz_multiple ` snd ` set (tzInfoMap p0))" and "tz_multiple z = int m"
  shows "(name \<in> keys (sensorData p) \<longleftrightarrow> m dvd length fs mod M + 1) \<and>
    (m dvd M \<longrightarrow> (name \<in> keys (sensorData p) \<longleftrightarrow> m dvd length fs + 1))"
proof -
  have mem: "(name, z) \<in> set (tzInfoMap p0)" by (rule map_of_SomeD [OF assms(5)])
  have pm: "set (plan_multiples p0) = tz_multiple ` snd ` set (tzInfoMap p0)"
    by (force simp: plan_multiples_def zone_plan_def)
  have ne: "plan_multiples p0 \<noteq> []" using mem by (auto simp: plan_multiples_def zone_plan_def)
  have pos: "\<forall>m \<in> set (plan_multiples p0). 0 < m" unfolding pm using assms(3) by auto
  have M: "int M = Max (set (plan_multiples p0))" by (simp add: pm assms(8))
  obtain p1 where p1: "foldr_result TimerProvisionCallback fs p0 = Inr p1" "TimerProvisionCallback files p1 = Inr p"
    using assms(1) by (auto simp: foldr_result_append bindr_eq_Inr)
  have t: "zone_plan p1 = zone_plan p0" "reportTime p1 = int (length fs mod M)"
    using ticks_count [OF p1(1) _ pos ne M, of 0] assms(2) by simp_all
  have pm1: "plan_multiples p1 = plan_multiples p0" by (simp add: plan_multiples_def t(1))
  have unique: "(name, z') \<in> set (tzInfoMap p0) \<longleftrightarrow> z' = z" for z'
    using assms(4,5) by (auto simp: sm_find_mem)
  have zp: "(name, m', path) \<in> set (zone_plan p0) \<longleftrightarrow> m' = int m \<and> path = tz_path z" for m' path
    using assms(9) by (simp add: in_zone_plan unique)
  have "name \<in> keys (sensorData p) \<longleftrightarrow> (\<exists>m' path. (name, m', path) \<in> set (zone_plan p0) \<and>
      c_mod (int (length fs mod M) + 1) m' = 0 \<and> path \<noteq> [] \<and> files path \<noteq> None)"
    using callback_tick(3) [OF p1(2), of name] pos ne by (simp only: pm1 t simp_thms)
  also have "\<dots> \<longleftrightarrow> c_mod (int (Suc (length fs mod M))) (int m) = 0" using assms(6,7) by (simp add: zp add.commute)
  also have "\<dots> \<longleftrightarrow> m dvd length fs mod M + 1"
  proof -
    have "0 < int m" using assms(3,9) mem by auto
    then have "c_mod (int (Suc (length fs mod M))) (int m) = int (Suc (length fs mod M)) mod int m"
      by (intro c_mod_pos) simp_all
    then show ?thesis by (simp only: dvd_eq_mod_eq_0 zmod_int [symmetric] of_nat_eq_0_iff Suc_eq_plus1)
  qed
  finally show ?thesis using dvd_mod_cycle [of m M "length fs"] by simp
qed

definition sample_protector :: Protector where
  "sample_protector =
     \<lparr>tzInfoMap = [(''cpu'', sample_zone\<lparr>tz_multiple := 3\<rparr>), (''gpu'', sample_zone\<lparr>tz_multiple := 2\<rparr>)],
      kernelTypeTempMap = [], levelMap = [],
      levelAction = [\<lparr>la_name = ''cpu'', la_level = 0, la_vAction = [\<lparr>ka_name = ''cpu'', ka_value = 1200\<rparr>]\<rparr>],
      executeActionList = [], maxCd = 0,
      thermalActionMap = [(''cpu'', Some \<lparr>ca_kind = CpuAction, ca_latestvalue = 0\<rparr>)],
      staticValue = (\<lambda>_. 0), deviceWrites = [], sensorData = [], multipleList = [], reportTime = 0\<rparr>"

theorem SetMultiples_exact_witness:
  "\<exists>p'. SetMultiples (sample_protector\<lparr>tzInfoMap := [(''cpu'', sample_zone\<lparr>tz_interval := 6000\<rparr>),
       (''gpu'', sample_zone\<lparr>tz_interval := 4000\<rparr>)]\<rparr>) = Inr p' \<and> maxCd p' = 2000"
  using SetMultiples_exact [of "sample_protector\<lparr>tzInfoMap := [(''cpu'', sample_zone\<lparr>tz_interval := 6000\<rparr>),
       (''gpu'', sample_zone\<lparr>tz_interval := 4000\<rparr>)]\<rparr>"]
  by (auto simp: gcd_red_int [of 6000] gcd_red_int [of 4000])

text \<open>The callback returns, if the zones are standard and the files hold numerals.\<close>

definition protector_ok :: "Protector \<Rightarrow> bool" where
  "protector_ok p \<longleftrightarrow> (\<forall>(type, z) \<in> set (tzInfoMap p). zone_levels z \<and> tz_latestLevel z \<le> length (tzItemList z))"

lemma zone_update_ok:
  "zone_levels z \<Longrightarrow> tz_latestLevel z \<le> length (tzItemList z) \<Longrightarrow>
     \<exists>z'. Zone_UpdateThermalLevel t z = Inr z' \<and> zone_levels z' \<and> tz_latestLevel z' \<le> length (tzItemList z')"
  using settle_le by (simp add: Zone_UpdateThermalLevel_eq zone_levels_def)

lemma zone_level_loop_ok:
  "\<forall>(type, z) \<in> set zones. zone_levels z \<and> tz_latestLevel z \<le> length (tzItemList z) \<Longrightarrow>
     \<exists>zones' levels'. zone_level_loop temps zones levels = Inr (zones', levels') \<and>
       (\<forall>(type, z) \<in> set zones'. zone_levels z \<and> tz_latestLevel z \<le> length (tzItemList z))"
proof (induction zones arbitrary: levels)
  case (Cons e zones)
  obtain type z where e: "e = (type, z)" by (cases e)
  show ?case
  proof (cases "sm_find temps type")
    case None
    from Cons.IH [of levels] Cons.prems None show ?thesis by (auto simp: e)
  next
    case (Some t)
    obtain z' where "Zone_UpdateThermalLevel t z = Inr z'" "zone_levels z'" "tz_latestLevel z' \<le> length (tzItemList z')"
      using zone_update_ok [of z t] Cons.prems by (auto simp: e)
    with Cons.IH [of "sm_insert type (tz_latestLevel z') levels"] Cons.prems Some show ?thesis by (auto simp: e)
  qed
qed simp

lemma report_loop_ok:
  "\<forall>path content. files path = Some content \<longrightarrow> (\<exists>v. stoi content = Inr v) \<Longrightarrow>
     \<exists>temps' ms'. report_loop files t zones temps ms = Inr (temps', ms')"
proof (induction zones arbitrary: temps ms)
  case (Cons e zones)
  obtain type z where e: "e = (type, z)" by (cases e)
  show ?case
  proof (cases "files (tz_path z)")
    case None
    with Cons show ?thesis by (simp add: e Let_def)
  next
    case (Some content)
    with Cons.prems obtain v where "stoi content = Inr v" by blast
    with Cons Some show ?thesis by (simp add: e Let_def)
  qed
qed simp

lemma zones_kept_fold: "(\<And>x p. tzInfoMap (f x p) = tzInfoMap p) \<Longrightarrow> tzInfoMap (fold f xs p) = tzInfoMap p"
  by (induction xs arbitrary: p) auto

lemma zones_execution [simp]: "tzInfoMap (ThermalKernelPolicy_ActionExecution p) = tzInfoMap p"
  unfolding ThermalKernelPolicy_ActionExecution_def
  by (rule zones_kept_fold) (simp add: CoolingAction_Execute_def CoolingAction_Request_def Let_def split: option.split prod.split)

lemma zones_action_decision [simp]: "tzInfoMap (ThermalKernelPolicy_ActionDecision vs p) = tzInfoMap p"
  unfolding ThermalKernelPolicy_ActionDecision_def by (rule zones_kept_fold) (simp split: option.split)

lemma zones_policy_decision [simp]: "tzInfoMap (ThermalKernelPolicy_PolicyDecision p) = tzInfoMap p"
  unfolding ThermalKernelPolicy_PolicyDecision_def by (simp add: zones_kept_fold)

lemma received_ok:
  "protector_ok p \<Longrightarrow> \<exists>p'. ThermalKernelPolicy_OnReceivedSensorsInfo temps p = Inr p' \<and> protector_ok p'"
  using zone_level_loop_ok [of "tzInfoMap p" temps "levelMap p"]
  by (auto simp: protector_ok_def ThermalKernelPolicy_OnReceivedSensorsInfo_def ThermalKernelPolicy_LevelDecision_def)

lemma callback_ok:
  assumes "protector_ok p" and "0 \<le> reportTime p" and "reportTime p < INT_MAX"
    and "\<forall>path content. files path = Some content \<longrightarrow> (\<exists>v. stoi content = Inr v)"
  shows "\<exists>p'. TimerProvisionCallback files p = Inr p' \<and> protector_ok p' \<and> 0 \<le> reportTime p' \<and>
    reportTime p' \<le> reportTime p + 1"
proof -
  obtain temps ms where r: "report_loop files (reportTime p + 1) (tzInfoMap p) [] [] = Inr (temps, ms)"
    using report_loop_ok [OF assms(4)] by blast
  let ?p = "p\<lparr>reportTime := reportTime p + 1, sensorData := temps, multipleList := ms\<rparr>"
  have "protector_ok ?p" using assms(1) by (simp add: protector_ok_def)
  then obtain p1 where p1: "ThermalKernelPolicy_OnReceivedSensorsInfo temps ?p = Inr p1" "protector_ok p1"
    using received_ok by blast
  have "reportTime p1 = reportTime p + 1" using received_plan [OF p1(1)] by (simp add: same_plan_def)
  with r p1 assms(2,3) show ?thesis
    by (auto simp: TimerProvisionCallback_def NotifyPolicy_def ReportThermalZoneData_def check32_def int32_range_def
        ResetCount_def protector_ok_def)
qed

lemma sample_callbacks:
  "\<exists>p. foldr_result TimerProvisionCallback ([\<lambda>_. Some ''30000'', \<lambda>_. Some ''30000''] @ [\<lambda>_. Some ''30000'']) sample_protector = Inr p"
proof -
  have files: "\<forall>path content. (\<lambda>_. Some ''30000'') (path :: string) = Some content \<longrightarrow> (\<exists>v. stoi content = Inr v)"
    by (simp add: stoi_def scan_dec_def scan_sign_def c_str_def is_space_def is_digit_def digit_val_def int32_range_def Let_def)
  have "protector_ok sample_protector" "reportTime sample_protector = 0"
    by (simp_all add: protector_ok_def sample_protector_def sample_zone_def zone_levels_def upt_rec)
  then obtain p1 where p1: "TimerProvisionCallback (\<lambda>_. Some ''30000'') sample_protector = Inr p1" "protector_ok p1"
      "0 \<le> reportTime p1" "reportTime p1 \<le> 1"
    using callback_ok [of sample_protector, OF _ _ _ files] by auto
  then obtain p2 where p2: "TimerProvisionCallback (\<lambda>_. Some ''30000'') p1 = Inr p2" "protector_ok p2"
      "0 \<le> reportTime p2" "reportTime p2 \<le> 2"
    using callback_ok [of p1, OF _ _ _ files] by fastforce
  then obtain p3 where "TimerProvisionCallback (\<lambda>_. Some ''30000'') p2 = Inr p3"
    using callback_ok [of p2, OF _ _ _ files] by fastforce
  with p1 p2 show ?thesis by simp
qed

text \<open>Multiples 3 and 2: the third tick after two others reads the first zone, and not the second.\<close>

theorem zone_read_schedule_witness:
  "\<exists>p. foldr_result TimerProvisionCallback ([\<lambda>_. Some ''30000'', \<lambda>_. Some ''30000''] @ [\<lambda>_. Some ''30000'']) sample_protector = Inr p \<and>
     ''gpu'' \<notin> keys (sensorData p)"
proof -
  obtain p where p: "foldr_result TimerProvisionCallback ([\<lambda>_. Some ''30000'', \<lambda>_. Some ''30000''] @ [\<lambda>_. Some ''30000''])
      sample_protector = Inr p"
    using sample_callbacks by blast
  from zone_read_schedule [OF p, of "''gpu''" "sample_zone\<lparr>tz_multiple := 2\<rparr>" 3 2]
  have "''gpu'' \<notin> keys (sensorData p)" by (simp add: sample_protector_def sample_zone_def sm_ok_def)
  with p show ?thesis by blast
qed

section \<open>What the decisions do over several reports\<close>

lemma zone_level_loop_keeps:
  "zone_level_loop temps zones levels = Inr (zones', levels') \<Longrightarrow> sm_ok levels \<Longrightarrow>
     sm_ok levels' \<and> (sm_find levels name = Some l \<longrightarrow> sm_find levels' name = Some l)"
proof (induction zones arbitrary: zones' levels levels')
  case (Cons e zones)
  obtain type z where e: "e = (type, z)" by (cases e)
  show ?case
  proof (cases "sm_find temps type")
    case None
    then obtain zones1 where "zone_level_loop temps zones levels = Inr (zones1, levels')"
      using Cons.prems(1) by (auto simp: e bindr_eq_Inr)
    from Cons.IH [OF this Cons.prems(2)] show ?thesis .
  next
    case (Some t)
    then obtain zones1 lev where r: "zone_level_loop temps zones (sm_insert type lev levels) = Inr (zones1, levels')"
      using Cons.prems(1) by (auto simp: e bindr_eq_Inr)
    have "sm_find (sm_insert type lev levels) name = Some l" if "sm_find levels name = Some l"
      using that Cons.prems(2) by auto
    with Cons.IH [OF r] Cons.prems(2) show ?thesis by simp
  qed
qed simp

lemma levels_kept_fold: "(\<And>x p. levelMap (f x p) = levelMap p) \<Longrightarrow> levelMap (fold f xs p) = levelMap p"
  by (induction xs arbitrary: p) auto

lemma levels_execution [simp]: "levelMap (ThermalKernelPolicy_ActionExecution p) = levelMap p"
  unfolding ThermalKernelPolicy_ActionExecution_def
  by (rule levels_kept_fold) (simp add: CoolingAction_Execute_def CoolingAction_Request_def Let_def split: option.split prod.split)

lemma levels_action_decision [simp]: "levelMap (ThermalKernelPolicy_ActionDecision vs p) = levelMap p"
  unfolding ThermalKernelPolicy_ActionDecision_def by (rule levels_kept_fold) (simp split: option.split)

lemma levels_policy_decision [simp]: "levelMap (ThermalKernelPolicy_PolicyDecision p) = levelMap p"
  unfolding ThermalKernelPolicy_PolicyDecision_def by (simp add: levels_kept_fold)

lemma received_levels:
  assumes "ThermalKernelPolicy_OnReceivedSensorsInfo temps p = Inr p'" and "sm_ok (levelMap p)"
  shows "sm_ok (levelMap p') \<and> (sm_find (levelMap p) name = Some l \<longrightarrow> sm_find (levelMap p') name = Some l)"
  using assms zone_level_loop_keeps [of temps "tzInfoMap p" "levelMap p"]
  by (auto simp: ThermalKernelPolicy_OnReceivedSensorsInfo_def ThermalKernelPolicy_LevelDecision_def bindr_eq_Inr)

text \<open>
  The level a zone had at its first report is the level the protector's policies use for
  ever: whatever temperatures are reported later, the recorded level of the zone does not
  change.
\<close>

theorem kernel_level_frozen:
  assumes "foldr_result ThermalKernelPolicy_OnReceivedSensorsInfo reports p = Inr p'" and "sm_ok (levelMap p)"
    and "sm_find (levelMap p) name = Some l"
  shows "sm_find (levelMap p') name = Some l"
proof -
  have "sm_ok (levelMap p') \<and> sm_find (levelMap p') name = Some l"
    by (rule foldr_result_invariant [OF assms(1)]) (use assms(2,3) received_levels in auto)
  then show ?thesis ..
qed

theorem kernel_level_frozen_witness:
  "\<exists>p'. foldr_result ThermalKernelPolicy_OnReceivedSensorsInfo [[(''cpu'', 46000)], [(''cpu'', 20000)]]
       (sample_protector\<lparr>levelMap := [(''cpu'', 0)]\<rparr>) = Inr p' \<and> sm_find (levelMap p') ''cpu'' = Some 0"
proof -
  let ?p = "sample_protector\<lparr>levelMap := [(''cpu'', 0)]\<rparr>"
  have "protector_ok ?p"
    by (simp add: protector_ok_def sample_protector_def sample_zone_def zone_levels_def upt_rec)
  then obtain p' where "foldr_result ThermalKernelPolicy_OnReceivedSensorsInfo [[(''cpu'', 46000)], [(''cpu'', 20000)]] ?p = Inr p'"
    using received_ok [of ?p "[(''cpu'', 46000)]"] received_ok [of _ "[(''cpu'', 20000)]"] by fastforce
  with kernel_level_frozen [OF this, of "''cpu''" 0] show ?thesis by (simp add: sm_ok_def)
qed

text \<open>The last write to the devices is the value the action remembers.\<close>

definition wrote :: "cooling_kind \<Rightarrow> Protector \<Rightarrow> bool" where
  "wrote k p \<longleftrightarrow> deviceWrites p \<noteq> [] \<and> last (deviceWrites p) = (cooling_path k, to_dec (staticValue p k))"

text \<open>A protector whose only policy gives one action one value, and how often it has run.\<close>

definition one_action :: "string \<Rightarrow> nat \<Rightarrow> string \<Rightarrow> cooling_kind \<Rightarrow> nat \<Rightarrow> nat \<Rightarrow> Protector \<Rightarrow> bool" where
  "one_action zone l name k v n p \<longleftrightarrow>
     levelAction p = [\<lparr>la_name = zone, la_level = l, la_vAction = [\<lparr>ka_name = name, ka_value = v\<rparr>]\<rparr>] \<and>
     (\<exists>x. thermalActionMap p = [(name, Some \<lparr>ca_kind = k, ca_latestvalue = x\<rparr>)]) \<and>
     executeActionList p = replicate n name \<and> staticValue p k = (if n = 1 then v else 0) \<and>
     (n \<noteq> 0 \<longrightarrow> wrote k p) \<and> sm_ok (levelMap p) \<and> sm_find (levelMap p) zone = Some l"

text \<open>The loop of \<open>ActionExecution\<close> over the same name.\<close>

definition execute_name :: "string \<Rightarrow> Protector \<Rightarrow> Protector" where
  "execute_name name p =
     (case sm_find (thermalActionMap p) name of
        Some (Some a) \<Rightarrow>
          let (a, p) = CoolingAction_Execute (a, p)
          in p\<lparr>thermalActionMap := sm_assign name (Some a) (thermalActionMap p)\<rparr>
      | _ \<Rightarrow> p)"

lemma execution_names: "ThermalKernelPolicy_ActionExecution p = fold execute_name (executeActionList p) p"
  by (simp add: ThermalKernelPolicy_ActionExecution_def execute_name_def [abs_def])

definition action_state :: "string \<Rightarrow> cooling_kind \<Rightarrow> nat \<Rightarrow> nat \<Rightarrow> Protector \<Rightarrow> bool" where
  "action_state name k x s p \<longleftrightarrow>
     thermalActionMap p = [(name, Some \<lparr>ca_kind = k, ca_latestvalue = x\<rparr>)] \<and> staticValue p k = s"

lemma execute_name_state:
  "action_state name k x s p \<Longrightarrow>
     (if s = x then action_state name k 0 s (execute_name name p) else action_state name k x x (execute_name name p))"
  by (auto simp: action_state_def execute_name_def CoolingAction_Execute_def CoolingAction_Request_def)

lemma execute_names_rest:
  "levelAction (fold execute_name names p) = levelAction p \<and>
   executeActionList (fold execute_name names p) = executeActionList p"
proof (induction names arbitrary: p)
  case (Cons name names)
  have "levelAction (execute_name name p) = levelAction p \<and> executeActionList (execute_name name p) = executeActionList p"
    by (simp add: execute_name_def CoolingAction_Execute_def CoolingAction_Request_def Let_def split: option.split prod.split)
  with Cons show ?case by simp
qed simp

lemma executions_end_at_zero:
  "action_state name k 0 0 p \<Longrightarrow> action_state name k 0 0 (fold execute_name (replicate n name) p)"
proof (induction n arbitrary: p)
  case (Suc n)
  then show ?case using execute_name_state [of name k 0 0 p] by simp
qed simp

lemma execute_name_wrote:
  "action_state name k x s p \<Longrightarrow> s \<noteq> x \<or> wrote k p \<Longrightarrow> wrote k (execute_name name p)"
  by (auto simp: action_state_def wrote_def execute_name_def CoolingAction_Execute_def CoolingAction_Request_def)

lemma executions_wrote:
  "\<exists>x s. action_state name k x s p \<Longrightarrow> wrote k p \<Longrightarrow> wrote k (fold execute_name (replicate n name) p)"
proof (induction n arbitrary: p)
  case (Suc n)
  then obtain x s where a: "action_state name k x s p" by blast
  have "\<exists>x s. action_state name k x s (execute_name name p)"
    using execute_name_state [OF a] by (auto split: if_splits)
  with Suc.IH execute_name_wrote [OF a] Suc.prems(2) show ?case by simp
qed simp

lemma executions_state:
  assumes "action_state name k v (if n = 1 then v else 0) p" and "0 < v"
  shows "\<exists>x. action_state name k x (if n = 0 then v else 0) (fold execute_name (replicate (Suc n) name) p)"
proof -
  let ?e = "execute_name name"
  consider "n = 0" | "n = 1" | m where "n = Suc (Suc m)" by (metis One_nat_def not0_implies_Suc)
  then show ?thesis
  proof cases
    case 1
    then show ?thesis using assms execute_name_state [of name k v 0 p] by auto
  next
    case 2
    then have "action_state name k 0 v (?e p)" using assms execute_name_state [of name k v v p] by simp
    then have "action_state name k 0 0 (?e (?e p))" using assms(2) execute_name_state [of name k 0 v "?e p"] by simp
    then show ?thesis by (auto simp: 2)
  next
    case 3
    then have "action_state name k v v (?e p)" using assms execute_name_state [of name k v 0 p] by simp
    then have "action_state name k 0 v (?e (?e p))" using execute_name_state [of name k v v "?e p"] by simp
    then have "action_state name k 0 0 (?e (?e (?e p)))" using assms(2) execute_name_state [of name k 0 v "?e (?e p)"] by simp
    then have "action_state name k 0 0 (fold execute_name (replicate m name) (?e (?e (?e p))))" by (rule executions_end_at_zero)
    then show ?thesis by (auto simp: 3)
  qed
qed

lemma executions_last_write:
  assumes "action_state name k v (if n = 1 then v else 0) p" and "0 < v" and "n \<noteq> 0 \<longrightarrow> wrote k p"
  shows "wrote k (fold execute_name (replicate (Suc n) name) p)"
proof -
  have "wrote k (execute_name name p)" using execute_name_wrote [OF assms(1)] assms(2,3) by (cases "n = 0") auto
  moreover have "\<exists>x s. action_state name k x s (execute_name name p)"
    using execute_name_state [OF assms(1)] by (auto split: if_splits)
  ultimately show ?thesis using executions_wrote by simp
qed

lemma report_one_action:
  assumes "one_action zone l name k v n p" and "0 < v" and "ThermalKernelPolicy_OnReceivedSensorsInfo temps p = Inr p'"
  shows "one_action zone l name k v (Suc n) p'"
proof -
  obtain zones levels where
    p': "p' = ThermalKernelPolicy_PolicyDecision (p\<lparr>kernelTypeTempMap := temps, tzInfoMap := zones, levelMap := levels\<rparr>)"
    using assms(3) by (auto simp: ThermalKernelPolicy_OnReceivedSensorsInfo_def ThermalKernelPolicy_LevelDecision_def bindr_eq_Inr)
  have lv: "sm_ok (levelMap p')" "sm_find (levelMap p') zone = Some l"
    using received_levels [OF assms(3), of zone l] assms(1) by (simp_all add: one_action_def)
  then have found: "sm_find levels zone = Some l" by (simp add: p')
  let ?p = "p\<lparr>kernelTypeTempMap := temps, tzInfoMap := zones, levelMap := levels,
     thermalActionMap := [(name, Some \<lparr>ca_kind = k, ca_latestvalue = v\<rparr>)], executeActionList := replicate (Suc n) name\<rparr>"
  have e: "p' = fold execute_name (replicate (Suc n) name) ?p"
    using assms(1) found
    by (auto simp: p' one_action_def ThermalKernelPolicy_PolicyDecision_def ThermalKernelPolicy_ActionDecision_def
        CoolingAction_AddActionValue_def execution_names replicate_append_same)
  have "action_state name k v (if n = 1 then v else 0) ?p" using assms(1) by (simp add: action_state_def one_action_def)
  moreover from this have "wrote k p'"
    unfolding e by (rule executions_last_write) (use assms(1,2) in \<open>auto simp: one_action_def wrote_def\<close>)
  ultimately obtain x where "action_state name k x (if n = 0 then v else 0) p'" "wrote k p'"
    using executions_state [OF _ assms(2)] unfolding e by blast
  moreover have "levelAction p' = levelAction p" "executeActionList p' = replicate (Suc n) name"
    unfolding e by (simp_all only: execute_names_rest) simp_all
  ultimately show ?thesis using assms(1) lv by (simp add: one_action_def action_state_def)
qed

text \<open>
  A cooling device is released by the second report. Where the only policy of a zone gives
  an action the value \<open>v\<close> and its level is selected, the value last written to the device is
  \<open>v\<close> after one report and 0 after any greater number of reports, because the list of actions
  to execute is never cleared and a repeated execution resets the action's value.
\<close>

theorem repeated_reports_release_device:
  assumes "one_action zone l name k v 0 p" and "0 < v"
    and "foldr_result ThermalKernelPolicy_OnReceivedSensorsInfo reports p = Inr p'"
    and "reports \<noteq> []"
  shows "last (deviceWrites p') = (cooling_path k, to_dec (if length reports = 1 then v else 0))"
proof -
  have "one_action zone l name k v (n + length reports) p'" if "one_action zone l name k v n p" for n
    using that assms(3)
  proof (induction reports arbitrary: p n)
    case (Cons r reports)
    then obtain p1 where "ThermalKernelPolicy_OnReceivedSensorsInfo r p = Inr p1"
        "foldr_result ThermalKernelPolicy_OnReceivedSensorsInfo reports p1 = Inr p'"
      by (auto simp: bindr_eq_Inr)
    with Cons.IH [OF report_one_action [OF Cons.prems(1) assms(2)]] show ?case by simp
  qed simp
  from this [OF assms(1)] show ?thesis using assms(4) by (simp add: one_action_def wrote_def split: if_splits)
qed

theorem repeated_reports_release_device_witness:
  "\<exists>p'. foldr_result ThermalKernelPolicy_OnReceivedSensorsInfo [[], []] (sample_protector\<lparr>levelMap := [(''cpu'', 0)]\<rparr>) = Inr p' \<and>
     last (deviceWrites p') = (cooling_path CpuAction, to_dec 0)"
proof -
  let ?p = "sample_protector\<lparr>levelMap := [(''cpu'', 0)]\<rparr>"
  have "protector_ok ?p"
    by (simp add: protector_ok_def sample_protector_def sample_zone_def zone_levels_def upt_rec)
  then obtain p' where p': "foldr_result ThermalKernelPolicy_OnReceivedSensorsInfo [[], []] ?p = Inr p'"
    using received_ok [of ?p "[]"] received_ok [of _ "[]"] by fastforce
  have "one_action ''cpu'' 0 ''cpu'' CpuAction 1200 0 ?p" by (simp add: one_action_def sample_protector_def sm_ok_def)
  from repeated_reports_release_device [OF this _ p'] p' show ?thesis by simp
qed

end
