(* ===== verification/Kernel_Service_Proofs.thy ===== *)
theory Kernel_Service_Proofs
  imports Kernel_Service Kernel_Config_Proofs Kernel_Proofs
begin

text \<open>
  What the protector does from its start to its end: its loop serves two waits of its timer and
  no more, and a file in the format takes it through both without an error.
\<close>

section \<open>The loop\<close>

text \<open>The events of the waits that do not fail, in order.\<close>

fun served :: "wait list \<Rightarrow> (bool \<times> files) list list" where
  "served [] = []"
| "served (WaitFails # waits) = served waits"
| "served (Events events # waits) = events # served waits"

lemma loop_serves:
  assumes "pt_timeCount t = 2 - int k" and "k \<le> 2"
  shows "LoopingThreadEntry waits (t, p) =
    bindr (foldr_result timer_event (concat (take k (served waits))) p) (\<lambda>p.
      Inr (k \<le> length (served waits), t\<lparr>pt_timeCount := 2 - int (k - length (served waits))\<rparr>, p))"
  using assms
proof (induction waits arbitrary: t p k rule: served.induct)
  case (1 t p k)
  have "t\<lparr>pt_timeCount := 2 - int k\<rparr> = t" using 1 by (cases t) simp
  then show ?case using 1 by (auto simp: of_nat_diff)
next
  case (2 waits t p k)
  show ?case
  proof (cases k)
    case 0
    have "t\<lparr>pt_timeCount := 2\<rparr> = t" using 2 0 by (cases t) simp
    then show ?thesis using 2 0 by simp
  next
    case (Suc j)
    then show ?thesis using 2 by simp
  qed
next
  case (3 events waits t p k)
  show ?case
  proof (cases k)
    case 0
    have "t\<lparr>pt_timeCount := 2\<rparr> = t" using 3 0 by (cases t) simp
    then show ?thesis using 3 0 by simp
  next
    case (Suc j)
    have step: "LoopingThreadEntry waits (t\<lparr>pt_timeCount := 2 - int j\<rparr>, p') =
        bindr (foldr_result timer_event (concat (take j (served waits))) p') (\<lambda>p.
          Inr (j \<le> length (served waits), t\<lparr>pt_timeCount := 2 - int (j - length (served waits))\<rparr>, p))" for p'
      using 3(1) [of "t\<lparr>pt_timeCount := 2 - int j\<rparr>" j p'] 3(3) Suc by simp
    have "check32 (pt_timeCount t + 1) = Inr (2 - int j)"
      using 3(2,3) Suc by (simp add: check32_def int32_range_def)
    then show ?thesis
      using 3(2,3) Suc step by (cases "foldr_result timer_event events p") (simp_all add: foldr_result_append)
  qed
qed

section \<open>Events\<close>

definition numeral_files :: "files \<Rightarrow> bool" where
  "numeral_files files \<longleftrightarrow> (\<forall>path content. ReadThermalSysfsToBuff files path = Some content \<longrightarrow> (\<exists>v. stoi content = Inr v))"

lemma timer_event_ok:
  assumes "protector_ok p" and "0 \<le> reportTime p" and "reportTime p < INT_MAX" and "numeral_files files"
  shows "\<exists>p'. timer_event (readable, files) p = Inr p' \<and> protector_ok p' \<and> zone_plan p' = zone_plan p \<and>
    0 \<le> reportTime p' \<and> reportTime p' \<le> reportTime p + 1"
proof (cases readable)
  case True
  obtain p' where "TimerProvisionCallback (ReadThermalSysfsToBuff files) p = Inr p'" "protector_ok p'"
      "0 \<le> reportTime p'" "reportTime p' \<le> reportTime p + 1"
    using callback_ok [OF assms(1-3), of "ReadThermalSysfsToBuff files"] assms(4) by (auto simp: numeral_files_def)
  with True callback_plan show ?thesis by (auto simp: timer_event_def)
qed (use assms in \<open>simp add: timer_event_def\<close>)

lemma timer_events_ok:
  assumes "protector_ok p" and "0 \<le> reportTime p" and "reportTime p + int (length events) \<le> INT_MAX"
    and "\<forall>(readable, files) \<in> set events. numeral_files files"
  shows "\<exists>p'. foldr_result timer_event events p = Inr p' \<and> protector_ok p' \<and> zone_plan p' = zone_plan p"
  using assms
proof (induction events arbitrary: p)
  case (Cons e events)
  obtain readable files where e: "e = (readable, files)" by (cases e)
  have "reportTime p < INT_MAX" "numeral_files files" using Cons.prems(3,4) by (auto simp: e)
  then obtain p1 where p1: "timer_event e p = Inr p1" "protector_ok p1" "zone_plan p1 = zone_plan p"
      "0 \<le> reportTime p1" "reportTime p1 \<le> reportTime p + 1"
    using timer_event_ok [OF Cons.prems(1,2)] by (auto simp: e)
  from Cons.IH [OF p1(2,4)] p1 Cons.prems(3,4) show ?case by simp
qed simp

section \<open>The start\<close>

lemma levels_of_items: "map tz_level (map zone_item (enumerate n ls)) = [n ..< n + length ls]"
  by (induction ls arbitrary: n) (simp_all add: zone_item_def upt_conv_Cons del: upt_Suc)

lemma zone_levels_configured: "zc_levels z \<noteq> [] \<Longrightarrow> zone_levels (configured_zone z)"
  using levels_of_items [of 1 "zc_levels z"]
  by (auto simp: zone_levels_def configured_zone_def enumerate_eq_zip simp del: upt_Suc)

text \<open>A configuration the protector can run with.\<close>

definition runnable_protector :: "(string, zone_config) smap \<Rightarrow> bool" where
  "runnable_protector cfg \<longleftrightarrow> printable_protector cfg \<and> cfg \<noteq> [] \<and>
     list_all (\<lambda>(type, z). 0 < zc_interval z \<and> zc_levels z \<noteq> []) cfg"

lemma actions_of_nonempty: "runnable_protector cfg \<Longrightarrow> actions_of cfg \<noteq> []"
  by (cases cfg) (auto simp: runnable_protector_def actions_of_def configured_actions_def)

definition cfg_tick :: "(string, zone_config) smap \<Rightarrow> int" where
  "cfg_tick cfg = Gcd (zc_interval ` snd ` set cfg)"

lemma zones_of_intervals: "tz_interval ` snd ` set (zones_of cfg) = zc_interval ` snd ` set cfg"
  by (force simp: zones_of_def configured_zone_def)

lemma policy_init_zones:
  assumes "runnable_protector cfg" and "tzInfoMap p = zones_of cfg"
  shows "ThermalKernelPolicy_Init p = Inr (p\<lparr>maxCd := cfg_tick cfg,
      tzInfoMap := map (\<lambda>(type, z). (type, SetMultiple (zc_interval z div cfg_tick cfg) (configured_zone z))) cfg\<rparr>)"
proof -
  have "\<forall>(type, z) \<in> set (tzInfoMap p). 0 < tz_interval z \<and> tz_interval z \<le> INT_MAX"
    using assms by (auto simp: runnable_protector_def printable_protector_def zones_of_def configured_zone_def int32_range_def
        list_all_iff)
  moreover have "tzInfoMap p \<noteq> []" using assms by (simp add: runnable_protector_def zones_of_def)
  ultimately have "SetMultiples p = Inr (p\<lparr>maxCd := cfg_tick cfg,
      tzInfoMap := map (\<lambda>(type, z). (type, SetMultiple (tz_interval z div cfg_tick cfg) z)) (zones_of cfg)\<rparr>)"
    using SetMultiples_eq(1) [of p] by (simp add: assms(2) zones_of_intervals cfg_tick_def)
  then show ?thesis
    by (simp add: ThermalKernelPolicy_Init_def zones_of_def configured_zone_def o_def split_def)
qed

text \<open>All that the scan of the zones changes is their paths.\<close>

lemma InitProvision_paths:
  "\<exists>f. snd (InitProvision e1 e2 sysfs p) = p\<lparr>tzInfoMap := map (\<lambda>(type, z). (type, SetPath (f type z) z)) (tzInfoMap p)\<rparr>"
proof -
  have same: "p = p\<lparr>tzInfoMap := map (\<lambda>(type, z). (type, SetPath (tz_path z) z)) (tzInfoMap p)\<rparr>"
    by (cases p) (simp add: SetPath_def)
  have paths: "map (\<lambda>(type, z). (type, case sm_find m type of Some path \<Rightarrow> SetPath path z | None \<Rightarrow> z)) zones =
      map (\<lambda>(type, z). (type, SetPath (case sm_find m type of Some path \<Rightarrow> path | None \<Rightarrow> tz_path z) z)) zones" for m zones
    by (auto simp: SetPath_def split: option.split)
  show ?thesis
  proof (cases "sysfs = None \<or> (\<exists>entries. sysfs = Some entries \<and> zone_paths entries [] = None) \<or> tzInfoMap p = []")
    case True
    then have "snd (InitProvision e1 e2 sysfs p) = p"
      by (auto simp: InitProvision_def ParseThermalZoneInfo_def split: option.split)
    with same show ?thesis by (intro exI [of _ "\<lambda>_. tz_path"]) (simp only:)
  next
    case False
    then obtain entries m where "sysfs = Some entries" "zone_paths entries [] = Some m" "tzInfoMap p \<noteq> []" by auto
    then have "snd (InitProvision e1 e2 sysfs p) = p\<lparr>tzInfoMap := map (\<lambda>(type, z).
        (type, case sm_find m type of Some path \<Rightarrow> SetPath path z | None \<Rightarrow> z)) (tzInfoMap p)\<rparr>"
      by (simp add: InitProvision_def ParseThermalZoneInfo_def)
    then show ?thesis unfolding paths
      by (intro exI [of _ "\<lambda>type z. case sm_find m type of Some path \<Rightarrow> path | None \<Rightarrow> tz_path z"])
  qed
qed

lemma DeviceControl_Init_keeps:
  "levelAction p \<noteq> [] \<Longrightarrow> \<exists>acts. ThermalDeviceControl_Init u p = (True, p\<lparr>thermalActionMap := acts\<rparr>)"
  by (auto simp: ThermalDeviceControl_Init_def Let_def)

lemma cfg_tick_pos: "runnable_protector cfg \<Longrightarrow> 0 < cfg_tick cfg"
proof -
  assume "runnable_protector cfg"
  then obtain type z where z: "(type, z) \<in> set cfg" "0 < zc_interval z"
    by (cases cfg) (auto simp: runnable_protector_def)
  then have "cfg_tick cfg dvd zc_interval z" unfolding cfg_tick_def by (force intro: Gcd_dvd)
  with z(2) have "cfg_tick cfg \<noteq> 0" by auto
  moreover have "0 \<le> cfg_tick cfg" by (simp add: cfg_tick_def)
  ultimately show ?thesis by simp
qed

lemma zone_plan_names: "map fst (zone_plan p) = map fst (tzInfoMap p)"
  by (simp add: zone_plan_def o_def split_def)

lemma few_events:
  "\<forall>events \<in> set ess. length events \<le> 1 \<Longrightarrow> length (concat (take 2 ess)) \<le> 2"
  by (cases ess; cases "tl ess") auto

lemma timer_runs:
  assumes "protector_ok p" and "reportTime p = 0" and "2 \<le> length (served waits)"
    and "\<forall>events \<in> set (served waits). length events \<le> 1 \<and> (\<forall>(readable, files) \<in> set events. numeral_files files)"
    and "maxCd p = d" and "0 < d"
  shows "\<exists>t p'. ThermalProtectorTimer_Init E waits (ProtectorTimer_new, p) = Inr (True, t, p') \<and> protector_ok p' \<and>
    zone_plan p' = zone_plan p \<and>
    pt_settime t = (if ke_timerfd_create E = ERR_INVALID_FD then [] else [d div 1000])"
proof (cases "ke_timerfd_create E = ERR_INVALID_FD")
  case True
  then show ?thesis
    using assms(1) by (simp add: ThermalProtectorTimer_Init_def ThermalProtectorTimer_StartThread_def
        ThermalProtectorTimer_InitProvisionTimer_def ThermalProtectorTimer_CreateProvisionFd_def ProtectorTimer_new_def)
next
  case False
  obtain t where t: "ThermalProtectorTimer_InitProvisionTimer E d ProtectorTimer_new = (True, t)" "pt_timeCount t = 0"
      "pt_settime t = [d div 1000]"
    using False assms(6) by (simp add: ThermalProtectorTimer_InitProvisionTimer_def ThermalProtectorTimer_CreateProvisionFd_def
        ThermalProtectorTimer_SetTimerInterval_def ThermalProtectorTimer_RegisterCallback_def ProtectorTimer_new_def Let_def c_div_pos)
  let ?events = "concat (take 2 (served waits))"
  have "length ?events \<le> 2" using assms(4) by (intro few_events) auto
  moreover have "\<forall>(readable, files) \<in> set ?events. numeral_files files"
    using assms(4) by (auto dest!: in_set_takeD)
  ultimately obtain p' where p': "foldr_result timer_event ?events p = Inr p'" "protector_ok p'" "zone_plan p' = zone_plan p"
    using timer_events_ok [OF assms(1), of ?events] assms(2) by auto
  have "LoopingThreadEntry waits (t, p) = Inr (True, t\<lparr>pt_timeCount := 2\<rparr>, p')"
    using loop_serves [of t 2 waits p] t(2) p'(1) assms(3) by simp
  with t(1,3) p' False show ?thesis
    by (simp add: ThermalProtectorTimer_Init_def ThermalProtectorTimer_StartThread_def assms(5))
qed

section \<open>An example\<close>

text \<open>The zones of \<open>profile/thermal_kernel_config.xml\<close>, in the order of their names.\<close>

definition profile_config :: "(string, zone_config) smap" where
  "profile_config =
     [(''battery'', \<lparr>zc_interval = 6000, zc_desc = True, zc_levels =
         [\<lparr>zl_threshold = -50000, zl_thresholdClr = -48000, zl_actions = [(''cpu'', 998000)]\<rparr>,
          \<lparr>zl_threshold = -53000, zl_thresholdClr = -52000, zl_actions = [(''cpu'', 778000)]\<rparr>,
          \<lparr>zl_threshold = -58000, zl_thresholdClr = -55000, zl_actions = [(''cpu'', 556000)]\<rparr>]\<rparr>),
      (''gpu-thermal'', \<lparr>zc_interval = 4000, zc_desc = False, zc_levels =
         [\<lparr>zl_threshold = 35000, zl_thresholdClr = 32000, zl_actions = [(''cpu'', 998000)]\<rparr>,
          \<lparr>zl_threshold = 40000, zl_thresholdClr = 37000, zl_actions = [(''cpu'', 778000)]\<rparr>,
          \<lparr>zl_threshold = 45000, zl_thresholdClr = 42000, zl_actions = [(''cpu'', 556000)]\<rparr>]\<rparr>),
      (''soc-thermal'', \<lparr>zc_interval = 2000, zc_desc = False, zc_levels =
         [\<lparr>zl_threshold = 35000, zl_thresholdClr = 32000,
           zl_actions = [(''current'', 35000), (''voltage'', 3), (''cpu'', 998000)]\<rparr>,
          \<lparr>zl_threshold = 40000, zl_thresholdClr = 37000,
           zl_actions = [(''current'', 1500), (''voltage'', 4), (''cpu'', 1998000)]\<rparr>,
          \<lparr>zl_threshold = 45000, zl_thresholdClr = 42000,
           zl_actions = [(''current'', 1000), (''voltage'', 5), (''cpu'', 2998000)]\<rparr>]\<rparr>)]"

lemma profile_runnable: "runnable_protector profile_config"
  by (simp add: runnable_protector_def printable_protector_def printable_level_def profile_config_def sm_ok_def int32_range_def)

lemma profile_tick: "cfg_tick profile_config = 2000"
  by (simp add: cfg_tick_def profile_config_def gcd_red_int [of 6000] gcd_red_int [of 4000])

text \<open>
  With this configuration, a processor at the third level gets its values and loses them within
  the same report: the policy of the level names every action three times, and the third
  execution writes 0.
\<close>

definition profile_protector :: Protector where
  "profile_protector = Protector_new\<lparr>tzInfoMap := zones_of profile_config, levelAction := actions_of profile_config,
     thermalActionMap := [(''cpu'', DeviceControlFactory_Create 0 ''cpu''), (''current'', DeviceControlFactory_Create 0 ''current''),
       (''voltage'', DeviceControlFactory_Create 0 ''voltage'')]\<rparr>"

lemma profile_level:
  "zone_level_loop [(''soc-thermal'', 46000)] (zones_of profile_config) [] =
    Inr (map (\<lambda>(type, z). (type, if type = ''soc-thermal'' then z\<lparr>tz_latestLevel := 3\<rparr> else z)) (zones_of profile_config),
         [(''soc-thermal'', 3)])"
  by (simp add: zones_of_def profile_config_def configured_zone_def ZoneInfo_new_def zone_item_def Zone_UpdateThermalLevel_def
      Zone_AscJudgment_def HandleAscMinSizeTemp_def)

definition third_level_values :: "KernelActionItem list" where
  "third_level_values = map (\<lambda>(name, value). \<lparr>ka_name = name, ka_value = value\<rparr>)
     [(''current'', 35000), (''voltage'', 3), (''cpu'', 998000), (''current'', 1500), (''voltage'', 4), (''cpu'', 1998000),
      (''current'', 1000), (''voltage'', 5), (''cpu'', 2998000)]"

lemma profile_policy:
  assumes "levelMap p = [(''soc-thermal'', 3)]" and "levelAction p = actions_of profile_config"
  shows "ThermalKernelPolicy_PolicyDecision p =
    ThermalKernelPolicy_ActionExecution (ThermalKernelPolicy_ActionDecision third_level_values p)"
proof -
  have keep: "fold (\<lambda>policy p. if sm_find (levelMap p) (la_name policy) = Some (la_level policy)
      then ThermalKernelPolicy_ActionDecision (la_vAction policy) p else p) policies p =
    fold (\<lambda>policy p. if sm_find (levelMap p) (la_name policy) = Some (la_level policy)
      then ThermalKernelPolicy_ActionDecision (la_vAction policy) p else p)
      (filter (\<lambda>policy. sm_find [(''soc-thermal'', 3)] (la_name policy) = Some (la_level policy)) policies) p" for policies
    using assms(1) by (induction policies arbitrary: p) auto
  have policy: "filter (\<lambda>policy. sm_find [(''soc-thermal'', 3)] (la_name policy) = Some (la_level policy)) (actions_of profile_config) =
      [\<lparr>la_name = ''soc-thermal'', la_level = 3, la_vAction = third_level_values\<rparr>]"
    by (simp add: actions_of_def profile_config_def configured_actions_def level_actions_def third_level_values_def upt_rec)
  show ?thesis
    unfolding ThermalKernelPolicy_PolicyDecision_def assms(2) keep [of "actions_of profile_config"] policy
    by (simp add: assms(1))
qed

lemma third_level_executed:
  "deviceWrites (ThermalKernelPolicy_ActionExecution (ThermalKernelPolicy_ActionDecision third_level_values
      (profile_protector\<lparr>kernelTypeTempMap := temps, tzInfoMap := zones, levelMap := levels\<rparr>))) =
    map (\<lambda>(k, v). (cooling_path k, to_dec v))
      [(CurrentAction, 1000), (VoltageAction, 5), (CpuAction, 2998000), (CurrentAction, 0), (VoltageAction, 0), (CpuAction, 0)]"
  by (simp add: ThermalKernelPolicy_ActionExecution_def ThermalKernelPolicy_ActionDecision_def third_level_values_def
      profile_protector_def Protector_new_def DeviceControlFactory_Create_def CoolingAction_AddActionValue_def
      CoolingAction_Execute_def CoolingAction_Request_def del: cooling_path.simps)

theorem third_level_released:
  "map_ok deviceWrites (ThermalKernelPolicy_OnReceivedSensorsInfo [(''soc-thermal'', 46000)] profile_protector) =
    Inr (map (\<lambda>(k, v). (cooling_path k, to_dec v))
      [(CurrentAction, 1000), (VoltageAction, 5), (CpuAction, 2998000), (CurrentAction, 0), (VoltageAction, 0), (CpuAction, 0)])"
proof -
  let ?zones = "map (\<lambda>(type, z). (type, if type = ''soc-thermal'' then z\<lparr>tz_latestLevel := 3\<rparr> else z)) (zones_of profile_config)"
  let ?p = "profile_protector\<lparr>kernelTypeTempMap := [(''soc-thermal'', 46000)], tzInfoMap := ?zones, levelMap := [(''soc-thermal'', 3)]\<rparr>"
  have "tzInfoMap profile_protector = zones_of profile_config" "levelMap profile_protector = []"
    by (simp_all add: profile_protector_def Protector_new_def)
  then have "ThermalKernelPolicy_OnReceivedSensorsInfo [(''soc-thermal'', 46000)] profile_protector =
      Inr (ThermalKernelPolicy_PolicyDecision ?p)"
    by (simp add: ThermalKernelPolicy_OnReceivedSensorsInfo_def ThermalKernelPolicy_LevelDecision_def profile_level)
  also have "ThermalKernelPolicy_PolicyDecision ?p =
      ThermalKernelPolicy_ActionExecution (ThermalKernelPolicy_ActionDecision third_level_values ?p)"
    by (rule profile_policy) (simp_all add: profile_protector_def)
  finally show ?thesis using third_level_executed by simp
qed

section \<open>Properties\<close>

text \<open>
  C38: a configuration file of the protector, written in its format, is read back: the zones
  with their intervals, directions, levels and thresholds are exactly those of the file. The
  policy of a level holds the values of its own level last, but before them those of all the
  levels below it.
\<close>

theorem protector_file_read_back:
  assumes "printable_protector cfg" and "reads_numbers P" and "trims_flags P"
    and "readFile path = Some (Some (print_protector cfg))" and "g_levelActionList c = []"
  shows "\<exists>c' p'. ThermalKernelConfigFile_Init readFile P U path (c, p) = Inr (True, c', p') \<and>
    (\<forall>type. sm_find (tzInfoMap p') type = map_option configured_zone (sm_find cfg type)) \<and>
    levelAction p' = concat (map (\<lambda>(type, z). configured_actions type z) cfg)"
proof -
  have "sm_find (zones_of cfg) type = map_option configured_zone (sm_find cfg type)" for type
    by (simp add: zones_of_def map_of_map)
  then show ?thesis
    using assms(5) by (simp add: parse_printed_protector [where path = path and readFile = readFile, OF assms(1-4)] actions_of_def)
qed

theorem protector_file_read_back_witness:
  "\<exists>c' p' z. ThermalKernelConfigFile_Init (\<lambda>_. Some (Some (print_protector profile_config))) decimal_platform
       \<lparr>ku_item = \<lparr>tz_level = 7, tz_threshold = 7, tz_thresholdClr = 7\<rparr>, ku_level = 7, ku_value = 7, ku_latestvalue = 7\<rparr> ''k.xml''
       (ks_config KernelService_new, Protector_new) = Inr (True, c', p') \<and>
     sm_find (tzInfoMap p') ''battery'' = Some z \<and> tz_desc z \<and> tz_interval z = 6000"
proof -
  have "printable_protector profile_config" using profile_runnable by (simp add: runnable_protector_def)
  from protector_file_read_back [where path = "''k.xml''" and readFile = "\<lambda>_. Some (Some (print_protector profile_config))"
      and c = "ks_config KernelService_new" and p = Protector_new and
      U = "\<lparr>ku_item = \<lparr>tz_level = 7, tz_threshold = 7, tz_thresholdClr = 7\<rparr>, ku_level = 7, ku_value = 7, ku_latestvalue = 7\<rparr>",
      OF this decimal_platform_reads]
  obtain c' p' where "ThermalKernelConfigFile_Init (\<lambda>_. Some (Some (print_protector profile_config))) decimal_platform
       \<lparr>ku_item = \<lparr>tz_level = 7, tz_threshold = 7, tz_thresholdClr = 7\<rparr>, ku_level = 7, ku_value = 7, ku_latestvalue = 7\<rparr> ''k.xml''
       (ks_config KernelService_new, Protector_new) = Inr (True, c', p')"
    "\<forall>type. sm_find (tzInfoMap p') type = map_option configured_zone (sm_find profile_config type)"
    by (auto simp: KernelService_new_def)
  then show ?thesis by (auto simp: profile_config_def configured_zone_def)
qed

text \<open>
  The loop of the protector serves exactly two waits that do not fail and then ends,
  whatever comes after; with fewer it still waits. What it has done is to handle their events,
  in order.
\<close>

theorem protector_serves_two_waits:
  assumes "pt_timeCount t = 0"
  shows "LoopingThreadEntry waits (t, p) =
    bindr (foldr_result timer_event (concat (take 2 (served waits))) p) (\<lambda>p.
      Inr (2 \<le> length (served waits), t\<lparr>pt_timeCount := int (min 2 (length (served waits)))\<rparr>, p))"
  using loop_serves [of t 2 waits p] assms by (simp add: of_nat_diff min_def)

theorem protector_serves_two_waits_witness:
  "\<exists>p. LoopingThreadEntry [WaitFails, Events [], WaitFails, Events [(False, \<lambda>_. None)], Events []]
     (ProtectorTimer_new, Protector_new) = Inr (True, ProtectorTimer_new\<lparr>pt_timeCount := 2\<rparr>, p)"
  using protector_serves_two_waits [of ProtectorTimer_new "[WaitFails, Events [], WaitFails, Events [(False, \<lambda>_. None)], Events []]"]
  by (simp add: ProtectorTimer_new_def timer_event_def)


definition sample_kernel_env :: kernel_env where
  "sample_kernel_env = \<lparr>ke_platform = decimal_platform,
     ke_uninit = \<lparr>ku_item = \<lparr>tz_level = 7, tz_threshold = 7, tz_thresholdClr = 7\<rparr>, ku_level = 7, ku_value = 7, ku_latestvalue = 7\<rparr>,
     ke_xmlReadFile = (\<lambda>_. Some (Some (print_protector profile_config))), ke_GetOneCfgFile = None,
     ke_dir = Some [(''cooling_device0'', True), (''thermal_zone0'', True)], ke_files = (\<lambda>_. Some ''battery''),
     ke_epoll_create1 = 3, ke_timerfd_create = 4, ke_ERR_INVALID_VALUE = 22, ke_ERR_INVALID_OPERATION = 38\<rparr>"

lemma sample_numeral_files: "numeral_files (\<lambda>_. Some (''30000'' @ [CHR 0x0A]))"
  by (simp add: numeral_files_def ReadThermalSysfsToBuff_def ReadSysfsFile_def ThermalSensorProvision_Trim_def stoi_def
      scan_dec_def scan_sign_def c_str_def is_space_def is_digit_def digit_val_def int32_range_def Let_def)


end
