(* ===== verification/Spec2Isabelle.thy ===== *)
theory Spec2Isabelle
  imports Driver_Callback Config_Roundtrip Float_Actions Action_System File_Operation Timer_Utils Client_Proofs
    Kernel_Service_Proofs
begin

text \<open>
  A model of the thermal manager and what it guarantees.

  \<^bold>\<open>The program.\<close> \<open>ThermalService\<close> (\<open>services/native/src/thermal_service.cpp\<close>) is a system service. At its
  start it reads an XML file that names the sensors, groups them into clusters with levels and
  thresholds, lists the states of the system, the actions, the policies (what each level of each
  cluster asks of which action), a condition of idle charging and the faults of the fan. The
  driver reports temperatures. A report goes through the subscriber, which keeps the history and
  the rates of rise, to the observer, whose callback is the policy: it moves every cluster to its
  level, picks the policy of the level, checks the conditions on the states, gives the values to
  the actions and executes them; then the observer tells its listeners. The states are kept by
  collections that handle events of the system and delay timers. The protector
  (\<open>application/protector\<close>) is a separate small program that does the same for the zones of the
  kernel, with a timer of its own, before the service runs.

  \<^bold>\<open>The theories\<close>, each with the code it models (paths under \<open>src/\<close>, \<open>native\<close> for
  \<open>services/native/src\<close>):
  \<^item> \<open>Prelude\<close>, \<open>Std_Map\<close>: the results with their errors, checked arithmetic and vectors, the
    lemma collections; \<open>std::map\<close> as a sorted association list with the contract \<open>ordered_map\<close>.
  \<^item> \<open>String_Operation\<close>: \<open>utils/native/src/string_operation.cpp\<close>, C strings and numerals.
  \<^item> \<open>Thermal_Timer\<close>: \<open>native/thermal_action/thermal_timer.cpp\<close> and the platform: the replies of
    the system and the library functions that the components take as parameters.
  \<^item> \<open>State_Machine\<close>, \<open>State_Machine_Proofs\<close>: \<open>native/thermal_observer/state_machine\<close> and
    \<open>thermal_common_event_receiver.cpp\<close>; the step relations \<open>screen_step\<close> and \<open>machine_step\<close>.
  \<^item> \<open>Hysteresis\<close>: the abstract level search, the contracts \<open>hysteresis\<close> and \<open>sorted_hysteresis\<close>,
    which \<open>Sensor_Cluster_Proofs\<close> and \<open>Protector_Zone\<close> discharge for the two searches of the code.
  \<^item> \<open>Sensor_Cluster\<close>, \<open>Sensor_Cluster_Proofs\<close>: \<open>native/thermal_policy/thermal_config_sensor_cluster.cpp\<close>.
  \<^item> \<open>Thermal_Observer\<close>: \<open>native/thermal_observer/thermal_observer.cpp\<close>, its listeners and calls.
  \<^item> \<open>Thermal_Action\<close>, \<open>Action_Manager\<close>, \<open>Action_Proofs\<close>: \<open>native/thermal_action\<close>; every class of
    actions is an \<open>action_class\<close>, and \<open>action_impl\<close> is the contract each of them discharges.
    \<open>Float_Value\<close>, \<open>Float_Actions\<close>: single precision for the brightness and the volume.
  \<^item> \<open>Action_System\<close>: what the actions do behind the libraries they load, with
    \<open>utils/appmgr/src/app_manager_utils.cpp\<close>; \<open>File_Operation\<close>: \<open>utils/native/src/file_operation.cpp\<close>,
    the nodes they write. Both carry out the effects that the actions record.
  \<^item> \<open>Timer_Utils\<close>: \<open>ThermalTimerUtils\<close> of \<open>native/thermal_action/thermal_timer.cpp\<close> as interleaved threads.
  \<^item> \<open>Thermal_Policy\<close>, \<open>Policy_Proofs\<close>: \<open>native/thermal_policy/thermal_policy.cpp\<close>.
  \<^item> \<open>Service_Subscriber\<close>, \<open>Subscriber_Proofs\<close>: the base information, the last temperatures and
    \<open>native/thermal_observer/thermal_service_subscriber.cpp\<close>.
  \<^item> \<open>Fan_Fault\<close>: \<open>native/thermal_policy/fan_fault_detect.cpp\<close>.
  \<^item> \<open>Xml_Node\<close>, \<open>Config_Parser\<close>, \<open>Config_Proofs\<close>, \<open>Config_Roundtrip\<close>:
    \<open>native/thermal_policy/thermal_srv_config_parser.cpp\<close> on the tree that libxml2 gives.
  \<^item> \<open>Service_State\<close>, \<open>Thermal_Service\<close>, \<open>Service_Dump\<close>: \<open>native/thermal_service.cpp\<close>,
    \<open>thermal_service.h\<close> and \<open>thermal_mgr_dumper.cpp\<close>; \<open>Service_Proofs\<close>, \<open>Service_Safety\<close> and
    \<open>Service_Properties\<close>: the life of the service as events on one state. \<open>Report_Liveness\<close>: a
    started service serves every report. \<open>Driver_Callback\<close>: the objects the driver calls
    (\<open>native/thermal_callback.cpp\<close>, \<open>fan_callback.cpp\<close>), and \<open>ThermalSrvSensorInfo\<close>.
  \<^item> \<open>Callback_Ipc\<close>, \<open>Thermal_Client\<close>, \<open>Client_Proofs\<close>: the other side of the IPC. The proxies and
    stubs of the callbacks (\<open>services/zidl/src\<close>), the client and its listener of levels
    (\<open>frameworks/native\<close>). The parcel is a record of operations with laws, \<open>parcel_laws\<close>.
  \<^item> \<open>Protector_Zone\<close>, \<open>Kernel_Policy\<close>, \<open>Kernel_Proofs\<close>: the zones, decisions, intervals and cooling
    actions of the protector; \<open>Kernel_Config\<close>, \<open>Kernel_Config_Proofs\<close>: its configuration file;
    \<open>Kernel_Service\<close>, \<open>Kernel_Service_Proofs\<close>: the program from its start to its end.
  \<^item> \<open>Xml_Print\<close>: what the round trips of the two configuration files share.

  \<^bold>\<open>How the state corresponds.\<close> The members of a class are a record with the names of the code. The
  objects of the service are one record \<open>thermal_service\<close>; the part that actions and states change
  (state machine, observer, flags, timers) is its \<open>service_world\<close>, in which every call that
  leaves the repository is recorded as an effect, in order. A pointer is an option, and its use
  where it is not set the error \<open>NullPointer\<close>. Other errors are a checked index out of range, an
  unchecked one, an overflow of a signed integer, an exception of the standard library, and a
  loop that does not return (\<open>Prelude.error\<close>). A handler that takes a lock is one step.

  \<^bold>\<open>What is shown.\<close> A round of decisions gives every action exactly the values of the selected
  policies, of which it applies the strictest, once; delays wait for their timers, which are
  neither lost nor leaked. The level searches compute the hysteresis, which is stable and
  monotone. What the configuration parser accepts is complete enough for every later report, what
  is written in the format is read back, malformed sections are rejected. A started service
  has all its parts in whatever order events arrive, never uses a missing one, serves every report
  of the driver to the end, and does nothing for a caller without permission beyond the listeners
  of the level. The rate of rise is the least-squares slope. What the observer and the level action
  tell a listener arrives unchanged in its process, and a client watches and finds again the
  service it is connected to. The action on applications ends exactly the processes its value asks
  for, what a simulated configuration shows is what was applied, and a repeating timer can be
  stopped by the thread that started it. For the
  protector: its file is read back, its zones refine the same hysteresis, which tick reads which
  zone, and that it runs through two ticks to its end. Defects that the model exposes are stated
  as theorems of what the code does.

  \<^bold>\<open>Parameters and bounds.\<close> \<open>platform\<close>, \<open>environment\<close> and \<open>config_source\<close> hold what is not in the
  repository: libxml2, the decryption hook, \<open>string_ex.h\<close>'s \<open>StrToInt\<close>, \<open>ToString\<close> and
  \<open>TrimStr\<close>, \<open>strtod\<close> with the rounding of \<open>double\<close>, the permission check, the driver, the time and
  event services. Members the code leaves uninitialised are parameters too, so what is proved
  holds for any value. Nothing is bounded by fuel: loops that can fail to return are
  \<open>partial_function\<close>s and the others are total. Levels and 32-bit readings are numbers whose
  operations are checked where they can overflow; a \<open>float\<close> is an integral multiple of the smallest
  one, NaN excluded; the hypotheses on the lengths of the history
  and the size of the readings say how far the 32-bit sums of the rates reach.

  \<^bold>\<open>Not modelled.\<close>
  \<^item> \<open>ThermalXCollie\<close>, whose watchdogs only log, and \<open>ThermalTimerUtils::StartOnce\<close>, which runs a task
    once in a thread that nothing waits for.
  \<^item> \<open>thermal_sensor_provider.cpp\<close> of the protector, which no target builds.
  \<^item> The stub and proxy of the service, which the IDL compiler generates and which marshal the
    requests that \<open>Service_Safety.request\<close> lists; the bindings for other languages (\<open>frameworks/napi\<close>,
    \<open>cj\<close>, \<open>ets\<close>), which convert the values of another language around the client library.
  \<^item> \<open>utils/hookmgr\<close>, which hands on the manager of the hooks, a parameter. Logging. Tests.
  \<^item> Concurrency inside a handler of the service: handlers run one after the other, as their locks
    make them. The application manager, the loader, \<open>kill\<close> and the outcome of calls on files are
    parameters, an \<open>app_platform\<close> and a \<open>posix\<close>.
\<close>

end
